(* ===== verification/Prelude.thy ===== *)
theory Prelude
  imports Main "HOL-Library.Word"
begin

text \<open>
  What every component shares: machine integers and bytes, Rust's \<open>Result\<close> with a third
  outcome for a panic, the combinators the source uses on it (\<open>?\<close>, \<open>ok_or\<close>, \<open>expect\<close>,
  \<open>collect\<close>), state-passing effects for \<open>async fn\<close> bodies that mutate a store or a socket,
  and the parts of Rust's standard library the source calls (slices, \<open>str::from_utf8\<close>,
  \<open>slice::split\<close>, \<open>Vec::resize\<close>).
\<close>

named_theorems result_intros \<open>introduction rules that build a successful result\<close>

section \<open>Integers, bytes and identifiers\<close>

type_synonym u8 = "8 word"
type_synonym u16 = "16 word"
type_synonym u32 = "32 word"
type_synonym u64 = "64 word"
type_synonym i32 = "32 word"
type_synonym bytes = "u8 list"

section \<open>Results with panics\<close>

text \<open>
  \<open>Ok\<close> and \<open>Err\<close> are Rust's constructors; \<open>Panic\<close> is the outcome of a failed
  \<open>expect\<close>, \<open>unwrap\<close>, \<open>assert!\<close> or index out of range, with its message.
\<close>

datatype ('a, 'e) result = Ok 'a | Err 'e | Panic string

primrec and_then :: "('a, 'e) result \<Rightarrow> ('a \<Rightarrow> ('b, 'e) result) \<Rightarrow> ('b, 'e) result" where
  "and_then (Ok a) f = f a"
| "and_then (Err e) f = Err e"
| "and_then (Panic p) f = Panic p"

primrec map_ok :: "('a \<Rightarrow> 'b) \<Rightarrow> ('a, 'e) result \<Rightarrow> ('b, 'e) result" where
  "map_ok f (Ok a) = Ok (f a)"
| "map_ok f (Err e) = Err e"
| "map_ok f (Panic p) = Panic p"

primrec map_err :: "('e \<Rightarrow> 'f) \<Rightarrow> ('a, 'e) result \<Rightarrow> ('a, 'f) result" where
  "map_err f (Ok a) = Ok a"
| "map_err f (Err e) = Err (f e)"
| "map_err f (Panic p) = Panic p"

primrec ok_or :: "'e \<Rightarrow> 'a option \<Rightarrow> ('a, 'e) result" where
  "ok_or e None = Err e"
| "ok_or e (Some a) = Ok a"

primrec expect :: "string \<Rightarrow> 'a option \<Rightarrow> ('a, 'e) result" where
  "expect p None = Panic p"
| "expect p (Some a) = Ok a"

text \<open>\<open>Option::transpose\<close> of an option of results.\<close>

primrec transpose_opt :: "('a, 'e) result option \<Rightarrow> ('a option, 'e) result" where
  "transpose_opt None = Ok None"
| "transpose_opt (Some r) = map_ok Some r"

text \<open>\<open>Result::ok\<close>: an error becomes \<open>None\<close>, a panic stays a panic.\<close>

primrec to_option :: "('a, 'e) result \<Rightarrow> ('a option, 'f) result" where
  "to_option (Ok a) = Ok (Some a)"
| "to_option (Err e) = Ok None"
| "to_option (Panic p) = Panic p"

text \<open>\<open>Iterator::collect\<close> into a \<open>Result<Vec<_>, _>\<close>: the first error ends the iteration.\<close>

primrec collect :: "('a, 'e) result list \<Rightarrow> ('a list, 'e) result" where
  "collect [] = Ok []"
| "collect (r # rs) = and_then r (\<lambda>a. and_then (collect rs) (\<lambda>as. Ok (a # as)))"

primrec is_ok :: "('a, 'e) result \<Rightarrow> bool" where
  "is_ok (Ok a) = True"
| "is_ok (Err e) = False"
| "is_ok (Panic p) = False"

primrec is_panic :: "('a, 'e) result \<Rightarrow> bool" where
  "is_panic (Ok a) = False"
| "is_panic (Err e) = False"
| "is_panic (Panic p) = True"

lemma and_then_Ok_iff [simp]:
  "and_then m f = Ok b \<longleftrightarrow> (\<exists>a. m = Ok a \<and> f a = Ok b)"
  by (cases m) auto

lemma and_then_Err_iff:
  "and_then m f = Err e \<longleftrightarrow> m = Err e \<or> (\<exists>a. m = Ok a \<and> f a = Err e)"
  by (cases m) auto

lemma and_then_Panic_iff:
  "and_then m f = Panic p \<longleftrightarrow> m = Panic p \<or> (\<exists>a. m = Ok a \<and> f a = Panic p)"
  by (cases m) auto

lemma and_then_assoc: "and_then (and_then m f) g = and_then m (\<lambda>a. and_then (f a) g)"
  by (cases m) auto

lemma and_then_Ok_right [simp]: "and_then m Ok = m"
  by (cases m) auto

lemma is_panic_and_then:
  "is_panic (and_then m f) \<longleftrightarrow> is_panic m \<or> (\<exists>a. m = Ok a \<and> is_panic (f a))"
  by (cases m) auto

lemma map_ok_Ok_iff [simp]: "map_ok f m = Ok b \<longleftrightarrow> (\<exists>a. m = Ok a \<and> f a = b)"
  by (cases m) auto

lemma map_err_Ok_iff [simp]: "map_err f m = Ok b \<longleftrightarrow> m = Ok b"
  by (cases m) auto

lemma is_panic_map_err [simp]: "is_panic (map_err f m) = is_panic m"
  by (cases m) auto

lemma is_panic_map_ok [simp]: "is_panic (map_ok f m) = is_panic m"
  by (cases m) auto

lemma ok_or_Ok_iff [simp]: "ok_or e m = Ok a \<longleftrightarrow> m = Some a"
  by (cases m) auto

lemma ok_or_Err_iff [simp]: "ok_or e m = Err f \<longleftrightarrow> m = None \<and> e = f"
  by (cases m) auto

lemma ok_or_not_Panic [simp]: "ok_or e m \<noteq> Panic p"
  by (cases m) auto

lemma expect_not_Err [simp]: "expect p m \<noteq> Err e"
  by (cases m) auto

lemma is_panic_expect [simp]: "is_panic (expect p m) \<longleftrightarrow> m = None"
  by (cases m) auto

lemma map_ok_Err_iff [simp]: "map_ok f m = Err e \<longleftrightarrow> m = Err e"
  by (cases m) auto

lemma map_err_Err_iff [simp]: "map_err f m = Err e \<longleftrightarrow> (\<exists>d. m = Err d \<and> f d = e)"
  by (cases m) auto

lemma is_panic_ok_or [simp]: "\<not> is_panic (ok_or e m)"
  by (cases m) auto

lemma expect_Ok_iff [simp]: "expect p m = Ok a \<longleftrightarrow> m = Some a"
  by (cases m) auto

lemma collect_Ok_iff: "collect rs = Ok as \<longleftrightarrow> rs = map Ok as"
  by (induction rs arbitrary: as) (auto simp: map_eq_Cons_conv Cons_eq_map_conv)

lemma collect_map_Ok [simp]: "collect (map Ok as) = Ok as"
  by (simp add: collect_Ok_iff)

lemma collect_map_cong:
  "(\<And>x. x \<in> set xs \<Longrightarrow> f x = Ok (g x)) \<Longrightarrow> collect (map f xs) = Ok (map g xs)"
  by (induction xs) auto

lemma collect_append:
  "collect (rs @ ss) = and_then (collect rs) (\<lambda>as. and_then (collect ss) (\<lambda>bs. Ok (as @ bs)))"
proof (induction rs)
  case Nil
  then show ?case by (cases "collect ss") auto
next
  case (Cons r rs)
  then show ?case by (cases r; cases "collect rs"; cases "collect ss") auto
qed

lemma collect_length: "collect (map f xs) = Ok ys \<Longrightarrow> length ys = length xs"
  by (drule collect_Ok_iff [THEN iffD1]) (metis length_map)

lemma collect_nth:
  "collect (map f xs) = Ok ys \<Longrightarrow> i < length xs \<Longrightarrow> f (xs ! i) = Ok (ys ! i)"
  by (drule collect_Ok_iff [THEN iffD1]) (metis length_map nth_map)

section \<open>Checked arithmetic\<close>

text \<open>Rust's \<open>+\<close> and \<open>-\<close> on unsigned integers, which panic when the result does not fit.\<close>

definition checked_add :: "'a::len word \<Rightarrow> 'a word \<Rightarrow> ('a word, 'e) result" where
  "checked_add a b =
     (if unat a + unat b < 2 ^ LENGTH('a) then Ok (a + b) else Panic ''attempt to add with overflow'')"

definition checked_sub :: "'a::len word \<Rightarrow> 'a word \<Rightarrow> ('a word, 'e) result" where
  "checked_sub a b = (if b \<le> a then Ok (a - b) else Panic ''attempt to subtract with overflow'')"

lemma checked_add_Ok_iff: "checked_add a b = Ok c \<longleftrightarrow> unat c = unat a + unat b"
  for a b c :: "'a::len word"
proof -
  have "unat (a + b) = unat a + unat b" if "unat a + unat b < 2 ^ LENGTH('a)"
    using that by (simp add: unat_word_ariths)
  moreover have "unat c \<noteq> unat a + unat b" if "\<not> unat a + unat b < 2 ^ LENGTH('a)"
    using that unsigned_less [of c, where ?'a = nat] by metis
  ultimately show ?thesis
    by (auto simp: checked_add_def word_unat_eq_iff)
qed

lemma checked_sub_Ok_iff: "checked_sub a b = Ok c \<longleftrightarrow> unat a = unat c + unat b"
  for a b c :: "'a::len word"
proof -
  have "checked_sub a b = Ok c \<longleftrightarrow> unat b \<le> unat a \<and> unat c = unat a - unat b"
    by (auto simp: checked_sub_def word_le_nat_alt word_unat_eq_iff unat_sub)
  then show ?thesis
    by auto
qed

section \<open>Effects: state-passing computations\<close>

text \<open>
  An \<open>async fn\<close> that mutates a store, a cache or a socket is a function from the state to
  its result and the new state. An error or a panic keeps the state reached so far.
\<close>

type_synonym ('s, 'a, 'e) eff = "'s \<Rightarrow> ('a, 'e) result \<times> 's"

definition pure :: "'a \<Rightarrow> ('s, 'a, 'e) eff" where
  "pure a = (\<lambda>s. (Ok a, s))"

definition throw :: "'e \<Rightarrow> ('s, 'a, 'e) eff" where
  "throw e = (\<lambda>s. (Err e, s))"

definition lift :: "('a, 'e) result \<Rightarrow> ('s, 'a, 'e) eff" where
  "lift r = (\<lambda>s. (r, s))"

definition bindE :: "('s, 'a, 'e) eff \<Rightarrow> ('a \<Rightarrow> ('s, 'b, 'e) eff) \<Rightarrow> ('s, 'b, 'e) eff" where
  "bindE m f = (\<lambda>s. case m s of
      (Ok a, s') \<Rightarrow> f a s'
    | (Err e, s') \<Rightarrow> (Err e, s')
    | (Panic p, s') \<Rightarrow> (Panic p, s'))"

text \<open>Run a computation and look at its result instead of propagating an error.\<close>

definition attempt :: "('s, 'a, 'e) eff \<Rightarrow> (('a, 'e) result \<Rightarrow> ('s, 'b, 'f) eff) \<Rightarrow> ('s, 'b, 'f) eff" where
  "attempt m f = (\<lambda>s. case m s of (r, s') \<Rightarrow> f r s')"

primrec forE :: "'x list \<Rightarrow> ('x \<Rightarrow> ('s, unit, 'e) eff) \<Rightarrow> ('s, unit, 'e) eff" where
  "forE [] f = pure ()"
| "forE (x # xs) f = bindE (f x) (\<lambda>_. forE xs f)"

text \<open>\<open>?\<close> on an effect whose error is converted into the caller's error.\<close>

definition map_errE :: "('e \<Rightarrow> 'f) \<Rightarrow> ('w, 'a, 'e) eff \<Rightarrow> ('w, 'a, 'f) eff" where
  "map_errE f m = (\<lambda>s. case m s of (r, s') \<Rightarrow> (map_err f r, s'))"

text \<open>A draw from the environment: the clock, the random generator, the order of a hash map.\<close>

definition drawE :: "('w \<Rightarrow> 'a \<times> 'w) \<Rightarrow> ('w, 'a, 'e) eff" where
  "drawE f = (\<lambda>s. case f s of (a, s') \<Rightarrow> (Ok a, s'))"

text \<open>A \<open>match\<close> on the result of a call; a panic of the call unwinds through it.\<close>

definition matchE ::
    "('w, 'a, 'e) eff \<Rightarrow> ('a \<Rightarrow> ('w, 'b, 'f) eff) \<Rightarrow> ('e \<Rightarrow> ('w, 'b, 'f) eff) \<Rightarrow> ('w, 'b, 'f) eff" where
  "matchE m ok err = (\<lambda>s. case m s of
      (Ok a, s') \<Rightarrow> ok a s'
    | (Err e, s') \<Rightarrow> err e s'
    | (Panic p, s') \<Rightarrow> (Panic p, s'))"

text \<open>A loop that collects a value per iteration.\<close>

primrec mapE :: "'x list \<Rightarrow> ('x \<Rightarrow> ('w, 'a, 'e) eff) \<Rightarrow> ('w, 'a list, 'e) eff" where
  "mapE [] f = pure []"
| "mapE (x # xs) f = bindE (f x) (\<lambda>a. bindE (mapE xs f) (\<lambda>as. pure (a # as)))"

lemma pure_apply [simp]: "pure a s = (Ok a, s)"
  by (simp add: pure_def)

lemma throw_apply [simp]: "throw e s = (Err e, s)"
  by (simp add: throw_def)

lemma lift_apply [simp]: "lift r s = (r, s)"
  by (simp add: lift_def)

lemma bindE_Ok [simp]: "m s = (Ok a, s') \<Longrightarrow> bindE m f s = f a s'"
  by (simp add: bindE_def)

lemma bindE_Err [simp]: "m s = (Err e, s') \<Longrightarrow> bindE m f s = (Err e, s')"
  by (simp add: bindE_def)

lemma bindE_Panic [simp]: "m s = (Panic p, s') \<Longrightarrow> bindE m f s = (Panic p, s')"
  by (simp add: bindE_def)

lemma attempt_apply [simp]: "m s = (r, s') \<Longrightarrow> attempt m f s = f r s'"
  by (simp add: attempt_def)

lemma bindE_OkE:
  assumes "bindE m f s = (Ok b, s'')"
  obtains a s' where "m s = (Ok a, s')" and "f a s' = (Ok b, s'')"
  using assms by (auto simp: bindE_def split: prod.splits result.splits)

lemma bindE_Ok_iff:
  "bindE m f s = (Ok b, s'') \<longleftrightarrow> (\<exists>a s'. m s = (Ok a, s') \<and> f a s' = (Ok b, s''))"
  by (auto simp: bindE_def split: prod.splits result.splits)

lemma map_errE_Ok_iff [simp]: "map_errE f m s = (Ok a, s') \<longleftrightarrow> m s = (Ok a, s')"
  by (auto simp: map_errE_def split: prod.splits)

lemma matchE_Ok_iff:
  "matchE m f g s = (Ok b, s'') \<longleftrightarrow>
     (\<exists>a s'. m s = (Ok a, s') \<and> f a s' = (Ok b, s'')) \<or> (\<exists>e s'. m s = (Err e, s') \<and> g e s' = (Ok b, s''))"
  by (auto simp: matchE_def split: prod.splits result.splits)

lemma bindE_assoc: "bindE (bindE m f) g = bindE m (\<lambda>a. bindE (f a) g)"
  by (rule ext) (auto simp: bindE_def split: prod.splits result.splits)

lemma bindE_pure_left [simp]: "bindE (pure a) f = f a"
  by (simp add: bindE_def pure_def)

lemma lift_Ok_iff: "lift r s = (Ok a, s') \<longleftrightarrow> r = Ok a \<and> s' = s"
  by auto

section \<open>Byte slices\<close>

text \<open>\<open>split_first_chunk::<N>\<close>: the first \<open>n\<close> elements and the rest, when there are that many.\<close>

definition split_first_chunk :: "nat \<Rightarrow> 'a list \<Rightarrow> ('a list \<times> 'a list) option" where
  "split_first_chunk n xs = (if n \<le> length xs then Some (take n xs, drop n xs) else None)"

text \<open>\<open>TryInto<[u8; N]>\<close> for a slice: succeeds exactly on slices of that length.\<close>

definition try_into_array :: "nat \<Rightarrow> bytes \<Rightarrow> bytes option" where
  "try_into_array n bs = (if length bs = n then Some bs else None)"

text \<open>\<open>Vec::resize\<close>: truncates or extends with the given value.\<close>

definition resize :: "nat \<Rightarrow> 'a \<Rightarrow> 'a list \<Rightarrow> 'a list" where
  "resize n x xs = take n xs @ replicate (n - length xs) x"

text \<open>\<open>slice::split\<close>: the parts between the elements that satisfy the predicate, never empty.\<close>

fun split_on :: "('a \<Rightarrow> bool) \<Rightarrow> 'a list \<Rightarrow> 'a list list" where
  "split_on p [] = [[]]"
| "split_on p (x # xs) =
     (if p x then [] # split_on p xs
      else (case split_on p xs of [] \<Rightarrow> [[x]] | part # parts \<Rightarrow> (x # part) # parts))"

text \<open>\<open>Iterator::rposition\<close>: the index of the last element that satisfies the predicate.\<close>

primrec rposition :: "('a \<Rightarrow> bool) \<Rightarrow> 'a list \<Rightarrow> nat option" where
  "rposition p [] = None"
| "rposition p (x # xs) =
     (case rposition p xs of
        Some i \<Rightarrow> Some (Suc i)
      | None \<Rightarrow> if p x then Some 0 else None)"

text \<open>Checked slicing \<open>xs[n..]\<close> and \<open>xs[..n]\<close>, which panic when \<open>n\<close> is beyond the end.\<close>

definition slice_from :: "nat \<Rightarrow> 'a list \<Rightarrow> ('a list, 'e) result" where
  "slice_from n xs = (if n \<le> length xs then Ok (drop n xs) else Panic ''slice index out of range'')"

definition slice_to :: "nat \<Rightarrow> 'a list \<Rightarrow> ('a list, 'e) result" where
  "slice_to n xs = (if n \<le> length xs then Ok (take n xs) else Panic ''slice index out of range'')"

lemma slice_from_append [simp]: "length xs = n \<Longrightarrow> slice_from n (xs @ ys) = Ok ys"
  by (simp add: slice_from_def)

lemma slice_to_append [simp]: "length xs = n \<Longrightarrow> slice_to n (xs @ ys) = Ok xs"
  by (simp add: slice_to_def)

lemma is_panic_slice_from [simp]: "is_panic (slice_from n xs) \<longleftrightarrow> length xs < n"
  by (auto simp: slice_from_def)

lemma is_panic_slice_to [simp]: "is_panic (slice_to n xs) \<longleftrightarrow> length xs < n"
  by (auto simp: slice_to_def)

lemma rposition_None_iff: "rposition p xs = None \<longleftrightarrow> (\<forall>x \<in> set xs. \<not> p x)"
  by (induction xs) (auto split: option.splits)

lemma rposition_append:
  "rposition p (xs @ ys) =
     (case rposition p ys of Some i \<Rightarrow> Some (length xs + i) | None \<Rightarrow> rposition p xs)"
  by (induction xs) (auto split: option.splits)

lemma rposition_bound: "rposition p xs = Some i \<Longrightarrow> i < length xs"
  by (induction xs arbitrary: i) (auto split: option.splits if_splits)

lemma split_first_chunk_append [simp]:
  "length xs = n \<Longrightarrow> split_first_chunk n (xs @ ys) = Some (xs, ys)"
  by (simp add: split_first_chunk_def)

lemma split_first_chunk_None_iff [simp]: "split_first_chunk n xs = None \<longleftrightarrow> length xs < n"
  by (auto simp: split_first_chunk_def)

lemma try_into_array_Some_iff [simp]: "try_into_array n bs = Some a \<longleftrightarrow> length bs = n \<and> a = bs"
  by (auto simp: try_into_array_def)

lemma try_into_array_None_iff [simp]: "try_into_array n bs = None \<longleftrightarrow> length bs \<noteq> n"
  by (auto simp: try_into_array_def)

lemma length_resize [simp]: "length (resize n x xs) = n"
  by (simp add: resize_def)

lemma resize_extend: "length xs \<le> n \<Longrightarrow> resize n x xs = xs @ replicate (n - length xs) x"
  by (simp add: resize_def)

lemma split_on_not_Nil [simp]: "split_on p xs \<noteq> []"
  by (induction xs) (auto split: list.splits)

lemma split_on_none: "\<forall>x \<in> set xs. \<not> p x \<Longrightarrow> split_on p xs = [xs]"
  by (induction xs) auto

lemma split_on_once:
  "\<forall>x \<in> set xs. \<not> p x \<Longrightarrow> p y \<Longrightarrow> split_on p (xs @ y # ys) = xs # split_on p ys"
  by (induction xs) auto

section \<open>Strings\<close>

text \<open>
  A Rust \<open>String\<close> is a HOL string whose characters are its UTF-8 bytes; \<open>as_bytes\<close> reads
  them and \<open>from_utf8\<close> validates bytes by the well-formedness table of the Unicode
  standard that \<open>std::str::from_utf8\<close> implements.
\<close>

definition byte_of_char :: "char \<Rightarrow> u8" where
  "byte_of_char c = word_of_nat (of_char c)"

definition char_of_byte :: "u8 \<Rightarrow> char" where
  "char_of_byte b = char_of (unat b)"

definition as_bytes :: "string \<Rightarrow> bytes" where
  "as_bytes s = map byte_of_char s"

definition cont_byte :: "u8 \<Rightarrow> bool" where
  "cont_byte b \<longleftrightarrow> 0x80 \<le> b \<and> b \<le> 0xBF"

definition second_of_three :: "u8 \<Rightarrow> u8 \<Rightarrow> bool" where
  "second_of_three b c \<longleftrightarrow>
     (if b = 0xE0 then 0xA0 \<le> c \<and> c \<le> 0xBF
      else if b = 0xED then 0x80 \<le> c \<and> c \<le> 0x9F
      else cont_byte c)"

definition second_of_four :: "u8 \<Rightarrow> u8 \<Rightarrow> bool" where
  "second_of_four b c \<longleftrightarrow>
     (if b = 0xF0 then 0x90 \<le> c \<and> c \<le> 0xBF
      else if b = 0xF4 then 0x80 \<le> c \<and> c \<le> 0x8F
      else cont_byte c)"

fun utf8_valid :: "bytes \<Rightarrow> bool" where
  "utf8_valid [] = True"
| "utf8_valid (b # bs) =
     (if b < 0x80 then utf8_valid bs
      else if 0xC2 \<le> b \<and> b \<le> 0xDF then
        (case bs of c # rest \<Rightarrow> cont_byte c \<and> utf8_valid rest | [] \<Rightarrow> False)
      else if 0xE0 \<le> b \<and> b \<le> 0xEF then
        (case bs of c # d # rest \<Rightarrow> second_of_three b c \<and> cont_byte d \<and> utf8_valid rest | _ \<Rightarrow> False)
      else if 0xF0 \<le> b \<and> b \<le> 0xF4 then
        (case bs of c # d # e # rest \<Rightarrow>
            second_of_four b c \<and> cont_byte d \<and> cont_byte e \<and> utf8_valid rest
          | _ \<Rightarrow> False)
      else False)"

datatype utf8_error = Utf8Error

definition from_utf8 :: "bytes \<Rightarrow> (string, utf8_error) result" where
  "from_utf8 bs = (if utf8_valid bs then Ok (map char_of_byte bs) else Err Utf8Error)"

text \<open>The invariant of Rust's string types.\<close>

definition str_ok :: "string \<Rightarrow> bool" where
  "str_ok s \<longleftrightarrow> utf8_valid (as_bytes s)"

lemma unat_byte_of_char [simp]: "unat (byte_of_char c) = of_char c"
  by (simp add: byte_of_char_def unat_of_nat)

lemma char_of_byte_of_char [simp]: "char_of_byte (byte_of_char c) = c"
  by (simp add: char_of_byte_def)

lemma byte_of_char_of_byte [simp]: "byte_of_char (char_of_byte b) = b"
proof -
  have "unat b < 256"
    using unsigned_less [where w = b and 'a = nat] by simp
  then show ?thesis
    by (simp add: byte_of_char_def char_of_byte_def)
qed

lemma byte_of_char_inject [simp]: "byte_of_char c = byte_of_char d \<longleftrightarrow> c = d"
  by (metis char_of_byte_of_char)

lemma map_char_of_byte_as_bytes [simp]: "map char_of_byte (as_bytes s) = s"
  by (simp add: as_bytes_def comp_def)

lemma as_bytes_map_char_of_byte [simp]: "as_bytes (map char_of_byte bs) = bs"
  by (simp add: as_bytes_def comp_def)

lemma as_bytes_Nil [simp]: "as_bytes [] = []"
  by (simp add: as_bytes_def)

lemma as_bytes_Nil_iff [simp]: "as_bytes s = [] \<longleftrightarrow> s = []"
  by (simp add: as_bytes_def)

lemma length_as_bytes [simp]: "length (as_bytes s) = length s"
  by (simp add: as_bytes_def)

lemma as_bytes_inject [simp]: "as_bytes s = as_bytes t \<longleftrightarrow> s = t"
  by (metis map_char_of_byte_as_bytes)

lemma from_utf8_as_bytes [simp]: "str_ok s \<Longrightarrow> from_utf8 (as_bytes s) = Ok s"
  by (simp add: from_utf8_def str_ok_def)

lemma from_utf8_Ok_iff: "from_utf8 bs = Ok s \<longleftrightarrow> utf8_valid bs \<and> bs = as_bytes s"
  by (auto simp: from_utf8_def)

lemma is_panic_from_utf8 [simp]: "\<not> is_panic (from_utf8 bs)"
  by (simp add: from_utf8_def)

lemma str_ok_Nil [simp]: "str_ok []"
  by (simp add: str_ok_def)

section \<open>Codecs\<close>

text \<open>
  The contract every encoder and decoder pair of the source is written for: decoding what was
  encoded gives the value back, for the values the encoder accepts. Its consequences are
  proved once and reach each component through an interpretation on its own functions.
\<close>

locale codec =
  fixes valid :: "'a \<Rightarrow> bool"
    and enc :: "'a \<Rightarrow> 'b"
    and dec :: "'b \<Rightarrow> ('a, 'e) result"
  assumes dec_enc: "valid x \<Longrightarrow> dec (enc x) = Ok x"
begin

lemma enc_inject: "valid x \<Longrightarrow> valid y \<Longrightarrow> enc x = enc y \<longleftrightarrow> x = y"
  using dec_enc by (metis result.inject(1))

lemma enc_inj_on: "inj_on enc (Collect valid)"
  by (rule inj_onI) (simp add: enc_inject)

lemma dec_enc_list: "list_all valid xs \<Longrightarrow> collect (map (dec \<circ> enc) xs) = Ok xs"
  by (induction xs) (simp_all add: dec_enc)

lemma dec_enc_opt: "pred_option valid m \<Longrightarrow> transpose_opt (map_option (dec \<circ> enc) m) = Ok m"
  by (cases m) (simp_all add: dec_enc)

end

end
