(* ===== verification/Crypto.thy ===== *)
theory Crypto
  imports Prelude
begin

text \<open>
  The interfaces of the cryptographic packages the source calls. None of their code is part
  of the repository, so each is a record of functions that the definitions take as an
  argument; what the packages document about them is a predicate on the record, used as a
  hypothesis where a property needs it. Random bytes are arguments of the operations that
  draw them, with the length of the array the source fills.
\<close>

section \<open>Authenticated encryption (AES-256-GCM)\<close>

text \<open>\<open>seal key nonce plaintext\<close> and \<open>open key nonce ciphertext\<close>; \<open>None\<close> is \<open>aead::Error\<close>.\<close>

record aead =
  seal :: "bytes \<Rightarrow> bytes \<Rightarrow> bytes \<Rightarrow> bytes option"
  unseal :: "bytes \<Rightarrow> bytes \<Rightarrow> bytes \<Rightarrow> bytes option"

text \<open>
  Documented behaviour: messages up to the package's limit of \<open>2 ^ 36\<close> bytes are accepted,
  the ciphertext is sixteen bytes (the tag) longer than the message, and opening a sealed
  message gives it back.
\<close>

definition aead_correct :: "aead \<Rightarrow> bool" where
  "aead_correct A \<longleftrightarrow>
     (\<forall>k n m. length m \<le> 2 ^ 36 \<longrightarrow>
        (\<exists>c. seal A k n m = Some c \<and> length c = length m + 16 \<and> unseal A k n c = Some m))"

text \<open>A concrete instance for evaluation: the tag is sixteen copies of a key-dependent byte.\<close>

definition tag_of :: "bytes \<Rightarrow> bytes \<Rightarrow> bytes" where
  "tag_of k n = replicate 16 (sum_list k + sum_list n)"

definition sample_aead :: aead where
  "sample_aead = \<lparr>
     seal = (\<lambda>k n m. Some (m @ tag_of k n)),
     unseal = (\<lambda>k n c. if length c < 16 then None
        else if drop (length c - 16) c = tag_of k n then Some (take (length c - 16) c)
        else None)\<rparr>"

lemma aead_correct_sealE:
  assumes "aead_correct A" and "length m \<le> 2 ^ 36"
  obtains c where "seal A k n m = Some c" and "length c = length m + 16"
    and "unseal A k n c = Some m"
  using assms unfolding aead_correct_def by blast

lemma sample_aead_correct: "aead_correct sample_aead"
  by (simp add: aead_correct_def sample_aead_def tag_of_def)

section \<open>AES-256-CBC with PKCS7 padding, and HMAC-SHA256\<close>

text \<open>
  \<open>cbc_encrypt key iv buffer len\<close> is \<open>encrypt_padded\<close> on a buffer whose first \<open>len\<close> bytes are the
  message: the ciphertext, or \<open>None\<close> when the buffer is too short. \<open>cbc_decrypt key iv buffer\<close> is
  \<open>decrypt_padded\<close>: the length of the message, or \<open>None\<close> for bad padding, and the buffer it leaves
  behind, because it decrypts in place before it looks at the padding.
\<close>

record cbc_mac =
  cbc_encrypt :: "bytes \<Rightarrow> bytes \<Rightarrow> bytes \<Rightarrow> nat \<Rightarrow> bytes option"
  cbc_decrypt :: "bytes \<Rightarrow> bytes \<Rightarrow> bytes \<Rightarrow> nat option \<times> bytes"
  hmac_sha256 :: "bytes \<Rightarrow> bytes \<Rightarrow> bytes"

definition pkcs7_length :: "nat \<Rightarrow> nat" where
  "pkcs7_length n = 16 * (n div 16 + 1)"

text \<open>
  Documented behaviour: the ciphertext is the message padded to the next multiple of sixteen,
  it depends only on the message, decryption restores the message at the front of a buffer of
  the same length, and the authentication code has 32 bytes.
\<close>

definition cbc_mac_correct :: "cbc_mac \<Rightarrow> bool" where
  "cbc_mac_correct M \<longleftrightarrow>
     (\<forall>k iv buf n. pkcs7_length n \<le> length buf \<longrightarrow>
        (\<exists>c. cbc_encrypt M k iv buf n = Some c \<and> length c = pkcs7_length n \<and>
             (\<exists>rest. cbc_decrypt M k iv c = (Some n, take n buf @ rest)))) \<and>
     (\<forall>k iv buf. length (snd (cbc_decrypt M k iv buf)) = length buf) \<and>
     (\<forall>k iv buf n. fst (cbc_decrypt M k iv buf) = Some n \<longrightarrow> n < length buf) \<and>
     (\<forall>k m. length (hmac_sha256 M k m) = 32)"

text \<open>
  An instance for evaluation: the cipher adds the sum of key and initialisation vector to each
  byte of the padded message.
\<close>

definition pkcs7_pad :: "nat \<Rightarrow> bytes \<Rightarrow> bytes" where
  "pkcs7_pad n buf = (let q = pkcs7_length n - n in take n buf @ replicate q (word_of_nat q))"

definition pkcs7_unpad :: "bytes \<Rightarrow> nat option" where
  "pkcs7_unpad m = (let p = (if m = [] then 0 else unat (last m)) in
     if 0 < p \<and> p \<le> 16 \<and> p \<le> length m then Some (length m - p) else None)"

definition shift :: "bytes \<Rightarrow> bytes \<Rightarrow> bytes \<Rightarrow> bytes" where
  "shift k iv = map (\<lambda>b. b + (sum_list k + sum_list iv))"

definition unshift :: "bytes \<Rightarrow> bytes \<Rightarrow> bytes \<Rightarrow> bytes" where
  "unshift k iv = map (\<lambda>b. b - (sum_list k + sum_list iv))"

definition sample_cbc_mac :: cbc_mac where
  "sample_cbc_mac = \<lparr>
     cbc_encrypt = (\<lambda>k iv buf n. if pkcs7_length n \<le> length buf
        then Some (shift k iv (pkcs7_pad n buf)) else None),
     cbc_decrypt = (\<lambda>k iv buf. (pkcs7_unpad (unshift k iv buf), unshift k iv buf)),
     hmac_sha256 = (\<lambda>k m. replicate 32 (sum_list k + sum_list m))\<rparr>"

lemma pkcs7_length_bounds: "n < pkcs7_length n" "pkcs7_length n \<le> n + 16"
  by (auto simp: pkcs7_length_def)

lemma cbc_encryptE:
  assumes "cbc_mac_correct M" and "pkcs7_length n \<le> length buf"
  obtains c rest where "cbc_encrypt M k iv buf n = Some c" and "length c = pkcs7_length n"
    and "cbc_decrypt M k iv c = (Some n, take n buf @ rest)"
  using assms unfolding cbc_mac_correct_def by blast

lemma length_hmac [simp]: "cbc_mac_correct M \<Longrightarrow> length (hmac_sha256 M k m) = 32"
  by (simp add: cbc_mac_correct_def)

lemma cbc_decrypt_length:
  "cbc_mac_correct M \<Longrightarrow> cbc_decrypt M k iv buf = (r, buf') \<Longrightarrow> length buf' = length buf"
  unfolding cbc_mac_correct_def by (metis snd_conv)

lemma unshift_shift [simp]: "unshift k iv (shift k iv m) = m"
  by (simp add: shift_def unshift_def comp_def)

lemma length_shift [simp]: "length (shift k iv m) = length m" "length (unshift k iv m) = length m"
  by (simp_all add: shift_def unshift_def)

lemma pkcs7_pad_unpad:
  assumes "pkcs7_length n \<le> length buf"
  shows "pkcs7_unpad (pkcs7_pad n buf) = Some n" "length (pkcs7_pad n buf) = pkcs7_length n"
proof -
  define q where "q = pkcs7_length n - n"
  have q: "0 < q" "q \<le> 16" "n \<le> length buf" "n + q = pkcs7_length n"
    using pkcs7_length_bounds [of n] assms by (auto simp: q_def)
  have pad: "pkcs7_pad n buf = take n buf @ replicate q (word_of_nat q)"
    by (simp add: pkcs7_pad_def Let_def q_def)
  have "unat (word_of_nat q :: u8) = q"
    using q by (simp add: unat_of_nat)
  then show "pkcs7_unpad (pkcs7_pad n buf) = Some n"
    using q by (simp add: pkcs7_unpad_def pad Let_def min_def)
  show "length (pkcs7_pad n buf) = pkcs7_length n"
    using q by (simp add: pad min_def)
qed

lemma pkcs7_unpad_less: "pkcs7_unpad m = Some n \<Longrightarrow> n < length m"
  by (auto simp: pkcs7_unpad_def Let_def split: if_splits)

lemma sample_cbc_mac_correct: "cbc_mac_correct sample_cbc_mac"
  unfolding cbc_mac_correct_def sample_cbc_mac_def
  by (auto simp: pkcs7_pad_unpad dest: pkcs7_unpad_less) (simp add: pkcs7_pad_def Let_def)

section \<open>ISO/IEC 7816-4 padding\<close>

text \<open>
  \<open>raw_pad block pos\<close> (\<open>None\<close> where it panics) and \<open>raw_unpad block\<close> of the padding package: a
  marker byte \<open>0x80\<close> after the message and zeros up to the end of the block.
\<close>

record iso7816 =
  raw_pad :: "bytes \<Rightarrow> nat \<Rightarrow> bytes option"
  raw_unpad :: "bytes \<Rightarrow> bytes option"

definition iso7816_correct :: "iso7816 \<Rightarrow> bool" where
  "iso7816_correct I \<longleftrightarrow>
     (\<forall>block pos. pos < length block \<longrightarrow>
        raw_pad I block pos = Some (take pos block @ 0x80 # replicate (length block - pos - 1) 0)) \<and>
     (\<forall>m k. raw_unpad I (m @ 0x80 # replicate k 0) = Some m)"

definition sample_iso7816 :: iso7816 where
  "sample_iso7816 = \<lparr>
     raw_pad = (\<lambda>block pos. if pos < length block
        then Some (take pos block @ 0x80 # replicate (length block - pos - 1) 0) else None),
     raw_unpad = (\<lambda>block. case dropWhile (\<lambda>b. b = 0) (rev block) of
          b # r \<Rightarrow> if b = 0x80 then Some (rev r) else None | [] \<Rightarrow> None)\<rparr>"

lemma sample_iso7816_correct: "iso7816_correct sample_iso7816"
  by (simp add: iso7816_correct_def sample_iso7816_def dropWhile_append)

section \<open>Key agreement\<close>

text \<open>
  Key pairs of the elliptic curve package, the agreement between a private and a public key, and the
  serialised form of public and private keys; the strings are the messages of its errors.
\<close>

record key_pair =
  kp_public :: bytes
  kp_private :: bytes

record curve =
  calculate_agreement :: "bytes \<Rightarrow> bytes \<Rightarrow> (bytes, string) result"
  public_serialize :: "bytes \<Rightarrow> bytes"
  public_deserialize :: "bytes \<Rightarrow> (bytes, string) result"
  private_serialize :: "bytes \<Rightarrow> bytes"
  private_deserialize :: "bytes \<Rightarrow> (bytes, string) result"

text \<open>Documented behaviour: two key pairs agree on a secret, and public keys survive serialisation.\<close>

definition agree :: "curve \<Rightarrow> key_pair \<Rightarrow> key_pair \<Rightarrow> bool" where
  "agree X a b \<longleftrightarrow>
     (\<exists>secret. calculate_agreement X (kp_private a) (kp_public b) = Ok secret \<and>
               calculate_agreement X (kp_private b) (kp_public a) = Ok secret) \<and>
     (\<forall>k \<in> {a, b}. public_deserialize X (public_serialize X (kp_public k)) = Ok (kp_public k))"

definition sample_curve :: curve where
  "sample_curve = \<lparr>calculate_agreement = (\<lambda>priv pub. Ok [sum_list priv + sum_list pub]),
     public_serialize = id, public_deserialize = Ok, private_serialize = id, private_deserialize = Ok\<rparr>"

definition sample_key :: "u8 \<Rightarrow> key_pair" where
  "sample_key n = \<lparr>kp_public = [n], kp_private = [n]\<rparr>"

lemma sample_agree: "agree sample_curve (sample_key m) (sample_key n)"
  by (simp add: agree_def sample_curve_def sample_key_def add.commute)

section \<open>Padding into vectors\<close>

text \<open>\<open>encrypt_padded_vec\<close> and \<open>decrypt_padded_vec\<close>, which allocate the buffers they need.\<close>

definition encrypt_padded_vec :: "cbc_mac \<Rightarrow> bytes \<Rightarrow> bytes \<Rightarrow> bytes \<Rightarrow> (bytes, 'e) result" where
  "encrypt_padded_vec M key iv msg =
     expect ''enough space for encrypting is allocated'' (cbc_encrypt M key iv (msg @ replicate 16 0) (length msg))"

definition decrypt_padded_vec :: "cbc_mac \<Rightarrow> bytes \<Rightarrow> bytes \<Rightarrow> bytes \<Rightarrow> bytes option" where
  "decrypt_padded_vec M key iv ciphertext =
     (case cbc_decrypt M key iv ciphertext of (Some n, buf) \<Rightarrow> Some (take n buf) | (None, _) \<Rightarrow> None)"

lemma padded_vecE:
  assumes "cbc_mac_correct M"
  obtains c where "encrypt_padded_vec M key iv msg = Ok c" "decrypt_padded_vec M key iv c = Some msg"
    "length c = pkcs7_length (length msg)"
proof -
  have "pkcs7_length (length msg) \<le> length (msg @ replicate 16 0)"
    using pkcs7_length_bounds(2) [of "length msg"] by simp
  then obtain c rest where "cbc_encrypt M key iv (msg @ replicate 16 0) (length msg) = Some c"
    "length c = pkcs7_length (length msg)"
    "cbc_decrypt M key iv c = (Some (length msg), take (length msg) (msg @ replicate 16 0) @ rest)"
    by (rule cbc_encryptE [OF assms])
  then show ?thesis
    by (intro that [of c]) (simp_all add: encrypt_padded_vec_def decrypt_padded_vec_def)
qed

end
