(* ===== verification/Profile_Name.thy ===== *)
theory Profile_Name
  imports Prelude
begin

text \<open>
  The profile name of \<open>profile_name.rs\<close>: a given name and an optional family name, its
  joined display form, and its byte form with a zero byte between the two parts. The copying
  and the zero-copy \<open>deserialize\<close> differ only in ownership, which the model does not show,
  so both are the one function \<open>deserialize\<close>.
\<close>

record profile_name =
  given_name :: string
  family_name :: "string option"

definition empty_name :: profile_name where
  "empty_name = \<lparr>given_name = [], family_name = None\<rparr>"

definition is_cjkv :: "profile_name \<Rightarrow> bool" where
  "is_cjkv n = False"

definition display_name :: "profile_name \<Rightarrow> string" where
  "display_name n =
     (case (given_name n = [], family_name n) of
        (True, None) \<Rightarrow> []
      | (False, None) \<Rightarrow> given_name n
      | (True, Some family) \<Rightarrow> family
      | (False, Some family) \<Rightarrow>
          (if is_cjkv n then family @ '' '' @ given_name n
           else given_name n @ '' '' @ family))"

definition serialize :: "profile_name \<Rightarrow> bytes" where
  "serialize n =
     (case family_name n of
        Some family \<Rightarrow> as_bytes (given_name n) @ [0] @ as_bytes family
      | None \<Rightarrow> as_bytes (given_name n))"

definition is_empty_name :: "profile_name \<Rightarrow> bool" where
  "is_empty_name n \<longleftrightarrow> given_name n = [] \<and> family_name n = None"

definition deserialize :: "bytes \<Rightarrow> (profile_name option, utf8_error) result" where
  "deserialize data =
     (case split_on (\<lambda>x. x = 0) data of
        [] \<Rightarrow> Ok None
      | [part] \<Rightarrow>
          and_then (from_utf8 part) (\<lambda>given.
          Ok (Some \<lparr>given_name = given, family_name = None\<rparr>))
      | part0 # part1 # _ \<Rightarrow>
          and_then (from_utf8 part0) (\<lambda>given.
          and_then (from_utf8 part1) (\<lambda>family.
          Ok (Some \<lparr>given_name = given, family_name = Some family\<rparr>))))"

text \<open>
  The names that have a byte form of their own: both parts are Rust strings and neither
  contains a NUL character.
\<close>

definition no_nul :: "string \<Rightarrow> bool" where
  "no_nul s \<longleftrightarrow> 0 \<notin> set (as_bytes s)"

definition name_ok :: "profile_name \<Rightarrow> bool" where
  "name_ok n \<longleftrightarrow>
     str_ok (given_name n) \<and> no_nul (given_name n) \<and>
     pred_option (\<lambda>f. str_ok f \<and> no_nul f) (family_name n)"

lemma split_on_no_nul: "no_nul s \<Longrightarrow> split_on (\<lambda>x. x = 0) (as_bytes s) = [as_bytes s]"
  by (rule split_on_none) (auto simp: no_nul_def)

lemma split_on_nul:
  "no_nul s \<Longrightarrow> split_on (\<lambda>x. x = 0) (as_bytes s @ 0 # ys) = as_bytes s # split_on (\<lambda>x. x = 0) ys"
  by (rule split_on_once) (auto simp: no_nul_def)

lemma deserialize_serialize:
  assumes "name_ok n"
  shows "deserialize (serialize n) = Ok (Some n)"
proof (cases "family_name n")
  case None
  then show ?thesis
    using assms by (simp add: deserialize_def serialize_def name_ok_def split_on_no_nul)
next
  case (Some family)
  then show ?thesis
    using assms
    by (simp add: deserialize_def serialize_def name_ok_def split_on_no_nul split_on_nul)
qed

lemma split_on_parts: "part \<in> set (split_on p xs) \<Longrightarrow> x \<in> set part \<Longrightarrow> \<not> p x"
  by (induction xs arbitrary: part) (fastforce split: if_splits list.splits)+

lemma from_utf8_part_ok:
  assumes "part \<in> set (split_on (\<lambda>x. x = 0) data)" and "from_utf8 part = Ok s"
  shows "str_ok s \<and> no_nul s"
  using assms split_on_parts [OF assms(1)]
  by (auto simp: from_utf8_Ok_iff str_ok_def no_nul_def)

lemma deserialize_not_panic [simp]: "\<not> is_panic (deserialize data)"
  by (auto simp: deserialize_def is_panic_and_then split: list.splits)

lemma deserialize_name_ok:
  assumes "deserialize data = Ok (Some n)"
  shows "name_ok n"
  using assms from_utf8_part_ok [of _ data]
  by (fastforce simp: deserialize_def name_ok_def split: list.splits)

lemma deserialize_never_None: "deserialize data \<noteq> Ok None"
  by (auto simp: deserialize_def split: list.splits)

interpretation name_codec: codec name_ok serialize
  "\<lambda>data. and_then (deserialize data) (ok_or Utf8Error)"
  by unfold_locales (simp add: deserialize_serialize)

lemma serialize_inject:
  "name_ok n \<Longrightarrow> name_ok m \<Longrightarrow> serialize n = serialize m \<longleftrightarrow> n = m"
  by (rule name_codec.enc_inject)

text \<open>
  Whatever the parser accepts is a proper name (its \<open>None\<close> branch is dead): both parts
  are Rust strings without NUL characters, serializing the name and parsing it again is
  lossless, and no other such name has the same byte form.
\<close>

theorem profile_name_roundtrip:
  assumes "deserialize data = Ok r"
  shows "\<exists>m. r = Some m \<and> name_ok m \<and> deserialize (serialize m) = Ok (Some m) \<and>
           (\<forall>n. name_ok n \<longrightarrow> serialize n = serialize m \<longrightarrow> n = m)"
proof -
  obtain m where "r = Some m"
    using assms deserialize_never_None [of data] by (cases r) auto
  moreover have "name_ok m"
    using assms \<open>r = Some m\<close> deserialize_name_ok by blast
  ultimately show ?thesis
    by (auto simp: deserialize_serialize serialize_inject)
qed

theorem profile_name_roundtrip_witness:
  "\<exists>m. Some \<lparr>given_name = ''B'', family_name = Some ''C''\<rparr> = Some m \<and> name_ok m \<and>
     deserialize (serialize m) = Ok (Some m) \<and>
     (\<forall>n. name_ok n \<longrightarrow> serialize n = serialize m \<longrightarrow> n = m)"
  by (rule profile_name_roundtrip [where data = "[66, 0, 67, 0, 68]"]) code_simp

end
