(* ===== verification/Profile_Cipher.thy ===== *)
theory Profile_Cipher
  imports Crypto Profile_Name
begin

text \<open>
  Profile encryption of \<open>profile_cipher.rs\<close>: plaintexts are padded with zero bytes to the
  next bracket, sealed with AES-256-GCM under the profile key and prefixed with the nonce;
  decryption strips the trailing zero bytes again.
\<close>

section \<open>The code\<close>

record profile_cipher =
  profile_key :: bytes

definition NAME_PADDING_BRACKETS :: "nat list" where
  "NAME_PADDING_BRACKETS = [53, 257]"

definition ABOUT_PADDING_BRACKETS :: "nat list" where
  "ABOUT_PADDING_BRACKETS = [128, 254, 512]"

definition EMOJI_PADDED_LENGTH :: nat where
  "EMOJI_PADDED_LENGTH = 32"

datatype profile_cipher_error = EncryptionError | Utf8DecodeError utf8_error | InputTooLong

text \<open>\<open>pad_plaintext\<close> resizes the vector in place: the result is the padded vector.\<close>

definition pad_plaintext :: "bytes \<Rightarrow> nat list \<Rightarrow> (bytes, profile_cipher_error) result" where
  "pad_plaintext bs brackets =
     and_then (ok_or InputTooLong (find (\<lambda>x. x \<ge> length bs) brackets)) (\<lambda>len.
       let padded = resize len 0 bs in
       if length padded \<in> set brackets then Ok padded
       else Panic ''assertion failed: brackets.contains(&bytes.len())'')"

definition pad_and_encrypt ::
    "aead \<Rightarrow> profile_cipher \<Rightarrow> bytes \<Rightarrow> nat list \<Rightarrow> bytes \<Rightarrow> (bytes, profile_cipher_error) result" where
  "pad_and_encrypt A self bs padding_brackets nonce =
     and_then (pad_plaintext bs padding_brackets) (\<lambda>padded.
     and_then (ok_or EncryptionError (seal A (profile_key self) nonce padded)) (\<lambda>sealed.
     Ok (nonce @ sealed)))"

definition strip_trailing_zeros :: "bytes \<Rightarrow> bytes" where
  "strip_trailing_zeros plaintext =
     (let len = (case rposition (\<lambda>x. x \<noteq> 0) plaintext of Some x \<Rightarrow> x + 1 | None \<Rightarrow> 0)
      in take len plaintext)"

definition decrypt_and_unpad ::
    "aead \<Rightarrow> profile_cipher \<Rightarrow> bytes \<Rightarrow> (bytes, profile_cipher_error) result" where
  "decrypt_and_unpad A self bs =
     and_then (slice_to 12 bs) (\<lambda>nonce.
     and_then (slice_from 12 bs) (\<lambda>ciphertext.
     and_then (ok_or EncryptionError (unseal A (profile_key self) nonce ciphertext)) (\<lambda>plaintext.
     Ok (strip_trailing_zeros plaintext))))"

definition decrypt_avatar :: "aead \<Rightarrow> profile_cipher \<Rightarrow> bytes \<Rightarrow> (bytes, profile_cipher_error) result" where
  "decrypt_avatar A self bs = decrypt_and_unpad A self bs"

definition encrypt_name ::
    "aead \<Rightarrow> profile_cipher \<Rightarrow> profile_name \<Rightarrow> bytes \<Rightarrow> (bytes, profile_cipher_error) result" where
  "encrypt_name A self name nonce =
     pad_and_encrypt A self (serialize name) NAME_PADDING_BRACKETS nonce"

definition decrypt_name ::
    "aead \<Rightarrow> profile_cipher \<Rightarrow> bytes \<Rightarrow> (profile_name option, profile_cipher_error) result" where
  "decrypt_name A self bs =
     and_then (decrypt_and_unpad A self bs) (\<lambda>plaintext.
     map_err Utf8DecodeError (deserialize plaintext))"

definition encrypt_about ::
    "aead \<Rightarrow> profile_cipher \<Rightarrow> string \<Rightarrow> bytes \<Rightarrow> (bytes, profile_cipher_error) result" where
  "encrypt_about A self about nonce =
     pad_and_encrypt A self (as_bytes about) ABOUT_PADDING_BRACKETS nonce"

definition decrypt_about ::
    "aead \<Rightarrow> profile_cipher \<Rightarrow> bytes \<Rightarrow> (string, profile_cipher_error) result" where
  "decrypt_about A self bs =
     and_then (decrypt_and_unpad A self bs) (\<lambda>plaintext.
     map_err Utf8DecodeError (from_utf8 plaintext))"

definition encrypt_emoji ::
    "aead \<Rightarrow> profile_cipher \<Rightarrow> string \<Rightarrow> bytes \<Rightarrow> (bytes, profile_cipher_error) result" where
  "encrypt_emoji A self emoji nonce =
     pad_and_encrypt A self (as_bytes emoji) [EMOJI_PADDED_LENGTH] nonce"

definition decrypt_emoji ::
    "aead \<Rightarrow> profile_cipher \<Rightarrow> bytes \<Rightarrow> (string, profile_cipher_error) result" where
  "decrypt_emoji A self bs =
     and_then (decrypt_and_unpad A self bs) (\<lambda>plaintext.
     map_err Utf8DecodeError (from_utf8 plaintext))"

text \<open>
  The profile as the server returns it. Capabilities and badges are type parameters: the
  cipher passes over them.
\<close>

record ('cap, 'badge) signal_service_profile =
  sp_identity_key :: "bytes option"
  sp_name :: "bytes option"
  sp_about :: "bytes option"
  sp_about_emoji :: "bytes option"
  sp_avatar :: "string option"
  sp_unidentified_access :: "string option"
  sp_unrestricted_unidentified_access :: bool
  sp_capabilities :: 'cap
  sp_badges :: "'badge list"

record profile =
  pr_name :: "profile_name option"
  pr_about :: "string option"
  pr_about_emoji :: "string option"
  pr_avatar :: "string option"
  pr_unrestricted_unidentified_access :: bool

definition decrypt_profile ::
    "aead \<Rightarrow> profile_cipher \<Rightarrow> ('c, 'b) signal_service_profile \<Rightarrow> (profile, profile_cipher_error) result" where
  "decrypt_profile A self ep =
     and_then (transpose_opt (map_option (decrypt_name A self) (sp_name ep))) (\<lambda>name.
     and_then (transpose_opt (map_option (decrypt_about A self) (sp_about ep))) (\<lambda>about.
     and_then (transpose_opt (map_option (decrypt_emoji A self) (sp_about_emoji ep))) (\<lambda>about_emoji.
     Ok \<lparr>pr_name = Option.bind name id, pr_about = about, pr_about_emoji = about_emoji,
         pr_avatar = sp_avatar ep,
         pr_unrestricted_unidentified_access = sp_unrestricted_unidentified_access ep\<rparr>)))"

section \<open>Padding\<close>

lemma find_bracket_le:
  "find (\<lambda>x. x \<ge> n) brackets = Some len \<Longrightarrow> len \<in> set brackets \<and> n \<le> len"
  by (auto simp: find_Some_iff)

lemma find_bracket_ex:
  "b \<in> set brackets \<Longrightarrow> n \<le> b \<Longrightarrow> \<exists>len. find (\<lambda>x. x \<ge> n) brackets = Some len"
  by (cases "find (\<lambda>x. x \<ge> n) brackets") (auto simp: find_None_iff)

lemma pad_plaintext_eq:
  "pad_plaintext bs brackets =
     (case find (\<lambda>x. x \<ge> length bs) brackets of
        None \<Rightarrow> Err InputTooLong
      | Some len \<Rightarrow> Ok (bs @ replicate (len - length bs) 0))"
  using find_bracket_le [of "length bs" brackets]
  by (auto simp: pad_plaintext_def Let_def resize_extend split: option.splits)

lemma strip_trailing_zeros_padding [simp]:
  "strip_trailing_zeros (bs @ replicate k 0) = strip_trailing_zeros bs"
proof -
  have "rposition (\<lambda>x. x \<noteq> 0) (replicate k (0 :: u8)) = None"
    by (simp add: rposition_None_iff)
  then show ?thesis
    using rposition_bound [of "\<lambda>x. x \<noteq> 0" bs]
    by (auto simp: strip_trailing_zeros_def rposition_append Suc_le_eq split: option.splits)
qed

lemma strip_trailing_zeros_id: "bs = [] \<or> last bs \<noteq> 0 \<Longrightarrow> strip_trailing_zeros bs = bs"
  by (cases bs rule: rev_cases) (auto simp: strip_trailing_zeros_def rposition_append)

lemma strip_trailing_zeros_snoc [simp]:
  "strip_trailing_zeros (bs @ [0]) = strip_trailing_zeros bs"
  using strip_trailing_zeros_padding [of bs 1] by simp

section \<open>Encrypting and decrypting\<close>

text \<open>
  Encryption of a plaintext: too long for the largest bracket, or a ciphertext whose length
  depends on the bracket alone and which decrypts to the plaintext without trailing zeros.
\<close>

lemma pad_and_encrypt_decrypt:
  assumes "aead_correct A" and "length nonce = 12"
    and "find (\<lambda>x. x \<ge> length bs) brackets = Some len" and "len \<le> 2 ^ 36"
  obtains c where "pad_and_encrypt A self bs brackets nonce = Ok c" and "length c = len + 28"
    and "decrypt_and_unpad A self c = Ok (strip_trailing_zeros bs)"
proof -
  let ?padded = "bs @ replicate (len - length bs) 0"
  have len: "length ?padded = len"
    using find_bracket_le [OF assms(3)] by simp
  obtain sealed where sealed: "seal A (profile_key self) nonce ?padded = Some sealed"
    "length sealed = length ?padded + 16" "unseal A (profile_key self) nonce sealed = Some ?padded"
    by (rule aead_correct_sealE [OF assms(1), of ?padded]) (use len assms(4) in auto)
  show ?thesis
  proof
    show "pad_and_encrypt A self bs brackets nonce = Ok (nonce @ sealed)"
      by (simp add: pad_and_encrypt_def pad_plaintext_eq assms(3) sealed)
    show "length (nonce @ sealed) = len + 28"
      using sealed len assms(2) by simp
    show "decrypt_and_unpad A self (nonce @ sealed) = Ok (strip_trailing_zeros bs)"
      by (simp add: decrypt_and_unpad_def assms(2) sealed)
  qed
qed

lemma pad_and_encrypt_too_long:
  "\<forall>b \<in> set brackets. b < length bs \<Longrightarrow>
   pad_and_encrypt A self bs brackets nonce = Err InputTooLong"
  by (simp add: pad_and_encrypt_def pad_plaintext_def find_None_iff not_le
      find_None_iff [THEN iffD2])

lemma decrypt_and_unpad_panic_iff:
  "is_panic (decrypt_and_unpad A self bs) \<longleftrightarrow> length bs < 12"
  by (auto simp: decrypt_and_unpad_def is_panic_and_then slice_to_def slice_from_def
      split: if_splits)

text \<open>
  A family name that is present but empty leaves no trace after unpadding, because its
  separator is a zero byte like the padding: the name comes back without a family name.
\<close>

definition canonical_name :: "profile_name \<Rightarrow> profile_name" where
  "canonical_name n = (if family_name n = Some [] then n\<lparr>family_name := None\<rparr> else n)"

lemma no_nul_last: "no_nul s \<Longrightarrow> s \<noteq> [] \<Longrightarrow> last (as_bytes s) \<noteq> 0"
  unfolding no_nul_def by (metis as_bytes_Nil_iff last_in_set)

lemma no_nul_strip [simp]: "no_nul s \<Longrightarrow> strip_trailing_zeros (as_bytes s) = as_bytes s"
  by (rule strip_trailing_zeros_id) (use no_nul_last in auto)

lemma strip_serialize:
  assumes "name_ok n"
  shows "strip_trailing_zeros (serialize n) = serialize (canonical_name n)"
proof (cases "family_name n")
  case None
  then show ?thesis
    using assms by (simp add: serialize_def canonical_name_def name_ok_def)
next
  case (Some family)
  show ?thesis
  proof (cases "family = []")
    case True
    then show ?thesis
      using assms Some by (simp add: serialize_def canonical_name_def name_ok_def)
  next
    case False
    then have "last (serialize n) \<noteq> 0"
      using assms Some no_nul_last [of family] by (simp add: serialize_def name_ok_def)
    then show ?thesis
      using Some False by (simp add: strip_trailing_zeros_id canonical_name_def)
  qed
qed

lemma canonical_name_ok: "name_ok n \<Longrightarrow> name_ok (canonical_name n)"
  by (auto simp: canonical_name_def name_ok_def)

lemma name_bracket:
  "find (\<lambda>x. x \<ge> n) NAME_PADDING_BRACKETS =
     (if n \<le> 53 then Some 53 else if n \<le> 257 then Some 257 else None)"
  by (simp add: NAME_PADDING_BRACKETS_def)

lemma about_bracket:
  "find (\<lambda>x. x \<ge> n) ABOUT_PADDING_BRACKETS =
     (if n \<le> 128 then Some 128 else if n \<le> 254 then Some 254
      else if n \<le> 512 then Some 512 else None)"
  by (simp add: ABOUT_PADDING_BRACKETS_def)

lemma encrypt_name_ok:
  assumes "aead_correct A" and "length nonce = 12" and "name_ok n"
    and "length (serialize n) \<le> 257"
  obtains c where "encrypt_name A self n nonce = Ok c"
    and "length c = (if length (serialize n) \<le> 53 then 53 else 257) + 28"
    and "decrypt_name A self c = Ok (Some (canonical_name n))"
proof -
  let ?len = "if length (serialize n) \<le> 53 then 53 else 257 :: nat"
  have "find (\<lambda>x. x \<ge> length (serialize n)) NAME_PADDING_BRACKETS = Some ?len"
    using assms(4) by (simp add: name_bracket)
  then obtain c where c: "pad_and_encrypt A self (serialize n) NAME_PADDING_BRACKETS nonce = Ok c"
    "length c = ?len + 28"
    "decrypt_and_unpad A self c = Ok (strip_trailing_zeros (serialize n))"
    by (rule pad_and_encrypt_decrypt [OF assms(1,2)]) simp_all
  have "decrypt_name A self c = Ok (Some (canonical_name n))"
    by (simp add: decrypt_name_def c strip_serialize [OF assms(3)]
        deserialize_serialize canonical_name_ok assms(3))
  with c that show ?thesis
    by (simp add: encrypt_name_def)
qed

text \<open>
  C19: encrypting a profile name succeeds exactly when its byte form fits the largest
  bracket. The ciphertext then has one of two lengths, so it reveals only the bracket of the
  name, and it decrypts to the name itself, where a family name that is present but empty
  comes back as absent.
\<close>

theorem encrypt_name_roundtrip:
  assumes "aead_correct A" and "length nonce = 12" and "name_ok n"
  shows "if length (serialize n) \<le> 257
         then \<exists>c. encrypt_name A self n nonce = Ok c \<and>
                  length c = (if length (serialize n) \<le> 53 then 81 else 285) \<and>
                  decrypt_name A self c = Ok (Some (canonical_name n))
         else encrypt_name A self n nonce = Err InputTooLong"
proof (cases "length (serialize n) \<le> 257")
  case True
  obtain c where "encrypt_name A self n nonce = Ok c"
    and "length c = (if length (serialize n) \<le> 53 then 53 else 257) + 28"
    and "decrypt_name A self c = Ok (Some (canonical_name n))"
    by (rule encrypt_name_ok [OF assms True])
  then show ?thesis
    using True by (auto split: if_splits)
next
  case False
  then show ?thesis
    by (simp add: encrypt_name_def pad_and_encrypt_too_long NAME_PADDING_BRACKETS_def)
qed

theorem encrypt_name_roundtrip_witness:
  "\<exists>c. encrypt_name sample_aead \<lparr>profile_key = [7]\<rparr>
         \<lparr>given_name = ''Bo'', family_name = Some []\<rparr> (replicate 12 9) = Ok c \<and>
       length c = 81 \<and>
       decrypt_name sample_aead \<lparr>profile_key = [7]\<rparr> c =
         Ok (Some \<lparr>given_name = ''Bo'', family_name = None\<rparr>)"
proof -
  have "name_ok \<lparr>given_name = ''Bo'', family_name = Some []\<rparr>"
    by (simp add: name_ok_def, code_simp)
  moreover have "length (serialize \<lparr>given_name = ''Bo'', family_name = Some []\<rparr>) = 3"
    by (simp add: serialize_def)
  ultimately show ?thesis
    using encrypt_name_roundtrip [OF sample_aead_correct, of "replicate 12 9"
        "\<lparr>given_name = ''Bo'', family_name = Some []\<rparr>" "\<lparr>profile_key = [7]\<rparr>"]
    by (simp add: canonical_name_def)
qed

text \<open>
  The about text and the emoji round trip through encryption when they are Rust strings
  that do not end in a NUL character and fit their largest bracket; the ciphertext length is
  that of the bracket. Texts beyond the largest bracket are refused before any encryption.
\<close>

theorem encrypt_about_emoji_roundtrip:
  assumes "aead_correct A" and "length nonce = 12" and "str_ok s" and "no_nul s"
  shows "(if length s \<le> 512
          then \<exists>c. encrypt_about A self s nonce = Ok c \<and>
                   length c = (if length s \<le> 128 then 156 else if length s \<le> 254 then 282 else 540) \<and>
                   decrypt_about A self c = Ok s
          else encrypt_about A self s nonce = Err InputTooLong) \<and>
         (if length s \<le> 32
          then \<exists>c. encrypt_emoji A self s nonce = Ok c \<and> length c = 60 \<and>
                   decrypt_emoji A self c = Ok s
          else encrypt_emoji A self s nonce = Err InputTooLong)"
    (is "?about \<and> ?emoji")
proof
  show ?about
  proof (cases "length s \<le> 512")
    case True
    then have "find (\<lambda>x. x \<ge> length (as_bytes s)) ABOUT_PADDING_BRACKETS =
        Some (if length s \<le> 128 then 128 else if length s \<le> 254 then 254 else 512)"
      by (simp add: about_bracket)
    then obtain c where "pad_and_encrypt A self (as_bytes s) ABOUT_PADDING_BRACKETS nonce = Ok c"
      "length c = (if length s \<le> 128 then 128 else if length s \<le> 254 then 254 else 512) + 28"
      "decrypt_and_unpad A self c = Ok (strip_trailing_zeros (as_bytes s))"
      by (rule pad_and_encrypt_decrypt [OF assms(1,2)]) simp_all
    then show ?thesis
      using True assms(3,4) by (simp add: encrypt_about_def decrypt_about_def)
  next
    case False
    then show ?thesis
      by (simp add: encrypt_about_def pad_and_encrypt_too_long ABOUT_PADDING_BRACKETS_def)
  qed
next
  show ?emoji
  proof (cases "length s \<le> 32")
    case True
    then have "find (\<lambda>x. x \<ge> length (as_bytes s)) [EMOJI_PADDED_LENGTH] = Some 32"
      by (simp add: EMOJI_PADDED_LENGTH_def)
    then obtain c where "pad_and_encrypt A self (as_bytes s) [EMOJI_PADDED_LENGTH] nonce = Ok c"
      "length c = 32 + 28" "decrypt_and_unpad A self c = Ok (strip_trailing_zeros (as_bytes s))"
      by (rule pad_and_encrypt_decrypt [OF assms(1,2)]) simp_all
    then show ?thesis
      using True assms(3,4) by (simp add: encrypt_emoji_def decrypt_emoji_def)
  next
    case False
    then show ?thesis
      by (simp add: encrypt_emoji_def pad_and_encrypt_too_long EMOJI_PADDED_LENGTH_def)
  qed
qed

theorem encrypt_about_emoji_roundtrip_witness:
  "\<exists>c. encrypt_about sample_aead \<lparr>profile_key = [7]\<rparr> ''hi'' (replicate 12 9) = Ok c \<and>
       length c = 156 \<and> decrypt_about sample_aead \<lparr>profile_key = [7]\<rparr> c = Ok ''hi''"
proof -
  have "str_ok ''hi''" and "no_nul ''hi''"
    by code_simp+
  then show ?thesis
    using encrypt_about_emoji_roundtrip [OF sample_aead_correct, of "replicate 12 9" "''hi''"
        "\<lparr>profile_key = [7]\<rparr>"]
    by simp
qed

end
