(* ===== verification/Rust_Str.thy ===== *)
theory Rust_Str
  imports Prelude "HOL-Library.Sublist"
begin

text \<open>
  The methods of Rust's \<open>str\<close> and the integer parsers and printers that the components call:
  \<open>split_once\<close>, \<open>trim\<close> with the Unicode white space characters in their UTF-8 form,
  \<open>eq_ignore_ascii_case\<close>, \<open>from_utf8_lossy\<close>, \<open>parse\<close> for integers and \<open>to_string\<close>.
\<close>

section \<open>Splitting and prefixes\<close>

text \<open>\<open>str::split_once\<close> with a one-character pattern.\<close>

fun split_once :: "char \<Rightarrow> string \<Rightarrow> (string \<times> string) option" where
  "split_once d [] = None"
| "split_once d (c # s) =
     (if c = d then Some ([], s)
      else map_option (\<lambda>(a, b). (c # a, b)) (split_once d s))"

text \<open>\<open>str::strip_prefix\<close>.\<close>

definition strip_prefix :: "string \<Rightarrow> string \<Rightarrow> string option" where
  "strip_prefix p s = (if prefix p s then Some (drop (length p) s) else None)"

lemma split_once_append [simp]:
  "d \<notin> set a \<Longrightarrow> split_once d (a @ d # b) = Some (a, b)"
  by (induction a) auto

lemma split_once_None_iff [simp]: "split_once d s = None \<longleftrightarrow> d \<notin> set s"
  by (induction s) (auto split: if_splits)

lemma split_once_Some_iff: "split_once d s = Some (a, b) \<longleftrightarrow> s = a @ d # b \<and> d \<notin> set a"
proof (induction s arbitrary: a)
  case Nil
  then show ?case by simp
next
  case (Cons c s)
  show ?case
  proof (cases a)
    case Nil
    then show ?thesis by auto
  next
    case (Cons c' a')
    then show ?thesis using Cons.IH [of a'] by auto
  qed
qed

lemma strip_prefix_Some_iff [simp]: "strip_prefix p s = Some t \<longleftrightarrow> s = p @ t"
  by (auto simp: strip_prefix_def prefix_def)

section \<open>Trimming\<close>

definition bytes_str :: "nat list \<Rightarrow> string" where
  "bytes_str ns = map char_of ns"

text \<open>The characters with the Unicode property \<open>White_Space\<close>, in UTF-8.\<close>

definition white_space :: "string list" where
  "white_space = map bytes_str
     ([[9], [10], [11], [12], [13], [32], [0xC2, 0x85], [0xC2, 0xA0], [0xE1, 0x9A, 0x80]] @
      map (\<lambda>i. [0xE2, 0x80, i]) [0x80..<0x8B] @
      [[0xE2, 0x80, 0xA8], [0xE2, 0x80, 0xA9], [0xE2, 0x80, 0xAF], [0xE2, 0x81, 0x9F],
       [0xE3, 0x80, 0x80]])"

text \<open>\<open>strip_ws ws s\<close> removes leading occurrences of the words in \<open>ws\<close> (none of them empty).\<close>

function strip_ws :: "string list \<Rightarrow> string \<Rightarrow> string" where
  "strip_ws ws s =
     (case find (\<lambda>w. w \<noteq> [] \<and> prefix w s) ws of
        None \<Rightarrow> s
      | Some w \<Rightarrow> strip_ws ws (drop (length w) s))"
  by pat_completeness auto
termination
  by (relation "measure (length \<circ> snd)")
    (auto simp: find_Some_iff prefix_def)

declare strip_ws.simps [simp del]

definition trim :: "string \<Rightarrow> string" where
  "trim s = rev (strip_ws (map rev white_space) (rev (strip_ws white_space s)))"

lemma strip_ws_id: "(\<forall>w \<in> set ws. w = [] \<or> \<not> prefix w s) \<Longrightarrow> strip_ws ws s = s"
  by (subst strip_ws.simps) (simp add: find_None_iff [THEN iffD2])

lemma strip_ws_Nil [simp]: "strip_ws ws [] = []"
  by (rule strip_ws_id) simp

text \<open>A string whose first and last characters are printable ASCII is trimmed already.\<close>

definition graphic :: "char \<Rightarrow> bool" where
  "graphic c \<longleftrightarrow> 32 < (of_char c :: nat) \<and> (of_char c :: nat) < 127"

lemma white_space_heads: "w \<in> set white_space \<Longrightarrow> \<not> graphic (hd w) \<and> \<not> graphic (last w) \<and> w \<noteq> []"
  by (auto simp: white_space_def bytes_str_def graphic_def)

lemma strip_ws_graphic:
  assumes "\<And>w. w \<in> set ws \<Longrightarrow> w \<noteq> [] \<Longrightarrow> \<not> graphic (hd w)" and "s \<noteq> []" and "graphic (hd s)"
  shows "strip_ws ws s = s"
proof (rule strip_ws_id, intro ballI)
  fix w
  assume "w \<in> set ws"
  then show "w = [] \<or> \<not> prefix w s"
    using assms by (auto simp: prefix_def neq_Nil_conv)
qed

lemma trim_graphic:
  assumes "s \<noteq> []" and "graphic (hd s)" and "graphic (last s)"
  shows "trim s = s"
proof -
  have "strip_ws white_space s = s"
    using assms white_space_heads by (intro strip_ws_graphic) auto
  moreover have "strip_ws (map rev white_space) (rev s) = rev s"
    using assms white_space_heads by (intro strip_ws_graphic) (auto simp: hd_rev)
  ultimately show ?thesis
    by (simp add: trim_def)
qed

section \<open>ASCII case\<close>

definition to_ascii_lowercase :: "char \<Rightarrow> char" where
  "to_ascii_lowercase c =
     (let n = of_char c :: nat in if 65 \<le> n \<and> n \<le> 90 then char_of (n + 32) else c)"

definition eq_ignore_ascii_case :: "string \<Rightarrow> string \<Rightarrow> bool" where
  "eq_ignore_ascii_case a b \<longleftrightarrow> map to_ascii_lowercase a = map to_ascii_lowercase b"

section \<open>Lossy UTF-8 decoding\<close>

text \<open>
  The next maximal unit of a byte string: whether it is a character, and its length. An
  ill-formed unit is the longest prefix of a well-formed sequence, or one byte.
\<close>

definition utf8_unit :: "bytes \<Rightarrow> bool \<times> nat" where
  "utf8_unit bs = (case bs of [] \<Rightarrow> (True, 0) | b # r \<Rightarrow>
     (if b < 0x80 then (True, 1)
      else if 0xC2 \<le> b \<and> b \<le> 0xDF then
        (case r of c # _ \<Rightarrow> if cont_byte c then (True, 2) else (False, 1) | [] \<Rightarrow> (False, 1))
      else if 0xE0 \<le> b \<and> b \<le> 0xEF then
        (case r of c # r' \<Rightarrow>
           if \<not> second_of_three b c then (False, 1)
           else (case r' of d # _ \<Rightarrow> if cont_byte d then (True, 3) else (False, 2) | [] \<Rightarrow> (False, 2))
         | [] \<Rightarrow> (False, 1))
      else if 0xF0 \<le> b \<and> b \<le> 0xF4 then
        (case r of c # r' \<Rightarrow>
           if \<not> second_of_four b c then (False, 1)
           else (case r' of d # r'' \<Rightarrow>
             if \<not> cont_byte d then (False, 2)
             else (case r'' of e # _ \<Rightarrow> if cont_byte e then (True, 4) else (False, 3) | [] \<Rightarrow> (False, 3))
            | [] \<Rightarrow> (False, 2))
         | [] \<Rightarrow> (False, 1))
      else (False, 1)))"

definition replacement_char :: string where
  "replacement_char = bytes_str [0xEF, 0xBF, 0xBD]"

function from_utf8_lossy :: "bytes \<Rightarrow> string" where
  "from_utf8_lossy bs =
     (if bs = [] then [] else
      (case utf8_unit bs of (good, n) \<Rightarrow>
         (if good then map char_of_byte (take n bs) else replacement_char)
         @ from_utf8_lossy (drop (max 1 n) bs)))"
  by pat_completeness auto
termination
  by (relation "measure length") auto

declare from_utf8_lossy.simps [simp del]

lemma utf8_valid_unit:
  assumes "utf8_valid bs" and "bs \<noteq> []"
  shows "\<exists>n. utf8_unit bs = (True, n) \<and> 1 \<le> n \<and> n \<le> length bs \<and> utf8_valid (drop n bs)"
proof -
  obtain b r where bs: "bs = b # r"
    using assms(2) by (cases bs) auto
  consider "b < 0x80" | "\<not> b < 0x80" "0xC2 \<le> b \<and> b \<le> 0xDF"
    | "\<not> b < 0x80" "\<not> (0xC2 \<le> b \<and> b \<le> 0xDF)" "0xE0 \<le> b \<and> b \<le> 0xEF"
    | "\<not> b < 0x80" "\<not> (0xC2 \<le> b \<and> b \<le> 0xDF)" "\<not> (0xE0 \<le> b \<and> b \<le> 0xEF)" "0xF0 \<le> b \<and> b \<le> 0xF4"
    using assms(1) unfolding bs utf8_valid.simps by meson
  then show ?thesis
  proof cases
    case 1
    then show ?thesis using assms(1) by (simp add: bs utf8_unit_def)
  next
    case 2
    with assms(1) obtain c t where "r = c # t" "cont_byte c" "utf8_valid t"
      unfolding bs by (cases r) simp_all
    with 2 show ?thesis by (simp add: bs utf8_unit_def)
  next
    case 3
    with assms(1) obtain c d t where r: "r = c # d # t" "second_of_three b c" "cont_byte d" "utf8_valid t"
      unfolding bs by (simp split: list.splits)
    have "utf8_unit bs = (True, 3)"
      by (simp only: bs utf8_unit_def list.case r 3 if_True if_False simp_thms)
    then show ?thesis by (simp add: bs r)
  next
    case 4
    with assms(1) obtain c d e t where r: "r = c # d # e # t" "second_of_four b c" "cont_byte d"
        "cont_byte e" "utf8_valid t"
      unfolding bs by (simp split: list.splits)
    have "utf8_unit bs = (True, 4)"
      by (simp only: bs utf8_unit_def list.case r 4 if_True if_False simp_thms)
    then show ?thesis by (simp add: bs r)
  qed
qed

lemma from_utf8_lossy_valid: "utf8_valid bs \<Longrightarrow> from_utf8_lossy bs = map char_of_byte bs"
proof (induction bs rule: from_utf8_lossy.induct)
  case (1 bs)
  show ?case
  proof (cases "bs = []")
    case True
    then show ?thesis by (simp add: from_utf8_lossy.simps)
  next
    case False
    then obtain n where n: "utf8_unit bs = (True, n)" "1 \<le> n" "utf8_valid (drop n bs)"
      using utf8_valid_unit 1(2) by blast
    then have "from_utf8_lossy (drop (max 1 n) bs) = map char_of_byte (drop n bs)"
      using 1(1) [OF False n(1) [symmetric]] by (simp add: max_def)
    then show ?thesis
      using n False by (subst from_utf8_lossy.simps) (simp flip: map_append)
  qed
qed

section \<open>Integers\<close>

definition digit_val :: "char \<Rightarrow> nat option" where
  "digit_val c = (let n = of_char c :: nat in if 48 \<le> n \<and> n \<le> 57 then Some (n - 48) else None)"

text \<open>The value of a digit string read left to right after \<open>acc\<close>.\<close>

fun digits_val :: "nat \<Rightarrow> string \<Rightarrow> nat option" where
  "digits_val acc [] = Some acc"
| "digits_val acc (c # s) =
     (case digit_val c of None \<Rightarrow> None | Some d \<Rightarrow> digits_val (10 * acc + d) s)"

text \<open>
  \<open>str::parse\<close> for an integer type with the bounds \<open>lo\<close> and \<open>hi\<close>: an optional sign (a minus only
  for signed types), at least one digit, and a value in range.
\<close>

definition parse_int :: "int \<Rightarrow> int \<Rightarrow> string \<Rightarrow> int option" where
  "parse_int lo hi s =
     (let (neg, ds) = (case s of
          CHR ''+'' # ds \<Rightarrow> (False, ds)
        | CHR ''-'' # ds \<Rightarrow> if lo < 0 then (True, ds) else (False, s)
        | _ \<Rightarrow> (False, s))
      in if ds = [] then None else
         (case digits_val 0 ds of
            None \<Rightarrow> None
          | Some n \<Rightarrow> (let v = (if neg then - int n else int n)
                       in if lo \<le> v \<and> v \<le> hi then Some v else None)))"

definition parse_i64 :: "string \<Rightarrow> int option" where
  "parse_i64 = parse_int (- (2 ^ 63)) (2 ^ 63 - 1)"

definition parse_u64 :: "string \<Rightarrow> u64 option" where
  "parse_u64 s = map_option of_int (parse_int 0 (2 ^ 64 - 1) s)"

text \<open>\<open>str::contains\<close>.\<close>

fun str_contains :: "string \<Rightarrow> string \<Rightarrow> bool" where
  "str_contains needle [] = (needle = [])"
| "str_contains needle (c # s) = (prefix needle (c # s) \<or> str_contains needle s)"

lemma parse_int_range: "parse_int lo hi s = Some v \<Longrightarrow> lo \<le> v \<and> v \<le> hi"
  by (auto simp: parse_int_def Let_def split: prod.splits option.splits if_splits)

text \<open>\<open>to_string\<close> of an unsigned integer.\<close>

fun nat_to_string :: "nat \<Rightarrow> string" where
  "nat_to_string n =
     (if n < 10 then [char_of (48 + n)]
      else nat_to_string (n div 10) @ [char_of (48 + n mod 10)])"

declare nat_to_string.simps [simp del]

lemma digit_val_digit [simp]: "d < 10 \<Longrightarrow> digit_val (char_of (48 + d)) = Some d"
  by (simp add: digit_val_def Let_def)

lemma digits_val_append:
  "digits_val acc (s @ t) = (case digits_val acc s of None \<Rightarrow> None | Some n \<Rightarrow> digits_val n t)"
  by (induction s arbitrary: acc) (auto split: option.splits)

lemma digits_val_nat_to_string: "digits_val 0 (nat_to_string n) = Some n"
proof (induction n rule: nat_to_string.induct)
  case (1 n)
  show ?case
  proof (cases "n < 10")
    case True
    then show ?thesis by (subst nat_to_string.simps) simp
  next
    case False
    have "10 * (n div 10) + n mod 10 = n"
      by presburger
    with 1 [OF False] False show ?thesis
      by (subst nat_to_string.simps) (simp add: digits_val_append)
  qed
qed

lemma nat_to_string_not_Nil [simp]: "nat_to_string n \<noteq> []"
  by (subst nat_to_string.simps) simp

lemma nat_to_string_digits: "c \<in> set (nat_to_string n) \<Longrightarrow> digit_val c \<noteq> None"
proof (induction n rule: nat_to_string.induct)
  case (1 n)
  then show ?case
    by (subst (asm) (2) nat_to_string.simps) (auto split: if_splits)
qed

lemma nat_to_string_inject [simp]: "nat_to_string m = nat_to_string n \<longleftrightarrow> m = n"
  by (metis digits_val_nat_to_string option.inject)

lemma parse_int_nat_to_string:
  assumes "int n \<le> hi"
  shows "parse_int 0 hi (nat_to_string n) = Some (int n)"
proof -
  obtain c s where cs: "nat_to_string n = c # s"
    by (cases "nat_to_string n") simp_all
  then have "digit_val c \<noteq> None"
    using nat_to_string_digits [of c n] by simp
  then have "c \<noteq> CHR ''+''" "c \<noteq> CHR ''-''"
    by (auto simp: digit_val_def Let_def split: if_splits)
  then have "(case c # s of
      CHR ''+'' # ds \<Rightarrow> (False, ds)
    | CHR ''-'' # ds \<Rightarrow> if (0::int) < 0 then (True, ds) else (False, c # s)
    | _ \<Rightarrow> (False, c # s)) = (False, c # s)"
    by (auto split: char.splits bool.splits)
  then show ?thesis
    using assms digits_val_nat_to_string [of n] by (simp add: parse_int_def Let_def cs)
qed

lemma parse_u64_nat_to_string [simp]: "parse_u64 (nat_to_string (unat n)) = Some n"
proof -
  have "int (unat n) \<le> 2 ^ 64 - 1"
    using unsigned_less [of n, where ?'a = int] by simp
  then show ?thesis
    by (simp add: parse_u64_def parse_int_nat_to_string)
qed

end
