(* ===== verification/Service_Error.thy ===== *)
theory Service_Error
  imports Rust_Str
begin

text \<open>
  Identifiers and errors shared by the components: service ids and protocol addresses, the
  response bodies that error values carry, and \<open>ServiceError\<close> of \<open>push_service/error.rs\<close> with
  all its variants. Errors of other packages are carried as their printed message, except
  where the source looks inside them.
\<close>

section \<open>Identifiers\<close>

text \<open>
  A UUID is its sixteen bytes. \<open>ServiceId\<close> is either an account identifier or a phone number
  identifier; a protocol address is a name and a device.
\<close>

type_synonym uuid = bytes
type_synonym device_id = u8

datatype service_id = Aci uuid | Pni uuid

record protocol_address =
  addr_name :: string
  addr_device :: device_id

definition aci :: "service_id \<Rightarrow> uuid option" where
  "aci sid = (case sid of Aci u \<Rightarrow> Some u | Pni _ \<Rightarrow> None)"

definition pni :: "service_id \<Rightarrow> uuid option" where
  "pni sid = (case sid of Aci _ \<Rightarrow> None | Pni u \<Rightarrow> Some u)"

text \<open>The string form of a service id belongs to the protocol library, a parameter here.\<close>

definition to_protocol_address :: "(service_id \<Rightarrow> string) \<Rightarrow> service_id \<Rightarrow> device_id \<Rightarrow> protocol_address" where
  "to_protocol_address service_id_string sid d =
     \<lparr>addr_name = service_id_string sid, addr_device = d\<rparr>"

lemma aci_Some_iff [simp]: "aci sid = Some u \<longleftrightarrow> sid = Aci u"
  by (cases sid) (auto simp: aci_def)

lemma pni_Some_iff [simp]: "pni sid = Some u \<longleftrightarrow> sid = Pni u"
  by (cases sid) (auto simp: pni_def)

section \<open>Bodies carried by errors\<close>

record mismatched_devices =
  missing_devices :: "device_id list"
  extra_devices :: "device_id list"

record stale_devices =
  stale_devices_list :: "device_id list"

record account_mismatched_devices =
  amd_uuid :: service_id
  amd_devices :: mismatched_devices

record account_stale_devices =
  asd_uuid :: service_id
  asd_devices :: stale_devices

record verification_delivery_failure =
  vdf_reason :: string
  permanent_failure :: bool

record proof_required =
  token :: string
  options :: "string list"

record auth_credentials =
  ac_username :: string
  ac_password :: string

record registration_lock_failure =
  lock_length :: "u32 option"
  time_remaining :: "u64 option"
  svr1_credentials :: "auth_credentials option"
  svr2_credentials :: "auth_credentials option"

record registration_session_metadata_response =
  session_id :: string
  next_sms :: "i32 option"
  next_call :: "i32 option"
  next_verification_attempt :: "i32 option"
  allowed_to_request_code :: bool
  requested_information :: "string list"
  verified :: bool

definition push_challenge_required :: "registration_session_metadata_response \<Rightarrow> bool" where
  "push_challenge_required r \<longleftrightarrow> list_ex (\<lambda>x. x = ''pushChallenge'') (requested_information r)"

definition captcha_required :: "registration_session_metadata_response \<Rightarrow> bool" where
  "captcha_required r \<longleftrightarrow> list_ex (\<lambda>x. x = ''captcha'') (requested_information r)"

section \<open>Error types\<close>

text \<open>
  The variants of the protocol library's error that the source matches or raises, and the
  others as their message.
\<close>

datatype signal_protocol_error =
    SessionNotFound "protocol_address option" string
  | UntrustedIdentity protocol_address
  | InvalidSealedSenderMessage string
  | SealedSenderSelfSend
  | OtherProtocolError string

datatype ciphertext_message_type = WhisperType | PreKeyType | SenderKeyType | PlaintextType

record sealed_sender_decryption_error =
  inner :: signal_protocol_error
  ssd_sender :: "protocol_address option"
  original :: "(ciphertext_message_type \<times> bytes) option"

datatype handshake_error = UnexpectedStatusCode u16 | OtherHandshake string
datatype ws_error = Handshake handshake_error | OtherWsError string

datatype service_id_kind = AciKind | PniKind

datatype group_decoding_error =
    GdZkGroupDeserializationFailure
  | GdZkGroupVerificationFailure
  | GdBincodeError string
  | GdProtobufDecodeError string
  | WrongBlob
  | WrongEnumValue
  | NotAci
  | NotPni

datatype credentials_cache_error = ReadError string | WriteError string

datatype (plugins only: size) service_error =
    Timeout string
  | InvalidUrl string
  | InvalidAddressType service_id_kind
  | InvalidPhoneNumber
  | SendError string
  | IO string
  | JsonDecodeError string
  | ProtobufDecodeError string
  | BincodeError string
  | Base64DecodeError string
  | RateLimitExceeded "int option"
  | Unauthorized
  | Locked registration_lock_failure
  | UnhandledResponseCode u16 string
  | WsError ws_error
  | WsClosing string
  | Padding
  | PaddingVersion u32
  | InvalidFrame string
  | MacError
  | SignalProtocolError signal_protocol_error
  | SealedSenderDecryptionError sealed_sender_decryption_error
  | InvalidDeviceId
  | ProofRequiredError proof_required
  | MismatchedDevicesException mismatched_devices
  | StaleDevices stale_devices
  | CredentialsCacheError credentials_cache_error
  | GroupsV2Error
  | GroupChangeConflict
  | GroupChangeRejected string
  | GroupChangeForbidden
  | GroupsV2DecryptionError group_decoding_error
  | ZkGroupDeserializationFailure
  | ZkGroupVerificationFailure
  | UnsupportedContent
  | NotFoundError
  | DecryptDeviceInfoFieldError string
  | UnknownCdnVersion u32
  | DeviceLimitReached u32 u32
  | DeprecatedVersion
  | ServerRejected
  | UnregisteredRecipient
  | MessageTooLarge
  | MultiRecipientMismatchedDevices "account_mismatched_devices list"
  | MultiRecipientStaleDevices "account_stale_devices list"
  | InvalidDeviceVerificationCode
  | DeviceCapabilityDowngrade
  | NoSuchSession
  | InvalidVerificationSessionId
  | TokenNotAccepted registration_session_metadata_response
  | RegistrationSessionConflict registration_session_metadata_response
  | VerificationSessionRateLimited registration_session_metadata_response "int option"
  | InvalidTransportMode registration_session_metadata_response
  | VerificationDeliveryFailed verification_delivery_failure
  | DeviceTransferAvailable
  | UsernameHashNotSet
  | AttachmentTooLarge
  | ChallengeNotAccepted
  | Http string
  | Curve string
  | Hpke string
  | Fingerprint string
  | CdsiLookupError string

text \<open>\<open>map_ws_handshake_error\<close>: the status of a rejected upgrade decides the error.\<close>

definition map_ws_handshake_error :: "ws_error \<Rightarrow> service_error" where
  "map_ws_handshake_error e =
     (case e of
        Handshake (UnexpectedStatusCode status) \<Rightarrow>
          if status = 401 \<or> status = 403 then Unauthorized
          else if status = 499 then DeprecatedVersion
          else if status = 429 then RateLimitExceeded None
          else WsError e
      | _ \<Rightarrow> WsError e)"

text \<open>\<open>From<SignalProtocolError> for SealedSenderDecryptionError\<close>.\<close>

definition ssd_from :: "signal_protocol_error \<Rightarrow> sealed_sender_decryption_error" where
  "ssd_from e = \<lparr>inner = e, ssd_sender = None, original = None\<rparr>"

end
