(* ===== verification/Response.thy ===== *)
theory Response
  imports Service_Error
begin

text \<open>
  Response handling of \<open>push_service/response.rs\<close>: the trait \<open>SignalServiceResponse\<close> as a record
  of its methods, the baseline mapping from HTTP status codes to errors, the decoders that the
  macro \<open>error_mapper!\<close> generates for each endpoint, and the implementation of the trait for
  responses that arrive on the websocket.
\<close>

section \<open>The trait and the packages\<close>

record 'r response_ops =
  status_code :: "'r \<Rightarrow> u16"
  response_text :: "'r \<Rightarrow> (string, service_error) result"
  response_header :: "'r \<Rightarrow> string \<Rightarrow> string option"

text \<open>
  What \<open>serde_json\<close>, \<open>chrono\<close> and \<open>http\<close> provide: the JSON decoders of the error bodies,
  \<open>Duration::seconds\<close> (\<open>None\<close> where it panics), \<open>StatusCode::from_u16\<close> and the default status.
\<close>

record http_pkgs =
  json_locked :: "string \<Rightarrow> registration_lock_failure option"
  json_mismatched :: "string \<Rightarrow> mismatched_devices option"
  json_stale :: "string \<Rightarrow> stale_devices option"
  json_proof :: "string \<Rightarrow> proof_required option"
  json_account_mismatched :: "string \<Rightarrow> account_mismatched_devices list option"
  json_account_stale :: "string \<Rightarrow> account_stale_devices list option"
  json_session :: "string \<Rightarrow> registration_session_metadata_response option"
  json_delivery_failure :: "string \<Rightarrow> verification_delivery_failure option"
  json_rejection :: "string \<Rightarrow> string option"
  json_device_number :: "string \<Rightarrow> (u32 \<times> u32) option"
  duration_seconds :: "int \<Rightarrow> int option"
  status_from_u16 :: "u16 \<Rightarrow> u16 option"
  default_status :: u16

section \<open>Decoding\<close>

definition json_or_unhandled ::
    "'r response_ops \<Rightarrow> (string \<Rightarrow> 'a option) \<Rightarrow> 'r \<Rightarrow> ('a, service_error) result" where
  "json_or_unhandled R from_str response =
     and_then (response_text R response) (\<lambda>body.
     ok_or (UnhandledResponseCode (status_code R response) body) (from_str body))"

definition parse_retry_after :: "http_pkgs \<Rightarrow> string \<Rightarrow> (int option, service_error) result" where
  "parse_retry_after P h =
     (case parse_i64 h of
        None \<Rightarrow> Ok None
      | Some val \<Rightarrow> map_ok Some (expect ''TimeDelta::seconds out of bounds'' (duration_seconds P val)))"

definition retry_after :: "http_pkgs \<Rightarrow> 'r response_ops \<Rightarrow> 'r \<Rightarrow> (int option, service_error) result" where
  "retry_after P R response =
     (case response_header R response ''retry-after'' of
        None \<Rightarrow> Ok None
      | Some h \<Rightarrow> parse_retry_after P h)"

definition baseline_decode ::
    "http_pkgs \<Rightarrow> 'r response_ops \<Rightarrow> 'r \<Rightarrow> ('r, service_error) result" where
  "baseline_decode P R response =
     (let code = status_code R response in
      if code = 200 \<or> code = 201 \<or> code = 202 \<or> code = 204 then Ok response
      else if code = 401 \<or> code = 403 then Err Unauthorized
      else if code = 404 then Err NotFoundError
      else if code = 413 \<or> code = 429 then
        and_then (retry_after P R response) (\<lambda>r. Err (RateLimitExceeded r))
      else if code = 423 then
        and_then (json_or_unhandled R (json_locked P) response) (\<lambda>locked. Err (Locked locked))
      else if code = 499 then Err DeprecatedVersion
      else if code = 508 then Err ServerRejected
      else and_then (response_text R response) (\<lambda>body. Err (UnhandledResponseCode code body)))"

text \<open>
  The macro \<open>error_mapper!\<close>: an arm is a unit variant, a variant that carries a decoded JSON
  body, or a helper function; a status without an arm passes the response on.
\<close>

datatype 'r arm =
    UnitArm service_error
  | JsonArm "string \<Rightarrow> service_error option"
  | FnArm "'r \<Rightarrow> (service_error, service_error) result"

primrec run_arm :: "'r response_ops \<Rightarrow> 'r \<Rightarrow> 'r arm \<Rightarrow> ('r, service_error) result" where
  "run_arm R response (UnitArm e) = Err e"
| "run_arm R response (JsonArm f) = and_then (json_or_unhandled R f response) Err"
| "run_arm R response (FnArm h) = and_then (h response) Err"

definition error_mapper ::
    "'r response_ops \<Rightarrow> (u16 \<times> 'r arm) list \<Rightarrow> 'r \<Rightarrow> ('r, service_error) result" where
  "error_mapper R arms response =
     (case map_of arms (status_code R response) of
        None \<Rightarrow> Ok response
      | Some arm \<Rightarrow> run_arm R response arm)"

definition service_error_for_status ::
    "http_pkgs \<Rightarrow> 'r response_ops \<Rightarrow> 'r \<Rightarrow> ('r, service_error) result" where
  "service_error_for_status P R response = baseline_decode P R response"

definition service_error_for_status_with ::
    "http_pkgs \<Rightarrow> 'r response_ops \<Rightarrow> ('r \<Rightarrow> ('r, service_error) result) \<Rightarrow> 'r
       \<Rightarrow> ('r, service_error) result" where
  "service_error_for_status_with P R decode response =
     and_then (decode response) (baseline_decode P R)"

section \<open>The endpoint decoders\<close>

definition error_or_value :: "(service_error, service_error) result \<Rightarrow> (service_error, service_error) result" where
  "error_or_value r = (case r of Err e \<Rightarrow> Ok e | _ \<Rightarrow> r)"

definition device_limit_reached ::
    "http_pkgs \<Rightarrow> 'r response_ops \<Rightarrow> 'r \<Rightarrow> (service_error, service_error) result" where
  "device_limit_reached P R response =
     error_or_value (map_ok (\<lambda>(current, max). DeviceLimitReached current max)
       (json_or_unhandled R (json_device_number P) response))"

definition group_change_rejected ::
    "http_pkgs \<Rightarrow> 'r response_ops \<Rightarrow> 'r \<Rightarrow> (service_error, service_error) result" where
  "group_change_rejected P R response =
     error_or_value (map_ok (\<lambda>body. GroupChangeRejected
         (case json_rejection P body of Some message \<Rightarrow> message | None \<Rightarrow> body))
       (response_text R response))"

definition session_rate_limited ::
    "http_pkgs \<Rightarrow> 'r response_ops \<Rightarrow> 'r \<Rightarrow> (service_error, service_error) result" where
  "session_rate_limited P R response =
     and_then (retry_after P R response) (\<lambda>ra.
     error_or_value (map_ok (\<lambda>session. VerificationSessionRateLimited session ra)
       (json_or_unhandled R (json_session P) response)))"

definition put_messages_errors :: "http_pkgs \<Rightarrow> 'r response_ops \<Rightarrow> 'r \<Rightarrow> ('r, service_error) result" where
  "put_messages_errors P R = error_mapper R
     [(409, JsonArm (map_option MismatchedDevicesException \<circ> json_mismatched P)),
      (410, JsonArm (map_option StaleDevices \<circ> json_stale P)),
      (413, UnitArm MessageTooLarge),
      (404, UnitArm UnregisteredRecipient),
      (428, JsonArm (map_option ProofRequiredError \<circ> json_proof P))]"

definition put_multi_recipient_messages_errors ::
    "http_pkgs \<Rightarrow> 'r response_ops \<Rightarrow> 'r \<Rightarrow> ('r, service_error) result" where
  "put_multi_recipient_messages_errors P R = error_mapper R
     [(409, JsonArm (map_option MultiRecipientMismatchedDevices \<circ> json_account_mismatched P)),
      (410, JsonArm (map_option MultiRecipientStaleDevices \<circ> json_account_stale P)),
      (413, UnitArm MessageTooLarge),
      (428, JsonArm (map_option ProofRequiredError \<circ> json_proof P))]"

definition patch_group_errors :: "http_pkgs \<Rightarrow> 'r response_ops \<Rightarrow> 'r \<Rightarrow> ('r, service_error) result" where
  "patch_group_errors P R = error_mapper R
     [(400, FnArm (group_change_rejected P R)),
      (403, UnitArm GroupChangeForbidden),
      (409, UnitArm GroupChangeConflict)]"

definition create_verification_session_errors ::
    "http_pkgs \<Rightarrow> 'r response_ops \<Rightarrow> 'r \<Rightarrow> ('r, service_error) result" where
  "create_verification_session_errors P R = error_mapper R
     [(429, FnArm (session_rate_limited P R))]"

definition patch_verification_session_errors ::
    "http_pkgs \<Rightarrow> 'r response_ops \<Rightarrow> 'r \<Rightarrow> ('r, service_error) result" where
  "patch_verification_session_errors P R = error_mapper R
     [(403, JsonArm (map_option TokenNotAccepted \<circ> json_session P)),
      (404, UnitArm NoSuchSession),
      (422, UnitArm InvalidVerificationSessionId),
      (429, FnArm (session_rate_limited P R))]"

definition request_verification_code_errors ::
    "http_pkgs \<Rightarrow> 'r response_ops \<Rightarrow> 'r \<Rightarrow> ('r, service_error) result" where
  "request_verification_code_errors P R = error_mapper R
     [(404, UnitArm NoSuchSession),
      (409, JsonArm (map_option RegistrationSessionConflict \<circ> json_session P)),
      (418, JsonArm (map_option InvalidTransportMode \<circ> json_session P)),
      (422, UnitArm InvalidVerificationSessionId),
      (429, FnArm (session_rate_limited P R)),
      (440, JsonArm (map_option VerificationDeliveryFailed \<circ> json_delivery_failure P))]"

definition submit_verification_code_errors ::
    "http_pkgs \<Rightarrow> 'r response_ops \<Rightarrow> 'r \<Rightarrow> ('r, service_error) result" where
  "submit_verification_code_errors P R = error_mapper R
     [(404, UnitArm NoSuchSession),
      (409, JsonArm (map_option RegistrationSessionConflict \<circ> json_session P)),
      (422, UnitArm InvalidVerificationSessionId),
      (429, FnArm (session_rate_limited P R))]"

definition post_registration_errors ::
    "http_pkgs \<Rightarrow> 'r response_ops \<Rightarrow> 'r \<Rightarrow> ('r, service_error) result" where
  "post_registration_errors P R = error_mapper R [(409, UnitArm DeviceTransferAvailable)]"

definition link_device_errors :: "http_pkgs \<Rightarrow> 'r response_ops \<Rightarrow> 'r \<Rightarrow> ('r, service_error) result" where
  "link_device_errors P R = error_mapper R
     [(403, UnitArm InvalidDeviceVerificationCode),
      (409, UnitArm DeviceCapabilityDowngrade),
      (411, FnArm (device_limit_reached P R))]"

definition get_attachment_upload_form_errors ::
    "http_pkgs \<Rightarrow> 'r response_ops \<Rightarrow> 'r \<Rightarrow> ('r, service_error) result" where
  "get_attachment_upload_form_errors P R = error_mapper R [(413, UnitArm AttachmentTooLarge)]"

definition put_username_link_errors ::
    "http_pkgs \<Rightarrow> 'r response_ops \<Rightarrow> 'r \<Rightarrow> ('r, service_error) result" where
  "put_username_link_errors P R = error_mapper R [(409, UnitArm UsernameHashNotSet)]"

definition get_provisioning_code_errors ::
    "http_pkgs \<Rightarrow> 'r response_ops \<Rightarrow> 'r \<Rightarrow> ('r, service_error) result" where
  "get_provisioning_code_errors P R = error_mapper R [(411, FnArm (device_limit_reached P R))]"

definition submit_challenge_errors ::
    "http_pkgs \<Rightarrow> 'r response_ops \<Rightarrow> 'r \<Rightarrow> ('r, service_error) result" where
  "submit_challenge_errors P R = error_mapper R [(428, UnitArm ChallengeNotAccepted)]"

section \<open>Responses on the websocket\<close>

record ws_response =
  resp_id :: "u64 option"
  resp_status :: "u32 option"
  resp_message :: "string option"
  resp_headers :: "string list"
  resp_body :: "bytes option"

definition ws_status_code :: "http_pkgs \<Rightarrow> ws_response \<Rightarrow> u16" where
  "ws_status_code P r =
     (let status = (case resp_status r of Some s \<Rightarrow> s | None \<Rightarrow> 0)
      in case status_from_u16 P (ucast status) of Some c \<Rightarrow> c | None \<Rightarrow> default_status P)"

definition ws_text :: "ws_response \<Rightarrow> (string, service_error) result" where
  "ws_text r = Ok (case resp_body r of Some body \<Rightarrow> from_utf8_lossy body | None \<Rightarrow> [])"

definition ws_header :: "ws_response \<Rightarrow> string \<Rightarrow> string option" where
  "ws_header r name =
     map_option (\<lambda>(_, value). trim value)
       (find (\<lambda>(header, _). eq_ignore_ascii_case (trim header) name)
         (List.map_filter (split_once CHR '':'') (resp_headers r)))"

definition ws_ops :: "http_pkgs \<Rightarrow> ws_response response_ops" where
  "ws_ops P = \<lparr>status_code = ws_status_code P, response_text = ws_text, response_header = ws_header\<rparr>"

section \<open>The contract of a decoder\<close>

definition success_codes :: "u16 set" where
  "success_codes = {200, 201, 202, 204}"

lemma baseline_decode_Ok_iff:
  "baseline_decode P R r = Ok r' \<longleftrightarrow> r' = r \<and> status_code R r \<in> success_codes"
  by (auto simp: baseline_decode_def Let_def success_codes_def)

text \<open>
  An endpoint decoder owns a set of status codes: it fails on those and passes every other
  response on unchanged.
\<close>

locale error_decoder =
  fixes R :: "'r response_ops"
    and decode :: "'r \<Rightarrow> ('r, service_error) result"
    and owned :: "u16 set"
  assumes unowned: "status_code R r \<notin> owned \<Longrightarrow> decode r = Ok r"
    and owned_fails: "status_code R r \<in> owned \<Longrightarrow> \<not> is_ok (decode r)"
begin

lemma decode_Ok_iff: "decode r = Ok r' \<longleftrightarrow> r' = r \<and> status_code R r \<notin> owned"
  using unowned [of r] owned_fails [of r] by (cases "status_code R r \<in> owned") auto

lemma with_unowned:
  "status_code R r \<notin> owned \<Longrightarrow> service_error_for_status_with P R decode r = baseline_decode P R r"
  by (simp add: service_error_for_status_with_def unowned)

lemma with_owned:
  assumes "status_code R r \<in> owned"
  shows "service_error_for_status_with P R decode r = decode r"
  using owned_fails [OF assms]
  by (cases "decode r") (simp_all add: service_error_for_status_with_def)

lemma with_Ok_iff:
  "service_error_for_status_with P R decode r = Ok r' \<longleftrightarrow>
     r' = r \<and> status_code R r \<in> success_codes \<and> status_code R r \<notin> owned"
  by (auto simp: service_error_for_status_with_def decode_Ok_iff baseline_decode_Ok_iff)

end

lemma not_is_ok_run_arm: "\<not> is_ok (run_arm R r arm)"
proof -
  have "\<not> is_ok (and_then m Err)" for m :: "(service_error, service_error) result"
    by (cases m) auto
  then show ?thesis
    by (cases arm) auto
qed

lemma error_mapper_decoder:
  "owned = fst ` set arms \<Longrightarrow> error_decoder R (error_mapper R arms) owned"
proof
  assume [simp]: "owned = fst ` set arms"
  fix r
  show "error_mapper R arms r = Ok r" if "status_code R r \<notin> owned"
    using that by (simp add: error_mapper_def map_of_eq_None_iff [THEN iffD2])
  show "\<not> is_ok (error_mapper R arms r)" if "status_code R r \<in> owned"
  proof -
    have "map_of arms (status_code R r) \<noteq> None"
      using that by (simp add: map_of_eq_None_iff)
    then show ?thesis
      by (auto simp: error_mapper_def not_is_ok_run_arm)
  qed
qed

lemmas mapper_defs = put_messages_errors_def put_multi_recipient_messages_errors_def
  patch_group_errors_def create_verification_session_errors_def
  patch_verification_session_errors_def request_verification_code_errors_def
  submit_verification_code_errors_def post_registration_errors_def link_device_errors_def
  get_attachment_upload_form_errors_def put_username_link_errors_def
  get_provisioning_code_errors_def submit_challenge_errors_def

interpretation put_messages: error_decoder R "put_messages_errors P R" "{409, 410, 413, 404, 428}" for P R
  unfolding mapper_defs by (rule error_mapper_decoder) auto

interpretation put_multi_recipient_messages: error_decoder R "put_multi_recipient_messages_errors P R" "{409, 410, 413, 428}" for P R
  unfolding mapper_defs by (rule error_mapper_decoder) auto

interpretation patch_group: error_decoder R "patch_group_errors P R" "{400, 403, 409}" for P R
  unfolding mapper_defs by (rule error_mapper_decoder) auto

interpretation create_verification_session: error_decoder R "create_verification_session_errors P R" "{429}" for P R
  unfolding mapper_defs by (rule error_mapper_decoder) auto

interpretation patch_verification_session: error_decoder R "patch_verification_session_errors P R" "{403, 404, 422, 429}" for P R
  unfolding mapper_defs by (rule error_mapper_decoder) auto

interpretation request_verification_code: error_decoder R "request_verification_code_errors P R" "{404, 409, 418, 422, 429, 440}" for P R
  unfolding mapper_defs by (rule error_mapper_decoder) auto

interpretation submit_verification_code: error_decoder R "submit_verification_code_errors P R" "{404, 409, 422, 429}" for P R
  unfolding mapper_defs by (rule error_mapper_decoder) auto

interpretation post_registration: error_decoder R "post_registration_errors P R" "{409}" for P R
  unfolding mapper_defs by (rule error_mapper_decoder) auto

interpretation link_device: error_decoder R "link_device_errors P R" "{403, 409, 411}" for P R
  unfolding mapper_defs by (rule error_mapper_decoder) auto

interpretation get_attachment_upload_form: error_decoder R "get_attachment_upload_form_errors P R" "{413}" for P R
  unfolding mapper_defs by (rule error_mapper_decoder) auto

interpretation put_username_link: error_decoder R "put_username_link_errors P R" "{409}" for P R
  unfolding mapper_defs by (rule error_mapper_decoder) auto

interpretation get_provisioning_code: error_decoder R "get_provisioning_code_errors P R" "{411}" for P R
  unfolding mapper_defs by (rule error_mapper_decoder) auto

interpretation submit_challenge: error_decoder R "submit_challenge_errors P R" "{428}" for P R
  unfolding mapper_defs by (rule error_mapper_decoder) auto

text \<open>The decoders of all endpoints with the status codes each owns.\<close>

definition endpoint_decoders ::
    "http_pkgs \<Rightarrow> 'r response_ops \<Rightarrow> (u16 list \<times> ('r \<Rightarrow> ('r, service_error) result)) list" where
  "endpoint_decoders P R =
     [([409, 410, 413, 404, 428], put_messages_errors P R),
      ([409, 410, 413, 428], put_multi_recipient_messages_errors P R),
      ([400, 403, 409], patch_group_errors P R),
      ([429], create_verification_session_errors P R),
      ([403, 404, 422, 429], patch_verification_session_errors P R),
      ([404, 409, 418, 422, 429, 440], request_verification_code_errors P R),
      ([404, 409, 422, 429], submit_verification_code_errors P R),
      ([409], post_registration_errors P R),
      ([403, 409, 411], link_device_errors P R),
      ([413], get_attachment_upload_form_errors P R),
      ([409], put_username_link_errors P R),
      ([411], get_provisioning_code_errors P R),
      ([428], submit_challenge_errors P R)]"

lemma endpoint_error_decoder:
  assumes "(owned, m) \<in> set (endpoint_decoders P R)"
  shows "error_decoder R m (set owned) \<and> set owned \<inter> success_codes = {}"
proof -
  have "error_decoder R m (set owned)"
    using assms unfolding endpoint_decoders_def mapper_defs
    by (auto intro!: error_mapper_decoder)
  moreover have "set owned \<inter> success_codes = {}"
    using assms unfolding endpoint_decoders_def success_codes_def by auto
  ultimately show ?thesis ..
qed


definition ws_body_text :: "ws_response \<Rightarrow> string" where
  "ws_body_text r = (case resp_body r of Some body \<Rightarrow> from_utf8_lossy body | None \<Rightarrow> [])"

lemma ws_ops_simps [simp]:
  "status_code (ws_ops P) = ws_status_code P"
  "response_text (ws_ops P) r = Ok (ws_body_text r)"
  by (simp_all add: ws_ops_def ws_text_def ws_body_text_def)

lemma json_or_unhandled_ws [simp]:
  "json_or_unhandled (ws_ops P) f r =
     ok_or (UnhandledResponseCode (ws_status_code P r) (ws_body_text r)) (f (ws_body_text r))"
  by (simp add: json_or_unhandled_def)

lemma and_then_ok_or_Err_iff:
  "and_then (ok_or e m) Err = Err f \<longleftrightarrow> m = Some f \<or> m = None \<and> e = f"
  by (cases m) auto

lemma baseline_decode_other:
  assumes "baseline_decode P R r = Err e" and "response_text R r = Ok body"
  shows "e = NotFoundError \<and> status_code R r = 404 \<or>
     e = Unauthorized \<and> status_code R r \<in> {401, 403} \<or>
     (\<exists>d. e = RateLimitExceeded d) \<or> (\<exists>l. e = Locked l) \<or> e = DeprecatedVersion \<or>
     e = ServerRejected \<or> (\<exists>c b. e = UnhandledResponseCode c b) \<or>
     retry_after P R r = Err e"
  using assms
  by (auto simp: baseline_decode_def Let_def json_or_unhandled_def and_then_Err_iff
      split: if_splits)

lemma retry_after_not_Err [simp]: "retry_after P R r \<noteq> Err e"
  by (auto simp: retry_after_def parse_retry_after_def split: option.splits)

text \<open>
  C16: on the websocket, the errors that drive the retry loop of the message sender are raised
  for exactly one status each. Mismatched and stale devices and a required proof need a body
  that decodes; an undecodable body is never reported as one of them.
\<close>

theorem put_messages_classification:
  fixes P r
  defines "send \<equiv> service_error_for_status_with P (ws_ops P) (put_messages_errors P (ws_ops P)) r"
    and "code \<equiv> ws_status_code P r" and "body \<equiv> ws_body_text r"
  shows "(send = Err (MismatchedDevicesException m) \<longleftrightarrow> code = 409 \<and> json_mismatched P body = Some m) \<and>
         (send = Err (StaleDevices s) \<longleftrightarrow> code = 410 \<and> json_stale P body = Some s) \<and>
         (send = Err (ProofRequiredError p) \<longleftrightarrow> code = 428 \<and> json_proof P body = Some p) \<and>
         (send = Err UnregisteredRecipient \<longleftrightarrow> code = 404) \<and>
         (send = Err MessageTooLarge \<longleftrightarrow> code = 413) \<and>
         (send = Err Unauthorized \<longleftrightarrow> code = 401 \<or> code = 403)"
proof (cases "code \<in> {409, 410, 413, 404, 428}")
  case True
  then have "send = put_messages_errors P (ws_ops P) r"
    unfolding send_def code_def by (intro put_messages.with_owned) simp
  then show ?thesis
    using True unfolding put_messages_errors_def error_mapper_def code_def body_def
    by (auto simp: and_then_ok_or_Err_iff)
next
  case False
  then have "send = baseline_decode P (ws_ops P) r"
    unfolding send_def code_def by (intro put_messages.with_unowned) simp
  moreover have "baseline_decode P (ws_ops P) r = Err Unauthorized \<longleftrightarrow> code = 401 \<or> code = 403"
    by (auto simp: baseline_decode_def Let_def code_def and_then_Err_iff split: if_splits)
  ultimately show ?thesis
    using False baseline_decode_other [of P "ws_ops P" r] by auto
qed

text \<open>
  A websocket response whose status field is missing, or is not a status code after its
  truncation to sixteen bits, counts as success. The hypotheses are what the \<open>http\<close> package
  documents: codes from 100 to 999 are accepted and the default status is 200.
\<close>

theorem ws_invalid_status_accepted:
  assumes "\<And>c. status_from_u16 P c = (if 100 \<le> c \<and> c < 1000 then Some c else None)"
    and "default_status P = 200"
    and "resp_status r = None \<or> (\<exists>s. resp_status r = Some s \<and>
           (ucast s < (100 :: u16) \<or> 1000 \<le> (ucast s :: u16)))"
  shows "service_error_for_status P (ws_ops P) r = Ok r"
proof -
  have "ws_status_code P r = 200"
    using assms by (auto simp: ws_status_code_def Let_def)
  then show ?thesis
    by (simp add: service_error_for_status_def baseline_decode_def)
qed

definition sample_pkgs :: http_pkgs where
  "sample_pkgs = \<lparr>
     json_locked = (\<lambda>_. None), json_mismatched = (\<lambda>_. None), json_stale = (\<lambda>_. None),
     json_proof = (\<lambda>_. None), json_account_mismatched = (\<lambda>_. None),
     json_account_stale = (\<lambda>_. None), json_session = (\<lambda>_. None),
     json_delivery_failure = (\<lambda>_. None), json_rejection = (\<lambda>_. None),
     json_device_number = (\<lambda>_. None), duration_seconds = Some,
     status_from_u16 = (\<lambda>c. if 100 \<le> c \<and> c < 1000 then Some c else None),
     default_status = 200\<rparr>"

theorem ws_invalid_status_accepted_witness:
  "service_error_for_status sample_pkgs (ws_ops sample_pkgs)
     \<lparr>resp_id = Some 1, resp_status = Some 65537, resp_message = None, resp_headers = [],
      resp_body = None\<rparr> =
   Ok \<lparr>resp_id = Some 1, resp_status = Some 65537, resp_message = None, resp_headers = [],
      resp_body = None\<rparr>"
  by (rule ws_invalid_status_accepted) (simp_all add: sample_pkgs_def)

end
