(* ===== verification/Group_Model.thy ===== *)
theory Group_Model
  imports Service_Error
begin

text \<open>
  The data of groups v2: the decrypted model of \<open>groups_v2/model.rs\<close> with its conversions from
  and to the numbers of the wire format, and the encrypted messages of \<open>Groups.proto\<close> that the
  generated code declares. Keys, ciphertexts and identifiers are byte strings.
\<close>

section \<open>Roles and access rules\<close>

datatype role = RoleUnknown | RoleDefault | RoleAdministrator

datatype access_required =
  AccessUnknown | AccessAny | AccessMember | AccessAdministrator | AccessUnsatisfiable

definition role_try_from :: "i32 \<Rightarrow> (role, group_decoding_error) result" where
  "role_try_from v =
     (if v = 0 then Ok RoleUnknown
      else if v = 1 then Ok RoleDefault
      else if v = 2 then Ok RoleAdministrator
      else Err WrongEnumValue)"

primrec role_into :: "role \<Rightarrow> i32" where
  "role_into RoleUnknown = 0"
| "role_into RoleDefault = 1"
| "role_into RoleAdministrator = 2"

definition access_try_from :: "i32 \<Rightarrow> (access_required, group_decoding_error) result" where
  "access_try_from v =
     (if v = 0 then Ok AccessUnknown
      else if v = 1 then Ok AccessAny
      else if v = 2 then Ok AccessMember
      else if v = 3 then Ok AccessAdministrator
      else if v = 4 then Ok AccessUnsatisfiable
      else Err WrongEnumValue)"

primrec access_into :: "access_required \<Rightarrow> i32" where
  "access_into AccessUnknown = 0"
| "access_into AccessAny = 1"
| "access_into AccessMember = 2"
| "access_into AccessAdministrator = 3"
| "access_into AccessUnsatisfiable = 4"

record access_control =
  ac_attributes :: access_required
  ac_members :: access_required
  ac_add_from_invite_link :: access_required
  ac_member_label :: access_required

text \<open>\<open>AccessControl\<close> of the wire format.\<close>

datatype proto_access_control = ProtoAccessControl
  (pac_attributes: i32) (pac_members: i32) (pac_add_from_invite_link: i32) (pac_member_label: i32)

definition access_control_try_from ::
    "proto_access_control \<Rightarrow> (access_control, group_decoding_error) result" where
  "access_control_try_from v =
     and_then (access_try_from (pac_attributes v)) (\<lambda>attributes.
     and_then (access_try_from (pac_members v)) (\<lambda>members.
     and_then (access_try_from (pac_add_from_invite_link v)) (\<lambda>add_from_invite_link.
     and_then (access_try_from (pac_member_label v)) (\<lambda>member_label.
     Ok \<lparr>ac_attributes = attributes, ac_members = members,
         ac_add_from_invite_link = add_from_invite_link, ac_member_label = member_label\<rparr>))))"

text \<open>The inverse conversion is written inline in \<open>encrypt_group_with_credentials\<close>.\<close>

definition access_control_into :: "access_control \<Rightarrow> proto_access_control" where
  "access_control_into ac = ProtoAccessControl (access_into (ac_attributes ac))
     (access_into (ac_members ac)) (access_into (ac_add_from_invite_link ac))
     (access_into (ac_member_label ac))"

section \<open>Members, groups and changes\<close>

type_synonym profile_key = bytes
type_synonym ciphertext = bytes

record member =
  m_aci :: uuid
  m_role :: role
  m_profile_key :: profile_key
  m_joined_at_version :: u32
  m_label :: "string option"
  m_label_emoji :: "string option"

text \<open>The equalities the source declares for members compare identifiers only.\<close>

definition member_eq :: "member \<Rightarrow> member \<Rightarrow> bool" where
  "member_eq a b \<longleftrightarrow> m_aci a = m_aci b"

record pending_member =
  pm_address :: service_id
  pm_role :: role
  pm_added_by_aci :: uuid
  pm_timestamp :: u64

record requesting_member =
  rm_aci :: uuid
  rm_profile_key :: profile_key
  rm_timestamp :: u64

definition requesting_member_eq :: "requesting_member \<Rightarrow> requesting_member \<Rightarrow> bool" where
  "requesting_member_eq a b \<longleftrightarrow> rm_aci a = rm_aci b"

record banned_member =
  bm_user_id :: service_id
  bm_timestamp :: u64

definition banned_member_eq :: "banned_member \<Rightarrow> banned_member \<Rightarrow> bool" where
  "banned_member_eq a b \<longleftrightarrow> bm_user_id a = bm_user_id b"

record promoted_member =
  prm_aci :: uuid
  prm_pni :: uuid
  prm_profile_key :: profile_key

definition promoted_member_eq :: "promoted_member \<Rightarrow> promoted_member \<Rightarrow> bool" where
  "promoted_member_eq a b \<longleftrightarrow> prm_aci a = prm_aci b \<and> prm_pni a = prm_pni b"

datatype timer = Timer (duration: u32)

record group_member_candidate =
  cand_service_id :: service_id
  cand_credential :: "bytes option"

record group =
  g_title :: string
  g_avatar :: string
  g_disappearing_messages_timer :: "timer option"
  g_access_control :: "access_control option"
  g_version :: u32
  g_members :: "member list"
  g_members_pending_profile_key :: "pending_member list"
  g_members_pending_admin_approval :: "requesting_member list"
  g_invite_link_password :: bytes
  g_description_text :: "string option"
  g_announcements_only :: bool
  g_members_banned :: "banned_member list"
  g_terminated :: bool

datatype (plugins only: size) group_change =
    NewMember member
  | DeleteMember uuid
  | ModifyMemberRole uuid role
  | ModifyMemberProfileKey uuid profile_key
  | NewPendingMember pending_member
  | DeletePendingMember service_id
  | PromotePendingMember service_id profile_key
  | Title string
  | Avatar string
  | TimerChange "timer option"
  | AttributeAccess access_required
  | MemberAccess access_required
  | InviteLinkAccess access_required
  | NewRequestingMember requesting_member
  | DeleteRequestingMember uuid
  | PromoteRequestingMember uuid role
  | InviteLinkPassword string
  | Description "string option"
  | AnnouncementOnly bool
  | AddBannedMember banned_member
  | DeleteBannedMember service_id
  | PromotePendingPniAciMemberProfileKey promoted_member
  | MemberLabel service_id "string option" "string option"
  | MemberLabelAccess access_required
  | TerminateGroup

record group_changes =
  gc_group_id :: bytes
  gc_editor :: uuid
  gc_version :: u32
  gc_changes :: "group_change list"
  gc_change_epoch :: u32

section \<open>The encrypted messages\<close>

record encrypted_member =
  em_user_id :: ciphertext
  em_role :: i32
  em_profile_key :: ciphertext
  em_presentation :: bytes
  em_joined_at_version :: u32
  em_label_emoji :: ciphertext
  em_label_string :: ciphertext

datatype (plugins only: size) encrypted_pending = EncryptedPending
  (ep_member: "encrypted_member option") (ep_added_by_user_id: ciphertext) (ep_timestamp: u64)

datatype (plugins only: size) encrypted_requesting = EncryptedRequesting
  (er_user_id: ciphertext) (er_profile_key: ciphertext) (er_presentation: bytes) (er_timestamp: u64)

datatype (plugins only: size) encrypted_banned = EncryptedBanned
  (eb_user_id: ciphertext) (eb_timestamp: u64)

record encrypted_group =
  eg_public_key :: bytes
  eg_title :: ciphertext
  eg_description :: ciphertext
  eg_avatar_url :: string
  eg_disappearing_messages_timer :: ciphertext
  eg_access_control :: "proto_access_control option"
  eg_version :: u32
  eg_members :: "encrypted_member list"
  eg_members_pending_profile_key :: "encrypted_pending list"
  eg_members_pending_admin_approval :: "encrypted_requesting list"
  eg_invite_link_password :: bytes
  eg_announcements_only :: bool
  eg_members_banned :: "encrypted_banned list"
  eg_terminated :: bool

datatype (plugins only: size) blob_content =
    BlobTitle string
  | BlobAvatar bytes
  | BlobDisappearingMessagesDuration u32
  | BlobDescriptionText string

text \<open>
  The action messages of a change. A message with one field is a constructor around it, an
  absent sub-message is \<open>None\<close>.
\<close>

datatype (plugins only: size) add_member_action = AddMemberAction
  (added_member: "encrypted_member option") (join_from_invite_link: bool)
datatype (plugins only: size) modify_role_action = ModifyRoleAction (mra_user_id: ciphertext) (mra_role: i32)
datatype (plugins only: size) modify_label_action = ModifyLabelAction
  (mla_user_id: ciphertext) (mla_label_emoji: ciphertext) (mla_label_string: ciphertext)
datatype (plugins only: size) profile_key_action = ProfileKeyAction
  (pka_presentation: bytes) (pka_user_id: ciphertext) (pka_profile_key: ciphertext)
datatype (plugins only: size) pni_aci_action = PniAciAction
  (paa_presentation: bytes) (paa_user_id: ciphertext) (paa_pni: ciphertext) (paa_profile_key: ciphertext)

record actions =
  source_user_id :: ciphertext
  group_id :: bytes
  act_version :: u32
  add_members :: "add_member_action list"
  delete_members :: "ciphertext list"
  modify_member_roles :: "modify_role_action list"
  modify_member_profile_keys :: "profile_key_action list"
  add_members_pending_profile_key :: "encrypted_pending option list"
  delete_members_pending_profile_key :: "ciphertext list"
  promote_members_pending_profile_key :: "profile_key_action list"
  modify_title :: "ciphertext option"
  modify_avatar :: "string option"
  modify_disappearing_message_timer :: "ciphertext option"
  modify_attributes_access :: "i32 option"
  modify_member_access :: "i32 option"
  modify_add_from_invite_link_access :: "i32 option"
  add_members_pending_admin_approval :: "encrypted_requesting option list"
  delete_members_pending_admin_approval :: "ciphertext list"
  promote_members_pending_admin_approval :: "modify_role_action list"
  modify_invite_link_password :: "bytes option"
  modify_description :: "ciphertext option"
  modify_announcements_only :: "bool option"
  add_members_banned :: "encrypted_banned option list"
  delete_members_banned :: "ciphertext list"
  promote_members_pending_pni_aci_profile_key :: "pni_aci_action list"
  modify_member_labels :: "modify_label_action list"
  modify_member_label_access :: "i32 option"
  terminate_group :: "unit option"

datatype (plugins only: size) encrypted_group_change = EncryptedGroupChange
  (egc_actions: bytes) (egc_server_signature: bytes) (egc_change_epoch: u32)

section \<open>The conversions are codecs\<close>

interpretation role_codec: codec "\<lambda>_. True" role_into role_try_from
proof
  fix r
  show "role_try_from (role_into r) = Ok r"
    by (cases r) (simp_all add: role_try_from_def)
qed

interpretation access_codec: codec "\<lambda>_. True" access_into access_try_from
proof
  fix a
  show "access_try_from (access_into a) = Ok a"
    by (cases a) (simp_all add: access_try_from_def)
qed

lemmas role_roundtrip [simp] = role_codec.dec_enc [OF TrueI]
lemmas access_roundtrip [simp] = access_codec.dec_enc [OF TrueI]

interpretation access_control_codec: codec "\<lambda>_. True" access_control_into access_control_try_from
  by unfold_locales (simp add: access_control_into_def access_control_try_from_def)

lemmas access_control_roundtrip [simp] = access_control_codec.dec_enc [OF TrueI]

lemma role_try_from_not_panic [simp]: "\<not> is_panic (role_try_from v)"
  by (simp add: role_try_from_def)

lemma access_try_from_not_panic [simp]: "\<not> is_panic (access_try_from v)"
  by (simp add: access_try_from_def)

lemma role_try_from_Ok_iff: "role_try_from v = Ok r \<longleftrightarrow> v = role_into r"
  by (cases r) (auto simp: role_try_from_def)

lemma access_try_from_Ok_iff: "access_try_from v = Ok a \<longleftrightarrow> v = access_into a"
  by (cases a) (auto simp: access_try_from_def)

text \<open>
  C20: roles and access rules are encoded without loss and decoded exactly. A number is
  accepted as a role or as an access rule if and only if it is the encoding of that value, so
  no number stands for two values, and every other number is refused as a wrong enumeration
  value. An access-control message is accepted exactly when all four of its fields are.
\<close>

theorem enum_conversions_exact:
  "(role_try_from v = Ok r \<longleftrightarrow> v = role_into r) \<and>
   (access_try_from v = Ok a \<longleftrightarrow> v = access_into a) \<and>
   (role_try_from v = Err e \<longleftrightarrow> e = WrongEnumValue \<and> v \<notin> range role_into) \<and>
   (access_try_from v = Err e \<longleftrightarrow> e = WrongEnumValue \<and> v \<notin> range access_into) \<and>
   (access_control_try_from p = Ok ac \<longleftrightarrow> p = access_control_into ac)"
proof -
  have "role_try_from v = Err e \<longleftrightarrow> e = WrongEnumValue \<and> v \<notin> range role_into"
  proof (cases "role_try_from v")
    case (Ok r)
    then show ?thesis by (auto simp: role_try_from_Ok_iff)
  next
    case (Err e')
    then have "e' = WrongEnumValue" and "v \<notin> range role_into"
      using role_try_from_Ok_iff [of v]
      by (auto simp: role_try_from_def split: if_splits)
    then show ?thesis using Err by auto
  next
    case (Panic p)
    then show ?thesis using role_try_from_not_panic [of v] by simp
  qed
  moreover have "access_try_from v = Err e \<longleftrightarrow> e = WrongEnumValue \<and> v \<notin> range access_into"
  proof (cases "access_try_from v")
    case (Ok r)
    then show ?thesis by (auto simp: access_try_from_Ok_iff)
  next
    case (Err e')
    then have "e' = WrongEnumValue" and "v \<notin> range access_into"
      using access_try_from_Ok_iff [of v]
      by (auto simp: access_try_from_def split: if_splits)
    then show ?thesis using Err by auto
  next
    case (Panic p)
    then show ?thesis using access_try_from_not_panic [of v] by simp
  qed
  moreover have "access_control_try_from p = Ok ac \<longleftrightarrow> p = access_control_into ac"
  proof
    assume "access_control_try_from p = Ok ac"
    then show "p = access_control_into ac"
      by (cases p) (auto simp: access_control_try_from_def access_control_into_def access_try_from_Ok_iff)
  qed simp
  ultimately show ?thesis
    by (simp add: role_try_from_Ok_iff access_try_from_Ok_iff)
qed

end
