(* ===== verification/Group_Operations.thy ===== *)
theory Group_Operations
  imports Group_Model
begin

text \<open>
  Encrypting and decrypting groups and group changes, \<open>groups_v2/operations.rs\<close>. The
  zero-knowledge group library, the protocol buffer codec and base64 are a record of functions;
  ciphertexts are byte strings. Random bytes are arguments: \<open>rng k\<close> is the \<open>k\<close>-th draw from the
  caller's generator and \<open>os_rng k\<close> the \<open>k\<close>-th draw of \<open>rand::random\<close>.
\<close>

section \<open>The packages\<close>

record zkgroup =
  uuid_ct_serialize :: "bytes \<Rightarrow> bytes"
  uuid_ct_deserialize :: "bytes \<Rightarrow> bytes option"
  pk_ct_serialize :: "bytes \<Rightarrow> bytes"
  pk_ct_deserialize :: "bytes \<Rightarrow> bytes option"
  zk_encrypt_service_id :: "bytes \<Rightarrow> service_id \<Rightarrow> bytes"
  zk_decrypt_service_id :: "bytes \<Rightarrow> bytes \<Rightarrow> service_id option"
  zk_encrypt_profile_key :: "bytes \<Rightarrow> profile_key \<Rightarrow> uuid \<Rightarrow> bytes"
  zk_decrypt_profile_key :: "bytes \<Rightarrow> bytes \<Rightarrow> uuid \<Rightarrow> profile_key option"
  zk_presentation_new :: "bytes \<Rightarrow> (bytes \<times> bytes) option"
  zk_create_presentation :: "bytes \<Rightarrow> bytes \<Rightarrow> bytes \<Rightarrow> bytes \<Rightarrow> bytes"
  zk_credential_aci :: "bytes \<Rightarrow> uuid"
  zk_credential_profile_key :: "bytes \<Rightarrow> profile_key"
  zk_encrypt_blob :: "bytes \<Rightarrow> bytes \<Rightarrow> bytes \<Rightarrow> nat \<Rightarrow> bytes"
  zk_decrypt_blob :: "bytes \<Rightarrow> bytes \<Rightarrow> bytes option"
  zk_public_params :: "bytes \<Rightarrow> bytes"
  zk_group_identifier :: "bytes \<Rightarrow> bytes"
  zk_derive_from_master_key :: "bytes \<Rightarrow> bytes"
  blob_encode :: "blob_content option \<Rightarrow> bytes"
  blob_decode :: "bytes \<Rightarrow> string + blob_content option"
  actions_encode :: "actions \<Rightarrow> bytes"
  actions_decode :: "bytes \<Rightarrow> string + actions"
  group_change_decode :: "bytes \<Rightarrow> string + encrypted_group_change"
  base64_encode :: "bytes \<Rightarrow> string"

text \<open>
  Documented behaviour: ciphertexts survive serialization and decrypt under the parameters
  they were made with; an encrypted blob carries at least 29 bytes of framing; a presentation
  made from a credential is not empty and reveals the credential's account and profile key to
  the holder of the group parameters; a group identifier has 32 bytes; attribute blobs decode to
  what was encoded.
\<close>

definition zk_correct :: "zkgroup \<Rightarrow> bool" where
  "zk_correct Z \<longleftrightarrow>
     (\<forall>c. uuid_ct_deserialize Z (uuid_ct_serialize Z c) = Some c) \<and>
     (\<forall>c. pk_ct_deserialize Z (pk_ct_serialize Z c) = Some c) \<and>
     (\<forall>g s. zk_decrypt_service_id Z g (zk_encrypt_service_id Z g s) = Some s) \<and>
     (\<forall>g k u. zk_decrypt_profile_key Z g (zk_encrypt_profile_key Z g k u) u = Some k) \<and>
     (\<forall>g r m p. zk_decrypt_blob Z g (zk_encrypt_blob Z g r m p) = Some m \<and>
                29 \<le> length (zk_encrypt_blob Z g r m p)) \<and>
     (\<forall>s r g c. \<exists>u k. zk_create_presentation Z s r g c \<noteq> [] \<and>
         zk_presentation_new Z (zk_create_presentation Z s r g c) = Some (u, k) \<and>
         zk_decrypt_service_id Z g u = Some (Aci (zk_credential_aci Z c)) \<and>
         zk_decrypt_profile_key Z g k (zk_credential_aci Z c) = Some (zk_credential_profile_key Z c)) \<and>
     (\<forall>g. length (zk_group_identifier Z g) = 32) \<and>
     (\<forall>b. blob_decode Z (blob_encode Z b) = Inr b)"

text \<open>The same of one message of actions.\<close>

definition actions_codec_at :: "zkgroup \<Rightarrow> actions \<Rightarrow> bool" where
  "actions_codec_at Z a \<longleftrightarrow> actions_decode Z (actions_encode Z a) = Inr a"

section \<open>Identifiers and profile keys\<close>

record group_operations =
  group_secret_params :: bytes

definition encrypt_service_id ::
    "zkgroup \<Rightarrow> group_operations \<Rightarrow> service_id \<Rightarrow> (bytes, group_decoding_error) result" where
  "encrypt_service_id Z self sid =
     Ok (uuid_ct_serialize Z (zk_encrypt_service_id Z (group_secret_params self) sid))"

text \<open>\<open>deserialize\<close> followed by \<open>decrypt_service_id\<close>, each with its error conversion.\<close>

definition zk_read_service_id ::
    "zkgroup \<Rightarrow> group_operations \<Rightarrow> ciphertext \<Rightarrow> (service_id, group_decoding_error) result" where
  "zk_read_service_id Z self ct =
     and_then (ok_or GdZkGroupDeserializationFailure (uuid_ct_deserialize Z ct)) (\<lambda>c.
     ok_or GdZkGroupVerificationFailure (zk_decrypt_service_id Z (group_secret_params self) c))"

definition decrypt_service_id ::
    "zkgroup \<Rightarrow> group_operations \<Rightarrow> ciphertext \<Rightarrow> (service_id, group_decoding_error) result" where
  "decrypt_service_id Z self ct =
     and_then (zk_read_service_id Z self ct) (\<lambda>sid.
       case sid of Aci a \<Rightarrow> Ok (Aci a) | Pni p \<Rightarrow> Ok (Pni p))"

definition encrypt_aci ::
    "zkgroup \<Rightarrow> group_operations \<Rightarrow> uuid \<Rightarrow> (bytes, group_decoding_error) result" where
  "encrypt_aci Z self a = encrypt_service_id Z self (Aci a)"

definition decrypt_aci ::
    "zkgroup \<Rightarrow> group_operations \<Rightarrow> ciphertext \<Rightarrow> (uuid, group_decoding_error) result" where
  "decrypt_aci Z self ct =
     and_then (zk_read_service_id Z self ct) (\<lambda>sid.
       case sid of Aci a \<Rightarrow> Ok a | Pni _ \<Rightarrow> Err NotAci)"

definition decrypt_pni ::
    "zkgroup \<Rightarrow> group_operations \<Rightarrow> ciphertext \<Rightarrow> (uuid, group_decoding_error) result" where
  "decrypt_pni Z self ct =
     and_then (zk_read_service_id Z self ct) (\<lambda>sid.
       case sid of Pni p \<Rightarrow> Ok p | Aci _ \<Rightarrow> Err NotPni)"

definition encrypt_profile_key ::
    "zkgroup \<Rightarrow> group_operations \<Rightarrow> profile_key \<Rightarrow> uuid \<Rightarrow> (bytes, group_decoding_error) result" where
  "encrypt_profile_key Z self key a =
     Ok (pk_ct_serialize Z (zk_encrypt_profile_key Z (group_secret_params self) key a))"

definition decrypt_profile_key ::
    "zkgroup \<Rightarrow> group_operations \<Rightarrow> ciphertext \<Rightarrow> uuid \<Rightarrow> (profile_key, group_decoding_error) result" where
  "decrypt_profile_key Z self ct a =
     and_then (ok_or GdZkGroupDeserializationFailure (pk_ct_deserialize Z ct)) (\<lambda>c.
     ok_or GdZkGroupVerificationFailure (zk_decrypt_profile_key Z (group_secret_params self) c a))"

definition decrypt_profile_key_presentation ::
    "zkgroup \<Rightarrow> group_operations \<Rightarrow> ciphertext \<Rightarrow> ciphertext \<Rightarrow> bytes
       \<Rightarrow> (uuid \<times> profile_key, group_decoding_error) result" where
  "decrypt_profile_key_presentation Z self a key presentation =
     (if presentation = [] then
        and_then (decrypt_aci Z self a) (\<lambda>u.
        and_then (decrypt_profile_key Z self key u) (\<lambda>profile_key.
        Ok (u, profile_key)))
      else
        and_then (ok_or GdZkGroupDeserializationFailure (zk_presentation_new Z presentation)) (\<lambda>(uct, kct).
        and_then (ok_or GdZkGroupVerificationFailure
            (zk_decrypt_service_id Z (group_secret_params self) uct)) (\<lambda>sid.
          case sid of
            Aci u \<Rightarrow>
              and_then (ok_or GdZkGroupVerificationFailure
                  (zk_decrypt_profile_key Z (group_secret_params self) kct u)) (\<lambda>profile_key.
              Ok (u, profile_key))
          | Pni _ \<Rightarrow> Err NotAci)))"

definition decrypt_pni_aci_promotion_presentation ::
    "zkgroup \<Rightarrow> group_operations \<Rightarrow> pni_aci_action \<Rightarrow> (promoted_member, group_decoding_error) result" where
  "decrypt_pni_aci_promotion_presentation Z self m =
     and_then (decrypt_aci Z self (paa_user_id m)) (\<lambda>u.
     and_then (decrypt_pni Z self (paa_pni m)) (\<lambda>v.
     and_then (decrypt_profile_key Z self (paa_profile_key m) u) (\<lambda>profile_key.
     Ok \<lparr>prm_aci = u, prm_pni = v, prm_profile_key = profile_key\<rparr>)))"

section \<open>Strings and blobs\<close>

definition decrypt_string ::
    "zkgroup \<Rightarrow> group_operations \<Rightarrow> bytes \<Rightarrow> (string, group_decoding_error) result" where
  "decrypt_string Z self bs =
     and_then (ok_or GdZkGroupVerificationFailure (zk_decrypt_blob Z (group_secret_params self) bs)) (\<lambda>plain.
     map_err (\<lambda>_. WrongBlob) (from_utf8 plain))"

definition maybe_decrypt_string ::
    "zkgroup \<Rightarrow> group_operations \<Rightarrow> bytes \<Rightarrow> (string option, group_decoding_error) result" where
  "maybe_decrypt_string Z self bs =
     (if bs = [] then Ok None else map_ok Some (decrypt_string Z self bs))"

definition decrypt_member_label_text :: "zkgroup \<Rightarrow> group_operations \<Rightarrow> bytes \<Rightarrow> string option" where
  "decrypt_member_label_text Z self bs =
     (case maybe_decrypt_string Z self bs of Ok s \<Rightarrow> s | _ \<Rightarrow> None)"

definition decrypt_member_label_emoji :: "zkgroup \<Rightarrow> group_operations \<Rightarrow> bytes \<Rightarrow> string option" where
  "decrypt_member_label_emoji Z self bs =
     (case maybe_decrypt_string Z self bs of Ok s \<Rightarrow> s | _ \<Rightarrow> None)"

definition decrypt_blob :: "zkgroup \<Rightarrow> group_operations \<Rightarrow> bytes \<Rightarrow> blob_content option" where
  "decrypt_blob Z self bs =
     (if bs = [] then None
      else if length bs < 29 then None
      else case zk_decrypt_blob Z (group_secret_params self) bs of
             None \<Rightarrow> None
           | Some plaintext \<Rightarrow> (case blob_decode Z plaintext of Inl _ \<Rightarrow> None | Inr content \<Rightarrow> content))"

definition encrypt_blob_content ::
    "zkgroup \<Rightarrow> group_operations \<Rightarrow> blob_content \<Rightarrow> bytes \<Rightarrow> bytes" where
  "encrypt_blob_content Z self content randomness =
     zk_encrypt_blob Z (group_secret_params self) randomness (blob_encode Z (Some content)) 0"

definition maybe_encrypt_string ::
    "zkgroup \<Rightarrow> group_operations \<Rightarrow> string option \<Rightarrow> bytes \<Rightarrow> bytes" where
  "maybe_encrypt_string Z self s randomness =
     (case s of
        None \<Rightarrow> []
      | Some s \<Rightarrow> if s = [] then []
          else zk_encrypt_blob Z (group_secret_params self) randomness (as_bytes s) 0)"

definition encrypt_title :: "zkgroup \<Rightarrow> group_operations \<Rightarrow> string \<Rightarrow> bytes \<Rightarrow> bytes" where
  "encrypt_title Z self title r = encrypt_blob_content Z self (BlobTitle title) r"

definition encrypt_description :: "zkgroup \<Rightarrow> group_operations \<Rightarrow> string \<Rightarrow> bytes \<Rightarrow> bytes" where
  "encrypt_description Z self description r =
     encrypt_blob_content Z self (BlobDescriptionText description) r"

definition encrypt_disappearing_messages_timer ::
    "zkgroup \<Rightarrow> group_operations \<Rightarrow> timer \<Rightarrow> bytes \<Rightarrow> bytes" where
  "encrypt_disappearing_messages_timer Z self timer r =
     encrypt_blob_content Z self (BlobDisappearingMessagesDuration (duration timer)) r"

definition decrypt_title :: "zkgroup \<Rightarrow> group_operations \<Rightarrow> bytes \<Rightarrow> string" where
  "decrypt_title Z self ct =
     (case decrypt_blob Z self ct of Some (BlobTitle title) \<Rightarrow> title | _ \<Rightarrow> [])"

definition decrypt_description_text :: "zkgroup \<Rightarrow> group_operations \<Rightarrow> bytes \<Rightarrow> string option" where
  "decrypt_description_text Z self ct =
     (case decrypt_blob Z self ct of
        Some (BlobDescriptionText d) \<Rightarrow> if d = [] then None else Some d
      | _ \<Rightarrow> None)"

definition decrypt_disappearing_messages_timer ::
    "zkgroup \<Rightarrow> group_operations \<Rightarrow> bytes \<Rightarrow> timer option" where
  "decrypt_disappearing_messages_timer Z self ct =
     (case decrypt_blob Z self ct of
        Some (BlobDisappearingMessagesDuration d) \<Rightarrow> Some (Timer d)
      | _ \<Rightarrow> None)"

definition decrypt_group_avatar :: "zkgroup \<Rightarrow> group_operations \<Rightarrow> bytes \<Rightarrow> bytes option" where
  "decrypt_group_avatar Z self ct =
     (case decrypt_blob Z self ct of
        Some (BlobAvatar d) \<Rightarrow> if d = [] then None else Some d
      | _ \<Rightarrow> None)"

section \<open>Members and groups\<close>

definition decrypt_member ::
    "zkgroup \<Rightarrow> group_operations \<Rightarrow> encrypted_member \<Rightarrow> (member, group_decoding_error) result" where
  "decrypt_member Z self m =
     and_then (decrypt_profile_key_presentation Z self (em_user_id m) (em_profile_key m)
         (em_presentation m)) (\<lambda>(u, profile_key).
       let label = decrypt_member_label_text Z self (em_label_string m);
           label_emoji = decrypt_member_label_emoji Z self (em_label_emoji m)
       in and_then (role_try_from (em_role m)) (\<lambda>role.
          Ok \<lparr>m_aci = u, m_role = role, m_profile_key = profile_key,
              m_joined_at_version = em_joined_at_version m, m_label = label,
              m_label_emoji = label_emoji\<rparr>))"

definition decrypt_pending_member ::
    "zkgroup \<Rightarrow> group_operations \<Rightarrow> encrypted_pending \<Rightarrow> (pending_member, group_decoding_error) result" where
  "decrypt_pending_member Z self m =
     and_then (ok_or WrongBlob (ep_member m)) (\<lambda>inner_member.
     and_then (decrypt_service_id Z self (em_user_id inner_member)) (\<lambda>service_id.
     and_then (decrypt_aci Z self (ep_added_by_user_id m)) (\<lambda>added_by_aci.
     and_then (role_try_from (em_role inner_member)) (\<lambda>role.
     Ok \<lparr>pm_address = service_id, pm_role = role, pm_added_by_aci = added_by_aci,
         pm_timestamp = ep_timestamp m\<rparr>))))"

definition decrypt_requesting_member ::
    "zkgroup \<Rightarrow> group_operations \<Rightarrow> encrypted_requesting \<Rightarrow> (requesting_member, group_decoding_error) result" where
  "decrypt_requesting_member Z self m =
     and_then (decrypt_profile_key_presentation Z self (er_user_id m) (er_profile_key m)
         (er_presentation m)) (\<lambda>(u, profile_key).
     Ok \<lparr>rm_aci = u, rm_profile_key = profile_key, rm_timestamp = er_timestamp m\<rparr>)"

definition decrypt_banned_member ::
    "zkgroup \<Rightarrow> group_operations \<Rightarrow> encrypted_banned \<Rightarrow> (banned_member, group_decoding_error) result" where
  "decrypt_banned_member Z self m =
     and_then (decrypt_service_id Z self (eb_user_id m)) (\<lambda>user_id.
     Ok \<lparr>bm_user_id = user_id, bm_timestamp = eb_timestamp m\<rparr>)"

definition decrypt_group ::
    "zkgroup \<Rightarrow> group_operations \<Rightarrow> encrypted_group \<Rightarrow> (group, group_decoding_error) result" where
  "decrypt_group Z self g =
     and_then (collect (map (decrypt_member Z self) (eg_members g))) (\<lambda>members.
     and_then (collect (map (decrypt_pending_member Z self) (eg_members_pending_profile_key g))) (\<lambda>pending.
     and_then (collect (map (decrypt_requesting_member Z self) (eg_members_pending_admin_approval g))) (\<lambda>requesting.
     and_then (collect (map (decrypt_banned_member Z self) (eg_members_banned g))) (\<lambda>banned.
     and_then (transpose_opt (map_option access_control_try_from (eg_access_control g))) (\<lambda>access_control.
     Ok \<lparr>g_title = decrypt_title Z self (eg_title g), g_avatar = eg_avatar_url g,
         g_disappearing_messages_timer =
           decrypt_disappearing_messages_timer Z self (eg_disappearing_messages_timer g),
         g_access_control = access_control, g_version = eg_version g, g_members = members,
         g_members_pending_profile_key = pending, g_members_pending_admin_approval = requesting,
         g_invite_link_password = eg_invite_link_password g,
         g_description_text = decrypt_description_text Z self (eg_description g),
         g_announcements_only = eg_announcements_only g, g_members_banned = banned,
         g_terminated = eg_terminated g\<rparr>)))))"

end
