(* ===== verification/Group_Change.thy ===== *)
theory Group_Change
  imports Group_Operations
begin

text \<open>
  Group changes of \<open>groups_v2/operations.rs\<close>: one definition per kind of action that
  \<open>decrypt_group_change\<close> reads, their concatenation in the order of the code, and the functions
  that build actions and encrypt a change.
\<close>

section \<open>Reading a change\<close>

type_synonym change_results = "(group_change, group_decoding_error) result list"

definition read_add_members :: "zkgroup \<Rightarrow> group_operations \<Rightarrow> actions \<Rightarrow> change_results" where
  "read_add_members Z self a =
     map (\<lambda>added. map_ok NewMember (decrypt_member Z self added))
       (List.map_filter added_member (add_members a))"

definition read_delete_members :: "zkgroup \<Rightarrow> group_operations \<Rightarrow> actions \<Rightarrow> change_results" where
  "read_delete_members Z self a =
     map (\<lambda>c. map_ok DeleteMember (decrypt_aci Z self c)) (delete_members a)"

definition read_modify_member_roles :: "zkgroup \<Rightarrow> group_operations \<Rightarrow> actions \<Rightarrow> change_results" where
  "read_modify_member_roles Z self a =
     map (\<lambda>m. and_then (decrypt_aci Z self (mra_user_id m)) (\<lambda>u.
              and_then (role_try_from (mra_role m)) (\<lambda>role.
              Ok (ModifyMemberRole u role)))) (modify_member_roles a)"

definition read_modify_member_profile_keys :: "zkgroup \<Rightarrow> group_operations \<Rightarrow> actions \<Rightarrow> change_results" where
  "read_modify_member_profile_keys Z self a =
     map (\<lambda>m. map_ok (\<lambda>(u, key). ModifyMemberProfileKey u key)
              (decrypt_profile_key_presentation Z self (pka_user_id m) (pka_profile_key m)
                 (pka_presentation m))) (modify_member_profile_keys a)"

definition read_add_pending :: "zkgroup \<Rightarrow> group_operations \<Rightarrow> actions \<Rightarrow> change_results" where
  "read_add_pending Z self a =
     map (\<lambda>added. map_ok NewPendingMember (decrypt_pending_member Z self added))
       (List.map_filter id (add_members_pending_profile_key a))"

definition read_delete_pending :: "zkgroup \<Rightarrow> group_operations \<Rightarrow> actions \<Rightarrow> change_results" where
  "read_delete_pending Z self a =
     map (\<lambda>m. map_ok DeletePendingMember (decrypt_service_id Z self m))
       (delete_members_pending_profile_key a)"

definition read_promote_pending :: "zkgroup \<Rightarrow> group_operations \<Rightarrow> actions \<Rightarrow> change_results" where
  "read_promote_pending Z self a =
     map (\<lambda>m. map_ok (\<lambda>(u, key). PromotePendingMember (Aci u) key)
              (decrypt_profile_key_presentation Z self (pka_user_id m) (pka_profile_key m)
                 (pka_presentation m))) (promote_members_pending_profile_key a)"

text \<open>An optional action is an iterator over at most one element.\<close>

definition opt_list :: "'a option \<Rightarrow> 'a list" where
  "opt_list m = (case m of None \<Rightarrow> [] | Some x \<Rightarrow> [x])"

definition read_modify_title :: "zkgroup \<Rightarrow> group_operations \<Rightarrow> actions \<Rightarrow> change_results" where
  "read_modify_title Z self a =
     map (\<lambda>t. Ok (Title (decrypt_title Z self t))) (opt_list (modify_title a))"

definition read_modify_avatar :: "actions \<Rightarrow> change_results" where
  "read_modify_avatar a = map (\<lambda>avatar. Ok (Avatar avatar)) (opt_list (modify_avatar a))"

definition read_modify_description :: "zkgroup \<Rightarrow> group_operations \<Rightarrow> actions \<Rightarrow> change_results" where
  "read_modify_description Z self a =
     map (\<lambda>d. Ok (Description (decrypt_description_text Z self d))) (opt_list (modify_description a))"

definition read_modify_timer :: "zkgroup \<Rightarrow> group_operations \<Rightarrow> actions \<Rightarrow> change_results" where
  "read_modify_timer Z self a =
     map (\<lambda>t. Ok (TimerChange (decrypt_disappearing_messages_timer Z self t)))
       (opt_list (modify_disappearing_message_timer a))"

definition read_modify_attributes_access :: "actions \<Rightarrow> change_results" where
  "read_modify_attributes_access a =
     map (\<lambda>v. map_ok AttributeAccess (access_try_from v)) (opt_list (modify_attributes_access a))"

definition read_modify_member_access :: "actions \<Rightarrow> change_results" where
  "read_modify_member_access a =
     map (\<lambda>v. map_ok MemberAccess (access_try_from v)) (opt_list (modify_member_access a))"

definition read_add_banned :: "zkgroup \<Rightarrow> group_operations \<Rightarrow> actions \<Rightarrow> change_results" where
  "read_add_banned Z self a =
     map (\<lambda>m. map_ok AddBannedMember (decrypt_banned_member Z self m))
       (List.map_filter id (add_members_banned a))"

definition read_delete_banned :: "zkgroup \<Rightarrow> group_operations \<Rightarrow> actions \<Rightarrow> change_results" where
  "read_delete_banned Z self a =
     map (\<lambda>m. map_ok DeleteBannedMember (decrypt_service_id Z self m)) (delete_members_banned a)"

definition read_promote_pni_aci :: "zkgroup \<Rightarrow> group_operations \<Rightarrow> actions \<Rightarrow> change_results" where
  "read_promote_pni_aci Z self a =
     map (\<lambda>m. map_ok PromotePendingPniAciMemberProfileKey
              (decrypt_pni_aci_promotion_presentation Z self m))
       (promote_members_pending_pni_aci_profile_key a)"

definition read_modify_invite_link_access :: "actions \<Rightarrow> change_results" where
  "read_modify_invite_link_access a =
     map (\<lambda>v. map_ok InviteLinkAccess (access_try_from v))
       (opt_list (modify_add_from_invite_link_access a))"

definition read_add_requesting :: "zkgroup \<Rightarrow> group_operations \<Rightarrow> actions \<Rightarrow> change_results" where
  "read_add_requesting Z self a =
     map (\<lambda>added. map_ok NewRequestingMember (decrypt_requesting_member Z self added))
       (List.map_filter id (add_members_pending_admin_approval a))"

definition read_delete_requesting :: "zkgroup \<Rightarrow> group_operations \<Rightarrow> actions \<Rightarrow> change_results" where
  "read_delete_requesting Z self a =
     map (\<lambda>m. map_ok DeleteRequestingMember (decrypt_aci Z self m))
       (delete_members_pending_admin_approval a)"

definition read_promote_requesting :: "zkgroup \<Rightarrow> group_operations \<Rightarrow> actions \<Rightarrow> change_results" where
  "read_promote_requesting Z self a =
     map (\<lambda>m. and_then (decrypt_aci Z self (mra_user_id m)) (\<lambda>u.
              and_then (role_try_from (mra_role m)) (\<lambda>role.
              Ok (PromoteRequestingMember u role)))) (promote_members_pending_admin_approval a)"

definition read_modify_invite_link_password :: "zkgroup \<Rightarrow> actions \<Rightarrow> change_results" where
  "read_modify_invite_link_password Z a =
     map (\<lambda>p. Ok (InviteLinkPassword (base64_encode Z p))) (opt_list (modify_invite_link_password a))"

definition read_modify_announcements_only :: "actions \<Rightarrow> change_results" where
  "read_modify_announcements_only a =
     map (\<lambda>b. Ok (AnnouncementOnly b)) (opt_list (modify_announcements_only a))"

definition read_modify_member_labels :: "zkgroup \<Rightarrow> group_operations \<Rightarrow> actions \<Rightarrow> change_results" where
  "read_modify_member_labels Z self a =
     map (\<lambda>m. and_then (decrypt_service_id Z self (mla_user_id m)) (\<lambda>user_id.
              Ok (MemberLabel user_id (decrypt_member_label_emoji Z self (mla_label_emoji m))
                    (decrypt_member_label_text Z self (mla_label_string m)))))
       (modify_member_labels a)"

definition read_modify_member_label_access :: "actions \<Rightarrow> change_results" where
  "read_modify_member_label_access a =
     map (\<lambda>v. map_ok MemberLabelAccess (access_try_from v)) (opt_list (modify_member_label_access a))"

definition read_terminate_group :: "actions \<Rightarrow> change_results" where
  "read_terminate_group a = map (\<lambda>_. Ok TerminateGroup) (opt_list (terminate_group a))"

text \<open>The chain of the iterators.\<close>

definition read_changes :: "zkgroup \<Rightarrow> group_operations \<Rightarrow> actions \<Rightarrow> change_results" where
  "read_changes Z self a =
     read_add_members Z self a
     @ read_delete_members Z self a
     @ read_modify_member_roles Z self a
     @ read_modify_member_profile_keys Z self a
     @ read_add_pending Z self a
     @ read_delete_pending Z self a
     @ read_promote_pending Z self a
     @ read_modify_title Z self a
     @ read_modify_avatar a
     @ read_modify_timer Z self a
     @ read_modify_attributes_access a
     @ read_modify_description Z self a
     @ read_modify_member_access a
     @ read_add_banned Z self a
     @ read_delete_banned Z self a
     @ read_promote_pni_aci Z self a
     @ read_modify_invite_link_access a
     @ read_add_requesting Z self a
     @ read_delete_requesting Z self a
     @ read_promote_requesting Z self a
     @ read_modify_invite_link_password Z a
     @ read_modify_announcements_only a
     @ read_modify_member_labels Z self a
     @ read_modify_member_label_access a
     @ read_terminate_group a"

definition decode_actions :: "zkgroup \<Rightarrow> bytes \<Rightarrow> (actions, group_decoding_error) result" where
  "decode_actions Z bs =
     (case actions_decode Z bs of Inl e \<Rightarrow> Err (GdProtobufDecodeError e) | Inr a \<Rightarrow> Ok a)"

definition decrypt_group_change ::
    "zkgroup \<Rightarrow> group_operations \<Rightarrow> encrypted_group_change \<Rightarrow> (group_changes, group_decoding_error) result" where
  "decrypt_group_change Z self gc =
     and_then (decode_actions Z (egc_actions gc)) (\<lambda>a.
     and_then (decrypt_aci Z self (source_user_id a)) (\<lambda>editor.
     let changes = collect (read_changes Z self a) in
     and_then (ok_or WrongBlob (try_into_array 32 (group_id a))) (\<lambda>gid.
     and_then changes (\<lambda>changes.
     Ok \<lparr>gc_group_id = gid, gc_editor = editor, gc_version = act_version a,
         gc_changes = changes, gc_change_epoch = egc_change_epoch gc\<rparr>))))"

text \<open>\<open>decrypt_group_context_changes\<close> of \<open>groups_v2/mod.rs\<close> on the two fields it reads.\<close>

definition decrypt_group_context_changes ::
    "zkgroup \<Rightarrow> bytes option \<Rightarrow> bytes option \<Rightarrow> (group_changes option, group_decoding_error) result" where
  "decrypt_group_context_changes Z master_key group_change =
     (case (master_key, group_change) of
        (Some mk, Some gc) \<Rightarrow>
          if gc = [] then Ok None
          else
            and_then (ok_or WrongBlob (try_into_array 32 mk)) (\<lambda>key.
            and_then (case group_change_decode Z gc of
                        Inl e \<Rightarrow> Err (GdProtobufDecodeError e) | Inr g \<Rightarrow> Ok g) (\<lambda>encrypted.
            map_ok Some (decrypt_group_change Z
              \<lparr>group_secret_params = zk_derive_from_master_key Z key\<rparr> encrypted)))
      | _ \<Rightarrow> Ok None)"

section \<open>Building actions\<close>

text \<open>An encrypted member as the builders write it: nothing but identity, key, proof and role.\<close>

definition plain_member :: "ciphertext \<Rightarrow> ciphertext \<Rightarrow> bytes \<Rightarrow> i32 \<Rightarrow> encrypted_member" where
  "plain_member user_id key presentation role =
     \<lparr>em_user_id = user_id, em_role = role, em_profile_key = key, em_presentation = presentation,
      em_joined_at_version = 0, em_label_emoji = [], em_label_string = []\<rparr>"

definition build_add_member_action ::
    "zkgroup \<Rightarrow> group_operations \<Rightarrow> uuid \<Rightarrow> profile_key \<Rightarrow> role \<Rightarrow> (add_member_action, group_decoding_error) result" where
  "build_add_member_action Z self u key role =
     and_then (encrypt_aci Z self u) (\<lambda>user_id.
     and_then (encrypt_profile_key Z self key u) (\<lambda>profile_key.
     Ok (AddMemberAction (Some (plain_member user_id profile_key [] (role_into role))) False)))"

definition build_remove_member_action ::
    "zkgroup \<Rightarrow> group_operations \<Rightarrow> uuid \<Rightarrow> (ciphertext, group_decoding_error) result" where
  "build_remove_member_action Z self u = encrypt_aci Z self u"

definition build_modify_member_role_action ::
    "zkgroup \<Rightarrow> group_operations \<Rightarrow> uuid \<Rightarrow> role \<Rightarrow> (modify_role_action, group_decoding_error) result" where
  "build_modify_member_role_action Z self u role =
     and_then (encrypt_aci Z self u) (\<lambda>user_id. Ok (ModifyRoleAction user_id (role_into role)))"

definition build_remove_pending_member_action ::
    "zkgroup \<Rightarrow> group_operations \<Rightarrow> service_id \<Rightarrow> (ciphertext, group_decoding_error) result" where
  "build_remove_pending_member_action Z self invitee = encrypt_service_id Z self invitee"

definition build_modify_title_action :: "zkgroup \<Rightarrow> group_operations \<Rightarrow> string \<Rightarrow> bytes \<Rightarrow> ciphertext" where
  "build_modify_title_action Z self title r = encrypt_title Z self title r"

definition build_modify_description_action ::
    "zkgroup \<Rightarrow> group_operations \<Rightarrow> string \<Rightarrow> bytes \<Rightarrow> ciphertext" where
  "build_modify_description_action Z self description r = encrypt_description Z self description r"

definition build_modify_disappearing_messages_timer_action ::
    "zkgroup \<Rightarrow> group_operations \<Rightarrow> timer \<Rightarrow> bytes \<Rightarrow> ciphertext" where
  "build_modify_disappearing_messages_timer_action Z self timer r =
     encrypt_disappearing_messages_timer Z self timer r"

definition build_modify_attributes_access_action :: "access_required \<Rightarrow> i32" where
  "build_modify_attributes_access_action access = access_into access"

definition build_modify_members_access_action :: "access_required \<Rightarrow> i32" where
  "build_modify_members_access_action access = access_into access"

definition build_modify_member_label_access_action :: "access_required \<Rightarrow> i32" where
  "build_modify_member_label_access_action access = access_into access"

definition build_modify_member_label_action ::
    "zkgroup \<Rightarrow> group_operations \<Rightarrow> uuid \<Rightarrow> string option \<Rightarrow> string option \<Rightarrow> (nat \<Rightarrow> bytes)
       \<Rightarrow> (modify_label_action, group_decoding_error) result" where
  "build_modify_member_label_action Z self u label_string label_emoji rng =
     and_then (encrypt_aci Z self u) (\<lambda>user_id.
       let emoji = maybe_encrypt_string Z self label_emoji (rng 0);
           text = maybe_encrypt_string Z self label_string (rng (if label_emoji = None \<or> label_emoji = Some [] then 0 else 1))
       in Ok (ModifyLabelAction user_id emoji text))"

definition build_modify_announcements_only_action :: "bool \<Rightarrow> bool" where
  "build_modify_announcements_only_action announcements_only = announcements_only"

definition create_member_presentation ::
    "zkgroup \<Rightarrow> group_operations \<Rightarrow> bytes \<Rightarrow> bytes \<Rightarrow> bytes \<Rightarrow> bytes" where
  "create_member_presentation Z self server_public_params credential randomness =
     zk_create_presentation Z server_public_params randomness (group_secret_params self) credential"

definition build_add_member_action_with_credential ::
    "zkgroup \<Rightarrow> group_operations \<Rightarrow> bytes \<Rightarrow> role \<Rightarrow> bytes \<Rightarrow> bytes \<Rightarrow> add_member_action" where
  "build_add_member_action_with_credential Z self credential role server_public_params randomness =
     AddMemberAction (Some (plain_member [] []
       (create_member_presentation Z self server_public_params credential randomness)
       (role_into role))) False"

definition build_add_pending_member_action ::
    "zkgroup \<Rightarrow> group_operations \<Rightarrow> service_id \<Rightarrow> uuid \<Rightarrow> role
       \<Rightarrow> (encrypted_pending option, group_decoding_error) result" where
  "build_add_pending_member_action Z self invitee added_by_aci role =
     and_then (encrypt_service_id Z self invitee) (\<lambda>user_id.
     and_then (encrypt_aci Z self added_by_aci) (\<lambda>added_by.
     Ok (Some (EncryptedPending (Some (plain_member user_id [] [] (role_into role))) added_by 0))))"

definition build_promote_pending_member_action ::
    "zkgroup \<Rightarrow> group_operations \<Rightarrow> uuid \<Rightarrow> profile_key \<Rightarrow> (profile_key_action, group_decoding_error) result" where
  "build_promote_pending_member_action Z self u key =
     and_then (encrypt_aci Z self u) (\<lambda>user_id.
     and_then (encrypt_profile_key Z self key u) (\<lambda>profile_key.
     Ok (ProfileKeyAction [] user_id profile_key)))"

definition build_add_requesting_member_action ::
    "zkgroup \<Rightarrow> group_operations \<Rightarrow> uuid \<Rightarrow> profile_key \<Rightarrow> (encrypted_requesting option, group_decoding_error) result" where
  "build_add_requesting_member_action Z self u key =
     and_then (encrypt_aci Z self u) (\<lambda>user_id.
     and_then (encrypt_profile_key Z self key u) (\<lambda>profile_key.
     Ok (Some (EncryptedRequesting user_id profile_key [] 0))))"

definition build_remove_requesting_member_action ::
    "zkgroup \<Rightarrow> group_operations \<Rightarrow> uuid \<Rightarrow> (ciphertext, group_decoding_error) result" where
  "build_remove_requesting_member_action Z self u = encrypt_aci Z self u"

definition build_promote_requesting_member_action ::
    "zkgroup \<Rightarrow> group_operations \<Rightarrow> uuid \<Rightarrow> role \<Rightarrow> (modify_role_action, group_decoding_error) result" where
  "build_promote_requesting_member_action Z self u role =
     and_then (encrypt_aci Z self u) (\<lambda>user_id. Ok (ModifyRoleAction user_id (role_into role)))"

definition build_modify_invite_link_access_action :: "access_required \<Rightarrow> i32" where
  "build_modify_invite_link_access_action access = access_into access"

definition build_modify_invite_link_password_action :: "bytes \<Rightarrow> bytes" where
  "build_modify_invite_link_password_action password = password"

definition build_modify_avatar_action :: "string \<Rightarrow> string" where
  "build_modify_avatar_action avatar = avatar"

definition encrypt_group_change ::
    "zkgroup \<Rightarrow> group_operations \<Rightarrow> uuid \<Rightarrow> actions \<Rightarrow> (encrypted_group_change, group_decoding_error) result" where
  "encrypt_group_change Z self editor a =
     and_then (encrypt_aci Z self editor) (\<lambda>user_id.
       let a = a\<lparr>source_user_id := user_id,
                 group_id := zk_group_identifier Z (group_secret_params self)\<rparr>
       in Ok (EncryptedGroupChange (actions_encode Z a) [] 0))"

section \<open>Creating a group\<close>

text \<open>
  The loop over the candidates: self is skipped, a candidate with a credential becomes a
  member, any other is invited. The number of presentations made so far is the number of
  members, so it selects the draw of random bytes.
\<close>

definition add_candidate ::
    "zkgroup \<Rightarrow> group_operations \<Rightarrow> bytes \<Rightarrow> uuid \<Rightarrow> (nat \<Rightarrow> bytes) \<Rightarrow> group_member_candidate
       \<Rightarrow> encrypted_member list \<times> encrypted_pending list
       \<Rightarrow> (encrypted_member list \<times> encrypted_pending list, group_decoding_error) result" where
  "add_candidate Z self spp self_aci os_rng candidate st =
     (case st of (members, pending) \<Rightarrow>
        if cand_service_id candidate = Aci self_aci then Ok (members, pending)
        else case cand_credential candidate of
          Some credential \<Rightarrow>
            Ok (members @ [plain_member [] []
                  (create_member_presentation Z self spp credential (os_rng (length members)))
                  (role_into RoleDefault)], pending)
        | None \<Rightarrow>
            and_then (encrypt_service_id Z self (cand_service_id candidate)) (\<lambda>user_id.
            and_then (encrypt_aci Z self self_aci) (\<lambda>added_by.
            Ok (members, pending @
              [EncryptedPending (Some (plain_member user_id [] [] (role_into RoleDefault))) added_by 0]))))"

fun add_candidates ::
    "zkgroup \<Rightarrow> group_operations \<Rightarrow> bytes \<Rightarrow> uuid \<Rightarrow> (nat \<Rightarrow> bytes) \<Rightarrow> group_member_candidate list
       \<Rightarrow> encrypted_member list \<times> encrypted_pending list
       \<Rightarrow> (encrypted_member list \<times> encrypted_pending list, group_decoding_error) result" where
  "add_candidates Z self spp self_aci os_rng [] st = Ok st"
| "add_candidates Z self spp self_aci os_rng (c # cs) st =
     and_then (add_candidate Z self spp self_aci os_rng c st)
       (add_candidates Z self spp self_aci os_rng cs)"

definition encrypt_group_with_credentials ::
    "zkgroup \<Rightarrow> group_operations \<Rightarrow> string \<Rightarrow> string option \<Rightarrow> timer option \<Rightarrow> access_control option
       \<Rightarrow> bytes \<Rightarrow> group_member_candidate list \<Rightarrow> bytes \<Rightarrow> string \<Rightarrow> (nat \<Rightarrow> bytes) \<Rightarrow> (nat \<Rightarrow> bytes)
       \<Rightarrow> (encrypted_group, group_decoding_error) result" where
  "encrypt_group_with_credentials Z self title description timer access_control self_credential
       member_candidates spp avatar_url rng os_rng =
     (let self_member = plain_member [] []
            (create_member_presentation Z self spp self_credential (os_rng 0))
            (role_into RoleAdministrator);
          self_aci = zk_credential_aci Z self_credential
      in and_then (add_candidates Z self spp self_aci os_rng member_candidates ([self_member], []))
         (\<lambda>(members, pending).
           Ok \<lparr>eg_public_key = zk_public_params Z (group_secret_params self),
               eg_title = encrypt_title Z self title (rng 0),
               eg_description = (case description of
                   None \<Rightarrow> [] | Some d \<Rightarrow> encrypt_description Z self d (rng 1)),
               eg_avatar_url = avatar_url,
               eg_disappearing_messages_timer = (case timer of
                   None \<Rightarrow> []
                 | Some t \<Rightarrow> encrypt_disappearing_messages_timer Z self t
                     (rng (if description = None then 1 else 2))),
               eg_access_control = map_option access_control_into access_control,
               eg_version = 0,
               eg_members = members,
               eg_members_pending_profile_key = pending,
               eg_members_pending_admin_approval = [],
               eg_invite_link_password = [],
               eg_announcements_only = False,
               eg_members_banned = [],
               eg_terminated = False\<rparr>))"

end
