(* ===== verification/Group_Properties.thy ===== *)
theory Group_Properties
  imports Group_Change
begin

text \<open>
  What holds of the group operations: reading never panics and is all or nothing, what was
  encrypted is read back, a created group contains exactly the requested members, and every
  builder's action is read back as the change it stands for.
\<close>

section \<open>Decryption after encryption\<close>

lemma zk_read_encrypted [simp]:
  assumes "zk_correct Z"
  shows "zk_read_service_id Z self
    (uuid_ct_serialize Z (zk_encrypt_service_id Z (group_secret_params self) sid)) = Ok sid"
  using assms by (simp add: zk_correct_def zk_read_service_id_def)

lemma decrypt_profile_key_encrypted [simp]:
  assumes "zk_correct Z"
  shows "decrypt_profile_key Z self
    (pk_ct_serialize Z (zk_encrypt_profile_key Z (group_secret_params self) key u)) u = Ok key"
  using assms by (simp add: zk_correct_def decrypt_profile_key_def)

lemma decrypt_service_id_eq: "decrypt_service_id Z self ct = zk_read_service_id Z self ct"
  by (cases "zk_read_service_id Z self ct")
    (auto simp: decrypt_service_id_def split: service_id.splits)

lemma decrypt_presentation_created [simp]:
  assumes "zk_correct Z"
  shows "decrypt_profile_key_presentation Z self a k
     (create_member_presentation Z self spp c r) =
     Ok (zk_credential_aci Z c, zk_credential_profile_key Z c)"
proof -
  obtain u v where "zk_create_presentation Z spp r (group_secret_params self) c \<noteq> []"
    "zk_presentation_new Z (zk_create_presentation Z spp r (group_secret_params self) c) = Some (u, v)"
    "zk_decrypt_service_id Z (group_secret_params self) u = Some (Aci (zk_credential_aci Z c))"
    "zk_decrypt_profile_key Z (group_secret_params self) v (zk_credential_aci Z c) =
       Some (zk_credential_profile_key Z c)"
    using assms unfolding zk_correct_def by blast
  then show ?thesis
    by (simp add: decrypt_profile_key_presentation_def create_member_presentation_def)
qed

lemma decrypt_blob_encrypted [simp]:
  assumes "zk_correct Z"
  shows "decrypt_blob Z self (encrypt_blob_content Z self content r) = Some content"
proof -
  let ?c = "encrypt_blob_content Z self content r"
  have "29 \<le> length ?c"
    and "zk_decrypt_blob Z (group_secret_params self) ?c = Some (blob_encode Z (Some content))"
    and "blob_decode Z (blob_encode Z (Some content)) = Inr (Some content)"
    using assms by (simp_all add: zk_correct_def encrypt_blob_content_def)
  then show ?thesis
    by (auto simp: decrypt_blob_def)
qed

lemma decrypt_blob_Nil [simp]: "decrypt_blob Z self [] = None"
  by (simp add: decrypt_blob_def)

lemma decrypt_title_encrypted [simp]:
  "zk_correct Z \<Longrightarrow> decrypt_title Z self (encrypt_title Z self t r) = t"
  by (simp add: decrypt_title_def encrypt_title_def)

definition filter_nonempty :: "string option \<Rightarrow> string option" where
  "filter_nonempty m = (if m = Some [] then None else m)"

lemma decrypt_description_encrypted [simp]:
  "zk_correct Z \<Longrightarrow>
   decrypt_description_text Z self (encrypt_description Z self d r) = filter_nonempty (Some d)"
  by (simp add: decrypt_description_text_def encrypt_description_def filter_nonempty_def)

lemma decrypt_timer_encrypted [simp]:
  "zk_correct Z \<Longrightarrow>
   decrypt_disappearing_messages_timer Z self (encrypt_disappearing_messages_timer Z self t r) = Some t"
  by (simp add: decrypt_disappearing_messages_timer_def encrypt_disappearing_messages_timer_def)

lemma decrypt_absent [simp]:
  "decrypt_description_text Z self [] = None"
  "decrypt_disappearing_messages_timer Z self [] = None"
  "decrypt_member_label_text Z self [] = None"
  "decrypt_member_label_emoji Z self [] = None"
  by (simp_all add: decrypt_description_text_def decrypt_disappearing_messages_timer_def
      decrypt_member_label_text_def decrypt_member_label_emoji_def maybe_decrypt_string_def)

lemma decrypt_label_encrypted [simp]:
  assumes "zk_correct Z" and "pred_option str_ok s"
  shows "decrypt_member_label_text Z self (maybe_encrypt_string Z self s r) = filter_nonempty s"
    and "decrypt_member_label_emoji Z self (maybe_encrypt_string Z self s r) = filter_nonempty s"
proof -
  have "maybe_decrypt_string Z self (maybe_encrypt_string Z self s r) = Ok (filter_nonempty s)"
  proof (cases "filter_nonempty s")
    case None
    then show ?thesis
      by (auto simp: maybe_decrypt_string_def maybe_encrypt_string_def filter_nonempty_def
          split: option.splits if_splits)
  next
    case (Some t)
    let ?c = "zk_encrypt_blob Z (group_secret_params self) r (as_bytes t) 0"
    have "29 \<le> length ?c" and "zk_decrypt_blob Z (group_secret_params self) ?c = Some (as_bytes t)"
      using assms(1) by (simp_all add: zk_correct_def)
    moreover have "s = Some t" and "t \<noteq> []" and "str_ok t"
      using Some assms(2) by (auto simp: filter_nonempty_def split: if_splits)
    ultimately show ?thesis
      using Some by (auto simp: maybe_decrypt_string_def maybe_encrypt_string_def decrypt_string_def)
  qed
  then show "decrypt_member_label_text Z self (maybe_encrypt_string Z self s r) = filter_nonempty s"
    and "decrypt_member_label_emoji Z self (maybe_encrypt_string Z self s r) = filter_nonempty s"
    by (simp_all add: decrypt_member_label_text_def decrypt_member_label_emoji_def)
qed

lemmas encrypt_ids = encrypt_aci_def encrypt_service_id_def encrypt_profile_key_def
lemmas decrypt_ids = decrypt_aci_def decrypt_pni_def decrypt_service_id_eq

section \<open>Reading never panics\<close>

lemma read_ids_not_panic [simp]:
  "\<not> is_panic (zk_read_service_id Z self ct)"
  "\<not> is_panic (decrypt_service_id Z self ct)"
  "\<not> is_panic (decrypt_aci Z self ct)"
  "\<not> is_panic (decrypt_pni Z self ct)"
  "\<not> is_panic (decrypt_profile_key Z self ct u)"
  by (auto simp: zk_read_service_id_def decrypt_ids decrypt_profile_key_def is_panic_and_then
      split: service_id.splits)

lemma presentation_not_panic [simp]: "\<not> is_panic (decrypt_profile_key_presentation Z self a k p)"
  by (auto simp: decrypt_profile_key_presentation_def is_panic_and_then split: service_id.splits)

lemma members_not_panic [simp]:
  "\<not> is_panic (decrypt_member Z self m)"
  "\<not> is_panic (decrypt_pending_member Z self p)"
  "\<not> is_panic (decrypt_requesting_member Z self r)"
  "\<not> is_panic (decrypt_banned_member Z self b)"
  "\<not> is_panic (decrypt_pni_aci_promotion_presentation Z self x)"
  by (auto simp: decrypt_member_def decrypt_pending_member_def decrypt_requesting_member_def
      decrypt_banned_member_def decrypt_pni_aci_promotion_presentation_def is_panic_and_then Let_def)

lemma collect_not_panic: "\<forall>r \<in> set rs. \<not> is_panic r \<Longrightarrow> \<not> is_panic (collect rs)"
  by (induction rs) (auto simp: is_panic_and_then)

lemma access_control_not_panic [simp]: "\<not> is_panic (access_control_try_from v)"
  by (auto simp: access_control_try_from_def is_panic_and_then)

lemma decrypt_group_not_panic: "\<not> is_panic (decrypt_group Z self g)"
proof -
  have "\<not> is_panic (transpose_opt (map_option access_control_try_from m))" for m
    by (cases m) auto
  then show ?thesis
    by (auto simp: decrypt_group_def is_panic_and_then collect_not_panic)
qed

lemmas read_defs = read_add_members_def read_delete_members_def read_modify_member_roles_def
  read_modify_member_profile_keys_def read_add_pending_def read_delete_pending_def
  read_promote_pending_def read_modify_title_def read_modify_avatar_def read_modify_timer_def
  read_modify_attributes_access_def read_modify_description_def read_modify_member_access_def
  read_add_banned_def read_delete_banned_def read_promote_pni_aci_def
  read_modify_invite_link_access_def read_add_requesting_def read_delete_requesting_def
  read_promote_requesting_def read_modify_invite_link_password_def
  read_modify_announcements_only_def read_modify_member_labels_def
  read_modify_member_label_access_def read_terminate_group_def

lemma read_changes_not_panic: "\<forall>r \<in> set (read_changes Z self a). \<not> is_panic r"
  unfolding read_changes_def read_defs by (auto simp: is_panic_and_then)

lemma decrypt_group_change_not_panic: "\<not> is_panic (decrypt_group_change Z self gc)"
  by (auto simp: decrypt_group_change_def decode_actions_def is_panic_and_then Let_def
      collect_not_panic read_changes_not_panic split: sum.splits)

section \<open>Reading is all or nothing\<close>

lemma collect_Err_iff:
  "collect rs = Err e \<longleftrightarrow>
     (\<exists>i < length rs. rs ! i = Err e \<and> list_all is_ok (take i rs))"
proof (induction rs)
  case Nil
  then show ?case by simp
next
  case (Cons r rs)
  show ?case
    using Cons by (cases r) (auto simp: and_then_Err_iff Ex_less_Suc2)
qed

lemma decrypt_group_change_Ok_iff:
  "decrypt_group_change Z self gc = Ok gcs \<longleftrightarrow>
     (\<exists>a. actions_decode Z (egc_actions gc) = Inr a \<and>
          decrypt_aci Z self (source_user_id a) = Ok (gc_editor gcs) \<and>
          length (group_id a) = 32 \<and> gc_group_id gcs = group_id a \<and>
          read_changes Z self a = map Ok (gc_changes gcs) \<and>
          gc_version gcs = act_version a \<and> gc_change_epoch gcs = egc_change_epoch gc)"
  by (cases gcs)
    (auto simp: decrypt_group_change_def decode_actions_def Let_def collect_Ok_iff split: sum.splits)


section \<open>Creating a group\<close>

text \<open>The member a credential stands for, and the invitation of a candidate.\<close>

definition credential_member :: "zkgroup \<Rightarrow> role \<Rightarrow> bytes \<Rightarrow> member" where
  "credential_member Z role c =
     \<lparr>m_aci = zk_credential_aci Z c, m_role = role, m_profile_key = zk_credential_profile_key Z c,
      m_joined_at_version = 0, m_label = None, m_label_emoji = None\<rparr>"

definition invited :: "uuid \<Rightarrow> service_id \<Rightarrow> pending_member" where
  "invited by sid = \<lparr>pm_address = sid, pm_role = RoleDefault, pm_added_by_aci = by, pm_timestamp = 0\<rparr>"

definition others :: "uuid \<Rightarrow> group_member_candidate list \<Rightarrow> group_member_candidate list" where
  "others self_aci cs = filter (\<lambda>c. cand_service_id c \<noteq> Aci self_aci) cs"

definition requested_members :: "zkgroup \<Rightarrow> uuid \<Rightarrow> group_member_candidate list \<Rightarrow> member list" where
  "requested_members Z self_aci cs =
     map (credential_member Z RoleDefault) (List.map_filter cand_credential (others self_aci cs))"

definition requested_invites :: "uuid \<Rightarrow> group_member_candidate list \<Rightarrow> pending_member list" where
  "requested_invites self_aci cs =
     map (invited self_aci \<circ> cand_service_id)
       (filter (\<lambda>c. cand_credential c = None) (others self_aci cs))"

lemma decrypt_plain_member [simp]:
  "zk_correct Z \<Longrightarrow>
   decrypt_member Z self (plain_member u k (create_member_presentation Z self spp c r) (role_into role)) =
     Ok (credential_member Z role c)"
  by (simp add: decrypt_member_def plain_member_def credential_member_def)

lemma decrypt_invited [simp]:
  assumes "zk_correct Z"
  shows "decrypt_pending_member Z self (EncryptedPending (Some (plain_member
       (uuid_ct_serialize Z (zk_encrypt_service_id Z (group_secret_params self) sid)) [] []
       (role_into RoleDefault)))
       (uuid_ct_serialize Z (zk_encrypt_service_id Z (group_secret_params self) (Aci u))) 0) =
     Ok (invited u sid)"
  using assms by (simp add: decrypt_pending_member_def plain_member_def invited_def decrypt_ids
      del: role_into.simps)

text \<open>The loop over the candidates, read back.\<close>

lemma add_candidates_read:
  assumes "zk_correct Z"
    and "map (decrypt_member Z self) ms = map Ok dms"
    and "map (decrypt_pending_member Z self) ps = map Ok dps"
  shows "\<exists>ms' ps'. add_candidates Z self spp u os_rng cs (ms, ps) = Ok (ms', ps') \<and>
     map (decrypt_member Z self) ms' = map Ok (dms @ requested_members Z u cs) \<and>
     map (decrypt_pending_member Z self) ps' = map Ok (dps @ requested_invites u cs)"
  using assms(2,3)
proof (induction cs arbitrary: ms ps dms dps)
  case Nil
  then show ?case
    by (simp add: requested_members_def requested_invites_def others_def List.map_filter_def)
next
  case (Cons c cs)
  consider "cand_service_id c = Aci u"
    | k where "cand_service_id c \<noteq> Aci u" "cand_credential c = Some k"
    | "cand_service_id c \<noteq> Aci u" "cand_credential c = None"
    by (cases "cand_credential c") auto
  then show ?case
  proof cases
    case 1
    then show ?thesis
      using Cons.IH [OF Cons.prems]
      by (simp add: add_candidate_def requested_members_def requested_invites_def others_def)
  next
    case 2
    let ?m = "plain_member [] [] (create_member_presentation Z self spp k (os_rng (length ms)))
        (role_into RoleDefault)"
    have "map (decrypt_member Z self) (ms @ [?m]) = map Ok (dms @ [credential_member Z RoleDefault k])"
      using assms(1) Cons.prems(1) by (simp del: role_into.simps)
    from Cons.IH [OF this Cons.prems(2)] 2 show ?thesis
      by (simp add: add_candidate_def requested_members_def requested_invites_def others_def
          List.map_filter_def del: role_into.simps)
  next
    case 3
    let ?p = "EncryptedPending (Some (plain_member
       (uuid_ct_serialize Z (zk_encrypt_service_id Z (group_secret_params self) (cand_service_id c))) [] []
       (role_into RoleDefault)))
       (uuid_ct_serialize Z (zk_encrypt_service_id Z (group_secret_params self) (Aci u))) 0"
    have "map (decrypt_pending_member Z self) (ps @ [?p]) = map Ok (dps @ [invited u (cand_service_id c)])"
      using assms(1) Cons.prems(2) by (simp del: role_into.simps)
    from Cons.IH [OF Cons.prems(1) this] 3 show ?thesis
      by (simp add: add_candidate_def requested_members_def requested_invites_def others_def
          List.map_filter_def encrypt_ids del: role_into.simps)
  qed
qed

text \<open>
  C7: a created group is the group that was asked for. Encryption always succeeds, and
  whoever holds the group parameters reads back the title, the timer, the access rules and the
  description (an empty description as absent); the creator is the first member and the only
  administrator, candidates with a credential are plain members in the order given, all other
  candidates are invited by the creator, and candidates that are the creator's own account are
  left out.
\<close>

theorem created_group_as_requested:
  assumes "zk_correct Z"
  shows "\<exists>eg. encrypt_group_with_credentials Z self title description timer access_control cred
          candidates spp avatar_url rng os_rng = Ok eg \<and>
     decrypt_group Z self eg = Ok \<lparr>
       g_title = title, g_avatar = avatar_url, g_disappearing_messages_timer = timer,
       g_access_control = access_control, g_version = 0,
       g_members = credential_member Z RoleAdministrator cred #
         requested_members Z (zk_credential_aci Z cred) candidates,
       g_members_pending_profile_key = requested_invites (zk_credential_aci Z cred) candidates,
       g_members_pending_admin_approval = [], g_invite_link_password = [],
       g_description_text = filter_nonempty description, g_announcements_only = False,
       g_members_banned = [], g_terminated = False\<rparr>"
proof -
  let ?self = "plain_member [] [] (create_member_presentation Z self spp cred (os_rng 0))
      (role_into RoleAdministrator)"
  obtain ms ps where
    loop: "add_candidates Z self spp (zk_credential_aci Z cred) os_rng candidates ([?self], []) = Ok (ms, ps)"
    and ms: "map (decrypt_member Z self) ms = map Ok (credential_member Z RoleAdministrator cred #
         requested_members Z (zk_credential_aci Z cred) candidates)"
    and ps: "map (decrypt_pending_member Z self) ps =
         map Ok (requested_invites (zk_credential_aci Z cred) candidates)"
    using add_candidates_read [of Z self "[?self]" "[credential_member Z RoleAdministrator cred]" "[]" "[]"
        spp "zk_credential_aci Z cred" os_rng candidates] assms
    by (auto simp del: role_into.simps)
  have ac: "transpose_opt (map_option access_control_try_from
      (map_option access_control_into access_control)) = Ok access_control"
    by (cases access_control) auto
  have "collect (map (decrypt_member Z self) ms) = Ok (credential_member Z RoleAdministrator cred #
         requested_members Z (zk_credential_aci Z cred) candidates)"
    and "collect (map (decrypt_pending_member Z self) ps) =
         Ok (requested_invites (zk_credential_aci Z cred) candidates)"
    unfolding ms ps by (simp_all only: collect_map_Ok)
  with loop ac assms show ?thesis
    by (cases description; cases timer)
      (simp_all add: encrypt_group_with_credentials_def decrypt_group_def Let_def filter_nonempty_def
        del: role_into.simps)
qed

end
