(* ===== verification/Group_Requests.thy ===== *)
theory Group_Requests
  imports Group_Properties
begin

text \<open>
  The action builders against the reader. A request lists what a client wants changed; the
  builders turn it into actions, and reading the encrypted change returns the request. A
  concrete instance of the packages shows that the hypotheses about them can hold.
\<close>

section \<open>A concrete instance of the packages\<close>

definition sample_blob_encode :: "blob_content option \<Rightarrow> bytes" where
  "sample_blob_encode b = (case b of
       None \<Rightarrow> []
     | Some (BlobTitle s) \<Rightarrow> 1 # as_bytes s
     | Some (BlobAvatar a) \<Rightarrow> 2 # a
     | Some (BlobDisappearingMessagesDuration d) \<Rightarrow> 3 # replicate (unat d) 0
     | Some (BlobDescriptionText s) \<Rightarrow> 4 # as_bytes s)"

definition sample_blob_decode :: "bytes \<Rightarrow> string + blob_content option" where
  "sample_blob_decode bs = (case bs of
       [] \<Rightarrow> Inr None
     | t # r \<Rightarrow>
         if t = 1 then Inr (Some (BlobTitle (map char_of_byte r)))
         else if t = 2 then Inr (Some (BlobAvatar r))
         else if t = 3 then Inr (Some (BlobDisappearingMessagesDuration (word_of_nat (length r))))
         else if t = 4 then Inr (Some (BlobDescriptionText (map char_of_byte r)))
         else Inl ''unknown field'')"

definition sample_zk :: "actions \<Rightarrow> zkgroup" where
  "sample_zk message = \<lparr>
     uuid_ct_serialize = id, uuid_ct_deserialize = Some,
     pk_ct_serialize = id, pk_ct_deserialize = Some,
     zk_encrypt_service_id = (\<lambda>g s. case s of Aci u \<Rightarrow> 1 # u | Pni u \<Rightarrow> 2 # u),
     zk_decrypt_service_id = (\<lambda>g c. case c of
         [] \<Rightarrow> None | t # u \<Rightarrow> if t = 1 then Some (Aci u) else if t = 2 then Some (Pni u) else None),
     zk_encrypt_profile_key = (\<lambda>g k u. k),
     zk_decrypt_profile_key = (\<lambda>g k u. Some k),
     zk_presentation_new = (\<lambda>p. case p of [] \<Rightarrow> None | t # c \<Rightarrow> Some (1 # take 1 c, drop 1 c)),
     zk_create_presentation = (\<lambda>s r g c. 7 # c),
     zk_credential_aci = take 1, zk_credential_profile_key = drop 1,
     zk_encrypt_blob = (\<lambda>g r m p. replicate 29 0 @ m),
     zk_decrypt_blob = (\<lambda>g c. Some (drop 29 c)),
     zk_public_params = id, zk_group_identifier = (\<lambda>g. replicate 32 9),
     zk_derive_from_master_key = id,
     blob_encode = sample_blob_encode, blob_decode = sample_blob_decode,
     actions_encode = (\<lambda>a. [5]), actions_decode = (\<lambda>bs. Inr message),
     group_change_decode = (\<lambda>bs. Inr (EncryptedGroupChange bs [] 0)),
     base64_encode = map char_of_byte\<rparr>"

lemma sample_blob_codec: "sample_blob_decode (sample_blob_encode b) = Inr b"
  by (cases b)
    (auto simp: sample_blob_encode_def sample_blob_decode_def split: blob_content.splits)

lemma sample_zk_correct: "zk_correct (sample_zk message)"
  by (auto simp: zk_correct_def sample_zk_def sample_blob_codec split: service_id.splits)

section \<open>Requests\<close>

record change_request =
  cr_add :: "(uuid \<times> profile_key \<times> role) list"
  cr_remove :: "uuid list"
  cr_roles :: "(uuid \<times> role) list"
  cr_invite :: "(service_id \<times> uuid \<times> role) list"
  cr_uninvite :: "service_id list"
  cr_accept :: "(uuid \<times> profile_key) list"
  cr_title :: "string option"
  cr_avatar :: "string option"
  cr_timer :: "timer option"
  cr_attributes_access :: "access_required option"
  cr_description :: "string option"
  cr_members_access :: "access_required option"
  cr_link_access :: "access_required option"
  cr_join :: "(uuid \<times> profile_key) list"
  cr_withdraw :: "uuid list"
  cr_approve :: "(uuid \<times> role) list"
  cr_link_password :: "bytes option"
  cr_announcements_only :: "bool option"
  cr_labels :: "(uuid \<times> string option \<times> string option) list"
  cr_label_access :: "access_required option"

text \<open>A message without actions, as \<open>Default::default()\<close> makes it.\<close>

definition no_actions :: actions where
  "no_actions = \<lparr>source_user_id = [], group_id = [], act_version = 0, add_members = [],
     delete_members = [], modify_member_roles = [], modify_member_profile_keys = [],
     add_members_pending_profile_key = [], delete_members_pending_profile_key = [],
     promote_members_pending_profile_key = [], modify_title = None, modify_avatar = None,
     modify_disappearing_message_timer = None, modify_attributes_access = None,
     modify_member_access = None, modify_add_from_invite_link_access = None,
     add_members_pending_admin_approval = [], delete_members_pending_admin_approval = [],
     promote_members_pending_admin_approval = [], modify_invite_link_password = None,
     modify_description = None, modify_announcements_only = None, add_members_banned = [],
     delete_members_banned = [], promote_members_pending_pni_aci_profile_key = [],
     modify_member_labels = [], modify_member_label_access = None, terminate_group = None\<rparr>"

text \<open>All builders applied to the parts of a request.\<close>

definition build_request ::
    "zkgroup \<Rightarrow> group_operations \<Rightarrow> u32 \<Rightarrow> change_request \<Rightarrow> (nat \<Rightarrow> bytes) \<Rightarrow> (actions, group_decoding_error) result" where
  "build_request Z self version q rng =
     and_then (collect (map (\<lambda>(u, k, r). build_add_member_action Z self u k r) (cr_add q))) (\<lambda>add.
     and_then (collect (map (build_remove_member_action Z self) (cr_remove q))) (\<lambda>remove.
     and_then (collect (map (\<lambda>(u, r). build_modify_member_role_action Z self u r) (cr_roles q))) (\<lambda>roles.
     and_then (collect (map (\<lambda>(s, b, r). build_add_pending_member_action Z self s b r) (cr_invite q))) (\<lambda>invite.
     and_then (collect (map (build_remove_pending_member_action Z self) (cr_uninvite q))) (\<lambda>uninvite.
     and_then (collect (map (\<lambda>(u, k). build_promote_pending_member_action Z self u k) (cr_accept q))) (\<lambda>accept.
     and_then (collect (map (\<lambda>(u, k). build_add_requesting_member_action Z self u k) (cr_join q))) (\<lambda>join.
     and_then (collect (map (build_remove_requesting_member_action Z self) (cr_withdraw q))) (\<lambda>withdraw.
     and_then (collect (map (\<lambda>(u, r). build_promote_requesting_member_action Z self u r) (cr_approve q))) (\<lambda>approve.
     and_then (collect (map (\<lambda>(u, t, e). build_modify_member_label_action Z self u t e rng) (cr_labels q))) (\<lambda>labels.
     Ok (no_actions\<lparr>act_version := version, add_members := add, delete_members := remove,
       modify_member_roles := roles, add_members_pending_profile_key := invite,
       delete_members_pending_profile_key := uninvite, promote_members_pending_profile_key := accept,
       modify_title := map_option (\<lambda>t. build_modify_title_action Z self t (rng 0)) (cr_title q),
       modify_avatar := map_option build_modify_avatar_action (cr_avatar q),
       modify_disappearing_message_timer :=
         map_option (\<lambda>t. build_modify_disappearing_messages_timer_action Z self t (rng 1)) (cr_timer q),
       modify_attributes_access := map_option build_modify_attributes_access_action (cr_attributes_access q),
       modify_member_access := map_option build_modify_members_access_action (cr_members_access q),
       modify_add_from_invite_link_access :=
         map_option build_modify_invite_link_access_action (cr_link_access q),
       add_members_pending_admin_approval := join, delete_members_pending_admin_approval := withdraw,
       promote_members_pending_admin_approval := approve,
       modify_invite_link_password :=
         map_option build_modify_invite_link_password_action (cr_link_password q),
       modify_description := map_option (\<lambda>d. build_modify_description_action Z self d (rng 2)) (cr_description q),
       modify_announcements_only :=
         map_option build_modify_announcements_only_action (cr_announcements_only q),
       modify_member_labels := labels,
       modify_member_label_access := map_option build_modify_member_label_access_action (cr_label_access q)\<rparr>)))))))))))"

text \<open>The changes a request stands for, in the order of the reader.\<close>

definition requested_changes :: "zkgroup \<Rightarrow> change_request \<Rightarrow> group_change list" where
  "requested_changes Z q =
     map (\<lambda>(u, k, r). NewMember \<lparr>m_aci = u, m_role = r, m_profile_key = k, m_joined_at_version = 0,
            m_label = None, m_label_emoji = None\<rparr>) (cr_add q)
     @ map DeleteMember (cr_remove q)
     @ map (\<lambda>(u, r). ModifyMemberRole u r) (cr_roles q)
     @ map (\<lambda>(s, b, r). NewPendingMember \<lparr>pm_address = s, pm_role = r, pm_added_by_aci = b,
            pm_timestamp = 0\<rparr>) (cr_invite q)
     @ map DeletePendingMember (cr_uninvite q)
     @ map (\<lambda>(u, k). PromotePendingMember (Aci u) k) (cr_accept q)
     @ map Title (opt_list (cr_title q))
     @ map Avatar (opt_list (cr_avatar q))
     @ map (\<lambda>t. TimerChange (Some t)) (opt_list (cr_timer q))
     @ map AttributeAccess (opt_list (cr_attributes_access q))
     @ map (\<lambda>d. Description (filter_nonempty (Some d))) (opt_list (cr_description q))
     @ map MemberAccess (opt_list (cr_members_access q))
     @ map InviteLinkAccess (opt_list (cr_link_access q))
     @ map (\<lambda>(u, k). NewRequestingMember \<lparr>rm_aci = u, rm_profile_key = k, rm_timestamp = 0\<rparr>) (cr_join q)
     @ map DeleteRequestingMember (cr_withdraw q)
     @ map (\<lambda>(u, r). PromoteRequestingMember u r) (cr_approve q)
     @ map (\<lambda>p. InviteLinkPassword (base64_encode Z p)) (opt_list (cr_link_password q))
     @ map AnnouncementOnly (opt_list (cr_announcements_only q))
     @ map (\<lambda>(u, t, e). MemberLabel (Aci u) (filter_nonempty e) (filter_nonempty t)) (cr_labels q)
     @ map MemberLabelAccess (opt_list (cr_label_access q))"

definition labels_ok :: "change_request \<Rightarrow> bool" where
  "labels_ok q \<longleftrightarrow> list_all (\<lambda>(u, t, e). pred_option str_ok t \<and> pred_option str_ok e) (cr_labels q)"

section \<open>Building and reading\<close>

lemmas build_defs = build_add_member_action_def build_remove_member_action_def
  build_modify_member_role_action_def build_add_pending_member_action_def
  build_remove_pending_member_action_def build_promote_pending_member_action_def
  build_add_requesting_member_action_def build_remove_requesting_member_action_def
  build_promote_requesting_member_action_def build_modify_member_label_action_def
  build_modify_title_action_def build_modify_avatar_action_def
  build_modify_disappearing_messages_timer_action_def build_modify_attributes_access_action_def
  build_modify_description_action_def build_modify_members_access_action_def
  build_modify_invite_link_access_action_def build_modify_invite_link_password_action_def
  build_modify_announcements_only_action_def build_modify_member_label_access_action_def

text \<open>
  A builder and the reader of its action: the builder succeeds on every input of the list and
  the reader gives the change each input stands for.
\<close>

lemma collect_build_read:
  assumes "\<And>x. x \<in> set xs \<Longrightarrow> \<exists>y. build x = Ok y \<and> read y = Ok (change x)"
  shows "\<exists>ys. collect (map build xs) = Ok ys \<and> map read ys = map (\<lambda>x. Ok (change x)) xs"
  using assms
proof (induction xs)
  case (Cons x xs)
  obtain y where "build x = Ok y" "read y = Ok (change x)"
    using Cons.prems [of x] by auto
  moreover obtain ys where "collect (map build xs) = Ok ys" "map read ys = map (\<lambda>x. Ok (change x)) xs"
    using Cons.IH Cons.prems by auto
  ultimately show ?case by simp
qed simp

lemma collect_build_read_filter:
  assumes "\<And>x. x \<in> set xs \<Longrightarrow> \<exists>y z. build x = Ok y \<and> sel y = Some z \<and> read z = Ok (change x)"
  shows "\<exists>ys. collect (map build xs) = Ok ys \<and>
    map read (List.map_filter sel ys) = map (\<lambda>x. Ok (change x)) xs"
  using assms
proof (induction xs)
  case (Cons x xs)
  obtain y z where "build x = Ok y" "sel y = Some z" "read z = Ok (change x)"
    using Cons.prems [of x] by auto
  moreover obtain ys where "collect (map build xs) = Ok ys"
    "map read (List.map_filter sel ys) = map (\<lambda>x. Ok (change x)) xs"
    using Cons.IH Cons.prems by auto
  ultimately show ?case by (simp add: List.map_filter_def)
qed (simp add: List.map_filter_def)

lemmas read_one = decrypt_member_def plain_member_def decrypt_profile_key_presentation_def
  decrypt_pending_member_def decrypt_requesting_member_def Let_def

lemma build_read_add:
  assumes "zk_correct Z"
  shows "\<exists>ys. collect (map (\<lambda>(u, k, r). build_add_member_action Z self u k r) xs) = Ok ys \<and>
     map (\<lambda>added. map_ok NewMember (decrypt_member Z self added)) (List.map_filter added_member ys) =
     map (\<lambda>x. Ok ((\<lambda>(u, k, r). NewMember \<lparr>m_aci = u, m_role = r, m_profile_key = k,
        m_joined_at_version = 0, m_label = None, m_label_emoji = None\<rparr>) x)) xs"
  using assms by (intro collect_build_read_filter)
    (simp add: build_defs encrypt_ids decrypt_ids read_one split_beta)

lemma build_read_remove:
  assumes "zk_correct Z"
  shows "\<exists>ys. collect (map (build_remove_member_action Z self) xs) = Ok ys \<and>
     map (\<lambda>c. map_ok DeleteMember (decrypt_aci Z self c)) ys = map (\<lambda>x. Ok (DeleteMember x)) xs"
  using assms by (intro collect_build_read) (simp add: build_defs encrypt_ids decrypt_ids)

lemma build_read_roles:
  assumes "zk_correct Z"
  shows "\<exists>ys. collect (map (\<lambda>(u, r). build_modify_member_role_action Z self u r) xs) = Ok ys \<and>
     map (\<lambda>m. and_then (decrypt_aci Z self (mra_user_id m)) (\<lambda>u.
              and_then (role_try_from (mra_role m)) (\<lambda>role.
              Ok (ModifyMemberRole u role)))) ys =
     map (\<lambda>x. Ok ((\<lambda>(u, r). ModifyMemberRole u r) x)) xs"
  using assms by (intro collect_build_read) (simp add: build_defs encrypt_ids decrypt_ids split_beta)

lemma build_read_invite:
  assumes "zk_correct Z"
  shows "\<exists>ys. collect (map (\<lambda>(s, b, r). build_add_pending_member_action Z self s b r) xs) = Ok ys \<and>
     map (\<lambda>added. map_ok NewPendingMember (decrypt_pending_member Z self added)) (List.map_filter id ys) =
     map (\<lambda>x. Ok ((\<lambda>(s, b, r). NewPendingMember \<lparr>pm_address = s, pm_role = r, pm_added_by_aci = b,
            pm_timestamp = 0\<rparr>) x)) xs"
  using assms by (intro collect_build_read_filter)
    (simp add: build_defs encrypt_ids decrypt_ids read_one split_beta)

lemma build_read_uninvite:
  assumes "zk_correct Z"
  shows "\<exists>ys. collect (map (build_remove_pending_member_action Z self) xs) = Ok ys \<and>
     map (\<lambda>m. map_ok DeletePendingMember (decrypt_service_id Z self m)) ys =
     map (\<lambda>x. Ok (DeletePendingMember x)) xs"
  using assms by (intro collect_build_read) (simp add: build_defs encrypt_ids decrypt_ids)

lemma build_read_accept:
  assumes "zk_correct Z"
  shows "\<exists>ys. collect (map (\<lambda>(u, k). build_promote_pending_member_action Z self u k) xs) = Ok ys \<and>
     map (\<lambda>m. map_ok (\<lambda>(u, key). PromotePendingMember (Aci u) key)
              (decrypt_profile_key_presentation Z self (pka_user_id m) (pka_profile_key m)
                 (pka_presentation m))) ys =
     map (\<lambda>x. Ok ((\<lambda>(u, k). PromotePendingMember (Aci u) k) x)) xs"
  using assms by (intro collect_build_read) (simp add: build_defs encrypt_ids decrypt_ids read_one split_beta)

lemma build_read_join:
  assumes "zk_correct Z"
  shows "\<exists>ys. collect (map (\<lambda>(u, k). build_add_requesting_member_action Z self u k) xs) = Ok ys \<and>
     map (\<lambda>added. map_ok NewRequestingMember (decrypt_requesting_member Z self added)) (List.map_filter id ys) =
     map (\<lambda>x. Ok ((\<lambda>(u, k). NewRequestingMember \<lparr>rm_aci = u, rm_profile_key = k, rm_timestamp = 0\<rparr>) x)) xs"
  using assms by (intro collect_build_read_filter)
    (simp add: build_defs encrypt_ids decrypt_ids read_one split_beta)

lemma build_read_withdraw:
  assumes "zk_correct Z"
  shows "\<exists>ys. collect (map (build_remove_requesting_member_action Z self) xs) = Ok ys \<and>
     map (\<lambda>c. map_ok DeleteRequestingMember (decrypt_aci Z self c)) ys =
     map (\<lambda>x. Ok (DeleteRequestingMember x)) xs"
  using assms by (intro collect_build_read) (simp add: build_defs encrypt_ids decrypt_ids)

lemma build_read_approve:
  assumes "zk_correct Z"
  shows "\<exists>ys. collect (map (\<lambda>(u, r). build_promote_requesting_member_action Z self u r) xs) = Ok ys \<and>
     map (\<lambda>m. and_then (decrypt_aci Z self (mra_user_id m)) (\<lambda>u.
              and_then (role_try_from (mra_role m)) (\<lambda>role.
              Ok (PromoteRequestingMember u role)))) ys =
     map (\<lambda>x. Ok ((\<lambda>(u, r). PromoteRequestingMember u r) x)) xs"
  using assms by (intro collect_build_read) (simp add: build_defs encrypt_ids decrypt_ids split_beta)

lemma build_read_labels:
  assumes "zk_correct Z" and "list_all (\<lambda>(u, t, e). pred_option str_ok t \<and> pred_option str_ok e) xs"
  shows "\<exists>ys. collect (map (\<lambda>(u, t, e). build_modify_member_label_action Z self u t e rng) xs) = Ok ys \<and>
     map (\<lambda>m. and_then (decrypt_service_id Z self (mla_user_id m)) (\<lambda>user_id.
              Ok (MemberLabel user_id (decrypt_member_label_emoji Z self (mla_label_emoji m))
                    (decrypt_member_label_text Z self (mla_label_string m))))) ys =
     map (\<lambda>x. Ok ((\<lambda>(u, t, e). MemberLabel (Aci u) (filter_nonempty e) (filter_nonempty t)) x)) xs"
  using assms by (intro collect_build_read)
    (auto simp: build_defs encrypt_ids decrypt_ids list_all_iff Let_def split_beta)

lemma opt_list_map_option [simp]: "opt_list (map_option f m) = map f (opt_list m)"
  by (cases m) (simp_all add: opt_list_def)

lemma opt_list_None [simp]: "opt_list None = []"
  by (simp add: opt_list_def)

lemma map_filter_Nil [simp]: "List.map_filter f [] = []"
  by (simp add: List.map_filter_def)

text \<open>Reading a message built from a request.\<close>

lemma build_request_read:
  assumes "zk_correct Z" and "labels_ok q"
  shows "\<exists>a. build_request Z self version q rng = Ok a \<and> act_version a = version \<and>
     read_changes Z self a = map Ok (requested_changes Z q)"
  using build_read_add [OF assms(1), of self "cr_add q"]
    build_read_remove [OF assms(1), of self "cr_remove q"]
    build_read_roles [OF assms(1), of self "cr_roles q"]
    build_read_invite [OF assms(1), of self "cr_invite q"]
    build_read_uninvite [OF assms(1), of self "cr_uninvite q"]
    build_read_accept [OF assms(1), of self "cr_accept q"]
    build_read_join [OF assms(1), of self "cr_join q"]
    build_read_withdraw [OF assms(1), of self "cr_withdraw q"]
    build_read_approve [OF assms(1), of self "cr_approve q"]
    build_read_labels [OF assms(1) assms(2) [unfolded labels_ok_def], of self rng]
proof (elim exE conjE, goal_cases)
  case (1 add remove roles invite uninvite accept join withdraw approve labels)
  note built = 1(1,3,5,7,9,11,13,15,17,19) and readings = 1(2,4,6,8,10,12,14,16,18,20)
  show ?case
    unfolding build_request_def built and_then.simps
    by (simp add: read_changes_def read_defs requested_changes_def no_actions_def readings
        assms(1) build_defs comp_def)
qed

text \<open>The message as \<open>encrypt_group_change\<close> sends it, with editor and group identifier.\<close>

definition stamped :: "zkgroup \<Rightarrow> group_operations \<Rightarrow> uuid \<Rightarrow> actions \<Rightarrow> actions" where
  "stamped Z self editor a =
     a\<lparr>source_user_id := uuid_ct_serialize Z (zk_encrypt_service_id Z (group_secret_params self) (Aci editor)),
       group_id := zk_group_identifier Z (group_secret_params self)\<rparr>"

lemma read_changes_stamped [simp]:
  "read_changes Z self (stamped Z self editor a) = read_changes Z self a"
  by (simp add: read_changes_def read_defs stamped_def)

lemma decrypt_encrypt_group_change:
  assumes "zk_correct Z" and "actions_codec_at Z (stamped Z self editor a)"
  shows "\<exists>gc. encrypt_group_change Z self editor a = Ok gc \<and>
     decrypt_group_change Z self gc = map_ok (\<lambda>changes.
       \<lparr>gc_group_id = zk_group_identifier Z (group_secret_params self), gc_editor = editor,
        gc_version = act_version a, gc_changes = changes, gc_change_epoch = 0\<rparr>)
       (collect (read_changes Z self a))"
proof -
  let ?gc = "EncryptedGroupChange (actions_encode Z (stamped Z self editor a)) [] 0"
  have "encrypt_group_change Z self editor a = Ok ?gc"
    by (simp add: encrypt_group_change_def encrypt_ids Let_def stamped_def)
  moreover have "decode_actions Z (egc_actions ?gc) = Ok (stamped Z self editor a)"
    using assms(2) by (simp add: decode_actions_def actions_codec_at_def)
  moreover have "length (zk_group_identifier Z (group_secret_params self)) = 32"
    using assms(1) by (simp add: zk_correct_def)
  moreover have "source_user_id (stamped Z self editor a) =
      uuid_ct_serialize Z (zk_encrypt_service_id Z (group_secret_params self) (Aci editor))"
    and "group_id (stamped Z self editor a) = zk_group_identifier Z (group_secret_params self)"
    and "act_version (stamped Z self editor a) = act_version a"
    by (simp_all add: stamped_def)
  ultimately show ?thesis
    using assms(1) unfolding decrypt_group_change_def
    by (cases "collect (read_changes Z self a)")
      (simp_all add: Let_def decrypt_ids try_into_array_def)
qed

text \<open>
  C6: every change a client can build is read back by the group as what it asked for. For
  any combination of the builders, building succeeds, and decrypting the encrypted change gives
  the group's identifier, the editor, the version, and exactly the requested changes in the
  reader's order. Empty labels and an empty description come back as absent.
\<close>

theorem group_change_roundtrip:
  assumes "zk_correct Z" and "labels_ok q"
    and "\<And>a. build_request Z self version q rng = Ok a \<Longrightarrow> actions_codec_at Z (stamped Z self editor a)"
  shows "\<exists>a gc. build_request Z self version q rng = Ok a \<and>
     encrypt_group_change Z self editor a = Ok gc \<and>
     decrypt_group_change Z self gc = Ok
       \<lparr>gc_group_id = zk_group_identifier Z (group_secret_params self), gc_editor = editor,
        gc_version = version, gc_changes = requested_changes Z q, gc_change_epoch = 0\<rparr>"
proof -
  obtain a where a: "build_request Z self version q rng = Ok a" "act_version a = version"
    "read_changes Z self a = map Ok (requested_changes Z q)"
    using build_request_read [OF assms(1,2)] by blast
  then show ?thesis
    using decrypt_encrypt_group_change [OF assms(1) assms(3) [OF a(1)]] by auto
qed

definition sample_request :: change_request where
  "sample_request = \<lparr>cr_add = [([10], [20], RoleDefault)], cr_remove = [[11]], cr_roles = [],
     cr_invite = [], cr_uninvite = [Pni [12]], cr_accept = [], cr_title = Some ''Book club'',
     cr_avatar = None, cr_timer = None, cr_attributes_access = None, cr_description = Some [],
     cr_members_access = None, cr_link_access = None, cr_join = [], cr_withdraw = [],
     cr_approve = [], cr_link_password = None, cr_announcements_only = None, cr_labels = [],
     cr_label_access = None\<rparr>"

text \<open>The message of the sample request, and the packages whose decoder knows it.\<close>

definition sample_actions :: actions where
  "sample_actions = no_actions\<lparr>act_version := 3,
     add_members := [AddMemberAction (Some (plain_member [1, 10] [20] [] 1)) False],
     delete_members := [[1, 11]], delete_members_pending_profile_key := [[2, 12]],
     modify_title := Some (replicate 29 0 @ 1 # as_bytes ''Book club''),
     modify_description := Some (replicate 29 0 @ [4])\<rparr>"

definition sample_packages :: zkgroup where
  "sample_packages = sample_zk (sample_actions\<lparr>source_user_id := [1, 42], group_id := replicate 32 9\<rparr>)"

lemma sample_request_built:
  "build_request sample_packages \<lparr>group_secret_params = []\<rparr> 3 sample_request (\<lambda>_. []) = Ok sample_actions"
  by (simp add: build_request_def sample_request_def build_defs encrypt_ids encrypt_title_def
      encrypt_description_def encrypt_blob_content_def sample_packages_def sample_zk_def
      sample_blob_encode_def sample_actions_def no_actions_def)

lemma sample_actions_codec:
  "actions_codec_at sample_packages (stamped sample_packages \<lparr>group_secret_params = []\<rparr> [42] sample_actions)"
  by (simp add: actions_codec_at_def stamped_def sample_packages_def sample_zk_def)

lemma sample_group_identifier: "zk_group_identifier sample_packages g = replicate 32 9"
  by (simp add: sample_packages_def sample_zk_def)

theorem group_change_roundtrip_witness:
  "\<exists>a gc. build_request sample_packages \<lparr>group_secret_params = []\<rparr> 3 sample_request (\<lambda>_. []) = Ok a \<and>
     encrypt_group_change sample_packages \<lparr>group_secret_params = []\<rparr> [42] a = Ok gc \<and>
     decrypt_group_change sample_packages \<lparr>group_secret_params = []\<rparr> gc = Ok
       \<lparr>gc_group_id = replicate 32 9, gc_editor = [42], gc_version = 3,
        gc_changes = requested_changes sample_packages sample_request, gc_change_epoch = 0\<rparr>"
proof -
  have "zk_correct sample_packages"
    by (simp add: sample_packages_def sample_zk_correct)
  moreover have "labels_ok sample_request"
    by (simp add: labels_ok_def sample_request_def)
  ultimately show ?thesis
    using group_change_roundtrip [of sample_packages sample_request "\<lparr>group_secret_params = []\<rparr>" 3
        "\<lambda>_. []" "[42]"] sample_actions_codec
    by (simp add: sample_request_built sample_group_identifier)
qed

lemma sample_credential_aci: "zk_credential_aci (sample_zk m) = take 1"
  by (simp add: sample_zk_def)

theorem created_group_as_requested_witness:
  "\<exists>eg g. encrypt_group_with_credentials (sample_zk no_actions) \<lparr>group_secret_params = []\<rparr> ''Book club''
       None None None [10, 20] [\<lparr>cand_service_id = Aci [10], cand_credential = None\<rparr>,
         \<lparr>cand_service_id = Pni [11], cand_credential = None\<rparr>] [] [] (\<lambda>_. []) (\<lambda>_. []) = Ok eg \<and>
     decrypt_group (sample_zk no_actions) \<lparr>group_secret_params = []\<rparr> eg = Ok g \<and>
     g_title g = ''Book club'' \<and> map m_aci (g_members g) = [[10]] \<and>
     map pm_address (g_members_pending_profile_key g) = [Pni [11]]"
  using created_group_as_requested [OF sample_zk_correct [of no_actions],
      of "\<lparr>group_secret_params = []\<rparr>" "''Book club''" None None None "[10, 20]"
         "[\<lparr>cand_service_id = Aci [10], cand_credential = None\<rparr>,
           \<lparr>cand_service_id = Pni [11], cand_credential = None\<rparr>]" "[]" "[]" "\<lambda>_. []" "\<lambda>_. []"]
  by (auto simp: sample_credential_aci requested_members_def requested_invites_def others_def
      credential_member_def invited_def List.map_filter_def)

end
