(* ===== verification/Attachment_Cipher.thy ===== *)
theory Attachment_Cipher
  imports Crypto
begin

text \<open>
  Attachment encryption of \<open>attachment_cipher.rs\<close>: a 64-byte key is split into a cipher half and
  an authentication half, and the encrypted attachment is the initialisation vector, the
  ciphertext and a 32-byte code over both. Both operations work on a vector in place, so they
  are state-passing computations on that vector.
\<close>

datatype attachment_cipher_error = MacError | PaddingError

definition encrypt_in_place ::
    "cbc_mac \<Rightarrow> bytes \<Rightarrow> bytes \<Rightarrow> (bytes, unit, attachment_cipher_error) eff" where
  "encrypt_in_place M iv key plaintext =
     (let aes_half = take 32 key; mac_half = drop 32 key;
          plaintext_len = length plaintext;
          buffer = iv @ plaintext @ replicate 16 0
      in case cbc_encrypt M aes_half iv (drop 16 buffer) plaintext_len of
           None \<Rightarrow> (Panic ''encrypted ciphertext'', buffer)
         | Some ciphertext \<Rightarrow>
             let buffer = iv @ ciphertext
             in (Ok (), buffer @ hmac_sha256 M mac_half buffer))"

definition decrypt_in_place ::
    "cbc_mac \<Rightarrow> bytes \<Rightarrow> (bytes, unit, attachment_cipher_error) eff" where
  "decrypt_in_place M key ciphertext =
     (let aes_half = take 32 key; mac_half = drop 32 key; ciphertext_len = length ciphertext in
      if ciphertext_len < 32 then (Panic ''attempt to subtract with overflow'', ciphertext)
      else
        let buffer = take (ciphertext_len - 32) ciphertext;
            their_mac = drop (ciphertext_len - 32) ciphertext
        in if hmac_sha256 M mac_half buffer \<noteq> their_mac then (Err MacError, ciphertext)
        else case split_first_chunk 16 buffer of
            None \<Rightarrow> (Err PaddingError, ciphertext)
          | Some (iv, buffer) \<Rightarrow>
              (case cbc_decrypt M aes_half iv buffer of
                 (None, buffer') \<Rightarrow> (Err PaddingError, iv @ buffer' @ their_mac)
               | (Some plaintext_len, buffer') \<Rightarrow> (Ok (), take plaintext_len buffer')))"

lemma encrypt_in_place_eq:
  assumes "cbc_mac_correct M" and "length iv = 16"
  obtains c rest where "cbc_encrypt M (take 32 key) iv (p @ replicate 16 0) (length p) = Some c"
    and "length c = pkcs7_length (length p)"
    and "cbc_decrypt M (take 32 key) iv c = (Some (length p), p @ rest)"
    and "encrypt_in_place M iv key p =
           (Ok (), iv @ c @ hmac_sha256 M (drop 32 key) (iv @ c))"
proof -
  have "pkcs7_length (length p) \<le> length (p @ replicate 16 0)"
    using pkcs7_length_bounds(2) [of "length p"] by simp
  then obtain c rest where
    c: "cbc_encrypt M (take 32 key) iv (p @ replicate 16 0) (length p) = Some c"
    "length c = pkcs7_length (length p)"
    "cbc_decrypt M (take 32 key) iv c = (Some (length p), take (length p) (p @ replicate 16 0) @ rest)"
    by (rule cbc_encryptE [OF assms(1)])
  show ?thesis
    by (rule that [of c rest]) (use c assms(2) in \<open>simp_all add: encrypt_in_place_def Let_def\<close>)
qed

lemma encrypt_decrypt_in_place:
  assumes "cbc_mac_correct M" and "length iv = 16"
  shows "\<exists>c. encrypt_in_place M iv key p = (Ok (), c) \<and> length c = 48 + pkcs7_length (length p) \<and>
             decrypt_in_place M key c = (Ok (), p)"
proof -
  obtain c rest where "cbc_encrypt M (take 32 key) iv (p @ replicate 16 0) (length p) = Some c"
    and c: "length c = pkcs7_length (length p)"
      "cbc_decrypt M (take 32 key) iv c = (Some (length p), p @ rest)"
      "encrypt_in_place M iv key p = (Ok (), iv @ c @ hmac_sha256 M (drop 32 key) (iv @ c))"
    by (rule encrypt_in_place_eq [OF assms])
  have "decrypt_in_place M key (iv @ c @ hmac_sha256 M (drop 32 key) (iv @ c)) = (Ok (), p)"
    using assms c by (simp add: decrypt_in_place_def Let_def)
  then show ?thesis
    using assms c by simp
qed

text \<open>
  C13: an encrypted attachment is the initialisation vector, the ciphertext padded to the
  next multiple of sixteen and a code of 32 bytes, and decrypting it with the same key
  restores the vector. Encryption never panics.
\<close>

theorem attachment_roundtrip:
  assumes "cbc_mac_correct M" and "length iv = 16"
  shows "\<exists>c. encrypt_in_place M iv key p = (Ok (), c) \<and> length c = 48 + pkcs7_length (length p) \<and>
             decrypt_in_place M key c = (Ok (), p)"
  using assms by (rule encrypt_decrypt_in_place)

theorem attachment_roundtrip_witness:
  "\<exists>c. encrypt_in_place sample_cbc_mac (replicate 16 5) (replicate 64 1) [10, 20] = (Ok (), c) \<and>
       length c = 64 \<and> decrypt_in_place sample_cbc_mac (replicate 64 1) c = (Ok (), [10, 20])"
  using attachment_roundtrip [OF sample_cbc_mac_correct, of "replicate 16 5" "replicate 64 1" "[10, 20]"]
  by (simp add: pkcs7_length_def)



end
