(* ===== verification/Invariants.thy ===== *)
theory Invariants
  imports Main
begin

text \<open>
  The interface between a state machine and the proofs about its runs: an invariant that holds
  initially and is kept by every step holds in every reachable state, and so does everything
  that follows from it.
\<close>

locale invariant =
  fixes init :: "'s \<Rightarrow> bool"
    and step :: "'s \<Rightarrow> 's \<Rightarrow> bool"
    and inv :: "'s \<Rightarrow> bool"
  assumes inv_init: "init s \<Longrightarrow> inv s"
    and inv_step: "inv s \<Longrightarrow> step s s' \<Longrightarrow> inv s'"
begin

lemma inv_steps: "step\<^sup>*\<^sup>* s s' \<Longrightarrow> inv s \<Longrightarrow> inv s'"
  by (induction rule: rtranclp_induct) (auto intro: inv_step)

lemma inv_reachable: "init s \<Longrightarrow> step\<^sup>*\<^sup>* s s' \<Longrightarrow> inv s'"
  using inv_steps inv_init by blast

lemma safe_reachable: "init s \<Longrightarrow> step\<^sup>*\<^sup>* s s' \<Longrightarrow> (\<And>t. inv t \<Longrightarrow> safe t) \<Longrightarrow> safe s'"
  using inv_reachable by blast

end

end
