(* ===== verification/Session_Lock.thy ===== *)
theory Session_Lock
  imports Invariants Service_Error
begin

text \<open>
  The per-peer session locks of \<open>session_lock.rs\<close> and why they are needed. A task that encrypts
  for a peer or decrypts from one takes the peer's lock, loads the session, and stores the
  advanced session in a later step; tasks interleave between any two steps. A session is
  represented by the index of its ratchet, which advances by one per message.
\<close>

section \<open>The lock table\<close>

text \<open>
  \<open>SessionLocks\<close>: a map from peers to mutexes (identified by number), the owner of each mutex,
  and the next fresh mutex.
\<close>

record 't session_locks =
  peers :: "service_id \<Rightarrow> nat option"
  owner :: "nat \<Rightarrow> 't option"
  fresh :: nat

text \<open>\<open>peers.entry(*peer).or_default()\<close>: the mutex of the peer, created when missing.\<close>

definition peer_lock :: "service_id \<Rightarrow> 't session_locks \<Rightarrow> nat \<times> 't session_locks" where
  "peer_lock peer L =
     (case peers L peer of
        Some m \<Rightarrow> (m, L)
      | None \<Rightarrow> (fresh L, L\<lparr>peers := (peers L)(peer \<mapsto> fresh L), fresh := Suc (fresh L)\<rparr>))"

text \<open>\<open>lock_owned().await\<close> returns to a task when nobody owns the mutex; the guard's drop frees it.\<close>

definition acquire :: "nat \<Rightarrow> 't \<Rightarrow> 't session_locks \<Rightarrow> 't session_locks option" where
  "acquire m t L = (if owner L m = None then Some (L\<lparr>owner := (owner L)(m \<mapsto> t)\<rparr>) else None)"

definition release :: "nat \<Rightarrow> 't session_locks \<Rightarrow> 't session_locks" where
  "release m L = L\<lparr>owner := (owner L)(m := None)\<rparr>"

section \<open>Tasks\<close>

datatype task_state =
    Idle
  | Waiting service_id nat
  | Holding service_id nat
  | Loaded service_id nat nat

record 't world =
  locks :: "'t session_locks"
  tasks :: "'t \<Rightarrow> task_state"
  ratchet :: "service_id \<Rightarrow> nat"
  messages :: "service_id \<Rightarrow> nat"

text \<open>
  The steps of the tasks: look up the lock, obtain it, load the session, and store the advanced
  session, which completes one message and drops the guard. A task may also give up after an
  error while it holds the lock.
\<close>

inductive task_step :: "'t world \<Rightarrow> 't world \<Rightarrow> bool" where
  look_up: "tasks w t = Idle \<Longrightarrow> peer_lock p (locks w) = (m, L) \<Longrightarrow>
    task_step w (w\<lparr>locks := L, tasks := (tasks w)(t := Waiting p m)\<rparr>)"
| obtain_lock: "tasks w t = Waiting p m \<Longrightarrow> acquire m t (locks w) = Some L \<Longrightarrow>
    task_step w (w\<lparr>locks := L, tasks := (tasks w)(t := Holding p m)\<rparr>)"
| load: "tasks w t = Holding p m \<Longrightarrow>
    task_step w (w\<lparr>tasks := (tasks w)(t := Loaded p m (ratchet w p))\<rparr>)"
| store: "tasks w t = Loaded p m n \<Longrightarrow>
    task_step w (w\<lparr>ratchet := (ratchet w)(p := Suc n), messages := (messages w)(p := Suc (messages w p)),
      locks := release m (locks w), tasks := (tasks w)(t := Idle)\<rparr>)"
| give_up: "tasks w t = Holding p m \<or> tasks w t = Loaded p m n \<Longrightarrow>
    task_step w (w\<lparr>locks := release m (locks w), tasks := (tasks w)(t := Idle)\<rparr>)"

definition init_world :: "'t world \<Rightarrow> bool" where
  "init_world w \<longleftrightarrow>
     locks w = \<lparr>peers = Map.empty, owner = Map.empty, fresh = 0\<rparr> \<and> (\<forall>t. tasks w t = Idle) \<and>
     (\<forall>p. ratchet w p = messages w p)"

definition critical :: "task_state \<Rightarrow> (service_id \<times> nat) option" where
  "critical s = (case s of Holding p m \<Rightarrow> Some (p, m) | Loaded p m _ \<Rightarrow> Some (p, m) | _ \<Rightarrow> None)"

section \<open>The invariant\<close>

definition lock_inv :: "'t world \<Rightarrow> bool" where
  "lock_inv w \<longleftrightarrow>
     (\<forall>p m. peers (locks w) p = Some m \<longrightarrow> m < fresh (locks w)) \<and>
     (\<forall>p q m. peers (locks w) p = Some m \<longrightarrow> peers (locks w) q = Some m \<longrightarrow> p = q) \<and>
     (\<forall>t p m. tasks w t = Waiting p m \<longrightarrow> peers (locks w) p = Some m) \<and>
     (\<forall>t p m. critical (tasks w t) = Some (p, m) \<longrightarrow> peers (locks w) p = Some m) \<and>
     (\<forall>m t. owner (locks w) m = Some t \<longleftrightarrow> (\<exists>p. critical (tasks w t) = Some (p, m))) \<and>
     (\<forall>t p m n. tasks w t = Loaded p m n \<longrightarrow> n = ratchet w p) \<and>
     (\<forall>p. ratchet w p = messages w p)"

lemma lock_invD:
  assumes "lock_inv w"
  shows "peers (locks w) p = Some m \<Longrightarrow> m < fresh (locks w)"
    and "peers (locks w) p = Some m \<Longrightarrow> peers (locks w) q = Some m \<Longrightarrow> p = q"
    and "tasks w t = Waiting p m \<Longrightarrow> peers (locks w) p = Some m"
    and "critical (tasks w t) = Some (p, m) \<Longrightarrow> peers (locks w) p = Some m"
    and "owner (locks w) m = Some t \<longleftrightarrow> (\<exists>p. critical (tasks w t) = Some (p, m))"
    and "tasks w t = Loaded p m n \<Longrightarrow> n = ratchet w p"
    and "ratchet w p = messages w p"
  using assms unfolding lock_inv_def by blast+

lemma critical_simps [simp]:
  "critical Idle = None" "critical (Waiting p m) = None"
  "critical (Holding p m) = Some (p, m)" "critical (Loaded p m n) = Some (p, m)"
  by (simp_all add: critical_def)

lemma lock_inv_init: "init_world w \<Longrightarrow> lock_inv w"
  by (simp add: init_world_def lock_inv_def)

lemma peer_lock_cases:
  assumes "peer_lock p L = (m, L')"
  obtains "peers L p = Some m" and "L' = L"
  | "peers L p = None" and "m = fresh L" and "L' = L\<lparr>peers := (peers L)(p \<mapsto> m), fresh := Suc m\<rparr>"
  using assms by (auto simp: peer_lock_def split: option.splits)

text \<open>Two tasks in their critical sections for the same peer are the same task.\<close>

lemma critical_unique:
  assumes "lock_inv w" and "critical (tasks w t) = Some (p, m)" and "critical (tasks w u) = Some (p, k)"
  shows "t = u \<and> m = k"
proof -
  have "m = k"
    using lock_invD(4) [OF assms(1)] assms(2,3) by (metis option.inject)
  then have "owner (locks w) m = Some t" and "owner (locks w) m = Some u"
    using lock_invD(5) [OF assms(1)] assms(2,3) by blast+
  with \<open>m = k\<close> show ?thesis by simp
qed

lemma lock_inv_look_up:
  assumes "lock_inv w" and "tasks w t = Idle" and "peer_lock p (locks w) = (m, L)"
  shows "lock_inv (w\<lparr>locks := L, tasks := (tasks w)(t := Waiting p m)\<rparr>)"
  using assms(3)
proof (cases rule: peer_lock_cases)
  case 1
  then show ?thesis
    using assms(2) lock_invD [OF assms(1)] unfolding lock_inv_def by (auto split: if_splits)
next
  case 2
  have "\<not> peers (locks w) q = Some m" for q
    using lock_invD(1) [OF assms(1), of q m] 2 by auto
  with 2 show ?thesis
    using assms(2) lock_invD [OF assms(1)] unfolding lock_inv_def
    by (auto split: if_splits simp: less_Suc_eq)
qed

lemma lock_inv_obtain:
  assumes "lock_inv w" and "tasks w t = Waiting p m" and "acquire m t (locks w) = Some L"
  shows "lock_inv (w\<lparr>locks := L, tasks := (tasks w)(t := Holding p m)\<rparr>)"
proof -
  have L: "L = (locks w)\<lparr>owner := (owner (locks w))(m \<mapsto> t)\<rparr>" and free: "owner (locks w) m = None"
    using assms(3) by (auto simp: acquire_def split: if_splits)
  have "critical (tasks w u) \<noteq> Some (q, m)" for u q
    using free lock_invD(5) [OF assms(1), of m u] by auto
  with assms(2) show ?thesis
    using lock_invD [OF assms(1)] unfolding lock_inv_def L by (auto split: if_splits)
qed

text \<open>Leaving the critical section keeps what the lock table and the other tasks satisfy.\<close>

lemma release_owner_iff:
  assumes "lock_inv w" and "critical (tasks w t) = Some (p, m)"
  shows "owner (release m (locks w)) k = Some u \<longleftrightarrow>
    (\<exists>q. critical (((tasks w)(t := Idle)) u) = Some (q, k))"
proof -
  have "owner (locks w) m = Some t"
    using lock_invD(5) [OF assms(1)] assms(2) by blast
  then have "critical (tasks w v) \<noteq> Some (q, m)" if "v \<noteq> t" for v q
    using lock_invD(5) [OF assms(1), of m v] that by auto
  then show ?thesis
    using lock_invD(5) [OF assms(1)] assms(2) unfolding release_def by auto
qed

lemma lock_inv_store:
  assumes "lock_inv w" and "tasks w t = Loaded p m n"
  shows "lock_inv (w\<lparr>ratchet := (ratchet w)(p := Suc n), messages := (messages w)(p := Suc (messages w p)),
      locks := release m (locks w), tasks := (tasks w)(t := Idle)\<rparr>)"
proof -
  have crit: "critical (tasks w t) = Some (p, m)"
    by (simp add: assms(2))
  have "\<not> (\<exists>k j. tasks w u = Loaded p k j)" if "u \<noteq> t" for u
    using critical_unique [OF assms(1) crit, of u] that by auto
  moreover have "n = ratchet w p"
    using lock_invD(6) [OF assms] .
  moreover have "peers (release m (locks w)) = peers (locks w)" "fresh (release m (locks w)) = fresh (locks w)"
    by (simp_all add: release_def)
  ultimately show ?thesis
    using release_owner_iff [OF assms(1) crit] lock_invD [OF assms(1)]
    unfolding lock_inv_def by (auto split: if_splits)
qed

lemma lock_inv_give_up:
  assumes "lock_inv w" and "critical (tasks w t) = Some (p, m)"
  shows "lock_inv (w\<lparr>locks := release m (locks w), tasks := (tasks w)(t := Idle)\<rparr>)"
proof -
  have "peers (release m (locks w)) = peers (locks w)" "fresh (release m (locks w)) = fresh (locks w)"
    by (simp_all add: release_def)
  then show ?thesis
    using release_owner_iff [OF assms] lock_invD [OF assms(1)]
    unfolding lock_inv_def by (auto split: if_splits)
qed

lemma lock_inv_load:
  assumes "lock_inv w" and "tasks w t = Holding p m"
  shows "lock_inv (w\<lparr>tasks := (tasks w)(t := Loaded p m (ratchet w p))\<rparr>)"
proof -
  have "peers (locks w) p = Some m"
    using lock_invD(4) [OF assms(1), of t] assms(2) by simp
  then show ?thesis
    using assms(2) lock_invD [OF assms(1)] unfolding lock_inv_def by (auto split: if_splits)
qed

lemma lock_inv_step: "task_step w w' \<Longrightarrow> lock_inv w \<Longrightarrow> lock_inv w'"
proof (induction rule: task_step.induct)
  case (give_up w t p m n)
  then have "critical (tasks w t) = Some (p, m)"
    by auto
  with give_up.prems show ?case
    by (rule lock_inv_give_up)
next
  case (look_up w t p m L)
  then show ?case by (intro lock_inv_look_up)
next
  case (obtain_lock w t p m L)
  then show ?case by (intro lock_inv_obtain)
next
  case (load w t p m)
  then show ?case by (intro lock_inv_load)
next
  case (store w t p m n)
  then show ?case by (intro lock_inv_store)
qed

interpretation lock_runs: invariant init_world task_step lock_inv
  using lock_inv_init lock_inv_step by unfold_locales blast+


text \<open>One task that looks up a lock, obtains it, loads and stores.\<close>

definition sample_world :: "nat world" where
  "sample_world = \<lparr>locks = \<lparr>peers = Map.empty, owner = Map.empty, fresh = 0\<rparr>, tasks = (\<lambda>_. Idle),
     ratchet = (\<lambda>_. 5), messages = (\<lambda>_. 5)\<rparr>"

lemma sample_world_init: "init_world sample_world"
  by (simp add: init_world_def sample_world_def)

lemma sample_run:
  "\<exists>w. task_step\<^sup>*\<^sup>* sample_world w \<and> ratchet w (Aci []) = 6 \<and> tasks w = (\<lambda>_. Idle)"
proof -
  let ?p = "Aci []"
  let ?L1 = "\<lparr>peers = [?p \<mapsto> 0], owner = Map.empty, fresh = Suc 0\<rparr> :: nat session_locks"
  let ?L2 = "?L1\<lparr>owner := [0 \<mapsto> 7]\<rparr>"
  let ?w1 = "sample_world\<lparr>locks := ?L1, tasks := (tasks sample_world)(7 := Waiting ?p 0)\<rparr>"
  let ?w2 = "?w1\<lparr>locks := ?L2, tasks := (tasks ?w1)(7 := Holding ?p 0)\<rparr>"
  let ?w3 = "?w2\<lparr>tasks := (tasks ?w2)(7 := Loaded ?p 0 (ratchet ?w2 ?p))\<rparr>"
  let ?w4 = "?w3\<lparr>ratchet := (ratchet ?w3)(?p := Suc 5), messages := (messages ?w3)(?p := Suc (messages ?w3 ?p)),
      locks := release 0 (locks ?w3), tasks := (tasks ?w3)(7 := Idle)\<rparr>"
  have "task_step sample_world ?w1"
    by (rule task_step.look_up) (simp_all add: sample_world_def peer_lock_def)
  moreover have "task_step ?w1 ?w2"
    by (rule task_step.obtain_lock) (simp_all add: acquire_def)
  moreover have "task_step ?w2 ?w3"
    by (rule task_step.load) simp
  moreover have "task_step ?w3 ?w4"
    by (rule task_step.store) (simp add: sample_world_def)
  ultimately have "task_step\<^sup>*\<^sup>* sample_world ?w4"
    by (meson converse_rtranclp_into_rtranclp rtranclp.rtrancl_refl)
  moreover have "ratchet ?w4 ?p = 6" and "tasks ?w4 = (\<lambda>_. Idle)"
    by (auto simp: sample_world_def)
  ultimately show ?thesis by blast
qed


section \<open>A task without the lock\<close>

text \<open>
  \<open>pnp_initialize_devices\<close> of \<open>account_manager.rs\<close> encrypts without taking the lock. Even if such a
  task loads and stores in one step, a ratchet step can be lost: a task that holds the lock overwrites
  what happened between its own load and store.
\<close>

inductive unguarded_step :: "'t world \<Rightarrow> 't world \<Rightarrow> bool" where
  encrypt_unguarded: "unguarded_step w
    (w\<lparr>ratchet := (ratchet w)(p := Suc (ratchet w p)), messages := (messages w)(p := Suc (messages w p))\<rparr>)"

lemma unguarded_send_loses_step:
  assumes "init_world w"
  shows "\<exists>w'. (sup task_step unguarded_step)\<^sup>*\<^sup>* w w' \<and> ratchet w' p < messages w' p"
proof -
  have start: "locks w = \<lparr>peers = Map.empty, owner = Map.empty, fresh = 0\<rparr>" "\<And>t. tasks w t = Idle" "ratchet w p = messages w p"
    using assms by (auto simp: init_world_def)
  fix t :: 'a
  let ?L1 = "\<lparr>peers = [p \<mapsto> 0], owner = Map.empty, fresh = Suc 0\<rparr>"
  let ?w1 = "w\<lparr>locks := ?L1, tasks := (tasks w)(t := Waiting p 0)\<rparr>"
  let ?w2 = "?w1\<lparr>locks := ?L1\<lparr>owner := [0 \<mapsto> t]\<rparr>, tasks := (tasks ?w1)(t := Holding p 0)\<rparr>"
  let ?w3 = "?w2\<lparr>tasks := (tasks ?w2)(t := Loaded p 0 (ratchet ?w2 p))\<rparr>"
  let ?w4 = "?w3\<lparr>ratchet := (ratchet ?w3)(p := Suc (ratchet ?w3 p)), messages := (messages ?w3)(p := Suc (messages ?w3 p))\<rparr>"
  let ?w5 = "?w4\<lparr>ratchet := (ratchet ?w4)(p := Suc (ratchet ?w2 p)), messages := (messages ?w4)(p := Suc (messages ?w4 p)),
      locks := release 0 (locks ?w4), tasks := (tasks ?w4)(t := Idle)\<rparr>"
  have "task_step w ?w1"
    by (rule task_step.look_up) (simp_all add: start peer_lock_def)
  moreover have "task_step ?w1 ?w2"
    by (rule task_step.obtain_lock) (simp_all add: acquire_def)
  moreover have "task_step ?w2 ?w3"
    by (rule task_step.load) simp
  moreover have "unguarded_step ?w3 ?w4"
    by (rule encrypt_unguarded)
  moreover have "task_step ?w4 ?w5"
    by (rule task_step.store) simp
  ultimately have "(sup task_step unguarded_step)\<^sup>*\<^sup>* w ?w5"
    by (meson converse_rtranclp_into_rtranclp rtranclp.rtrancl_refl sup2I1 sup2I2)
  moreover have "ratchet ?w5 p < messages ?w5 p"
    using start(3) by simp
  ultimately show ?thesis
    by blast
qed

end
