(* ===== verification/Effect_Logic.thy ===== *)
theory Effect_Logic
  imports Prelude
begin

text \<open>
  A small program logic for effects. \<open>runs R P m\<close> says that every run of \<open>m\<close> relates the worlds
  before and after it by \<open>R\<close> and fails only with errors that satisfy \<open>P\<close>. For a preorder \<open>R\<close> the
  rules follow the structure of the code; the preorder laws are the interface that the rules rely on.
\<close>

definition runs :: "('w \<Rightarrow> 'w \<Rightarrow> bool) \<Rightarrow> ('e \<Rightarrow> bool) \<Rightarrow> ('w, 'a, 'e) eff \<Rightarrow> bool" where
  "runs R P m \<longleftrightarrow> (\<forall>s. R s (snd (m s)) \<and> (\<forall>e. fst (m s) = Err e \<longrightarrow> P e))"

lemma runsI:
  assumes "\<And>s r s'. m s = (r, s') \<Longrightarrow> R s s'" "\<And>s e s'. m s = (Err e, s') \<Longrightarrow> P e"
  shows "runs R P m"
  using assms by (force simp: runs_def prod_eq_iff)

lemma runs_world: "runs R P m \<Longrightarrow> m s = (r, s') \<Longrightarrow> R s s'"
  unfolding runs_def by (metis snd_conv)

lemma runs_error: "runs R P m \<Longrightarrow> m s = (Err e, s') \<Longrightarrow> P e"
  unfolding runs_def by (metis fst_conv)

lemma runs_weaken: "runs R Q m \<Longrightarrow> (\<And>e. Q e \<Longrightarrow> P e) \<Longrightarrow> runs R P m"
  by (auto simp: runs_def)

named_theorems runs_rules

locale world_order =
  fixes R :: "'w \<Rightarrow> 'w \<Rightarrow> bool"
  assumes R_refl: "R s s"
    and R_trans: "R s t \<Longrightarrow> R t u \<Longrightarrow> R s u"
begin

lemma runs_pure [runs_rules]: "runs R P (pure a)"
  by (simp add: runs_def R_refl)

lemma runs_return [runs_rules]: "runs R P (Pair (Ok a))"
  by (simp add: runs_def R_refl)

lemma runs_throw [runs_rules]: "P e \<Longrightarrow> runs R P (throw e)"
  by (simp add: runs_def R_refl)

lemma runs_lift [runs_rules]: "(\<And>e. r = Err e \<Longrightarrow> P e) \<Longrightarrow> runs R P (lift r)"
  by (simp add: runs_def R_refl)

lemma runs_bindE [runs_rules]:
  assumes m: "runs R P m" and f: "\<And>a. runs R P (f a)"
  shows "runs R P (bindE m f)"
proof (rule runsI)
  fix s r s'
  assume "bindE m f s = (r, s')"
  then show "R s s'"
    using runs_world [OF m] runs_world [OF f] R_trans
    by (fastforce simp: bindE_def split: prod.splits result.splits)
next
  fix s e s'
  assume "bindE m f s = (Err e, s')"
  then show "P e"
    using runs_error [OF m] runs_error [OF f]
    by (fastforce simp: bindE_def split: prod.splits result.splits)
qed

lemma runs_matchE [runs_rules]:
  assumes m: "runs R Q m" and f: "\<And>a. runs R P (f a)" and g: "\<And>e. Q e \<Longrightarrow> runs R P (g e)"
  shows "runs R P (matchE m f g)"
proof (rule runsI)
  fix s r s'
  assume "matchE m f g s = (r, s')"
  then show "R s s'"
    using runs_world [OF m] runs_error [OF m] runs_world [OF f] runs_world [OF g] R_trans
    by (fastforce simp: matchE_def split: prod.splits result.splits)
next
  fix s e s'
  assume "matchE m f g s = (Err e, s')"
  then show "P e"
    using runs_error [OF m] runs_error [OF f] runs_error [OF g]
    by (fastforce simp: matchE_def split: prod.splits result.splits)
qed

lemma runs_forE [runs_rules]: "(\<And>x. runs R P (f x)) \<Longrightarrow> runs R P (forE xs f)"
  by (induction xs) (auto intro: runs_pure runs_bindE)

end

lemma runs_map_errE:
  "runs R Q m \<Longrightarrow> (\<And>e. Q e \<Longrightarrow> P (h e)) \<Longrightarrow> runs R P (map_errE h m)"
  unfolding runs_def map_errE_def by (auto split: prod.splits simp: map_err_Err_iff) (metis fst_conv snd_conv)+

lemma runs_drawE: "(\<And>s. R s (snd (f s))) \<Longrightarrow> runs R P (drawE f)"
  by (auto simp: runs_def drawE_def split: prod.splits) (metis snd_conv)

section \<open>Values\<close>

text \<open>\<open>returns Q m\<close> says that every value \<open>m\<close> returns satisfies \<open>Q\<close>.\<close>

definition returns :: "('a \<Rightarrow> bool) \<Rightarrow> ('w, 'a, 'e) eff \<Rightarrow> bool" where
  "returns Q m \<longleftrightarrow> (\<forall>s a s'. m s = (Ok a, s') \<longrightarrow> Q a)"

named_theorems returns_rules

lemma returnsD: "returns Q m \<Longrightarrow> m s = (Ok a, s') \<Longrightarrow> Q a"
  by (auto simp: returns_def)

lemma returns_pure [returns_rules]: "Q a \<Longrightarrow> returns Q (pure a)"
  by (simp add: returns_def)

lemma returns_throw [returns_rules]: "returns Q (throw e)"
  by (simp add: returns_def)

lemma returns_bindE [returns_rules]: "(\<And>a. returns Q (f a)) \<Longrightarrow> returns Q (bindE m f)"
  by (fastforce simp: returns_def bindE_Ok_iff)

lemma returns_matchE [returns_rules]:
  "(\<And>a. returns Q (f a)) \<Longrightarrow> (\<And>e. returns Q (g e)) \<Longrightarrow> returns Q (matchE m f g)"
  by (fastforce simp: returns_def matchE_def split: prod.splits result.splits)

section \<open>Failures\<close>

text \<open>\<open>never_fails m\<close>: a run ends with a value or a panic, never with an error.\<close>

abbreviation never_fails :: "('w, 'a, 'e) eff \<Rightarrow> bool" where
  "never_fails m \<equiv> runs (\<lambda>_ _. True) (\<lambda>_. False) m"

abbreviation may_fail :: "('w, 'a, 'e) eff \<Rightarrow> bool" where
  "may_fail m \<equiv> runs (\<lambda>_ _. True) (\<lambda>_. True) m"

interpretation any_world: world_order "\<lambda>_ _. True"
  by unfold_locales simp_all

lemma may_fail [simp]: "may_fail m"
  by (simp add: runs_def)

lemma never_fails_matchE:
  "(\<And>a. never_fails (f a)) \<Longrightarrow> (\<And>e. never_fails (g e)) \<Longrightarrow> never_fails (matchE m f g)"
  by (rule any_world.runs_matchE [OF may_fail])

lemma never_fails_drawE: "never_fails (drawE f)"
  by (simp add: runs_def drawE_def split: prod.splits)

lemmas never_fails_rules = any_world.runs_pure any_world.runs_return any_world.runs_bindE never_fails_matchE never_fails_drawE

section \<open>Observations that a run leaves unchanged\<close>

abbreviation same :: "('w \<Rightarrow> 'x) \<Rightarrow> 'w \<Rightarrow> 'w \<Rightarrow> bool" where
  "same f s s' \<equiv> f s' = f s"

abbreviation anything :: "'e \<Rightarrow> bool" where
  "anything e \<equiv> True"

interpretation same_world: world_order "same f" for f
  by unfold_locales simp_all

end
