(* ===== verification/Ids.thy ===== *)
theory Ids
  imports Service_Error
begin

text \<open>
  Parsing of identifiers that the protocol buffers carry both in binary and as strings
  (\<open>utils.rs\<close>), and the envelope with its accessors (\<open>envelope.rs\<close>). The textual and binary forms
  of identifiers belong to the protocol library and the UUID package, which are a record of
  functions here.
\<close>

record sid_pkgs =
  service_id_string :: "service_id \<Rightarrow> string"
  parse_from_service_id_string :: "string \<Rightarrow> service_id option"
  parse_from_service_id_binary :: "bytes \<Rightarrow> service_id option"
  aci_from_service_id_string :: "string \<Rightarrow> uuid option"
  pni_from_service_id_string :: "string \<Rightarrow> uuid option"
  uuid_from_str :: "string \<Rightarrow> uuid option"

section \<open>Binary form with a string fallback\<close>

definition or_else :: "'a option \<Rightarrow> 'a option \<Rightarrow> 'a option" where
  "or_else a b = (case a of Some x \<Rightarrow> Some x | None \<Rightarrow> b)"

definition parse_aci_with_fallback :: "sid_pkgs \<Rightarrow> bytes option \<Rightarrow> string option \<Rightarrow> uuid option" where
  "parse_aci_with_fallback S bs utf8 =
     or_else (Option.bind bs (try_into_array 16)) (Option.bind utf8 (aci_from_service_id_string S))"

definition parse_pni_with_fallback ::
    "sid_pkgs \<Rightarrow> bytes option \<Rightarrow> string option \<Rightarrow> bool \<Rightarrow> uuid option" where
  "parse_pni_with_fallback S bs utf8 pni_is_uuid =
     or_else (Option.bind bs (try_into_array 16))
       (Option.bind utf8 (if pni_is_uuid then uuid_from_str S else pni_from_service_id_string S))"

definition deserialize_service_id :: "sid_pkgs \<Rightarrow> string \<Rightarrow> (service_id, string) result" where
  "deserialize_service_id S s =
     ok_or (''invalid service id: '' @ s) (parse_from_service_id_string S s)"

definition parse_service_id_with_fallback ::
    "sid_pkgs \<Rightarrow> bytes option \<Rightarrow> string option \<Rightarrow> service_id option" where
  "parse_service_id_with_fallback S bs utf8 =
     or_else (Option.bind bs (parse_from_service_id_binary S))
       (Option.bind utf8 (parse_from_service_id_string S))"

definition parse_uuid_with_fallback :: "sid_pkgs \<Rightarrow> bytes option \<Rightarrow> string option \<Rightarrow> uuid option" where
  "parse_uuid_with_fallback S binary utf8 =
     or_else (Option.bind binary (try_into_array 16)) (Option.bind utf8 (uuid_from_str S))"

lemma or_else_Some_iff: "or_else a b = Some x \<longleftrightarrow> a = Some x \<or> a = None \<and> b = Some x"
  by (cases a) (auto simp: or_else_def)

lemma parse_aci_with_fallback_binary [simp]:
  "length bs = 16 \<Longrightarrow> parse_aci_with_fallback S (Some bs) utf8 = Some bs"
  by (simp add: parse_aci_with_fallback_def or_else_def try_into_array_def)

section \<open>Envelopes\<close>

datatype envelope_type =
    UnknownType | DoubleRatchet | PrekeyMessage | ServerDeliveryReceipt | UnidentifiedSender
  | PlaintextContentType

text \<open>The enumeration values of the schema; any other number reads as the default.\<close>

definition envelope_type_of :: "i32 \<Rightarrow> envelope_type" where
  "envelope_type_of n =
     (if n = 1 then DoubleRatchet else if n = 3 then PrekeyMessage
      else if n = 5 then ServerDeliveryReceipt else if n = 6 then UnidentifiedSender
      else if n = 8 then PlaintextContentType else UnknownType)"

record envelope =
  env_type :: "i32 option"
  source_service_id :: "string option"
  source_device_id :: "u32 option"
  destination_service_id :: "string option"
  client_timestamp :: "u64 option"
  env_content :: "bytes option"
  server_guid :: "string option"
  server_timestamp :: "u64 option"
  ephemeral :: "bool option"
  urgent :: "bool option"
  updated_pni :: "string option"
  story :: "bool option"
  report_spam_token :: "bytes option"
  source_service_id_binary :: "bytes option"
  destination_service_id_binary :: "bytes option"
  server_guid_binary :: "bytes option"
  updated_pni_binary :: "bytes option"

definition type_of_envelope :: "envelope \<Rightarrow> envelope_type" where
  "type_of_envelope e = (case env_type e of Some n \<Rightarrow> envelope_type_of n | None \<Rightarrow> UnknownType)"

definition is_unidentified_sender :: "envelope \<Rightarrow> bool" where
  "is_unidentified_sender e \<longleftrightarrow> type_of_envelope e = UnidentifiedSender"

definition is_prekey_signal_message :: "envelope \<Rightarrow> bool" where
  "is_prekey_signal_message e \<longleftrightarrow> type_of_envelope e = PrekeyMessage"

definition is_receipt :: "envelope \<Rightarrow> bool" where
  "is_receipt e \<longleftrightarrow> type_of_envelope e = ServerDeliveryReceipt"

definition is_signal_message :: "envelope \<Rightarrow> bool" where
  "is_signal_message e \<longleftrightarrow> type_of_envelope e = DoubleRatchet"

definition is_urgent :: "envelope \<Rightarrow> bool" where
  "is_urgent e = (case urgent e of Some b \<Rightarrow> b | None \<Rightarrow> True)"

definition is_story :: "envelope \<Rightarrow> bool" where
  "is_story e = (case story e of Some b \<Rightarrow> b | None \<Rightarrow> False)"

definition source_address :: "sid_pkgs \<Rightarrow> envelope \<Rightarrow> (service_id, service_error) result" where
  "source_address S e =
     (case source_service_id e of
        Some s \<Rightarrow> expect ''invalid source ProtocolAddress UUID or prefix'' (parse_from_service_id_string S s)
      | None \<Rightarrow> Panic ''source_service_id is set'')"

definition destination_address :: "sid_pkgs \<Rightarrow> envelope \<Rightarrow> (service_id, service_error) result" where
  "destination_address S e =
     (case destination_service_id e of
        Some s \<Rightarrow> expect ''invalid destination ProtocolAddress UUID or prefix'' (parse_from_service_id_string S s)
      | None \<Rightarrow> Panic ''destination_address is set'')"

definition parse_destination_service_id :: "sid_pkgs \<Rightarrow> envelope \<Rightarrow> service_id option" where
  "parse_destination_service_id S e =
     parse_service_id_with_fallback S (destination_service_id_binary e) (destination_service_id e)"

definition parse_source_service_id :: "sid_pkgs \<Rightarrow> envelope \<Rightarrow> service_id option" where
  "parse_source_service_id S e =
     parse_service_id_with_fallback S (source_service_id_binary e) (source_service_id e)"

definition parse_server_guid :: "sid_pkgs \<Rightarrow> envelope \<Rightarrow> uuid option" where
  "parse_server_guid S e = parse_uuid_with_fallback S (server_guid_binary e) (server_guid e)"

definition parse_updated_pni :: "sid_pkgs \<Rightarrow> envelope \<Rightarrow> uuid option" where
  "parse_updated_pni S e = parse_pni_with_fallback S (updated_pni_binary e) (updated_pni e) True"

definition CIPHER_KEY_SIZE :: nat where "CIPHER_KEY_SIZE = 32"
definition VERSION_OFFSET :: nat where "VERSION_OFFSET = 0"
definition VERSION_LENGTH :: nat where "VERSION_LENGTH = 1"
definition IV_OFFSET :: nat where "IV_OFFSET = VERSION_OFFSET + VERSION_LENGTH"
definition IV_LENGTH :: nat where "IV_LENGTH = 16"

end
