(* ===== verification/Content.thy ===== *)
theory Content
  imports Ids
begin

text \<open>
  Message content of \<open>content.rs\<close>: the metadata of a received message, the body variants, and the
  conversions between a body and the \<open>Content\<close> message of the wire format. Of the bodies, only
  the fields that the program looks at are separate; the others are carried as bytes.
\<close>

record metadata =
  md_sender :: service_id
  md_destination :: service_id
  md_sender_device :: device_id
  md_pni_verified :: "uuid option"
  md_client_timestamp :: int
  md_server_timestamp :: int
  md_needs_receipt :: bool
  md_unidentified_sender :: bool
  md_was_plaintext :: bool
  md_server_guid :: "uuid option"
  md_report_spam_token :: "bytes option"

definition metadata_protocol_address :: "sid_pkgs \<Rightarrow> metadata \<Rightarrow> protocol_address" where
  "metadata_protocol_address S md =
     to_protocol_address (service_id_string S) (md_sender md) (md_sender_device md)"

section \<open>Bodies\<close>

record data_message =
  expire_timer :: "u32 option"
  data_rest :: bytes

record unidentified_delivery_status =
  uds_destination_service_id :: "string option"
  uds_destination_service_id_binary :: "bytes option"
  uds_unidentified :: "bool option"
  uds_destination_pni_identity_key :: "bytes option"

record sent =
  sent_destination_service_id :: "string option"
  sent_destination_service_id_binary :: "bytes option"
  sent_destination_e164 :: "string option"
  sent_expiration_start_timestamp :: "u64 option"
  sent_message :: "data_message option"
  sent_edit_message :: "bytes option"
  sent_timestamp :: "u64 option"
  sent_unidentified_status :: "unidentified_delivery_status list"

record message_request_response =
  thread_aci :: "string option"
  thread_aci_binary :: "bytes option"
  mrr_group_id :: "bytes option"
  mrr_type :: "i32 option"

text \<open>A pointer to an attachment on a CDN, with the key to decrypt it.\<close>

datatype attachment_identifier = CdnId u64 | CdnKey string

record attachment_pointer =
  ap_identifier :: "attachment_identifier option"
  ap_content_type :: "string option"
  ap_key :: "bytes option"
  ap_size :: "u32 option"
  ap_thumbnail :: "bytes option"
  ap_digest :: "bytes option"
  ap_file_name :: "string option"
  ap_flags :: "u32 option"
  ap_width :: "u32 option"
  ap_height :: "u32 option"
  ap_caption :: "string option"
  ap_blur_hash :: "string option"
  ap_upload_timestamp :: "u64 option"
  ap_cdn_number :: "u32 option"
  ap_client_uuid :: "bytes option"
  ap_incremental_mac :: "bytes option"
  ap_chunk_size :: "u32 option"

datatype (plugins only: size) sync_content =
    SyncSent sent
  | SyncContacts "attachment_pointer option" "bool option"
  | SyncRequest "i32 option"
  | SyncMessageRequestResponse message_request_response
  | SyncOther bytes

datatype (plugins only: size) sync_message = SyncMessage
  (sync_content: "sync_content option") (sync_padding: "bytes option")

datatype (plugins only: size) content_body =
    NullMessage "bytes option"
  | DataMessage data_message
  | SynchronizeMessage sync_message
  | CallMessage bytes
  | ReceiptMessage bytes
  | TypingMessage bytes
  | DecryptionErrorMessage bytes
  | StoryMessage bytes
  | EditMessage bytes

text \<open>
  The wire format: the oneof of \<open>Content\<close> has the same variants, with a decryption error still
  encoded; beside it travel a sender key distribution message and a PNI signature.
\<close>

datatype (plugins only: size) proto_body =
    ProtoDataMessage data_message
  | ProtoSyncMessage sync_message
  | ProtoCallMessage bytes
  | ProtoNullMessage "bytes option"
  | ProtoReceiptMessage bytes
  | ProtoTypingMessage bytes
  | ProtoDecryptionErrorMessage bytes
  | ProtoStoryMessage bytes
  | ProtoEditMessage bytes

record pni_signature_message =
  sig_pni :: "bytes option"
  sig_signature :: "bytes option"

record proto_content =
  pc_content :: "proto_body option"
  pc_sender_key_distribution_message :: "bytes option"
  pc_pni_signature_message :: "pni_signature_message option"

text \<open>Encoding and decoding of these messages, provided by the protocol buffer package.\<close>

record content_codec =
  content_encode :: "proto_content \<Rightarrow> bytes"
  content_decode :: "bytes \<Rightarrow> string + proto_content"
  dem_encode :: "bytes \<Rightarrow> bytes"
  dem_decode :: "bytes \<Rightarrow> string + bytes"

record content =
  c_metadata :: metadata
  c_body :: content_body

definition from_proto :: "content_codec \<Rightarrow> proto_content \<Rightarrow> metadata \<Rightarrow> (content, service_error) result" where
  "from_proto K p md =
     (case pc_content p of
        None \<Rightarrow> Err UnsupportedContent
      | Some c \<Rightarrow>
          let ok = (\<lambda>body. Ok \<lparr>c_metadata = md, c_body = body\<rparr>) in
          (case c of
             ProtoDataMessage msg \<Rightarrow> ok (DataMessage msg)
           | ProtoSyncMessage msg \<Rightarrow> ok (SynchronizeMessage msg)
           | ProtoCallMessage msg \<Rightarrow> ok (CallMessage msg)
           | ProtoNullMessage msg \<Rightarrow> ok (NullMessage msg)
           | ProtoReceiptMessage msg \<Rightarrow> ok (ReceiptMessage msg)
           | ProtoTypingMessage msg \<Rightarrow> ok (TypingMessage msg)
           | ProtoDecryptionErrorMessage msg \<Rightarrow>
               (case dem_decode K msg of
                  Inl e \<Rightarrow> Err (ProtobufDecodeError e)
                | Inr m \<Rightarrow> ok (DecryptionErrorMessage m))
           | ProtoStoryMessage msg \<Rightarrow> ok (StoryMessage msg)
           | ProtoEditMessage msg \<Rightarrow> ok (EditMessage msg)))"

primrec inner_proto :: "content_codec \<Rightarrow> content_body \<Rightarrow> proto_body" where
  "inner_proto K (NullMessage msg) = ProtoNullMessage msg"
| "inner_proto K (DataMessage msg) = ProtoDataMessage msg"
| "inner_proto K (SynchronizeMessage msg) = ProtoSyncMessage msg"
| "inner_proto K (CallMessage msg) = ProtoCallMessage msg"
| "inner_proto K (ReceiptMessage msg) = ProtoReceiptMessage msg"
| "inner_proto K (TypingMessage msg) = ProtoTypingMessage msg"
| "inner_proto K (DecryptionErrorMessage msg) = ProtoDecryptionErrorMessage (dem_encode K msg)"
| "inner_proto K (StoryMessage msg) = ProtoStoryMessage msg"
| "inner_proto K (EditMessage msg) = ProtoEditMessage msg"

definition into_proto :: "content_codec \<Rightarrow> content_body \<Rightarrow> proto_content" where
  "into_proto K body =
     \<lparr>pc_content = Some (inner_proto K body), pc_sender_key_distribution_message = None,
      pc_pni_signature_message = None\<rparr>"

text \<open>The random padding of a generated null message: between 1 and 140 bytes.\<close>

definition null_padding_length :: "u64 \<Rightarrow> nat" where
  "null_padding_length r = unat r mod 140 + 1"

definition generate_null :: "u64 \<Rightarrow> (nat \<Rightarrow> bytes) \<Rightarrow> bytes option" where
  "generate_null r fill = Some (fill (null_padding_length r))"

lemma from_proto_into_proto:
  assumes "\<And>m. dem_decode K (dem_encode K m) = Inr m"
  shows "from_proto K ((into_proto K body)\<lparr>pc_sender_key_distribution_message := skdm,
      pc_pni_signature_message := sig\<rparr>) md = Ok \<lparr>c_metadata = md, c_body = body\<rparr>"
  using assms by (cases body) (simp_all add: from_proto_def into_proto_def Let_def)

end
