(* ===== verification/Padding.thy ===== *)
theory Padding
  imports Crypto Service_Error
begin

text \<open>
  Message padding of \<open>cipher.rs\<close>: messages of a session of version three or later are padded to
  a multiple of 160 bytes, so that their length is hidden. The two padding functions change a
  vector in place; the model returns the new vector.
\<close>

definition add_padding :: "iso7816 \<Rightarrow> u32 \<Rightarrow> bytes \<Rightarrow> (bytes, service_error) result" where
  "add_padding I version contents =
     (if version < 2 then Err (PaddingVersion version)
      else if version = 2 then Ok contents
      else
        let message_length = length contents;
            message_length_with_terminator = length contents + 1;
            message_part_count = message_length_with_terminator div 160;
            message_part_count =
              (if message_length_with_terminator mod 160 \<noteq> 0 then message_part_count + 1
               else message_part_count);
            message_length_with_padding = message_part_count * 160
        in if message_length_with_padding < message_length
           then Panic ''range end index out of range for slice''
           else expect ''index out of bounds''
             (raw_pad I (contents @ replicate (message_length_with_padding - message_length) 0)
                message_length))"

definition strip_padding :: "iso7816 \<Rightarrow> bytes \<Rightarrow> (bytes, service_error) result" where
  "strip_padding I contents =
     map_ok (\<lambda>unpadded. resize (length unpadded) 0 contents) (ok_or Padding (raw_unpad I contents))"

definition strip_padding_version :: "iso7816 \<Rightarrow> u32 \<Rightarrow> bytes \<Rightarrow> (bytes, service_error) result" where
  "strip_padding_version I version contents =
     (if version < 2 then Err (InvalidFrame ''unknown version'')
      else if version = 2 then Ok contents
      else strip_padding I contents)"

text \<open>The padded length, computed without the case distinction of the code.\<close>

definition padded_length :: "nat \<Rightarrow> nat" where
  "padded_length n = 160 * (n div 160 + 1)"

lemma padded_length_eq:
  "(if (n + 1) mod 160 \<noteq> 0 then (n + 1) div 160 + 1 else (n + 1) div 160) * 160 = padded_length n"
  by (simp add: padded_length_def div_Suc)

lemma padded_length_bounds: "n < padded_length n" "padded_length n \<le> n + 160"
  by (auto simp: padded_length_def)

lemma add_padding_eq:
  assumes "iso7816_correct I" and "2 < version"
  shows "add_padding I version m =
    Ok (m @ 0x80 # replicate (padded_length (length m) - length m - 1) 0)"
proof -
  have "\<not> version < 2" and "version \<noteq> 2"
    using assms(2) by auto
  moreover have "\<not> padded_length (length m) < length m"
    using padded_length_bounds(1) [of "length m"] by simp
  moreover have "raw_pad I (m @ replicate (padded_length (length m) - length m) 0) (length m) =
      Some (m @ 0x80 # replicate (padded_length (length m) - length m - 1) 0)"
    using assms(1) padded_length_bounds(1) [of "length m"] by (simp add: iso7816_correct_def)
  ultimately show ?thesis
    unfolding add_padding_def Let_def padded_length_eq by simp
qed

text \<open>
  C10: message padding is invertible and hides the length. From version three on, every
  message is padded to the next multiple of 160 bytes above its length, at most 160 bytes more,
  and stripping returns it; version two adds nothing; earlier versions are refused in both
  directions. No message makes either function panic.
\<close>

theorem padding_roundtrip:
  assumes "iso7816_correct I"
  shows "if version < 2
         then add_padding I version m = Err (PaddingVersion version) \<and>
              strip_padding_version I version m = Err (InvalidFrame ''unknown version'')
         else \<exists>b. add_padding I version m = Ok b \<and> strip_padding_version I version b = Ok m \<and>
                  (if version = 2 then b = m
                   else 160 dvd length b \<and> length m < length b \<and> length b \<le> length m + 160)"
proof (cases "version \<le> 2")
  case True
  then show ?thesis
    by (cases "version = 2") (auto simp: add_padding_def strip_padding_version_def)
next
  case False
  then have v: "2 < version" "\<not> version < 2" "version \<noteq> 2"
    by auto
  let ?b = "m @ 0x80 # replicate (padded_length (length m) - length m - 1) 0"
  have "length ?b = padded_length (length m)"
    using padded_length_bounds(1) [of "length m"] by simp
  moreover have "strip_padding_version I version ?b = Ok m"
    using assms v by (simp add: strip_padding_version_def strip_padding_def iso7816_correct_def resize_def)
  ultimately show ?thesis
    using v add_padding_eq [OF assms v(1), of m] padded_length_bounds [of "length m"]
    by (simp add: padded_length_def)
qed

theorem padding_roundtrip_witness:
  "\<exists>b. add_padding sample_iso7816 3 [7] = Ok b \<and>
       strip_padding_version sample_iso7816 3 b = Ok [7] \<and>
       160 dvd length b \<and> 1 < length b \<and> length b \<le> 161"
  using padding_roundtrip [OF sample_iso7816_correct, of 3 "[7]"] by simp

end
