(* ===== verification/Ws_Request.thy ===== *)
theory Ws_Request
  imports Response Ids
begin

text \<open>
  Requests over the websocket: the builder of \<open>websocket/request.rs\<close>, the decoding of answers in
  \<open>websocket/mod.rs\<close>, the message endpoints of \<open>websocket/sender.rs\<close> and the key endpoints of
  \<open>websocket/keys.rs\<close>. The socket is a function from a request to an effect; JSON encoders and
  decoders are parameters of the endpoints that use them.
\<close>

section \<open>Building a request\<close>

record ws_request =
  req_id :: "u64 option"
  req_verb :: "string option"
  req_path :: "string option"
  req_body :: "bytes option"
  req_headers :: "string list"

type_synonym 'w socket = "ws_request \<Rightarrow> ('w, ws_response, service_error) eff"

definition new_request :: "string \<Rightarrow> ws_request" where
  "new_request verb =
     \<lparr>req_id = None, req_verb = Some verb, req_path = None, req_body = None, req_headers = []\<rparr>"

definition with_id :: "u64 \<Rightarrow> ws_request \<Rightarrow> ws_request" where
  "with_id i r = r\<lparr>req_id := Some i\<rparr>"

definition with_path :: "string \<Rightarrow> ws_request \<Rightarrow> ws_request" where
  "with_path p r = r\<lparr>req_path := Some p\<rparr>"

definition with_header :: "string \<Rightarrow> string \<Rightarrow> ws_request \<Rightarrow> ws_request" where
  "with_header key v r = r\<lparr>req_headers := req_headers r @ [key @ '':'' @ v]\<rparr>"

definition with_json :: "(bytes, string) result \<Rightarrow> ws_request \<Rightarrow> (ws_request, string) result" where
  "with_json encoded r =
     map_ok (\<lambda>body. with_header ''content-type'' ''application/json'' (r\<lparr>req_body := Some body\<rparr>)) encoded"

definition http_request :: "string \<Rightarrow> string \<Rightarrow> ws_request" where
  "http_request verb path = with_path path (new_request verb)"

definition registration_auth_header :: "(bytes \<Rightarrow> string) \<Rightarrow> string \<Rightarrow> string \<Rightarrow> ws_request \<Rightarrow> ws_request" where
  "registration_auth_header base64_standard phonenumber password r =
     with_header ''Authorization'' (''Basic '' @ base64_standard (as_bytes (phonenumber @ '':'' @ password))) r"

definition send_json :: "'w socket \<Rightarrow> (bytes, string) result \<Rightarrow> ws_request \<Rightarrow> ('w, ws_response, service_error) eff" where
  "send_json request encoded r =
     bindE (lift (map_err JsonDecodeError (with_json encoded r))) request"

definition send :: "'w socket \<Rightarrow> ws_request \<Rightarrow> ('w, ws_response, service_error) eff" where
  "send request r = request r"

section \<open>Reading the answer\<close>

definition response_json :: "(bytes \<Rightarrow> ('a, string) result) \<Rightarrow> ws_response \<Rightarrow> ('a, service_error) result" where
  "response_json from_slice r =
     (case resp_body r of
        None \<Rightarrow> Err UnsupportedContent
      | Some b \<Rightarrow> map_err JsonDecodeError (from_slice b))"

definition request_json_with ::
    "http_pkgs \<Rightarrow> 'w socket \<Rightarrow> ws_request \<Rightarrow> (ws_response \<Rightarrow> (ws_response, service_error) result)
       \<Rightarrow> (bytes \<Rightarrow> ('a, string) result) \<Rightarrow> ('w, 'a, service_error) eff" where
  "request_json_with P request r decode from_slice =
     bindE (request r) (\<lambda>response.
     bindE (lift (service_error_for_status_with P (ws_ops P) decode response)) (\<lambda>response.
     lift (response_json from_slice response)))"

text \<open>The chain \<open>send().await?.service_error_for_status().await?.json().await\<close> of a plain GET.\<close>

definition get_json ::
    "http_pkgs \<Rightarrow> 'w socket \<Rightarrow> string \<Rightarrow> (bytes \<Rightarrow> ('a, string) result) \<Rightarrow> ('w, 'a, service_error) eff" where
  "get_json P request path from_slice =
     bindE (send request (http_request ''GET'' path)) (\<lambda>response.
     bindE (lift (service_error_for_status P (ws_ops P) response)) (\<lambda>response.
     lift (response_json from_slice response)))"

end
