(* ===== verification/Ws_Endpoints.thy ===== *)
theory Ws_Endpoints
  imports Ws_Request Content
begin

text \<open>
  The key endpoints of \<open>websocket/keys.rs\<close> and the message endpoints of \<open>websocket/sender.rs\<close>, and
  the requests the server sends us (\<open>proto.rs\<close>). Key parsing belongs to the protocol library and
  JSON to \<open>serde_json\<close>: both are a record of functions. A prekey bundle is opaque.
\<close>

section \<open>Requests from the server\<close>

definition is_signal_service_envelope :: "ws_request \<Rightarrow> bool" where
  "is_signal_service_envelope r \<longleftrightarrow> req_verb r = Some ''PUT'' \<and> req_path r = Some ''/api/v1/message''"

definition is_queue_empty :: "ws_request \<Rightarrow> bool" where
  "is_queue_empty r \<longleftrightarrow> req_verb r = Some ''PUT'' \<and> req_path r = Some ''/api/v1/queue/empty''"

definition from_request :: "ws_request \<Rightarrow> ws_response" where
  "from_request msg =
     (if is_signal_service_envelope msg \<or> is_queue_empty msg
      then \<lparr>resp_id = req_id msg, resp_status = Some 200, resp_message = Some ''OK'',
            resp_headers = [], resp_body = None\<rparr>
      else \<lparr>resp_id = req_id msg, resp_status = Some 400, resp_message = Some ''Unknown'',
            resp_headers = [], resp_body = None\<rparr>)"

text \<open>The inherent method, which refuses a status that does not fit 16 bits.\<close>

definition response_status :: "http_pkgs \<Rightarrow> ws_response \<Rightarrow> u16 option" where
  "response_status P r =
     (let status = (case resp_status r of Some s \<Rightarrow> s | None \<Rightarrow> 0)
      in if unat status < 2 ^ 16 then status_from_u16 P (ucast status) else None)"

section \<open>Prekeys\<close>

record pre_key_entity =
  pke_key_id :: u32
  pke_public_key :: bytes

record signed_pre_key_entity = pre_key_entity +
  pke_signature :: bytes

type_synonym kyber_pre_key_entity = signed_pre_key_entity

record pre_key_response_item =
  pkr_device_id :: device_id
  pkr_registration_id :: u32
  pkr_signed_pre_key :: signed_pre_key_entity
  pkr_pre_key :: "pre_key_entity option"
  pkr_pq_pre_key :: kyber_pre_key_entity

record pre_key_response =
  pkr_identity_key :: bytes
  pkr_devices :: "pre_key_response_item list"

type_synonym prekey_bundle = bytes

record key_pkgs =
  kind_string :: "service_id_kind \<Rightarrow> string"
  json_pre_key_response :: "bytes \<Rightarrow> (pre_key_response, string) result"
  json_certificate :: "bytes \<Rightarrow> (bytes, string) result"
  json_pre_key_status :: "bytes \<Rightarrow> (u32 \<times> u32, string) result"
  json_check_request :: "string \<Rightarrow> bytes \<Rightarrow> (bytes, string) result"
  identity_key_decode :: "bytes \<Rightarrow> (bytes, signal_protocol_error) result"
  public_key_deserialize :: "bytes \<Rightarrow> (bytes, string) result"
  curve_to_protocol :: "string \<Rightarrow> signal_protocol_error"
  kyber_key_deserialize :: "bytes \<Rightarrow> (bytes, signal_protocol_error) result"
  pre_key_bundle_new :: "u32 \<Rightarrow> device_id \<Rightarrow> (u32 \<times> bytes) option \<Rightarrow> u32 \<Rightarrow> bytes \<Rightarrow> bytes \<Rightarrow> u32
    \<Rightarrow> bytes \<Rightarrow> bytes \<Rightarrow> bytes \<Rightarrow> (prekey_bundle, signal_protocol_error) result"
  certificate_deserialize :: "bytes \<Rightarrow> (bytes, signal_protocol_error) result"

definition proto_err :: "('a, signal_protocol_error) result \<Rightarrow> ('a, service_error) result" where
  "proto_err = map_err SignalProtocolError"

definition into_bundle :: "key_pkgs \<Rightarrow> bytes \<Rightarrow> pre_key_response_item \<Rightarrow> (prekey_bundle, service_error) result" where
  "into_bundle K identity i =
     and_then (case pkr_pre_key i of
         None \<Rightarrow> Ok None
       | Some pk \<Rightarrow> map_ok (\<lambda>key. Some (pke_key_id pk, key))
           (proto_err (map_err (curve_to_protocol K) (public_key_deserialize K (pke_public_key pk))))) (\<lambda>pre_key.
     and_then (map_err Curve (public_key_deserialize K (pke_public_key (pkr_signed_pre_key i)))) (\<lambda>signed.
     and_then (proto_err (kyber_key_deserialize K (pke_public_key (pkr_pq_pre_key i)))) (\<lambda>pq.
     proto_err (pre_key_bundle_new K (pkr_registration_id i) (pkr_device_id i) pre_key
       (pke_key_id (pkr_signed_pre_key i)) signed (pke_signature (pkr_signed_pre_key i))
       (pke_key_id (pkr_pq_pre_key i)) pq (pke_signature (pkr_pq_pre_key i)) identity))))"

definition keys_path :: "sid_pkgs \<Rightarrow> service_id \<Rightarrow> device_id \<Rightarrow> string" where
  "keys_path S destination device =
     ''/v2/keys/'' @ service_id_string S destination @ ''/'' @ nat_to_string (unat device)"

definition get_pre_key ::
    "http_pkgs \<Rightarrow> key_pkgs \<Rightarrow> sid_pkgs \<Rightarrow> 'w socket \<Rightarrow> service_id \<Rightarrow> device_id
       \<Rightarrow> ('w, prekey_bundle, service_error) eff" where
  "get_pre_key P K S request destination device =
     bindE (get_json P request (keys_path S destination device) (json_pre_key_response K)) (\<lambda>response.
     case pkr_devices response of
       [] \<Rightarrow> lift (Panic ''assertion failed: !pre_key_response.devices.is_empty()'')
     | d # _ \<Rightarrow>
         bindE (lift (proto_err (identity_key_decode K (pkr_identity_key response)))) (\<lambda>identity.
         lift (into_bundle K identity d)))"

definition get_pre_keys ::
    "http_pkgs \<Rightarrow> key_pkgs \<Rightarrow> sid_pkgs \<Rightarrow> 'w socket \<Rightarrow> service_id \<Rightarrow> device_id
       \<Rightarrow> ('w, prekey_bundle list, service_error) eff" where
  "get_pre_keys P K S request destination device =
     (let path = (if device = 1 then ''/v2/keys/'' @ service_id_string S destination @ ''/*''
                  else keys_path S destination device) in
      bindE (get_json P request path (json_pre_key_response K)) (\<lambda>response.
      bindE (lift (proto_err (identity_key_decode K (pkr_identity_key response)))) (\<lambda>identity.
      lift (collect (map (into_bundle K identity) (pkr_devices response))))))"

definition get_pre_key_status ::
    "http_pkgs \<Rightarrow> key_pkgs \<Rightarrow> 'w socket \<Rightarrow> service_id_kind \<Rightarrow> ('w, u32 \<times> u32, service_error) eff" where
  "get_pre_key_status P K request kind =
     get_json P request (''/v2/keys?identity='' @ kind_string K kind) (json_pre_key_status K)"

definition check_pre_keys ::
    "http_pkgs \<Rightarrow> key_pkgs \<Rightarrow> 'w socket \<Rightarrow> service_id_kind \<Rightarrow> bytes \<Rightarrow> ('w, bool, service_error) eff" where
  "check_pre_keys P K request kind digest =
     bindE (send_json request (json_check_request K (kind_string K kind) digest)
         (http_request ''POST'' ''/v2/keys/check'')) (\<lambda>res.
     if response_status P res = Some 409 then pure False
     else bindE (lift (service_error_for_status P (ws_ops P) res)) (\<lambda>_. pure True))"

definition get_sender_certificate ::
    "http_pkgs \<Rightarrow> key_pkgs \<Rightarrow> 'w socket \<Rightarrow> ('w, bytes, service_error) eff" where
  "get_sender_certificate P K request =
     bindE (get_json P request ''/v1/certificate/delivery'' (json_certificate K)) (\<lambda>cert.
     lift (proto_err (certificate_deserialize K cert)))"

definition get_uuid_only_sender_certificate ::
    "http_pkgs \<Rightarrow> key_pkgs \<Rightarrow> 'w socket \<Rightarrow> ('w, bytes, service_error) eff" where
  "get_uuid_only_sender_certificate P K request =
     bindE (get_json P request ''/v1/certificate/delivery?includeE164=false'' (json_certificate K)) (\<lambda>cert.
     lift (proto_err (certificate_deserialize K cert)))"

section \<open>Messages\<close>

record outgoing_push_message =
  msg_type :: u32
  destination_device_id :: device_id
  destination_registration_id :: u32
  msg_content :: string

record outgoing_push_messages =
  opm_destination :: service_id
  opm_timestamp :: u64
  opm_messages :: "outgoing_push_message list"
  opm_online :: bool

record unidentified_access =
  ua_key :: bytes
  ua_certificate :: bytes

record message_pkgs =
  json_push_messages :: "outgoing_push_messages \<Rightarrow> (bytes, string) result"
  json_send_response :: "bytes \<Rightarrow> (bool, string) result"
  base64_relaxed_encode :: "bytes \<Rightarrow> string"

definition messages_path :: "sid_pkgs \<Rightarrow> service_id \<Rightarrow> string" where
  "messages_path S destination = ''/v1/messages/'' @ service_id_string S destination"

definition send_messages ::
    "http_pkgs \<Rightarrow> message_pkgs \<Rightarrow> sid_pkgs \<Rightarrow> 'w socket \<Rightarrow> outgoing_push_messages
       \<Rightarrow> ('w, bool, service_error) eff" where
  "send_messages P M S request messages =
     bindE (lift (map_err JsonDecodeError (with_json (json_push_messages M messages)
       (with_path (messages_path S (opm_destination messages)) (new_request ''PUT''))))) (\<lambda>r.
     request_json_with P request r (put_messages_errors P (ws_ops P)) (json_send_response M))"

definition send_messages_unidentified ::
    "http_pkgs \<Rightarrow> message_pkgs \<Rightarrow> sid_pkgs \<Rightarrow> 'w socket \<Rightarrow> outgoing_push_messages
       \<Rightarrow> unidentified_access \<Rightarrow> ('w, bool, service_error) eff" where
  "send_messages_unidentified P M S request messages access =
     bindE (lift (map_err JsonDecodeError (with_json (json_push_messages M messages)
       (with_header ''Unidentified-Access-Key'' (base64_relaxed_encode M (ua_key access))
       (with_path (messages_path S (opm_destination messages)) (new_request ''PUT'')))))) (\<lambda>r.
     request_json_with P request r (put_messages_errors P (ws_ops P)) (json_send_response M))"

end
