(* ===== verification/Cipher.thy ===== *)
theory Cipher
  imports Content Padding Ws_Endpoints
begin

text \<open>
  \<open>ServiceCipher\<close> of \<open>cipher.rs\<close>: opening received envelopes and encrypting outgoing content.
  The protocol library and the stores the client supplies are a record of effects on a world of
  type \<open>'w\<close>; a session record is an opaque byte string with accessors. The session lock of a peer
  is taken and dropped by two functions on the world around the code that uses the session.
\<close>

section \<open>The protocol library and the stores\<close>

record sender_certificate =
  cert_validate :: "bytes list \<Rightarrow> u64 \<Rightarrow> (bool, signal_protocol_error) result"
  cert_sender_uuid :: "(string, signal_protocol_error) result"
  cert_sender_e164 :: "(string option, signal_protocol_error) result"
  cert_sender_device_id :: "(device_id, signal_protocol_error) result"

record usmc =
  usmc_sender :: "(sender_certificate, signal_protocol_error) result"
  usmc_msg_type :: "(ciphertext_message_type, signal_protocol_error) result"
  usmc_contents :: "(bytes, signal_protocol_error) result"

record 'w protocol_env =
  env_sids :: sid_pkgs
  env_codec :: content_codec
  env_iso :: iso7816
  base64_relaxed :: "bytes \<Rightarrow> string"
  from_timestamp_millis :: "int \<Rightarrow> int option"
  lock_session :: "service_id \<Rightarrow> 'w \<Rightarrow> 'w"
  unlock_session :: "service_id \<Rightarrow> 'w \<Rightarrow> 'w"
  load_session :: "protocol_address \<Rightarrow> ('w, bytes option, signal_protocol_error) eff"
  delete_session :: "protocol_address \<Rightarrow> ('w, unit, signal_protocol_error) eff"
  get_sub_device_sessions :: "service_id \<Rightarrow> ('w, device_id list, signal_protocol_error) eff"
  get_identity :: "protocol_address \<Rightarrow> ('w, bytes option, signal_protocol_error) eff"
  remote_registration_id :: "bytes \<Rightarrow> (u32, signal_protocol_error) result"
  session_version :: "bytes \<Rightarrow> (u32, signal_protocol_error) result"
  has_usable_sender_chain :: "bytes \<Rightarrow> bool option"
  message_encrypt :: "bytes \<Rightarrow> protocol_address \<Rightarrow> protocol_address
    \<Rightarrow> ('w, ciphertext_message_type \<times> bytes, signal_protocol_error) eff"
  sealed_sender_encrypt :: "protocol_address \<Rightarrow> bytes \<Rightarrow> bytes \<Rightarrow> ('w, bytes, signal_protocol_error) eff"
  parse_prekey_signal_message :: "bytes \<Rightarrow> (bytes, signal_protocol_error) result"
  parse_signal_message :: "bytes \<Rightarrow> (bytes, signal_protocol_error) result"
  parse_plaintext_content :: "bytes \<Rightarrow> (bytes, signal_protocol_error) result"
  message_decrypt_prekey :: "bytes \<Rightarrow> protocol_address \<Rightarrow> protocol_address
    \<Rightarrow> ('w, bytes, signal_protocol_error) eff"
  message_decrypt_signal :: "bytes \<Rightarrow> protocol_address \<Rightarrow> protocol_address
    \<Rightarrow> ('w, bytes, signal_protocol_error) eff"
  group_decrypt :: "bytes \<Rightarrow> protocol_address \<Rightarrow> ('w, bytes, signal_protocol_error) eff"
  sealed_sender_decrypt_to_usmc :: "bytes \<Rightarrow> ('w, usmc, signal_protocol_error) eff"
  parse_skdm :: "bytes \<Rightarrow> (bytes, signal_protocol_error) result"
  process_skdm :: "protocol_address \<Rightarrow> bytes \<Rightarrow> ('w, unit, signal_protocol_error) eff"
  skdm_distribution_id :: "bytes \<Rightarrow> (uuid, signal_protocol_error) result"
  pni_from_service_id_binary :: "bytes \<Rightarrow> uuid option"
  verify_alternate_identity :: "bytes \<Rightarrow> bytes \<Rightarrow> bytes \<Rightarrow> bool option"
  device_id_try_from :: "u32 \<Rightarrow> device_id option"

record service_cipher =
  trust_roots :: "bytes list"
  local_address :: protocol_address

section \<open>Effects with errors of the library\<close>

definition protoE :: "('w, 'a, signal_protocol_error) eff \<Rightarrow> ('w, 'a, service_error) eff" where
  "protoE = map_errE SignalProtocolError"

definition protoR :: "('a, signal_protocol_error) result \<Rightarrow> ('w, 'a, service_error) eff" where
  "protoR r = lift (map_err SignalProtocolError r)"

text \<open>The body of a scope that holds a peer's session guard; leaving it drops the guard.\<close>

definition with_session_lock ::
    "('w, 'm) protocol_env_scheme \<Rightarrow> service_id \<Rightarrow> ('w, 'a, 'e) eff \<Rightarrow> ('w, 'a, 'e) eff" where
  "with_session_lock E peer m = (\<lambda>s.
     case m (lock_session E peer s) of (r, s') \<Rightarrow> (r, unlock_session E peer s'))"

section \<open>Encrypting\<close>

datatype outgoing_content = Encrypted bytes | PlaintextOut bytes

definition outgoing_len :: "outgoing_content \<Rightarrow> nat" where
  "outgoing_len c = (case c of Encrypted bs \<Rightarrow> length bs | PlaintextOut bs \<Rightarrow> length bs)"

definition get_preferred_protocol_address ::
    "('w, 'm) protocol_env_scheme \<Rightarrow> service_id \<Rightarrow> device_id \<Rightarrow> ('w, protocol_address, signal_protocol_error) eff" where
  "get_preferred_protocol_address E sid device =
     (let address = to_protocol_address (service_id_string (env_sids E)) sid device
      in bindE (load_session E address) (\<lambda>session.
         if session \<noteq> None then pure address else pure address))"

text \<open>The envelope type of a ratchet message; the other ciphertext types panic.\<close>

primrec envelope_type_for :: "ciphertext_message_type \<Rightarrow> (u32, service_error) result" where
  "envelope_type_for PreKeyType = Ok 3"
| "envelope_type_for WhisperType = Ok 1"
| "envelope_type_for SenderKeyType = Panic ''Bad type: SenderKey''"
| "envelope_type_for PlaintextType = Panic ''Bad type: Plaintext''"

definition encrypt ::
    "('w, 'm) protocol_env_scheme \<Rightarrow> service_cipher \<Rightarrow> protocol_address \<Rightarrow> bytes option \<Rightarrow> outgoing_content
       \<Rightarrow> ('w, outgoing_push_message, service_error) eff" where
  "encrypt E self address unidentified_access content =
     (let not_found = SignalProtocolError (SessionNotFound (Some address) ''encrypt'') in
      bindE (protoE (load_session E address)) (\<lambda>session.
      bindE (lift (ok_or not_found session)) (\<lambda>record.
        case content of
          PlaintextOut plaintext \<Rightarrow>
            bindE (protoR (remote_registration_id E record)) (\<lambda>rid.
            pure \<lparr>msg_type = 8, destination_device_id = addr_device address,
                  destination_registration_id = rid, msg_content = base64_relaxed E plaintext\<rparr>)
        | Encrypted content \<Rightarrow>
            (if has_usable_sender_chain E record \<noteq> Some True then throw not_found
             else
               bindE (protoR (session_version E record)) (\<lambda>version.
               bindE (lift (add_padding (env_iso E) version content)) (\<lambda>padded.
                 case unidentified_access of
                   Some certificate \<Rightarrow>
                     bindE (protoR (remote_registration_id E record)) (\<lambda>rid.
                     bindE (protoE (sealed_sender_encrypt E address certificate padded)) (\<lambda>message.
                     pure \<lparr>msg_type = 6, destination_device_id = addr_device address,
                           destination_registration_id = rid,
                           msg_content = base64_relaxed E message\<rparr>))
                 | None \<Rightarrow>
                     bindE (protoE (message_encrypt E padded address (local_address self))) (\<lambda>(type, message).
                     bindE (protoR (remote_registration_id E record)) (\<lambda>rid.
                     bindE (lift (envelope_type_for type)) (\<lambda>message_type.
                     pure \<lparr>msg_type = message_type, destination_device_id = addr_device address,
                           destination_registration_id = rid,
                           msg_content = base64_relaxed E message\<rparr>)))))))))"

section \<open>Decrypting sealed sender messages\<close>

record sealed_sender_decryption_result =
  ssr_sender_uuid :: string
  ssr_sender_e164 :: "string option"
  ssr_device_id :: device_id
  ssr_message :: bytes

definition sealed_sender_decrypt_with_validated_usmc ::
    "('w, 'm) protocol_env_scheme \<Rightarrow> usmc \<Rightarrow> protocol_address \<Rightarrow> protocol_address
       \<Rightarrow> ('w, sealed_sender_decryption_result, signal_protocol_error) eff" where
  "sealed_sender_decrypt_with_validated_usmc E u remote local =
     bindE (lift (usmc_msg_type u)) (\<lambda>type.
     bindE (case type of
         WhisperType \<Rightarrow>
           bindE (lift (usmc_contents u)) (\<lambda>contents.
           bindE (lift (parse_signal_message E contents)) (\<lambda>ctext.
           message_decrypt_signal E ctext remote local))
       | PreKeyType \<Rightarrow>
           bindE (lift (usmc_contents u)) (\<lambda>contents.
           bindE (lift (parse_prekey_signal_message E contents)) (\<lambda>ctext.
           message_decrypt_prekey E ctext remote local))
       | SenderKeyType \<Rightarrow>
           bindE (lift (usmc_contents u)) (\<lambda>contents. group_decrypt E contents remote)
       | PlaintextType \<Rightarrow>
           bindE (lift (usmc_contents u)) (\<lambda>contents. lift (parse_plaintext_content E contents)))
       (\<lambda>message.
     bindE (lift (usmc_sender u)) (\<lambda>cert.
     bindE (lift (cert_sender_uuid cert)) (\<lambda>sender_uuid.
     bindE (lift (cert_sender_e164 cert)) (\<lambda>e164.
     bindE (lift (cert_sender_device_id cert)) (\<lambda>device.
     pure \<lparr>ssr_sender_uuid = sender_uuid, ssr_sender_e164 = e164, ssr_device_id = device,
           ssr_message = message\<rparr>))))))"

definition ssdE :: "('w, 'a, signal_protocol_error) eff \<Rightarrow> ('w, 'a, sealed_sender_decryption_error) eff" where
  "ssdE = map_errE ssd_from"

definition zip_ok :: "('a, 'e) result \<Rightarrow> ('b, 'e) result \<Rightarrow> ('a \<times> 'b) option" where
  "zip_ok a b = (case (a, b) of (Ok x, Ok y) \<Rightarrow> Some (x, y) | _ \<Rightarrow> None)"

definition uuid_of_service_id :: "service_id \<Rightarrow> uuid" where
  "uuid_of_service_id sid = (case sid of Aci u \<Rightarrow> u | Pni u \<Rightarrow> u)"

definition sealed_sender_decrypt ::
    "('w, 'm) protocol_env_scheme \<Rightarrow> bytes \<Rightarrow> bytes list \<Rightarrow> u64 \<Rightarrow> string option \<Rightarrow> protocol_address
       \<Rightarrow> ('w, sealed_sender_decryption_result, sealed_sender_decryption_error) eff" where
  "sealed_sender_decrypt E ciphertext roots timestamp local_e164 local =
     bindE (ssdE (sealed_sender_decrypt_to_usmc E ciphertext)) (\<lambda>u.
     bindE (ssdE (lift (usmc_sender u))) (\<lambda>cert.
     bindE (ssdE (lift (cert_validate cert roots timestamp))) (\<lambda>valid.
     if \<not> valid then throw (ssd_from (InvalidSealedSenderMessage ''trust root validation failed''))
     else
     bindE (lift (expect ''valid protocol address name''
         (parse_from_service_id_string (env_sids E) (addr_name local)))) (\<lambda>local_service_id.
     bindE (ssdE (lift (cert_sender_uuid cert))) (\<lambda>sender_uuid.
     bindE (lift (expect ''valid uuid'' (uuid_from_str (env_sids E) sender_uuid))) (\<lambda>sender.
     bindE (ssdE (lift (cert_sender_e164 cert))) (\<lambda>sender_e164.
     let is_local_uuid = (uuid_of_service_id local_service_id = sender);
         is_local_e164 = (case (local_e164, sender_e164) of (Some l, Some s) \<Rightarrow> l = s | _ \<Rightarrow> False) in
     bindE (if is_local_e164 \<or> is_local_uuid
            then bindE (ssdE (lift (cert_sender_device_id cert))) (\<lambda>device.
                 if device = addr_device local then throw (ssd_from SealedSenderSelfSend) else pure ())
            else pure ()) (\<lambda>_.
     bindE (ssdE (lift (cert_sender_device_id cert))) (\<lambda>device.
     let remote = \<lparr>addr_name = sender_uuid, addr_device = device\<rparr>;
         inner = map_errE (\<lambda>e. \<lparr>inner = e, ssd_sender = Some remote,
             original = zip_ok (usmc_msg_type u) (usmc_contents u)\<rparr>)
           (sealed_sender_decrypt_with_validated_usmc E u remote local)
     in case parse_from_service_id_string (env_sids E) (addr_name remote) of
          Some peer \<Rightarrow> with_session_lock E peer inner
        | None \<Rightarrow> inner)))))))))"

section \<open>Verifying a PNI signature\<close>

text \<open>\<open>get_identity(..).await\<close> where an error counts as an absent identity.\<close>

definition identity_or_none ::
    "('w, 'm) protocol_env_scheme \<Rightarrow> protocol_address \<Rightarrow> ('w, bytes option, service_error) eff" where
  "identity_or_none E address =
     attempt (get_identity E address) (\<lambda>r. case r of
         Ok i \<Rightarrow> pure i
       | Err _ \<Rightarrow> pure None
       | Panic p \<Rightarrow> lift (Panic p))"

definition DEFAULT_DEVICE_ID :: device_id where
  "DEFAULT_DEVICE_ID = 1"

definition verify_pni_signature ::
    "('w, 'm) protocol_env_scheme \<Rightarrow> service_id \<Rightarrow> device_id \<Rightarrow> pni_signature_message
       \<Rightarrow> ('w, uuid option, service_error) eff" where
  "verify_pni_signature E sender sender_device sig =
     (let address = to_protocol_address (service_id_string (env_sids E)) in
      case aci sender of
        None \<Rightarrow> pure None
      | Some sender_aci \<Rightarrow>
      case Option.bind (sig_pni sig) (pni_from_service_id_binary E) of
        None \<Rightarrow> pure None
      | Some p \<Rightarrow>
      case sig_signature sig of
        None \<Rightarrow> pure None
      | Some signature \<Rightarrow>
      bindE (identity_or_none E (address (Aci sender_aci) sender_device)) (\<lambda>aci_identity.
      case aci_identity of
        None \<Rightarrow> pure None
      | Some aci_identity \<Rightarrow>
      bindE (identity_or_none E (address (Pni p) sender_device)) (\<lambda>first.
      bindE (case first of
               Some i \<Rightarrow> pure (Some i)
             | None \<Rightarrow>
                 if sender_device = DEFAULT_DEVICE_ID then pure None
                 else identity_or_none E (address (Pni p) DEFAULT_DEVICE_ID)) (\<lambda>pni_identity.
      case pni_identity of
        None \<Rightarrow> pure None
      | Some pni_identity \<Rightarrow>
          (case verify_alternate_identity E pni_identity aci_identity signature of
             Some True \<Rightarrow> pure (Some p)
           | _ \<Rightarrow> pure None)))))"

section \<open>Decrypting an envelope\<close>

record plaintext =
  pt_metadata :: metadata
  pt_message :: proto_content

record decrypted_payload =
  dp_data :: bytes
  dp_sender :: service_id
  dp_sender_device :: device_id
  dp_was_plaintext :: bool
  dp_unidentified_sender :: bool
  dp_needs_receipt :: bool

definition source_device :: "('w, 'm) protocol_env_scheme \<Rightarrow> envelope \<Rightarrow> ('w, device_id, service_error) eff" where
  "source_device E envelope =
     lift (ok_or InvalidDeviceId
       (device_id_try_from E (case source_device_id envelope of Some d \<Rightarrow> d | None \<Rightarrow> 0)))"

text \<open>
  The branches for ratchet messages differ in the parser and the decryption function, which are
  arguments here.
\<close>

definition decrypt_session_message ::
    "('w, 'm) protocol_env_scheme \<Rightarrow> service_cipher \<Rightarrow> (bytes \<Rightarrow> (bytes, signal_protocol_error) result)
       \<Rightarrow> (bytes \<Rightarrow> protocol_address \<Rightarrow> protocol_address \<Rightarrow> ('w, bytes, signal_protocol_error) eff)
       \<Rightarrow> envelope \<Rightarrow> bytes \<Rightarrow> service_id option \<Rightarrow> ('w, decrypted_payload, service_error) eff" where
  "decrypt_session_message E self parse message_decrypt envelope ciphertext source =
     bindE (lift (expect ''prekey bundle format contains source_service_id'' source)) (\<lambda>source.
     bindE (source_device E envelope) (\<lambda>device.
     with_session_lock E source (
       bindE (protoE (get_preferred_protocol_address E source device)) (\<lambda>sender.
       bindE (protoR (parse ciphertext)) (\<lambda>msg.
       bindE (protoE (message_decrypt msg sender (local_address self))) (\<lambda>data.
       bindE (protoE (load_session E sender)) (\<lambda>session.
       bindE (lift (ok_or (SignalProtocolError (SessionNotFound (Some sender) ''decrypt'')) session)) (\<lambda>record.
       bindE (protoR (session_version E record)) (\<lambda>version.
       bindE (lift (strip_padding_version (env_iso E) version data)) (\<lambda>data.
       pure \<lparr>dp_data = data, dp_sender = source, dp_sender_device = device,
             dp_was_plaintext = False, dp_unidentified_sender = False,
             dp_needs_receipt = False\<rparr>))))))))))"

definition decrypt_plaintext_content ::
    "('w, 'm) protocol_env_scheme \<Rightarrow> envelope \<Rightarrow> bytes \<Rightarrow> service_id option
       \<Rightarrow> ('w, decrypted_payload, service_error) eff" where
  "decrypt_plaintext_content E envelope ciphertext source =
     bindE (lift (expect ''prekey bundle format contains source_service_id'' source)) (\<lambda>source.
     bindE (protoR (parse_plaintext_content E ciphertext)) (\<lambda>body.
     bindE (lift (strip_padding (env_iso E) body)) (\<lambda>data.
     bindE (source_device E envelope) (\<lambda>device.
     pure \<lparr>dp_data = data, dp_sender = source, dp_sender_device = device,
           dp_was_plaintext = True, dp_unidentified_sender = False, dp_needs_receipt = False\<rparr>))))"

definition decrypt_unidentified ::
    "('w, 'm) protocol_env_scheme \<Rightarrow> service_cipher \<Rightarrow> envelope \<Rightarrow> bytes \<Rightarrow> service_id option
       \<Rightarrow> ('w, decrypted_payload, service_error) eff" where
  "decrypt_unidentified E self envelope ciphertext source =
     bindE (map_errE SealedSenderDecryptionError
         (sealed_sender_decrypt E ciphertext (trust_roots self)
            (case client_timestamp envelope of Some t \<Rightarrow> t | None \<Rightarrow> 0) None (local_address self))) (\<lambda>res.
     bindE (lift (ok_or (SignalProtocolError (InvalidSealedSenderMessage ''invalid sender UUID''))
         (parse_from_service_id_string (env_sids E) (ssr_sender_uuid res)))) (\<lambda>sender.
     let needs_receipt = (source = None) in
     if pni sender \<noteq> None then throw (InvalidFrame ''sealed sender used for PNI'')
     else
     bindE (lift (strip_padding (env_iso E) (ssr_message res))) (\<lambda>message.
     pure \<lparr>dp_data = message, dp_sender = sender, dp_sender_device = ssr_device_id res,
           dp_was_plaintext = False, dp_unidentified_sender = True,
           dp_needs_receipt = needs_receipt\<rparr>)))"

text \<open>The match on the envelope type.\<close>

definition decrypt_parts ::
    "('w, 'm) protocol_env_scheme \<Rightarrow> service_cipher \<Rightarrow> envelope \<Rightarrow> bytes \<Rightarrow> service_id option
       \<Rightarrow> ('w, decrypted_payload, service_error) eff" where
  "decrypt_parts E self envelope ciphertext source =
     (case type_of_envelope envelope of
        PrekeyMessage \<Rightarrow> decrypt_session_message E self (parse_prekey_signal_message E)
            (message_decrypt_prekey E) envelope ciphertext source
      | PlaintextContentType \<Rightarrow> decrypt_plaintext_content E envelope ciphertext source
      | DoubleRatchet \<Rightarrow> decrypt_session_message E self (parse_signal_message E)
            (message_decrypt_signal E) envelope ciphertext source
      | UnidentifiedSender \<Rightarrow> decrypt_unidentified E self envelope ciphertext source
      | _ \<Rightarrow> throw (InvalidFrame ''envelope has unknown type''))"

definition decrypt ::
    "('w, 'm) protocol_env_scheme \<Rightarrow> service_cipher \<Rightarrow> envelope \<Rightarrow> ('w, plaintext, service_error) eff" where
  "decrypt E self envelope =
     bindE (lift (expect ''valid protocol address name''
         (parse_from_service_id_string (env_sids E) (addr_name (local_address self))))) (\<lambda>local_service.
     bindE (lift (ok_or (InvalidFrame ''envelope should have either a legacy message or content.'')
         (env_content envelope))) (\<lambda>ciphertext.
     bindE (lift (ok_or (InvalidFrame ''missing destination service id'')
         (parse_destination_service_id (env_sids E) envelope))) (\<lambda>destination.
     if destination \<noteq> local_service then throw (InvalidFrame ''mismatch destination service id'')
     else
     let source = parse_source_service_id (env_sids E) envelope in
     if pni destination \<noteq> None \<and> source = None
     then throw (InvalidFrame ''sealed sender received on our PNI'')
     else if Option.bind source pni \<noteq> None \<and> type_of_envelope envelope \<noteq> ServerDeliveryReceipt
     then throw (InvalidFrame ''PNI received a non-ServerDeliveryReceipt'')
     else
     let client = ok_or (InvalidFrame ''unparseable timestamp'') (from_timestamp_millis E
           (sint (case client_timestamp envelope of Some t \<Rightarrow> t | None \<Rightarrow> 0)));
         server = ok_or (InvalidFrame ''unparseable server timestamp'') (from_timestamp_millis E
           (sint (case server_timestamp envelope of Some t \<Rightarrow> t | None \<Rightarrow> 0)))
     in
     bindE (decrypt_parts E self envelope ciphertext source) (\<lambda>parts.
     bindE (lift (case content_decode (env_codec E) (dp_data parts) of
         Inl e \<Rightarrow> Err (ProtobufDecodeError e) | Inr m \<Rightarrow> Ok m)) (\<lambda>message.
     bindE (case pc_pni_signature_message message of
              Some msg \<Rightarrow> verify_pni_signature E (dp_sender parts) (dp_sender_device parts) msg
            | None \<Rightarrow> pure None) (\<lambda>pni_verified.
     bindE (lift client) (\<lambda>client.
     bindE (lift server) (\<lambda>server.
     pure \<lparr>pt_metadata = \<lparr>md_sender = dp_sender parts, md_destination = destination,
             md_sender_device = dp_sender_device parts, md_pni_verified = pni_verified,
             md_client_timestamp = client, md_server_timestamp = server,
             md_needs_receipt = dp_needs_receipt parts,
             md_unidentified_sender = dp_unidentified_sender parts,
             md_was_plaintext = dp_was_plaintext parts,
             md_server_guid = parse_server_guid (env_sids E) envelope,
             md_report_spam_token = report_spam_token envelope\<rparr>,
           pt_message = message\<rparr>))))))))"

section \<open>Opening an envelope\<close>

definition process_sidecar ::
    "('w, 'm) protocol_env_scheme \<Rightarrow> plaintext \<Rightarrow> ('w, unit, service_error) eff" where
  "process_sidecar E pt =
     (case pc_sender_key_distribution_message (pt_message pt) of
        None \<Rightarrow> pure ()
      | Some bs \<Rightarrow>
          bindE (protoR (parse_skdm E bs)) (\<lambda>skdm.
          bindE (protoE (process_skdm E (metadata_protocol_address (env_sids E) (pt_metadata pt)) skdm)) (\<lambda>_.
          bindE (protoR (skdm_distribution_id E skdm)) (\<lambda>_. pure ()))))"

text \<open>The checks on the decrypted content, after the side-car messages.\<close>

definition accept_content ::
    "('w, 'm) protocol_env_scheme \<Rightarrow> service_id \<Rightarrow> plaintext \<Rightarrow> (content option, service_error) result" where
  "accept_content E local_service pt =
     (case pc_content (pt_message pt) of
        None \<Rightarrow> Ok None
      | Some body \<Rightarrow>
          if md_was_plaintext (pt_metadata pt) \<and>
             (case body of ProtoDecryptionErrorMessage _ \<Rightarrow> False | _ \<Rightarrow> True) then Ok None
          else if (case body of ProtoSyncMessage _ \<Rightarrow> True | _ \<Rightarrow> False) \<and>
             (aci (md_sender (pt_metadata pt)) \<noteq> aci local_service \<or> pni local_service \<noteq> None)
          then Ok None
          else map_ok Some (from_proto (env_codec E) (pt_message pt) (pt_metadata pt)))"

definition open_envelope ::
    "('w, 'm) protocol_env_scheme \<Rightarrow> service_cipher \<Rightarrow> envelope \<Rightarrow> ('w, content option, service_error) eff" where
  "open_envelope E self envelope =
     bindE (lift (expect ''valid protocol address name''
         (parse_from_service_id_string (env_sids E) (addr_name (local_address self))))) (\<lambda>local_service.
     if env_content envelope = None then pure None
     else
     bindE (decrypt E self envelope) (\<lambda>pt.
     bindE (process_sidecar E pt) (\<lambda>_.
     lift (accept_content E local_service pt))))"

end
