(* ===== verification/Sender.thy ===== *)
theory Sender
  imports Cipher
begin

text \<open>
  \<open>MessageSender\<close> of \<open>sender.rs\<close>: fanning a message out over the devices of a recipient, repairing
  sessions and retrying as the server asks, and synchronising what was sent with our own devices.
  The two sockets, the session set-up of the protocol library, the order in which a hash set is
  iterated, the clock and the random generator are effects of the environment.
\<close>

section \<open>Environment, state and errors\<close>

datatype (plugins only: size) attachment_upload_error = UploadServiceError service_error | UploadIoError string

datatype (plugins only: size) message_sender_error =
    MsServiceError service_error
  | MsProtocolError signal_protocol_error
  | MsInvalidPrivateKey string
  | MsInvalidDeviceId
  | MsAttachmentUploadError attachment_upload_error
  | SendSyncMessageError i32
  | MsUntrustedIdentity service_id
  | MaximumRetriesLimitExceeded
  | MsProofRequired string "string list"
  | MsNotFound service_id
  | NoMessagesToSend

record 'w sender_env = "'w protocol_env" +
  identified_ws :: "'w socket"
  unidentified_ws :: "'w socket"
  net_http :: http_pkgs
  net_keys :: key_pkgs
  net_messages :: message_pkgs
  process_prekey_bundle :: "protocol_address \<Rightarrow> protocol_address \<Rightarrow> prekey_bundle
    \<Rightarrow> ('w, unit, signal_protocol_error) eff"
  bundle_device_id :: "prekey_bundle \<Rightarrow> (device_id, signal_protocol_error) result"
  hash_iter :: "device_id set \<Rightarrow> 'w \<Rightarrow> device_id list"
  sign_alternate_identity :: "bytes \<Rightarrow> bytes \<Rightarrow> ('w, bytes, message_sender_error) eff"
  for_original :: "bytes \<Rightarrow> ciphertext_message_type \<Rightarrow> u64 \<Rightarrow> device_id \<Rightarrow> (bytes, signal_protocol_error) result"
  plaintext_content_from :: "bytes \<Rightarrow> bytes"
  service_id_binary :: "service_id \<Rightarrow> bytes"
  uuid_to_string :: "uuid \<Rightarrow> string"
  identity_serialize :: "bytes \<Rightarrow> bytes"
  now_millis :: "'w \<Rightarrow> u64 \<times> 'w"
  random_size :: "'w \<Rightarrow> nat \<times> 'w"
  fill_bytes :: "nat \<Rightarrow> 'w \<Rightarrow> bytes \<times> 'w"

record message_sender =
  ms_cipher :: service_cipher
  ms_local_aci :: uuid
  ms_local_pni :: uuid
  ms_aci_identity :: bytes
  ms_pni_identity :: "bytes option"
  ms_device_id :: device_id

record sent_message =
  sm_recipient :: service_id
  used_identity_key :: bytes
  sm_unidentified :: bool
  sm_needs_sync :: bool

type_synonym send_message_result = "(sent_message, message_sender_error) result"

record encrypted_messages =
  em_messages :: "outgoing_push_message list"
  em_used_identity_key :: bytes

datatype thread_identifier = ThreadAci uuid | ThreadGroup bytes

text \<open>\<open>?\<close> with the conversions into \<open>MessageSenderError\<close>.\<close>

definition msProto :: "('w, 'a, signal_protocol_error) eff \<Rightarrow> ('w, 'a, message_sender_error) eff" where
  "msProto = map_errE MsProtocolError"

definition msService :: "('w, 'a, service_error) eff \<Rightarrow> ('w, 'a, message_sender_error) eff" where
  "msService = map_errE MsServiceError"

definition address_of :: "('w, 'm) sender_env_scheme \<Rightarrow> service_id \<Rightarrow> device_id \<Rightarrow> protocol_address" where
  "address_of E sid device = to_protocol_address (service_id_string (env_sids E)) sid device"

definition own_address :: "('w, 'm) sender_env_scheme \<Rightarrow> message_sender \<Rightarrow> protocol_address" where
  "own_address E self = address_of E (Aci (ms_local_aci self)) (ms_device_id self)"

section \<open>Encrypting for every device\<close>

definition delete_service_addr_device_session ::
    "('w, 'm) protocol_env_scheme \<Rightarrow> protocol_address \<Rightarrow> ('w, nat, signal_protocol_error) eff" where
  "delete_service_addr_device_session E address =
     matchE (delete_session E address)
       (\<lambda>_. pure 1)
       (\<lambda>e. case e of SessionNotFound _ _ \<Rightarrow> pure 0 | _ \<Rightarrow> throw e)"

definition is_multi_device ::
    "('w, 'm) sender_env_scheme \<Rightarrow> message_sender \<Rightarrow> ('w, bool, message_sender_error) eff" where
  "is_multi_device E self =
     (if ms_device_id self = DEFAULT_DEVICE_ID
      then matchE (get_sub_device_sessions E (Aci (ms_local_aci self)))
             (\<lambda>sessions. pure (sessions \<noteq> [])) (\<lambda>_. pure False)
      else pure True)"

text \<open>The loop over the fetched bundles of \<open>create_encrypted_message\<close>.\<close>

definition establish_session ::
    "('w, 'm) sender_env_scheme \<Rightarrow> message_sender \<Rightarrow> service_id \<Rightarrow> prekey_bundle
       \<Rightarrow> ('w, unit, message_sender_error) eff" where
  "establish_session E self recipient b =
     bindE (if recipient = Aci (ms_local_aci self)
            then bindE (msProto (lift (bundle_device_id E b))) (\<lambda>d. pure (ms_device_id self = d))
            else pure False) (\<lambda>myself.
     if myself then pure ()
     else
       bindE (msProto (lift (bundle_device_id E b))) (\<lambda>d.
       bindE (msProto (get_preferred_protocol_address E recipient d)) (\<lambda>pre_key_address.
       msProto (process_prekey_bundle E pre_key_address (own_address E self) b))))"

definition fetch_pre_keys ::
    "('w, 'm) sender_env_scheme \<Rightarrow> service_id \<Rightarrow> device_id \<Rightarrow> ('w, prekey_bundle list, message_sender_error) eff" where
  "fetch_pre_keys E recipient device =
     matchE (get_pre_keys (net_http E) (net_keys E) (env_sids E) (identified_ws E) recipient device)
       pure
       (\<lambda>e. if e = NotFoundError then throw (MsNotFound recipient) else throw (MsServiceError e))"

definition create_encrypted_message ::
    "('w, 'm) sender_env_scheme \<Rightarrow> message_sender \<Rightarrow> service_id \<Rightarrow> bytes option \<Rightarrow> device_id \<Rightarrow> outgoing_content
       \<Rightarrow> ('w, outgoing_push_message, message_sender_error) eff" where
  "create_encrypted_message E self recipient access device content =
     (let address = address_of E recipient device in
      bindE (msProto (load_session E address)) (\<lambda>session.
      bindE (if session = None
             then bindE (fetch_pre_keys E recipient device) (\<lambda>pre_keys.
                  forE pre_keys (establish_session E self recipient))
             else pure ()) (\<lambda>_.
      msService (encrypt E (ms_cipher self) address access content))))"

text \<open>The error that marks a corrupted session.\<close>

definition session_corruption :: "message_sender_error \<Rightarrow> (protocol_address \<times> string) option" where
  "session_corruption e =
     (case e of
        MsServiceError (SignalProtocolError (SessionNotFound (Some addr) op)) \<Rightarrow> Some (addr, op)
      | _ \<Rightarrow> None)"

text \<open>\<open>for _attempt in 0..2\<close>: a device whose session is reported corrupt each time is left out.\<close>

primrec encrypt_for_device ::
    "nat \<Rightarrow> ('w, 'm) sender_env_scheme \<Rightarrow> message_sender \<Rightarrow> service_id \<Rightarrow> bytes option \<Rightarrow> device_id \<Rightarrow> outgoing_content
       \<Rightarrow> ('w, outgoing_push_message option, message_sender_error) eff" where
  "encrypt_for_device 0 E self recipient access device content = pure None"
| "encrypt_for_device (Suc n) E self recipient access device content =
     matchE (create_encrypted_message E self recipient access device content)
       (\<lambda>message. pure (Some message))
       (\<lambda>e. case session_corruption e of
          Some (addr, op) \<Rightarrow>
            matchE (delete_session E addr)
              (\<lambda>_. encrypt_for_device n E self recipient access device content)
              (\<lambda>_. throw (MsProtocolError (SessionNotFound (Some addr) op)))
        | None \<Rightarrow> throw e)"

primrec encrypt_for_devices ::
    "device_id list \<Rightarrow> ('w, 'm) sender_env_scheme \<Rightarrow> message_sender \<Rightarrow> service_id \<Rightarrow> bytes option \<Rightarrow> outgoing_content
       \<Rightarrow> ('w, outgoing_push_message list, message_sender_error) eff" where
  "encrypt_for_devices [] E self recipient access content = pure []"
| "encrypt_for_devices (d # ds) E self recipient access content =
     bindE (encrypt_for_device 2 E self recipient access d content) (\<lambda>m.
     bindE (encrypt_for_devices ds E self recipient access content) (\<lambda>ms.
     pure (case m of Some m \<Rightarrow> m # ms | None \<Rightarrow> ms)))"

definition target_devices :: "message_sender \<Rightarrow> service_id \<Rightarrow> device_id list \<Rightarrow> device_id set" where
  "target_devices self recipient sub =
     (let devices = insert DEFAULT_DEVICE_ID (set sub) in
      case recipient of
        Aci u \<Rightarrow> if u = ms_local_aci self then devices - {ms_device_id self} else devices
      | Pni u \<Rightarrow> if u = ms_local_pni self then devices - {ms_device_id self} else devices)"

definition create_encrypted_messages ::
    "('w, 'm) sender_env_scheme \<Rightarrow> message_sender \<Rightarrow> service_id \<Rightarrow> bytes option \<Rightarrow> outgoing_content
       \<Rightarrow> ('w, encrypted_messages option, message_sender_error) eff" where
  "create_encrypted_messages E self recipient access content =
     bindE (msProto (get_sub_device_sessions E recipient)) (\<lambda>sub.
     bindE (drawE (\<lambda>s. (hash_iter E (target_devices self recipient sub) s, s))) (\<lambda>devices.
     bindE (encrypt_for_devices devices E self recipient access content) (\<lambda>messages.
     if messages = [] then pure None
     else
       bindE (msProto (get_identity E (address_of E recipient DEFAULT_DEVICE_ID))) (\<lambda>identity.
       bindE (lift (ok_or (MsUntrustedIdentity recipient) identity)) (\<lambda>key.
       pure (Some \<lparr>em_messages = messages, em_used_identity_key = key\<rparr>))))))"

section \<open>Sending with retries\<close>

definition repair_missing ::
    "('w, 'm) sender_env_scheme \<Rightarrow> message_sender \<Rightarrow> service_id \<Rightarrow> device_id \<Rightarrow> ('w, unit, message_sender_error) eff" where
  "repair_missing E self recipient device =
     bindE (msService (get_pre_key (net_http E) (net_keys E) (env_sids E) (identified_ws E) recipient device)) (\<lambda>pre_key.
     map_errE (\<lambda>_. MsUntrustedIdentity recipient)
       (process_prekey_bundle E (address_of E recipient device) (own_address E self) pre_key))"

definition drop_session ::
    "('w, 'm) sender_env_scheme \<Rightarrow> service_id \<Rightarrow> device_id \<Rightarrow> ('w, unit, message_sender_error) eff" where
  "drop_session E recipient device =
     bindE (msProto (delete_service_addr_device_session E (address_of E recipient device))) (\<lambda>_. pure ())"

text \<open>The error arms of \<open>match send\<close>: retry without sealed sender, repair and retry, give up.\<close>

datatype (plugins only: size) verdict =
    FallBack
  | RepairMismatched mismatched_devices
  | RepairStale stale_devices
  | GiveUp message_sender_error

definition judge :: "service_id \<Rightarrow> bool \<Rightarrow> service_error \<Rightarrow> verdict" where
  "judge recipient unidentified e =
     (if e = Unauthorized \<and> unidentified then FallBack
      else (case e of
          MismatchedDevicesException m \<Rightarrow> RepairMismatched m
        | StaleDevices m \<Rightarrow> RepairStale m
        | ProofRequiredError p \<Rightarrow> GiveUp (MsProofRequired (token p) (options p))
        | UnregisteredRecipient \<Rightarrow> GiveUp (MsNotFound recipient)
        | _ \<Rightarrow> GiveUp (MsServiceError e)))"

definition wire_send ::
    "('w, 'm) sender_env_scheme \<Rightarrow> unidentified_access option \<Rightarrow> outgoing_push_messages
       \<Rightarrow> ('w, bool, service_error) eff" where
  "wire_send E access messages =
     (case access of
        Some unidentified \<Rightarrow> send_messages_unidentified (net_http E) (net_messages E) (env_sids E)
            (unidentified_ws E) messages unidentified
      | None \<Rightarrow> send_messages (net_http E) (net_messages E) (env_sids E) (identified_ws E) messages)"

primrec send_attempts ::
    "nat \<Rightarrow> ('w, 'm) sender_env_scheme \<Rightarrow> message_sender \<Rightarrow> service_id \<Rightarrow> unidentified_access option \<Rightarrow> outgoing_content
       \<Rightarrow> u64 \<Rightarrow> bool \<Rightarrow> ('w, sent_message, message_sender_error) eff" where
  "send_attempts 0 E self recipient access content timestamp online = throw MaximumRetriesLimitExceeded"
| "send_attempts (Suc n) E self recipient access content timestamp online =
     bindE (create_encrypted_messages E self recipient (map_option ua_certificate access) content) (\<lambda>encrypted.
     case encrypted of
       None \<Rightarrow> throw NoMessagesToSend
     | Some em \<Rightarrow>
         matchE (wire_send E access \<lparr>opm_destination = recipient, opm_timestamp = timestamp,
             opm_messages = em_messages em, opm_online = online\<rparr>)
           (\<lambda>needs_sync.
             pure \<lparr>sm_recipient = recipient, used_identity_key = em_used_identity_key em,
                   sm_unidentified = (access \<noteq> None), sm_needs_sync = needs_sync\<rparr>)
           (\<lambda>e. case judge recipient (access \<noteq> None) e of
             FallBack \<Rightarrow> send_attempts n E self recipient None content timestamp online
           | RepairMismatched m \<Rightarrow>
               bindE (forE (extra_devices m) (drop_session E recipient)) (\<lambda>_.
               bindE (forE (missing_devices m) (repair_missing E self recipient)) (\<lambda>_.
               send_attempts n E self recipient access content timestamp online))
           | RepairStale m \<Rightarrow>
               bindE (forE (stale_devices_list m) (drop_session E recipient)) (\<lambda>_.
               send_attempts n E self recipient access content timestamp online)
           | GiveUp e \<Rightarrow> throw e))"

definition try_send_content ::
    "('w, 'm) sender_env_scheme \<Rightarrow> message_sender \<Rightarrow> service_id \<Rightarrow> unidentified_access option \<Rightarrow> outgoing_content
       \<Rightarrow> u64 \<Rightarrow> bool \<Rightarrow> ('w, sent_message, message_sender_error) eff" where
  "try_send_content E self recipient access content timestamp online =
     with_session_lock E recipient (send_attempts 4 E self recipient access content timestamp online)"

section \<open>Sending content\<close>

definition create_pni_signature ::
    "('w, 'm) sender_env_scheme \<Rightarrow> message_sender \<Rightarrow> ('w, pni_signature_message, message_sender_error) eff" where
  "create_pni_signature E self =
     bindE (lift (expect ''PNI key set when PNI signature requested'' (ms_pni_identity self))) (\<lambda>pni_identity.
     bindE (sign_alternate_identity E pni_identity (ms_aci_identity self)) (\<lambda>signature.
     pure \<lparr>sig_pni = Some (service_id_binary E (Pni (ms_local_pni self))), sig_signature = Some signature\<rparr>))"

definition try_send_message ::
    "('w, 'm) sender_env_scheme \<Rightarrow> message_sender \<Rightarrow> service_id \<Rightarrow> unidentified_access option \<Rightarrow> content_body
       \<Rightarrow> u64 \<Rightarrow> bool \<Rightarrow> bool \<Rightarrow> ('w, sent_message, message_sender_error) eff" where
  "try_send_message E self recipient access body timestamp include_pni_signature online =
     (let content = into_proto (env_codec E) body in
      bindE (if include_pni_signature
             then bindE (create_pni_signature E self) (\<lambda>sig.
                  pure (content\<lparr>pc_pni_signature_message := Some sig\<rparr>))
             else pure content) (\<lambda>content.
      try_send_content E self recipient access (Encrypted (content_encode (env_codec E) content))
        timestamp online))"

definition with_padding :: "('w, 'm) sender_env_scheme \<Rightarrow> sync_content \<Rightarrow> ('w, sync_message, 'e) eff" where
  "with_padding E c =
     bindE (drawE (random_size E)) (\<lambda>n.
     bindE (drawE (fill_bytes E n)) (\<lambda>padding.
     pure (SyncMessage (Some c) (Some padding))))"

definition delivery_status :: "('w, 'm) sender_env_scheme \<Rightarrow> sent_message \<Rightarrow> unidentified_delivery_status" where
  "delivery_status E m =
     \<lparr>uds_destination_service_id = Some (service_id_string (env_sids E) (sm_recipient m)),
      uds_destination_service_id_binary = Some (service_id_binary E (sm_recipient m)),
      uds_unidentified = Some (sm_unidentified m),
      uds_destination_pni_identity_key = Some (identity_serialize E (used_identity_key m))\<rparr>"

definition delivered :: "send_message_result list \<Rightarrow> sent_message list" where
  "delivered = List.map_filter (\<lambda>r. case r of Ok m \<Rightarrow> Some m | _ \<Rightarrow> None)"

definition create_multi_device_sent_transcript_content ::
    "('w, 'm) sender_env_scheme \<Rightarrow> service_id option \<Rightarrow> content_body \<Rightarrow> u64 \<Rightarrow> send_message_result list
       \<Rightarrow> ('w, content_body option, 'e) eff" where
  "create_multi_device_sent_transcript_content E recipient body timestamp results =
     (case (case body of
              DataMessage m \<Rightarrow> Some (Some m, None)
            | EditMessage m \<Rightarrow> Some (None, Some m)
            | _ \<Rightarrow> None) of
        None \<Rightarrow> pure None
      | Some (message, edit_message) \<Rightarrow>
          bindE (with_padding E (SyncSent
            \<lparr>sent_destination_service_id = map_option (service_id_string (env_sids E)) recipient,
             sent_destination_service_id_binary = map_option (service_id_binary E) recipient,
             sent_destination_e164 = None,
             sent_expiration_start_timestamp =
               map_option (\<lambda>_. timestamp) (Option.bind message expire_timer),
             sent_message = message, sent_edit_message = edit_message,
             sent_timestamp = Some timestamp,
             sent_unidentified_status = map (delivery_status E) (delivered results)\<rparr>)) (\<lambda>sync.
          pure (Some (SynchronizeMessage sync))))"

definition is_sync_message :: "content_body \<Rightarrow> bool" where
  "is_sync_message body = (case body of SynchronizeMessage _ \<Rightarrow> True | _ \<Rightarrow> False)"

definition needs_sync_of :: "send_message_result \<Rightarrow> bool" where
  "needs_sync_of r = (case r of Ok m \<Rightarrow> sm_needs_sync m | _ \<Rightarrow> False)"

text \<open>What \<open>send_message\<close> does after the first delivery attempt.\<close>

definition sync_after_send ::
    "('w, 'm) sender_env_scheme \<Rightarrow> message_sender \<Rightarrow> service_id \<Rightarrow> content_body \<Rightarrow> u64 \<Rightarrow> bool
       \<Rightarrow> send_message_result \<Rightarrow> ('w, sent_message, message_sender_error) eff" where
  "sync_after_send E self recipient body timestamp multi result =
     bindE (if needs_sync_of result \<or> multi
            then
              bindE (if is_sync_message body then pure (Some body)
                     else create_multi_device_sent_transcript_content E (Some recipient) body timestamp [result]) (\<lambda>sync.
              case sync of
                None \<Rightarrow> pure ()
              | Some sync_body \<Rightarrow>
                  bindE (try_send_message E self (Aci (ms_local_aci self)) None sync_body timestamp False False)
                    (\<lambda>_. pure ()))
            else pure ()) (\<lambda>_.
     lift result)"

definition send_message ::
    "('w, 'm) sender_env_scheme \<Rightarrow> message_sender \<Rightarrow> service_id \<Rightarrow> unidentified_access option \<Rightarrow> content_body
       \<Rightarrow> u64 \<Rightarrow> bool \<Rightarrow> bool \<Rightarrow> ('w, sent_message, message_sender_error) eff" where
  "send_message E self recipient access body timestamp include_pni_signature online =
     (let message_to_self = (recipient = Aci (ms_local_aci self)) in
      bindE (is_multi_device E self) (\<lambda>multi.
      if message_to_self \<and> multi \<and> \<not> is_sync_message body
      then
        bindE (create_multi_device_sent_transcript_content E (Some recipient) body timestamp []) (\<lambda>sync.
        case sync of
          Some sync_message \<Rightarrow>
            try_send_message E self recipient None sync_message timestamp include_pni_signature online
        | None \<Rightarrow> throw NoMessagesToSend)
      else
        let access = (if is_sync_message body then None else access);
            after = sync_after_send E self recipient body timestamp multi
        in matchE (try_send_message E self recipient access body timestamp include_pni_signature online)
             (\<lambda>m. after (Ok m)) (\<lambda>e. after (Err e))))"

primrec send_to_each ::
    "(service_id \<times> unidentified_access option \<times> bool) list \<Rightarrow> ('w, 'm) sender_env_scheme \<Rightarrow> message_sender
       \<Rightarrow> content_body \<Rightarrow> u64 \<Rightarrow> bool \<Rightarrow> ('w, send_message_result list, message_sender_error) eff" where
  "send_to_each [] E self body timestamp online = pure []"
| "send_to_each (x # xs) E self body timestamp online =
     (case x of (recipient, access, include_pni_signature) \<Rightarrow>
      let rest = (\<lambda>r. bindE (send_to_each xs E self body timestamp online) (\<lambda>rs. pure (r # rs)))
      in matchE (try_send_message E self recipient access body timestamp include_pni_signature online)
           (\<lambda>m. rest (Ok m)) (\<lambda>e. rest (Err e)))"

definition send_message_to_group ::
    "('w, 'm) sender_env_scheme \<Rightarrow> message_sender \<Rightarrow> (service_id \<times> unidentified_access option \<times> bool) list
       \<Rightarrow> content_body \<Rightarrow> u64 \<Rightarrow> bool \<Rightarrow> ('w, send_message_result list, message_sender_error) eff" where
  "send_message_to_group E self recipients body timestamp online =
     bindE (send_to_each recipients E self body timestamp online) (\<lambda>results.
     bindE (if list_ex needs_sync_of results then pure True else is_multi_device E self) (\<lambda>sync.
     bindE (if sync
            then
              bindE (create_multi_device_sent_transcript_content E None body timestamp results) (\<lambda>content.
              case content of
                Some sync_message \<Rightarrow>
                  matchE (try_send_message E self (Aci (ms_local_aci self)) None sync_message timestamp False False)
                    (\<lambda>_. pure ()) (\<lambda>_. pure ())
              | None \<Rightarrow> pure ())
            else pure ()) (\<lambda>_.
     pure results)))"

definition send_decryption_error_message ::
    "('w, 'm) sender_env_scheme \<Rightarrow> message_sender \<Rightarrow> service_id \<Rightarrow> ciphertext_message_type \<Rightarrow> bytes \<Rightarrow> u64
       \<Rightarrow> device_id \<Rightarrow> ('w, unit, message_sender_error) eff" where
  "send_decryption_error_message E self recipient failed_type failed_ciphertext failed_timestamp failed_device =
     bindE (msProto (lift (for_original E failed_ciphertext failed_type failed_timestamp failed_device))) (\<lambda>error_message.
     bindE (drawE (now_millis E)) (\<lambda>now.
     bindE (try_send_content E self recipient None (PlaintextOut (plaintext_content_from E error_message)) now False) (\<lambda>_.
     pure ())))"

definition send_sync_message ::
    "('w, 'm) sender_env_scheme \<Rightarrow> message_sender \<Rightarrow> sync_message \<Rightarrow> ('w, unit, message_sender_error) eff" where
  "send_sync_message E self sync =
     bindE (is_multi_device E self) (\<lambda>multi.
     if multi
     then
       bindE (drawE (now_millis E)) (\<lambda>now.
       bindE (try_send_message E self (Aci (ms_local_aci self)) None (SynchronizeMessage sync) now False False)
         (\<lambda>_. pure ()))
     else pure ())"

definition send_sync_message_request ::
    "('w, 'm) sender_env_scheme \<Rightarrow> message_sender \<Rightarrow> i32 \<Rightarrow> ('w, unit, message_sender_error) eff" where
  "send_sync_message_request E self request_type =
     (if ms_device_id self = DEFAULT_DEVICE_ID then throw (SendSyncMessageError request_type)
      else
        bindE (with_padding E (SyncRequest (Some request_type))) (\<lambda>msg.
        send_sync_message E self msg))"

definition send_message_request_response ::
    "('w, 'm) sender_env_scheme \<Rightarrow> message_sender \<Rightarrow> service_id \<Rightarrow> thread_identifier \<Rightarrow> i32
       \<Rightarrow> ('w, unit, message_sender_error) eff" where
  "send_message_request_response E self recipient thread action =
     bindE (with_padding E (SyncMessageRequestResponse (case thread of
         ThreadAci u \<Rightarrow> \<lparr>thread_aci = Some (uuid_to_string E u), thread_aci_binary = Some u,
             mrr_group_id = None, mrr_type = Some action\<rparr>
       | ThreadGroup g \<Rightarrow> \<lparr>thread_aci = None, thread_aci_binary = None,
             mrr_group_id = Some g, mrr_type = Some action\<rparr>))) (\<lambda>msg.
     bindE (drawE (now_millis E)) (\<lambda>now.
     bindE (send_message E self recipient None (SynchronizeMessage msg) now False False) (\<lambda>_. pure ())))"

end
