(* ===== verification/Cipher_Properties.thy ===== *)
theory Cipher_Properties
  imports Cipher
begin

text \<open>
  What a successfully opened envelope guarantees to the caller, when opening panics, and what an
  encrypted message looks like.
\<close>

section \<open>Inversion of the branches\<close>

lemma protoE_Ok_iff [simp]: "protoE m s = (Ok a, s') \<longleftrightarrow> m s = (Ok a, s')"
  by (simp add: protoE_def)

lemma ssdE_Ok_iff [simp]: "ssdE m s = (Ok a, s') \<longleftrightarrow> m s = (Ok a, s')"
  by (simp add: ssdE_def)

lemma protoR_Ok_iff [simp]: "protoR r s = (Ok a, s') \<longleftrightarrow> r = Ok a \<and> s' = s"
  by (auto simp: protoR_def)

lemma with_session_lock_Ok:
  "with_session_lock E peer m s = (Ok a, s') \<Longrightarrow> \<exists>s''. m (lock_session E peer s) = (Ok a, s'')"
  by (auto simp: with_session_lock_def split: prod.splits)

lemma decrypt_session_message_Ok:
  assumes "decrypt_session_message E self parse md envelope ct source s = (Ok dp, s')"
  shows "source = Some (dp_sender dp) \<and> \<not> dp_was_plaintext dp \<and> \<not> dp_unidentified_sender dp"
  using assms by (auto simp: decrypt_session_message_def bindE_Ok_iff dest!: with_session_lock_Ok)

lemma decrypt_plaintext_content_Ok:
  assumes "decrypt_plaintext_content E envelope ct source s = (Ok dp, s')"
  shows "source = Some (dp_sender dp) \<and> dp_was_plaintext dp \<and> \<not> dp_unidentified_sender dp"
  using assms by (auto simp: decrypt_plaintext_content_def bindE_Ok_iff)

text \<open>A sealed sender message is only decrypted after its certificate has been validated.\<close>

definition validated_sender ::
    "('w, 'm) protocol_env_scheme \<Rightarrow> service_cipher \<Rightarrow> envelope \<Rightarrow> bytes \<Rightarrow> 'w \<Rightarrow> service_id \<Rightarrow> device_id \<Rightarrow> bool" where
  "validated_sender E self envelope ct s sender device \<longleftrightarrow>
     (\<exists>u s' cert name. sealed_sender_decrypt_to_usmc E ct s = (Ok u, s') \<and> usmc_sender u = Ok cert \<and>
        cert_validate cert (trust_roots self)
          (case client_timestamp envelope of Some t \<Rightarrow> t | None \<Rightarrow> 0) = Ok True \<and>
        cert_sender_uuid cert = Ok name \<and> parse_from_service_id_string (env_sids E) name = Some sender \<and>
        cert_sender_device_id cert = Ok device)"

lemma validated_usmc_Ok:
  assumes "sealed_sender_decrypt_with_validated_usmc E u remote local s = (Ok r, s')"
    and "usmc_sender u = Ok cert"
  shows "cert_sender_uuid cert = Ok (ssr_sender_uuid r) \<and> cert_sender_device_id cert = Ok (ssr_device_id r)"
  using assms by (auto simp: sealed_sender_decrypt_with_validated_usmc_def bindE_Ok_iff)

lemma sealed_sender_decrypt_Ok:
  assumes "sealed_sender_decrypt E ct roots ts e164 local s = (Ok r, s')"
  shows "\<exists>u s1 cert. sealed_sender_decrypt_to_usmc E ct s = (Ok u, s1) \<and> usmc_sender u = Ok cert \<and>
    cert_validate cert roots ts = Ok True \<and> cert_sender_uuid cert = Ok (ssr_sender_uuid r) \<and>
    cert_sender_device_id cert = Ok (ssr_device_id r)"
proof -
  obtain u s1 cert where u: "sealed_sender_decrypt_to_usmc E ct s = (Ok u, s1)" "usmc_sender u = Ok cert"
    "cert_validate cert roots ts = Ok True"
    and rest: "\<exists>remote s2 s3. sealed_sender_decrypt_with_validated_usmc E u remote local s2 = (Ok r, s3)"
    using assms unfolding sealed_sender_decrypt_def
    by (auto simp: bindE_Ok_iff Let_def split: if_splits option.splits dest!: with_session_lock_Ok)
      blast+
  then obtain remote s2 s3 where
    "sealed_sender_decrypt_with_validated_usmc E u remote local s2 = (Ok r, s3)"
    by blast
  from validated_usmc_Ok [OF this u(2)] u show ?thesis
    by blast
qed

lemma decrypt_unidentified_Ok:
  assumes "decrypt_unidentified E self envelope ct source s = (Ok dp, s')"
  shows "(\<exists>u. dp_sender dp = Aci u) \<and> \<not> dp_was_plaintext dp \<and> dp_unidentified_sender dp \<and>
    dp_needs_receipt dp = (source = None) \<and>
    validated_sender E self envelope ct s (dp_sender dp) (dp_sender_device dp)"
proof -
  obtain r s1 sender where r: "sealed_sender_decrypt E ct (trust_roots self)
      (case client_timestamp envelope of Some t \<Rightarrow> t | None \<Rightarrow> 0) None (local_address self) s = (Ok r, s1)"
    and sender: "parse_from_service_id_string (env_sids E) (ssr_sender_uuid r) = Some sender" "\<And>p. sender \<noteq> Pni p"
    and dp: "dp_sender dp = sender" "dp_sender_device dp = ssr_device_id r" "\<not> dp_was_plaintext dp"
      "dp_unidentified_sender dp" "dp_needs_receipt dp = (source = None)"
    using assms by (auto simp: decrypt_unidentified_def bindE_Ok_iff Let_def split: if_splits)
  moreover have "\<exists>u. sender = Aci u"
    using sender(2) by (cases sender) auto
  ultimately show ?thesis
    using sealed_sender_decrypt_Ok [OF r] unfolding validated_sender_def by fastforce
qed

lemma decrypt_parts_Ok:
  assumes "decrypt_parts E self envelope ct source s = (Ok dp, s')"
  shows "dp_was_plaintext dp = (type_of_envelope envelope = PlaintextContentType) \<and>
    dp_unidentified_sender dp = (type_of_envelope envelope = UnidentifiedSender) \<and>
    type_of_envelope envelope \<noteq> ServerDeliveryReceipt \<and>
    (if type_of_envelope envelope = UnidentifiedSender
     then (\<exists>u. dp_sender dp = Aci u) \<and> validated_sender E self envelope ct s (dp_sender dp) (dp_sender_device dp)
     else source = Some (dp_sender dp))"
  using assms unfolding decrypt_parts_def
  by (cases "type_of_envelope envelope")
    (auto dest!: decrypt_session_message_Ok decrypt_plaintext_content_Ok decrypt_unidentified_Ok)

lemma decrypt_Ok:
  assumes "decrypt E self envelope s = (Ok pt, s')"
  obtains local ct where
    "parse_from_service_id_string (env_sids E) (addr_name (local_address self)) = Some local"
    "env_content envelope = Some ct"
    "parse_destination_service_id (env_sids E) envelope = Some local"
    "md_destination (pt_metadata pt) = local"
    "\<exists>u. md_sender (pt_metadata pt) = Aci u"
    "md_was_plaintext (pt_metadata pt) \<longleftrightarrow> type_of_envelope envelope = PlaintextContentType"
    "if type_of_envelope envelope = UnidentifiedSender
     then validated_sender E self envelope ct s (md_sender (pt_metadata pt)) (md_sender_device (pt_metadata pt))
     else parse_source_service_id (env_sids E) envelope = Some (md_sender (pt_metadata pt))"
proof -
  let ?source = "parse_source_service_id (env_sids E) envelope"
  obtain local ct dp s1 where l: "parse_from_service_id_string (env_sids E) (addr_name (local_address self)) = Some local"
    "env_content envelope = Some ct" "parse_destination_service_id (env_sids E) envelope = Some local"
    and src: "\<not> (Option.bind ?source pni \<noteq> None \<and> type_of_envelope envelope \<noteq> ServerDeliveryReceipt)"
    and dp: "decrypt_parts E self envelope ct ?source s = (Ok dp, s1)"
    and md: "md_destination (pt_metadata pt) = local" "md_sender (pt_metadata pt) = dp_sender dp"
      "md_sender_device (pt_metadata pt) = dp_sender_device dp"
      "md_was_plaintext (pt_metadata pt) = dp_was_plaintext dp"
    using assms unfolding decrypt_def Let_def
    by (auto simp only: bindE_Ok_iff lift_Ok_iff ok_or_Ok_iff expect_Ok_iff throw_apply pure_apply
        prod.inject result.distinct result.inject simp_thms
        plaintext.simps metadata.simps split: if_splits) blast+
  note parts = decrypt_parts_Ok [OF dp]
  have "\<exists>u. dp_sender dp = Aci u"
    using parts src by (cases "dp_sender dp") (auto simp: pni_def split: if_splits)
  then show ?thesis
    using that [of local ct] l md parts by (simp split: if_splits)
qed

lemma accept_content_Some:
  assumes "accept_content E local pt = Ok (Some c)"
  shows "c_metadata c = pt_metadata pt \<and>
    (md_was_plaintext (pt_metadata pt) \<longrightarrow> (\<exists>m. c_body c = DecryptionErrorMessage m)) \<and>
    (\<forall>m. c_body c = SynchronizeMessage m \<longrightarrow> aci (md_sender (pt_metadata pt)) = aci local \<and> pni local = None)"
proof -
  obtain body where body: "pc_content (pt_message pt) = Some body"
    using assms by (cases "pc_content (pt_message pt)") (auto simp: accept_content_def)
  then show ?thesis
    using assms by (cases body; cases local)
      (auto simp: accept_content_def from_proto_def Let_def pni_def split: if_splits sum.splits)
qed

text \<open>
  C1: what an opened envelope guarantees. The envelope was addressed to the local account;
  the sender is an account identifier, never a phone number identifier; it is the source named
  by the server or, for sealed sender, the holder of a certificate that was validated against
  the trust roots; a plaintext envelope yields nothing but a decryption error message; and a
  synchronisation message comes from the local account itself.
\<close>

theorem open_envelope_sound:
  assumes "open_envelope E self envelope s = (Ok (Some c), s')"
  shows "\<exists>local ct u. parse_from_service_id_string (env_sids E) (addr_name (local_address self)) = Some local \<and>
     env_content envelope = Some ct \<and>
     parse_destination_service_id (env_sids E) envelope = Some local \<and>
     md_destination (c_metadata c) = local \<and> md_sender (c_metadata c) = Aci u \<and>
     (if type_of_envelope envelope = UnidentifiedSender
      then validated_sender E self envelope ct s (Aci u) (md_sender_device (c_metadata c))
      else parse_source_service_id (env_sids E) envelope = Some (Aci u)) \<and>
     (type_of_envelope envelope = PlaintextContentType \<longrightarrow> (\<exists>m. c_body c = DecryptionErrorMessage m)) \<and>
     (\<forall>m. c_body c = SynchronizeMessage m \<longrightarrow> local = Aci u)"
proof -
  obtain local pt s1 where l: "parse_from_service_id_string (env_sids E) (addr_name (local_address self)) = Some local"
    and pt: "decrypt E self envelope s = (Ok pt, s1)" and c: "accept_content E local pt = Ok (Some c)"
    using assms unfolding open_envelope_def by (auto simp: bindE_Ok_iff split: if_splits)
  obtain local' ct where d: "parse_from_service_id_string (env_sids E) (addr_name (local_address self)) = Some local'"
    "env_content envelope = Some ct"
    "parse_destination_service_id (env_sids E) envelope = Some local'"
    "md_destination (pt_metadata pt) = local'"
    "\<exists>u. md_sender (pt_metadata pt) = Aci u"
    "md_was_plaintext (pt_metadata pt) \<longleftrightarrow> type_of_envelope envelope = PlaintextContentType"
    "if type_of_envelope envelope = UnidentifiedSender
     then validated_sender E self envelope ct s (md_sender (pt_metadata pt)) (md_sender_device (pt_metadata pt))
     else parse_source_service_id (env_sids E) envelope = Some (md_sender (pt_metadata pt))"
    by (rule decrypt_Ok [OF pt])
  then obtain u where u: "md_sender (pt_metadata pt) = Aci u" by blast
  note accepted = accept_content_Some [OF c]
  have "local = Aci u" if "c_body c = SynchronizeMessage m" for m
    using accepted that u by (cases local) (auto simp: aci_def pni_def)
  then show ?thesis
    using l d u accepted by auto
qed

text \<open>A concrete library and store: sessions exist, messages are not transformed.\<close>

definition sample_sids :: sid_pkgs where
  "sample_sids = \<lparr>
     service_id_string = (\<lambda>sid. case sid of Aci u \<Rightarrow> CHR ''A'' # map char_of_byte u | Pni u \<Rightarrow> CHR ''P'' # map char_of_byte u),
     parse_from_service_id_string = (\<lambda>s. case s of [] \<Rightarrow> None | c # r \<Rightarrow>
         if c = CHR ''A'' then Some (Aci (as_bytes r)) else if c = CHR ''P'' then Some (Pni (as_bytes r)) else None),
     parse_from_service_id_binary = (\<lambda>_. None),
     aci_from_service_id_string = (\<lambda>s. Some (as_bytes s)), pni_from_service_id_string = (\<lambda>s. Some (as_bytes s)),
     uuid_from_str = (\<lambda>s. Some (as_bytes s))\<rparr>"

definition sample_codec :: content_codec where
  "sample_codec = \<lparr>content_encode = (\<lambda>_. []),
     content_decode = (\<lambda>bs. Inr \<lparr>pc_content = Some (ProtoTypingMessage bs),
       pc_sender_key_distribution_message = None, pc_pni_signature_message = None\<rparr>),
     dem_encode = id, dem_decode = Inr\<rparr>"

definition sample_env :: "unit protocol_env" where
  "sample_env = \<lparr>env_sids = sample_sids, env_codec = sample_codec, env_iso = sample_iso7816,
     base64_relaxed = map char_of_byte, from_timestamp_millis = Some,
     lock_session = (\<lambda>_. id), unlock_session = (\<lambda>_. id),
     load_session = (\<lambda>_. pure (Some [])), delete_session = (\<lambda>_. pure ()),
     get_sub_device_sessions = (\<lambda>_. pure []), get_identity = (\<lambda>_. pure (Some [])),
     remote_registration_id = (\<lambda>_. Ok 77), session_version = (\<lambda>_. Ok 2),
     has_usable_sender_chain = (\<lambda>_. Some True),
     message_encrypt = (\<lambda>m _ _. pure (WhisperType, m)), sealed_sender_encrypt = (\<lambda>_ _ m. pure m),
     parse_prekey_signal_message = Ok, parse_signal_message = Ok, parse_plaintext_content = Ok,
     message_decrypt_prekey = (\<lambda>m _ _. pure m), message_decrypt_signal = (\<lambda>m _ _. pure m),
     group_decrypt = (\<lambda>m _. pure m),
     sealed_sender_decrypt_to_usmc = (\<lambda>_. throw SealedSenderSelfSend),
     parse_skdm = Ok, process_skdm = (\<lambda>_ _. pure ()), skdm_distribution_id = (\<lambda>_. Ok []),
     pni_from_service_id_binary = (\<lambda>_. None), verify_alternate_identity = (\<lambda>_ _ _. None),
     device_id_try_from = (\<lambda>d. Some (ucast d))\<rparr>"

definition sample_cipher :: service_cipher where
  "sample_cipher = \<lparr>trust_roots = [], local_address = \<lparr>addr_name = ''A2'', addr_device = 1\<rparr>\<rparr>"

definition sample_envelope :: envelope where
  "sample_envelope = \<lparr>env_type = Some 1, source_service_id = Some ''A1'', source_device_id = Some 1,
     destination_service_id = Some ''A2'', client_timestamp = Some 5, env_content = Some [9],
     server_guid = None, server_timestamp = Some 6, ephemeral = None, urgent = None,
     updated_pni = None, story = None, report_spam_token = None, source_service_id_binary = None,
     destination_service_id_binary = None, server_guid_binary = None, updated_pni_binary = None\<rparr>"

lemmas sample_defs = sample_sids_def sample_codec_def sample_env_def sample_cipher_def sample_envelope_def

lemma sample_open:
  "open_envelope sample_env sample_cipher sample_envelope () =
     (Ok (Some \<lparr>c_metadata = \<lparr>md_sender = Aci (as_bytes ''1''), md_destination = Aci (as_bytes ''2''),
         md_sender_device = 1, md_pni_verified = None, md_client_timestamp = 5, md_server_timestamp = 6,
         md_needs_receipt = False, md_unidentified_sender = False, md_was_plaintext = False,
         md_server_guid = None, md_report_spam_token = None\<rparr>,
       c_body = TypingMessage [9]\<rparr>), ())"
  unfolding open_envelope_def decrypt_def decrypt_parts_def decrypt_session_message_def
  by (simp add: sample_defs parse_destination_service_id_def parse_source_service_id_def
      parse_service_id_with_fallback_def or_else_def pni_def type_of_envelope_def envelope_type_of_def
      source_device_def with_session_lock_def get_preferred_protocol_address_def protoE_def map_errE_def
      protoR_def strip_padding_version_def process_sidecar_def accept_content_def from_proto_def Let_def
      parse_server_guid_def parse_uuid_with_fallback_def bindE_def)

theorem open_envelope_sound_witness:
  "\<exists>local ct u. parse_from_service_id_string (env_sids sample_env) (addr_name (local_address sample_cipher)) = Some local \<and>
     env_content sample_envelope = Some ct \<and>
     parse_destination_service_id (env_sids sample_env) sample_envelope = Some local \<and>
     parse_source_service_id (env_sids sample_env) sample_envelope = Some (Aci u)"
proof -
  have "type_of_envelope sample_envelope \<noteq> UnidentifiedSender"
    by (simp add: sample_envelope_def type_of_envelope_def envelope_type_of_def)
  then show ?thesis
    using open_envelope_sound [OF sample_open] by auto
qed

text \<open>
  C22: an envelope of a session or plaintext type that names no source makes the receiver
  panic. The envelope is otherwise well formed and addressed to the local account; the other
  malformed envelopes are answered with an \<open>InvalidFrame\<close> error.
\<close>

theorem open_envelope_without_source_panics:
  assumes "parse_from_service_id_string (env_sids E) (addr_name (local_address self)) = Some (Aci l)"
    and "env_content envelope = Some ct"
    and "parse_destination_service_id (env_sids E) envelope = Some (Aci l)"
    and "parse_source_service_id (env_sids E) envelope = None"
    and "type_of_envelope envelope \<in> {DoubleRatchet, PrekeyMessage, PlaintextContentType}"
  shows "is_panic (fst (open_envelope E self envelope s))"
  using assms
  by (auto simp: open_envelope_def decrypt_def decrypt_parts_def decrypt_session_message_def
      decrypt_plaintext_content_def pni_def Let_def bindE_def)

theorem open_envelope_without_source_panics_witness:
  "is_panic (fst (open_envelope sample_env sample_cipher (sample_envelope\<lparr>source_service_id := None\<rparr>) ()))"
  by (rule open_envelope_without_source_panics [where l = "as_bytes ''2''" and ct = "[9]"])
    (simp_all add: sample_defs parse_destination_service_id_def parse_source_service_id_def
      parse_service_id_with_fallback_def or_else_def type_of_envelope_def envelope_type_of_def)

section \<open>Encrypting\<close>

lemma envelope_type_for_Ok_iff:
  "envelope_type_for t = Ok n \<longleftrightarrow> t = PreKeyType \<and> n = 3 \<or> t = WhisperType \<and> n = 1"
  by (cases t) auto

text \<open>
  C14: a message leaves the cipher only through a session with the addressed device, and it
  carries that session's registration id and that device. Encrypted content goes out only over
  a session whose sender chain is usable and only after padding, as a sealed sender message
  exactly when a certificate is given. A plaintext message needs no usable chain, is not padded
  and changes nothing beyond loading the session.
\<close>

theorem encrypt_sound:
  assumes "encrypt E self address certificate content s = (Ok m, s')"
  shows "destination_device_id m = addr_device address \<and>
     (\<exists>record s1. load_session E address s = (Ok (Some record), s1) \<and>
        remote_registration_id E record = Ok (destination_registration_id m) \<and>
        (case content of
           PlaintextOut p \<Rightarrow> msg_type m = 8 \<and> msg_content m = base64_relaxed E p \<and> s' = s1
         | Encrypted c \<Rightarrow> has_usable_sender_chain E record = Some True \<and>
             (\<exists>version padded. session_version E record = Ok version \<and>
                add_padding (env_iso E) version c = Ok padded \<and>
                (case certificate of
                   Some cert \<Rightarrow> msg_type m = 6 \<and>
                     (\<exists>sealed. sealed_sender_encrypt E address cert padded s1 = (Ok sealed, s') \<and>
                        msg_content m = base64_relaxed E sealed)
                 | None \<Rightarrow>
                     (\<exists>type message. message_encrypt E padded address (local_address self) s1 =
                          (Ok (type, message), s') \<and> msg_content m = base64_relaxed E message \<and>
                        (type = PreKeyType \<and> msg_type m = 3 \<or> type = WhisperType \<and> msg_type m = 1))))))"
proof (cases content)
  case (PlaintextOut p)
  then show ?thesis
    using assms by (auto simp: encrypt_def Let_def bindE_Ok_iff)
next
  case (Encrypted c)
  then show ?thesis
    using assms by (cases certificate)
      (auto simp: encrypt_def Let_def bindE_Ok_iff envelope_type_for_Ok_iff split: if_splits)
qed

theorem encrypt_sound_witness:
  "\<exists>m. encrypt sample_env sample_cipher \<lparr>addr_name = ''A1'', addr_device = 4\<rparr> None (Encrypted [9]) () = (Ok m, ()) \<and>
     destination_device_id m = 4 \<and> destination_registration_id m = 77"
proof -
  let ?m = "\<lparr>msg_type = 1, destination_device_id = 4, destination_registration_id = 77,
      msg_content = [char_of_byte 9]\<rparr>"
  have m: "encrypt sample_env sample_cipher \<lparr>addr_name = ''A1'', addr_device = 4\<rparr> None (Encrypted [9]) () =
      (Ok ?m, ())"
    by (simp add: encrypt_def sample_defs protoE_def map_errE_def protoR_def bindE_def add_padding_def Let_def)
  then show ?thesis
    using encrypt_sound [OF m] by auto
qed

end
