(* ===== verification/Sender_Properties.thy ===== *)
theory Sender_Properties
  imports Effect_Logic Sender Cipher_Properties
begin

text \<open>
  What sending guarantees: how often and over which socket a message leaves, for which devices it
  is encrypted, and what the caller learns. The list of messages handed to the sockets is a
  function \<open>sent\<close> of the world that only the sockets extend.
\<close>

section \<open>The log of sent messages\<close>

lemma returns_with_session_lock [returns_rules]: "returns Q m \<Longrightarrow> returns Q (with_session_lock E p m)"
  by (fastforce simp: returns_def with_session_lock_def split: prod.splits)

definition socket_log :: "('w \<Rightarrow> (bool \<times> ws_request) list) \<Rightarrow> bool \<Rightarrow> 'w socket \<Rightarrow> bool" where
  "socket_log sent sealed ws \<longleftrightarrow>
     (\<forall>r s. sent (snd (ws r s)) = sent s @ (if req_verb r = Some ''PUT'' then [(sealed, r)] else []))"

definition records_sends ::
    "('w, 'm) sender_env_scheme \<Rightarrow> ('w \<Rightarrow> (bool \<times> ws_request) list) \<Rightarrow> bool" where
  "records_sends E sent \<longleftrightarrow>
     socket_log sent False (identified_ws E) \<and> socket_log sent True (unidentified_ws E) \<and>
     (\<forall>p s. sent (lock_session E p s) = sent s) \<and> (\<forall>p s. sent (unlock_session E p s) = sent s) \<and>
     (\<forall>a. runs (same sent) anything (load_session E a)) \<and>
     (\<forall>a. runs (same sent) anything (delete_session E a)) \<and>
     (\<forall>p. runs (same sent) anything (get_sub_device_sessions E p)) \<and>
     (\<forall>a. runs (same sent) anything (get_identity E a)) \<and>
     (\<forall>bs a l. runs (same sent) anything (message_encrypt E bs a l)) \<and>
     (\<forall>a c bs. runs (same sent) anything (sealed_sender_encrypt E a c bs)) \<and>
     (\<forall>a l b. runs (same sent) anything (process_prekey_bundle E a l b))"

lemma records_sendsD:
  assumes "records_sends E sent"
  shows "socket_log sent False (identified_ws E)" "socket_log sent True (unidentified_ws E)"
    "sent (lock_session E p s) = sent s" "sent (unlock_session E p s) = sent s"
    "runs (same sent) anything (load_session E a)"
    "runs (same sent) anything (delete_session E a)"
    "runs (same sent) anything (get_sub_device_sessions E p)"
    "runs (same sent) anything (get_identity E a)"
    "runs (same sent) anything (message_encrypt E bs a l)"
    "runs (same sent) anything (sealed_sender_encrypt E a c bs)"
    "runs (same sent) anything (process_prekey_bundle E a l b)"
  using assms unfolding records_sends_def by blast+

text \<open>No step of the preparation gives up with the error of the retry limit.\<close>

abbreviation not_limit :: "message_sender_error \<Rightarrow> bool" where
  "not_limit e \<equiv> e \<noteq> MaximumRetriesLimitExceeded"

lemma runs_msProto: "runs R anything m \<Longrightarrow> runs R not_limit (msProto m)"
  unfolding msProto_def by (rule runs_map_errE) auto

lemma runs_msService: "runs R anything m \<Longrightarrow> runs R not_limit (msService m)"
  unfolding msService_def by (rule runs_map_errE) auto

lemma runs_protoE: "runs R anything m \<Longrightarrow> runs R anything (protoE m)"
  unfolding protoE_def by (rule runs_map_errE) auto

lemma runs_protoR: "runs (same f) anything (protoR r)"
  unfolding protoR_def by (rule same_world.runs_lift) simp

lemmas runs_convert = runs_msProto runs_msService runs_protoE runs_protoR

lemma runs_get_json:
  assumes "socket_log sent b ws"
  shows "runs (same sent) anything (get_json P ws path from_slice)"
proof -
  have "runs (same sent) anything (ws (http_request ''GET'' path))"
    using assms by (simp add: runs_def socket_log_def http_request_def with_path_def new_request_def)
  then show ?thesis
    unfolding get_json_def send_def by (auto intro!: runs_rules)
qed

lemma runs_get_pre_keys:
  assumes "socket_log sent b ws"
  shows "runs (same sent) anything (get_pre_keys P K S ws recipient device)"
  unfolding get_pre_keys_def Let_def
  by (intro same_world.runs_bindE runs_get_json [OF assms] same_world.runs_lift TrueI)

lemma runs_get_pre_key:
  assumes "socket_log sent b ws"
  shows "runs (same sent) anything (get_pre_key P K S ws recipient device)"
  unfolding get_pre_key_def
  by (auto intro!: same_world.runs_bindE runs_get_json [OF assms] same_world.runs_lift split: list.splits)

lemma runs_get_preferred:
  assumes "records_sends E sent"
  shows "runs (same sent) anything (get_preferred_protocol_address E sid device)"
  unfolding get_preferred_protocol_address_def Let_def
  by (auto intro!: runs_rules records_sendsD [OF assms])

lemma runs_encrypt:
  assumes "records_sends E sent"
  shows "runs (same sent) anything (encrypt E self address access content)"
  unfolding encrypt_def Let_def
  by (auto intro!: runs_rules runs_convert records_sendsD [OF assms]
      split: outgoing_content.splits option.splits prod.splits)

lemma runs_establish:
  assumes "records_sends E sent"
  shows "runs (same sent) not_limit (establish_session E self recipient b)"
  unfolding establish_session_def
  by (auto intro!: runs_rules runs_convert runs_get_preferred [OF assms] records_sendsD [OF assms])

lemma runs_fetch:
  assumes "records_sends E sent"
  shows "runs (same sent) not_limit (fetch_pre_keys E recipient device)"
  unfolding fetch_pre_keys_def
  by (rule same_world.runs_matchE [OF runs_get_pre_keys [OF records_sendsD(1) [OF assms]]])
    (auto intro!: runs_rules)

lemma runs_create_encrypted_message:
  assumes "records_sends E sent"
  shows "runs (same sent) not_limit (create_encrypted_message E self recipient access device content)"
  unfolding create_encrypted_message_def Let_def
  by (auto intro!: runs_rules runs_convert runs_fetch [OF assms] runs_establish [OF assms]
      runs_encrypt [OF assms] records_sendsD [OF assms])

lemma runs_encrypt_for_device:
  assumes "records_sends E sent"
  shows "runs (same sent) not_limit (encrypt_for_device n E self recipient access device content)"
proof (induction n)
  case (Suc n)
  have "runs (same sent) not_limit (matchE (delete_session E addr)
      (\<lambda>_. encrypt_for_device n E self recipient access device content)
      (\<lambda>_. throw (MsProtocolError (SessionNotFound (Some addr) op))))" for addr op
    by (rule same_world.runs_matchE [OF records_sendsD(6) [OF assms]])
      (auto intro!: runs_rules Suc)
  then show ?case
    unfolding encrypt_for_device.simps
    by (intro same_world.runs_matchE [OF runs_create_encrypted_message [OF assms]])
      (auto intro!: runs_rules split: option.splits prod.splits)
qed (auto intro!: runs_rules)

lemma runs_encrypt_for_devices:
  assumes "records_sends E sent"
  shows "runs (same sent) not_limit (encrypt_for_devices ds E self recipient access content)"
  by (induction ds) (auto intro!: runs_rules runs_encrypt_for_device [OF assms])

lemma runs_create_encrypted_messages:
  assumes "records_sends E sent"
  shows "runs (same sent) not_limit (create_encrypted_messages E self recipient access content)"
  unfolding create_encrypted_messages_def
  by (auto intro!: runs_rules runs_drawE runs_convert runs_encrypt_for_devices [OF assms]
      records_sendsD [OF assms] split: option.splits)

lemma runs_drop_session:
  assumes "records_sends E sent"
  shows "runs (same sent) not_limit (drop_session E recipient device)"
  unfolding drop_session_def delete_service_addr_device_session_def
  by (intro same_world.runs_bindE runs_msProto same_world.runs_pure
      same_world.runs_matchE [OF records_sendsD(6) [OF assms]])
    (auto intro!: runs_rules split: signal_protocol_error.splits)

lemma runs_repair_missing:
  assumes "records_sends E sent"
  shows "runs (same sent) not_limit (repair_missing E self recipient device)"
  unfolding repair_missing_def
  by (intro same_world.runs_bindE runs_msService runs_get_pre_key [OF records_sendsD(1) [OF assms]]
      runs_map_errE [OF records_sendsD(11) [OF assms]]) auto

section \<open>How often a message is sent\<close>

lemma request_json_with_world: "snd (request_json_with P ws q decode from_slice s) = snd (ws q s)"
  by (simp add: request_json_with_def bindE_def split: prod.splits result.splits)

lemma request_json_with_sent:
  assumes "socket_log sent b ws" "req_verb q = Some ''PUT''" "request_json_with P ws q decode from_slice s = (r, s')"
  shows "sent s' = sent s @ [(b, q)]"
  using assms request_json_with_world [of P ws q decode from_slice s] by (simp add: socket_log_def)

lemma with_json_Ok:
  "with_json encoded q = Ok q' \<Longrightarrow> req_verb q' = req_verb q \<and> req_path q' = req_path q"
  by (auto simp: with_json_def with_header_def)

lemma put_json_sent:
  assumes "socket_log sent b ws" "req_verb q = Some ''PUT''" "req_path q = Some path"
    and run: "bindE (lift (map_err JsonDecodeError (with_json encoded q)))
      (\<lambda>q. request_json_with P ws q decode from_slice) s = (r, s')"
  shows "(\<exists>q. sent s' = sent s @ [(b, q)] \<and> req_path q = Some path) \<or>
    sent s' = sent s \<and> ((\<exists>e. r = Err (JsonDecodeError e)) \<or> (\<exists>p. r = Panic p))"
proof (cases "with_json encoded q")
  case (Ok q')
  with with_json_Ok [OF Ok] assms(2,3) run have "sent s' = sent s @ [(b, q')] \<and> req_path q' = Some path"
    by (simp add: request_json_with_sent [OF assms(1)])
  then show ?thesis
    by blast
qed (use run in auto)

lemma wire_send_sent:
  assumes "records_sends E sent" "wire_send E access messages s = (r, s')"
  shows "(\<exists>q. sent s' = sent s @ [(access \<noteq> None, q)] \<and>
      req_path q = Some (messages_path (env_sids E) (opm_destination messages))) \<or>
    sent s' = sent s \<and> ((\<exists>e. r = Err (JsonDecodeError e)) \<or> (\<exists>p. r = Panic p))"
proof (cases access)
  case None
  with assms(2) have "send_messages (net_http E) (net_messages E) (env_sids E) (identified_ws E) messages s = (r, s')"
    by (simp add: wire_send_def)
  from put_json_sent [OF records_sendsD(1) [OF assms(1)] _ _ this [unfolded send_messages_def]] None
  show ?thesis
    by (simp add: with_path_def new_request_def)
next
  case (Some u)
  with assms(2) have "send_messages_unidentified (net_http E) (net_messages E) (env_sids E) (unidentified_ws E)
      messages u s = (r, s')"
    by (simp add: wire_send_def)
  from put_json_sent [OF records_sendsD(2) [OF assms(1)] _ _ this [unfolded send_messages_unidentified_def]] Some
  show ?thesis
    by (simp add: with_path_def with_header_def new_request_def)
qed

definition sends_ok ::
    "('w, 'm) sender_env_scheme \<Rightarrow> service_id \<Rightarrow> ws_request list \<Rightarrow> bool" where
  "sends_ok E recipient qs \<longleftrightarrow> (\<forall>q \<in> set qs. req_path q = Some (messages_path (env_sids E) recipient))"

text \<open>
  One run of the retry loop: first sealed sends, then identified ones, at most \<open>n\<close> in all.
\<close>

definition send_trace ::
    "('w, 'm) sender_env_scheme \<Rightarrow> service_id \<Rightarrow> bool \<Rightarrow> nat \<Rightarrow> (bool \<times> ws_request) list \<Rightarrow> send_message_result \<Rightarrow> bool" where
  "send_trace E recipient sealed n log r \<longleftrightarrow>
     (\<exists>us is. log = map (Pair True) us @ map (Pair False) is \<and> sends_ok E recipient (us @ is) \<and>
        length log \<le> n \<and> (\<not> sealed \<longrightarrow> us = []) \<and>
        (\<forall>m. r = Ok m \<longrightarrow> log \<noteq> [] \<and> sm_recipient m = recipient \<and> sm_unidentified m = (is = [])) \<and>
        (r = Err MaximumRetriesLimitExceeded \<longrightarrow> length log = n))"

lemma send_trace_Nil: "(\<And>m. r \<noteq> Ok m) \<Longrightarrow> (r = Err MaximumRetriesLimitExceeded \<Longrightarrow> n = 0) \<Longrightarrow> send_trace E recipient sealed n [] r"
  unfolding send_trace_def by (rule exI [of _ "[]"], rule exI [of _ "[]"]) (simp add: sends_ok_def)

lemma send_trace_Cons:
  assumes "send_trace E recipient sealed' n log r" "req_path q = Some (messages_path (env_sids E) recipient)"
    and "sealed' \<Longrightarrow> sealed" "sealed \<and> \<not> sealed' \<Longrightarrow> b" "b = sealed"
  shows "send_trace E recipient sealed (Suc n) ((b, q) # log) r"
proof -
  from assms(1) obtain us "is" where t: "log = map (Pair True) us @ map (Pair False) is" "sends_ok E recipient (us @ is)"
    "length log \<le> n" "\<not> sealed' \<longrightarrow> us = []"
    "\<forall>m. r = Ok m \<longrightarrow> log \<noteq> [] \<and> sm_recipient m = recipient \<and> sm_unidentified m = (is = [])"
    "r = Err MaximumRetriesLimitExceeded \<longrightarrow> length log = n"
    unfolding send_trace_def by blast
  show ?thesis
  proof (cases sealed)
    case True
    with t assms show ?thesis
      unfolding send_trace_def by (intro exI [of _ "q # us"] exI [of _ "is"]) (auto simp: sends_ok_def)
  next
    case False
    with t assms show ?thesis
      unfolding send_trace_def by (intro exI [of _ "[]"] exI [of _ "q # is"]) (auto simp: sends_ok_def)
  qed
qed

lemma judge_json: "judge recipient sealed (JsonDecodeError e) = GiveUp (MsServiceError (JsonDecodeError e))"
  by (simp add: judge_def)

lemma judge_FallBack: "judge recipient sealed e = FallBack \<Longrightarrow> sealed"
  by (auto simp: judge_def split: service_error.splits if_splits)

lemma judge_GiveUp: "judge recipient sealed e = GiveUp e' \<Longrightarrow> e' \<noteq> MaximumRetriesLimitExceeded"
  by (auto simp: judge_def split: service_error.splits if_splits)

definition traced ::
    "('w \<Rightarrow> (bool \<times> ws_request) list) \<Rightarrow> ('w, 'm) sender_env_scheme \<Rightarrow> service_id \<Rightarrow> bool \<Rightarrow> nat
       \<Rightarrow> ('w, sent_message, message_sender_error) eff \<Rightarrow> bool" where
  "traced sent E recipient sealed n m \<longleftrightarrow>
     (\<forall>s. \<exists>log. sent (snd (m s)) = sent s @ log \<and> send_trace E recipient sealed n log (fst (m s)))"

lemma traced_throw: "e \<noteq> MaximumRetriesLimitExceeded \<Longrightarrow> traced sent E recipient sealed n (throw e)"
  unfolding traced_def by (auto intro!: exI [of _ "[]"] send_trace_Nil)

lemma traced_bindE:
  assumes m: "runs (same sent) not_limit m" and f: "\<And>a. traced sent E recipient sealed n (f a)"
  shows "traced sent E recipient sealed n (bindE m f)"
  unfolding traced_def
proof
  fix s
  obtain r s1 where run: "m s = (r, s1)"
    by fastforce
  show "\<exists>log. sent (snd (bindE m f s)) = sent s @ log \<and> send_trace E recipient sealed n log (fst (bindE m f s))"
  proof (cases r)
    case (Ok a)
    with run runs_world [OF m run] f [of a, unfolded traced_def, rule_format, of s1] show ?thesis
      by simp
  qed (use run runs_world [OF m run] runs_error [OF m] in \<open>auto intro!: exI [of _ "[]"] send_trace_Nil\<close>)
qed

text \<open>The answer to a send: the send itself is the first entry of the trace.\<close>

lemma traced_wire_send:
  assumes R: "records_sends E sent" and dest: "opm_destination messages = recipient"
    and ok: "\<And>b. sm_recipient (m b) = recipient \<and> sm_unidentified (m b) = (access \<noteq> None)"
    and fallback: "\<And>e. judge recipient (access \<noteq> None) e = FallBack \<Longrightarrow> traced sent E recipient False n (g e)"
    and other: "\<And>e. judge recipient (access \<noteq> None) e \<noteq> FallBack \<Longrightarrow> traced sent E recipient (access \<noteq> None) n (g e)"
    and json: "\<And>e. g (JsonDecodeError e) = throw (MsServiceError (JsonDecodeError e))"
  shows "traced sent E recipient (access \<noteq> None) (Suc n) (matchE (wire_send E access messages) (\<lambda>b. pure (m b)) g)"
  unfolding traced_def
proof
  fix s
  let ?m = "matchE (wire_send E access messages) (\<lambda>b. pure (m b)) g"
  obtain w s1 where run: "wire_send E access messages s = (w, s1)"
    by fastforce
  consider (sent) q where "sent s1 = sent s @ [(access \<noteq> None, q)]"
      "req_path q = Some (messages_path (env_sids E) recipient)"
    | (unsent) "sent s1 = sent s" "(\<exists>e. w = Err (JsonDecodeError e)) \<or> (\<exists>p. w = Panic p)"
    using wire_send_sent [OF R run] dest by blast
  then show "\<exists>log. sent (snd (?m s)) = sent s @ log \<and> send_trace E recipient (access \<noteq> None) (Suc n) log (fst (?m s))"
  proof cases
    case unsent
    with run json show ?thesis
      by (auto simp: matchE_def intro!: exI [of _ "[]"] send_trace_Nil)
  next
    case (sent q)
    show ?thesis
    proof (cases w)
      case (Ok b)
      with sent run ok [of b] show ?thesis
        by (cases access) (auto simp: matchE_def send_trace_def sends_ok_def
            intro: exI [of _ "[]"] exI [of _ "[q]"])
    next
      case (Panic p)
      have "send_trace E recipient (access \<noteq> None) (Suc n) [(access \<noteq> None, q)] (Panic p)"
        by (rule send_trace_Cons [OF send_trace_Nil sent(2)]) auto
      with sent run Panic show ?thesis
        by (simp add: matchE_def)
    next
      case (Err e)
      have "\<exists>sealed. (sealed \<longrightarrow> access \<noteq> None) \<and> traced sent E recipient sealed n (g e)"
        using fallback [of e] other [of e] by (cases "judge recipient (access \<noteq> None) e = FallBack") auto
      then obtain sealed log where "sealed \<longrightarrow> access \<noteq> None" "sent (snd (g e s1)) = sent s1 @ log"
        "send_trace E recipient sealed n log (fst (g e s1))"
        unfolding traced_def by blast
      with send_trace_Cons [OF this(3) sent(2), of "access \<noteq> None" "access \<noteq> None"] sent run Err show ?thesis
        by (auto simp: matchE_def)
    qed
  qed
qed

lemma send_attempts_traced:
  assumes R: "records_sends E sent"
  shows "traced sent E recipient (access \<noteq> None) n (send_attempts n E self recipient access content timestamp online)"
proof (induction n arbitrary: access)
  case 0
  show ?case
    unfolding traced_def by (auto intro!: exI [of _ "[]"] send_trace_Nil)
next
  case (Suc n)
  note repair = runs_create_encrypted_messages [OF R] runs_drop_session [OF R] runs_repair_missing [OF R]
  show ?case
    unfolding send_attempts.simps
  proof (rule traced_bindE [OF repair(1)], goal_cases)
    case (1 encrypted)
    show ?case
    proof (cases encrypted)
      case (Some em)
      show ?thesis
        unfolding Some option.case
      proof (rule traced_wire_send [OF R], goal_cases)
        case (3 e)
        with Suc [of None] show ?case
          by simp
      next
        case (4 e)
        then show ?case
          by (auto split: verdict.splits simp del: not_None_eq dest: judge_GiveUp intro!: traced_bindE traced_throw
              same_world.runs_forE repair Suc)
      qed (simp_all add: judge_json)
    qed (simp add: traced_throw)
  qed
qed

text \<open>
  C3: a delivery attempt always ends, after at most four sends to the recipient's message
  endpoint. Sealed sender sends come first and are tried only when an access key is given; once
  the loop has fallen back to the identified socket it stays there. A reported success was sent,
  to this recipient, and is reported as sealed exactly when no identified send was made; the retry
  limit is reported exactly when four sends were used up. The hypothesis says that \<open>sent\<close> is the
  list of messages that were handed to the two sockets.
\<close>

theorem try_send_content_bounded:
  assumes "records_sends E sent"
    and "try_send_content E self recipient access content timestamp online s = (r, s')"
  shows "\<exists>sealed identified. sent s' = sent s @ map (Pair True) sealed @ map (Pair False) identified \<and>
    length sealed + length identified \<le> 4 \<and> (access = None \<longrightarrow> sealed = []) \<and>
    (\<forall>q \<in> set (sealed @ identified). req_path q = Some (messages_path (env_sids E) recipient)) \<and>
    (\<forall>m. r = Ok m \<longrightarrow> sealed @ identified \<noteq> [] \<and> sm_recipient m = recipient \<and>
       (sm_unidentified m \<longleftrightarrow> identified = [])) \<and>
    (r = Err MaximumRetriesLimitExceeded \<longrightarrow> length sealed + length identified = 4)"
proof -
  let ?run = "send_attempts 4 E self recipient access content timestamp online (lock_session E recipient s)"
  have r: "r = fst ?run" "sent s' = sent (snd ?run)"
    using assms records_sendsD(4) [OF assms(1)]
    by (auto simp: try_send_content_def with_session_lock_def split: prod.splits)
  obtain log where log: "sent (snd ?run) = sent s @ log" "send_trace E recipient (access \<noteq> None) 4 log (fst ?run)"
    using send_attempts_traced [OF assms(1), of recipient access 4, unfolded traced_def, rule_format,
        of self content timestamp online "lock_session E recipient s"] records_sendsD(3) [OF assms(1)]
    by auto
  from log(2) obtain us "is" where "log = map (Pair True) us @ map (Pair False) is" "sends_ok E recipient (us @ is)"
    "length log \<le> 4" "\<not> access \<noteq> None \<longrightarrow> us = []"
    "\<forall>m. r = Ok m \<longrightarrow> log \<noteq> [] \<and> sm_recipient m = recipient \<and> sm_unidentified m = (is = [])"
    "r = Err MaximumRetriesLimitExceeded \<longrightarrow> length log = 4"
    unfolding send_trace_def r(1) by blast
  with r(2) log(1) show ?thesis
    unfolding sends_ok_def by (intro exI [of _ us] exI [of _ "is"]) simp
qed

text \<open>A network that refuses sealed sender and accepts identified messages.\<close>

type_synonym sample_log = "(bool \<times> ws_request) list"

definition sample_answer :: "u32 \<Rightarrow> ws_response" where
  "sample_answer code = \<lparr>resp_id = None, resp_status = Some code, resp_message = None, resp_headers = [], resp_body = Some []\<rparr>"

definition sample_socket :: "bool \<Rightarrow> u32 \<Rightarrow> sample_log socket" where
  "sample_socket sealed code = (\<lambda>q s. (Ok (sample_answer code),
     s @ (if req_verb q = Some ''PUT'' then [(sealed, q)] else [])))"

definition sample_keys :: key_pkgs where
  "sample_keys = \<lparr>kind_string = (\<lambda>_. []), json_pre_key_response = (\<lambda>_. Err []), json_certificate = (\<lambda>_. Err []),
     json_pre_key_status = (\<lambda>_. Err []), json_check_request = (\<lambda>_ _. Err []), identity_key_decode = Ok,
     public_key_deserialize = Ok, curve_to_protocol = OtherProtocolError, kyber_key_deserialize = Ok,
     pre_key_bundle_new = (\<lambda>_ _ _ _ _ _ _ _ _ _. Ok []), certificate_deserialize = Ok\<rparr>"

definition sample_net :: "bool \<Rightarrow> device_id list \<Rightarrow> sample_log sender_env" where
  "sample_net needs_sync sub = \<lparr>env_sids = sample_sids, env_codec = sample_codec, env_iso = sample_iso7816,
     base64_relaxed = map char_of_byte, from_timestamp_millis = Some,
     lock_session = (\<lambda>_. id), unlock_session = (\<lambda>_. id),
     load_session = (\<lambda>_. pure (Some [])), delete_session = (\<lambda>_. pure ()),
     get_sub_device_sessions = (\<lambda>_. pure sub), get_identity = (\<lambda>_. pure (Some [])),
     remote_registration_id = (\<lambda>_. Ok 77), session_version = (\<lambda>_. Ok 2),
     has_usable_sender_chain = (\<lambda>_. Some True),
     message_encrypt = (\<lambda>m _ _. pure (WhisperType, m)), sealed_sender_encrypt = (\<lambda>_ _ m. pure m),
     parse_prekey_signal_message = Ok, parse_signal_message = Ok, parse_plaintext_content = Ok,
     message_decrypt_prekey = (\<lambda>m _ _. pure m), message_decrypt_signal = (\<lambda>m _ _. pure m),
     group_decrypt = (\<lambda>m _. pure m),
     sealed_sender_decrypt_to_usmc = (\<lambda>_. throw SealedSenderSelfSend),
     parse_skdm = Ok, process_skdm = (\<lambda>_ _. pure ()), skdm_distribution_id = (\<lambda>_. Ok []),
     pni_from_service_id_binary = (\<lambda>_. None), verify_alternate_identity = (\<lambda>_ _ _. None),
     device_id_try_from = (\<lambda>d. Some (ucast d)),
     identified_ws = sample_socket False 200, unidentified_ws = sample_socket True 401,
     net_http = sample_pkgs, net_keys = sample_keys,
     net_messages = \<lparr>json_push_messages = (\<lambda>_. Ok []), json_send_response = (\<lambda>_. Ok needs_sync),
       base64_relaxed_encode = map char_of_byte\<rparr>,
     process_prekey_bundle = (\<lambda>_ _ _. pure ()), bundle_device_id = (\<lambda>_. Ok 1),
     hash_iter = (\<lambda>S _. sorted_list_of_set S),
     sign_alternate_identity = (\<lambda>_ _. pure []), for_original = (\<lambda>_ _ _ _. Ok []),
     plaintext_content_from = id, service_id_binary = uuid_of_service_id, uuid_to_string = map char_of_byte,
     identity_serialize = id, now_millis = (\<lambda>s. (0, s)), random_size = (\<lambda>s. (1, s)),
     fill_bytes = (\<lambda>n s. (replicate n 0, s))\<rparr>"

definition sample_sender :: message_sender where
  "sample_sender = \<lparr>ms_cipher = sample_cipher, ms_local_aci = as_bytes ''2'', ms_local_pni = as_bytes ''3'',
     ms_aci_identity = [], ms_pni_identity = None, ms_device_id = 1\<rparr>"

lemma sample_records: "records_sends (sample_net b sub) id"
  by (simp add: records_sends_def sample_net_def socket_log_def sample_socket_def runs_def)

lemma sample_net_sel [simp]:
  "env_sids (sample_net b sub) = sample_sids" "env_codec (sample_net b sub) = sample_codec"
  "env_iso (sample_net b sub) = sample_iso7816"
  "lock_session (sample_net b sub) p = id" "unlock_session (sample_net b sub) p = id"
  "load_session (sample_net b sub) a = pure (Some [])"
  "get_sub_device_sessions (sample_net b sub) p = pure sub" "get_identity (sample_net b sub) a = pure (Some [])"
  "remote_registration_id (sample_net b sub) r = Ok 77" "session_version (sample_net b sub) r = Ok 2"
  "has_usable_sender_chain (sample_net b sub) r = Some True"
  "message_encrypt (sample_net b sub) m a l = pure (WhisperType, m)"
  "sealed_sender_encrypt (sample_net b sub) a c m = pure m"
  "identified_ws (sample_net b sub) = sample_socket False 200" "unidentified_ws (sample_net b sub) = sample_socket True 401"
  "net_http (sample_net b sub) = sample_pkgs"
  "json_push_messages (net_messages (sample_net b sub)) ms = Ok []"
  "json_send_response (net_messages (sample_net b sub)) bs = Ok b"
  "hash_iter (sample_net b sub) S s = sorted_list_of_set S"
  "random_size (sample_net b sub) s = (1, s)" "fill_bytes (sample_net b sub) n s = (replicate n 0, s)"
  by (simp_all add: sample_net_def)

lemma sample_encrypt:
  "\<exists>m. encrypt (sample_net b sub) self address access content s = (Ok m, s) \<and>
     destination_device_id m = addr_device address"
  by (cases content; cases access)
    (simp_all add: encrypt_def Let_def bindE_def protoE_def map_errE_def protoR_def add_padding_def)

lemma sample_encrypt_for_devices:
  "\<exists>ms. encrypt_for_devices ds (sample_net b sub) self recipient access content s = (Ok ms, s) \<and>
     map destination_device_id ms = ds"
proof (induction ds arbitrary: s)
  case (Cons d ds)
  obtain m where m: "encrypt (sample_net b sub) (ms_cipher self) (address_of (sample_net b sub) recipient d) access content s = (Ok m, s)"
    "destination_device_id m = d"
    using sample_encrypt [of b sub "ms_cipher self" "address_of (sample_net b sub) recipient d" access content s]
    by (auto simp: address_of_def to_protocol_address_def)
  obtain ms where "encrypt_for_devices ds (sample_net b sub) self recipient access content s = (Ok ms, s)"
    "map destination_device_id ms = ds"
    using Cons by blast
  with m show ?case
    by (simp add: numeral_2_eq_2 create_encrypted_message_def Let_def matchE_def bindE_def msProto_def msService_def map_errE_def)
qed simp

lemma sample_create:
  assumes "sorted_list_of_set (target_devices self recipient sub) \<noteq> []"
  shows "\<exists>em. create_encrypted_messages (sample_net b sub) self recipient access content s = (Ok (Some em), s) \<and>
    em_used_identity_key em = [] \<and>
    map destination_device_id (em_messages em) = sorted_list_of_set (target_devices self recipient sub)"
proof -
  obtain ms where "encrypt_for_devices (sorted_list_of_set (target_devices self recipient sub)) (sample_net b sub)
      self recipient access content s = (Ok ms, s)"
    "map destination_device_id ms = sorted_list_of_set (target_devices self recipient sub)"
    using sample_encrypt_for_devices by blast
  moreover from this(2) assms have "ms \<noteq> []"
    by (metis list.map_disc_iff)
  ultimately show ?thesis
    by (simp add: create_encrypted_messages_def bindE_def drawE_def msProto_def map_errE_def)
qed

lemma sample_request:
  "request_json_with sample_pkgs (sample_socket sealed 200) q (put_messages_errors sample_pkgs (ws_ops sample_pkgs)) f s =
    (response_json f (sample_answer 200), s @ (if req_verb q = Some ''PUT'' then [(sealed, q)] else []))"
  "request_json_with sample_pkgs (sample_socket sealed 401) q (put_messages_errors sample_pkgs (ws_ops sample_pkgs)) f s =
    (Err Unauthorized, s @ (if req_verb q = Some ''PUT'' then [(sealed, q)] else []))"
  by (simp_all add: request_json_with_def sample_socket_def sample_answer_def bindE_def service_error_for_status_with_def
      put_messages_errors_def error_mapper_def ws_ops_def ws_status_code_def sample_pkgs_def baseline_decode_def
      json_or_unhandled_def Let_def)

lemma sample_wire_send:
  "\<exists>q. wire_send (sample_net b sub) access messages s =
     (if access = None then Ok b else Err Unauthorized, s @ [(access \<noteq> None, q)])"
  by (cases access)
    (simp_all add: wire_send_def send_messages_def send_messages_unidentified_def with_json_def with_header_def
      with_path_def new_request_def bindE_def sample_request response_json_def sample_answer_def)

lemma sample_send_attempts:
  assumes "sorted_list_of_set (target_devices self recipient sub) \<noteq> []"
  shows "\<exists>q. send_attempts (Suc n) (sample_net b sub) self recipient None content timestamp online s =
    (Ok \<lparr>sm_recipient = recipient, used_identity_key = [], sm_unidentified = False, sm_needs_sync = b\<rparr>, s @ [(False, q)])"
proof -
  obtain em where "create_encrypted_messages (sample_net b sub) self recipient None content s = (Ok (Some em), s)"
    "em_used_identity_key em = []"
    using sample_create [OF assms] by blast
  moreover obtain q where "wire_send (sample_net b sub) None \<lparr>opm_destination = recipient, opm_timestamp = timestamp,
      opm_messages = em_messages em, opm_online = online\<rparr> s = (Ok b, s @ [(False, q)])"
    using sample_wire_send [where access = None] by simp blast
  ultimately show ?thesis
    by (simp add: matchE_def)
qed

lemma sample_send_attempts_sealed:
  assumes "sorted_list_of_set (target_devices self recipient sub) \<noteq> []"
  shows "fst (send_attempts (Suc (Suc n)) (sample_net b sub) self recipient (Some u) content timestamp online s) =
    Ok \<lparr>sm_recipient = recipient, used_identity_key = [], sm_unidentified = False, sm_needs_sync = b\<rparr>"
proof -
  obtain em where "create_encrypted_messages (sample_net b sub) self recipient (Some (ua_certificate u)) content s = (Ok (Some em), s)"
    using sample_create [OF assms] by blast
  moreover obtain q where "wire_send (sample_net b sub) (Some u) \<lparr>opm_destination = recipient, opm_timestamp = timestamp,
      opm_messages = em_messages em, opm_online = online\<rparr> s = (Err Unauthorized, s @ [(True, q)])"
    using sample_wire_send [where access = "Some u"] by simp blast
  moreover have "judge recipient True Unauthorized = FallBack"
    by (simp add: judge_def)
  moreover obtain q' where "send_attempts (Suc n) (sample_net b sub) self recipient None content timestamp online
      (s @ [(True, q)]) = (Ok \<lparr>sm_recipient = recipient, used_identity_key = [], sm_unidentified = False,
        sm_needs_sync = b\<rparr>, (s @ [(True, q)]) @ [(False, q')])"
    using sample_send_attempts [OF assms] by blast
  ultimately show ?thesis
    unfolding send_attempts.simps(2) [of "Suc n"] by (simp add: matchE_def del: send_attempts.simps)
qed

theorem try_send_content_bounded_witness:
  "\<exists>(sealed :: ws_request list) (identified :: ws_request list) m. sealed @ identified \<noteq> [] \<and> length sealed + length identified \<le> 4 \<and>
     fst (try_send_content (sample_net False []) sample_sender (Aci [49]) (Some \<lparr>ua_key = [1], ua_certificate = [2]\<rparr>)
       (Encrypted [9]) 5 False []) = Ok m \<and> sm_unidentified m = (identified = []) \<and> \<not> sm_unidentified m"
proof -
  let ?E = "sample_net False []" and ?access = "Some \<lparr>ua_key = [1], ua_certificate = [2]\<rparr>"
  let ?run = "try_send_content ?E sample_sender (Aci [49]) ?access (Encrypted [9]) 5 False []"
  let ?m = "\<lparr>sm_recipient = Aci [49], used_identity_key = [], sm_unidentified = False, sm_needs_sync = False\<rparr>"
  have "sorted_list_of_set (target_devices sample_sender (Aci [49]) []) \<noteq> []"
    by (simp add: target_devices_def sample_sender_def as_bytes_def byte_of_char_def)
  from sample_send_attempts_sealed [OF this] have m: "fst ?run = Ok ?m"
    by (simp add: try_send_content_def with_session_lock_def eval_nat_numeral split: prod.splits del: send_attempts.simps)
  then have run: "?run = (Ok ?m, snd ?run)"
    by (simp add: prod_eq_iff)
  from try_send_content_bounded [OF sample_records run] obtain sealed identified :: "ws_request list" where
    "length sealed + length identified \<le> 4" "sealed @ identified \<noteq> []" "identified \<noteq> []"
    by auto
  with m show ?thesis
    by - (rule exI [of _ sealed], rule exI [of _ identified], rule exI [of _ ?m], simp)
qed

section \<open>Which devices a message is encrypted for\<close>

definition hash_order :: "('w, 'm) sender_env_scheme \<Rightarrow> bool" where
  "hash_order E \<longleftrightarrow> (\<forall>S s. finite S \<longrightarrow> set (hash_iter E S s) = S \<and> distinct (hash_iter E S s))"

lemma msProto_Ok_iff [simp]: "msProto m s = (Ok a, s') \<longleftrightarrow> m s = (Ok a, s')"
  by (simp add: msProto_def)

lemma msService_Ok_iff [simp]: "msService m s = (Ok a, s') \<longleftrightarrow> m s = (Ok a, s')"
  by (simp add: msService_def)

lemma encrypt_device:
  "encrypt E self address certificate content s = (Ok m, s') \<Longrightarrow> destination_device_id m = addr_device address"
  by (cases content; cases certificate) (auto simp: encrypt_def Let_def bindE_Ok_iff split: if_splits)

lemma create_encrypted_message_device:
  assumes "create_encrypted_message E self recipient access device content s = (Ok m, s')"
  shows "destination_device_id m = device"
  using assms
  by (auto simp: create_encrypted_message_def Let_def bindE_Ok_iff address_of_def to_protocol_address_def
      dest!: encrypt_device)

lemma encrypt_for_device_device:
  "encrypt_for_device n E self recipient access device content s = (Ok (Some m), s') \<Longrightarrow> destination_device_id m = device"
  by (induction n arbitrary: s)
    (auto simp: matchE_Ok_iff split: option.splits dest: create_encrypted_message_device)

lemma encrypt_for_devices_subseq:
  "encrypt_for_devices ds E self recipient access content s = (Ok ms, s') \<Longrightarrow>
     subseq (map destination_device_id ms) ds"
  by (induction ds arbitrary: s ms)
    (auto simp: bindE_Ok_iff split: option.splits dest: encrypt_for_device_device simp del: encrypt_for_device.simps)

lemma target_devices_finite: "finite (target_devices self recipient sub)"
  by (simp add: target_devices_def Let_def split: service_id.splits)

text \<open>
  C8: a prepared send carries at least one message, at most one for each device, and only for
  the primary device and devices with a session. A send to our own account never targets the
  sending device. The hypothesis is what \<open>HashSet\<close> promises of its iteration.
\<close>

theorem create_encrypted_messages_targets:
  assumes "hash_order E"
    and "create_encrypted_messages E self recipient access content s = (Ok (Some em), s')"
  shows "\<exists>sub s1. get_sub_device_sessions E recipient s = (Ok sub, s1) \<and> em_messages em \<noteq> [] \<and>
    distinct (map destination_device_id (em_messages em)) \<and>
    destination_device_id ` set (em_messages em) \<subseteq> insert DEFAULT_DEVICE_ID (set sub) \<and>
    (recipient \<in> {Aci (ms_local_aci self), Pni (ms_local_pni self)} \<longrightarrow>
       ms_device_id self \<notin> destination_device_id ` set (em_messages em))"
proof -
  obtain sub s1 s2 where sub: "get_sub_device_sessions E recipient s = (Ok sub, s1)"
    and ms: "encrypt_for_devices (hash_iter E (target_devices self recipient sub) s1) E self recipient access content s1 =
      (Ok (em_messages em), s2)" "em_messages em \<noteq> []"
    using assms(2) by (auto simp: create_encrypted_messages_def bindE_Ok_iff drawE_def split: if_splits)
  let ?ds = "hash_iter E (target_devices self recipient sub) s1"
  have "set ?ds = target_devices self recipient sub" "distinct ?ds"
    using assms(1) target_devices_finite unfolding hash_order_def by blast+
  moreover obtain N where "map destination_device_id (em_messages em) = nths ?ds N"
    using encrypt_for_devices_subseq [OF ms(1)] by (auto simp: subseq_conv_nths)
  ultimately have d: "distinct (map destination_device_id (em_messages em))"
    "destination_device_id ` set (em_messages em) \<subseteq> target_devices self recipient sub"
    using distinct_nthsI [of ?ds N] set_nths_subset [of ?ds N] by (metis, metis set_map)
  have "target_devices self recipient sub \<subseteq> insert DEFAULT_DEVICE_ID (set sub)"
    "recipient \<in> {Aci (ms_local_aci self), Pni (ms_local_pni self)} \<Longrightarrow> ms_device_id self \<notin> target_devices self recipient sub"
    by (auto simp: target_devices_def Let_def split: service_id.splits if_splits)
  with sub ms(2) d show ?thesis
    by blast
qed

theorem create_encrypted_messages_targets_witness:
  "\<exists>em. fst (create_encrypted_messages (sample_net False [3]) sample_sender (Aci (as_bytes ''2'')) None (Encrypted [9]) []) =
       Ok (Some em) \<and> em_messages em \<noteq> [] \<and> 1 \<notin> destination_device_id ` set (em_messages em)"
proof -
  let ?E = "sample_net False [3]"
  have "sorted_list_of_set (target_devices sample_sender (Aci (as_bytes ''2'')) [3]) \<noteq> []"
    by (simp add: target_devices_def sample_sender_def DEFAULT_DEVICE_ID_def insert_Diff_if)
  from sample_create [OF this] obtain em where em: "create_encrypted_messages ?E sample_sender (Aci (as_bytes ''2'')) None
      (Encrypted [9]) [] = (Ok (Some em), [])"
    by blast
  have "hash_order ?E"
    by (simp add: hash_order_def)
  from create_encrypted_messages_targets [OF this em] em show ?thesis
    by (auto simp: sample_sender_def)
qed

section \<open>What the caller learns\<close>

lemma send_attempts_recipient:
  "returns (\<lambda>m. sm_recipient m = recipient) (send_attempts n E self recipient access content timestamp online)"
  by (induction n arbitrary: access)
    (auto intro!: returns_rules split: option.splits verdict.splits)

lemma try_send_message_recipient:
  "returns (\<lambda>m. sm_recipient m = recipient) (try_send_message E self recipient access body timestamp sig online)"
  unfolding try_send_message_def try_send_content_def Let_def
  by (intro returns_rules send_attempts_recipient)

text \<open>The report of one recipient of a group message.\<close>

definition reports :: "service_id \<times> unidentified_access option \<times> bool \<Rightarrow> send_message_result \<Rightarrow> bool" where
  "reports recipient r = (case r of Ok m \<Rightarrow> sm_recipient m = fst recipient | Err _ \<Rightarrow> True | Panic _ \<Rightarrow> False)"

lemma send_to_each_reports:
  "send_to_each xs E self body timestamp online s = (Ok rs, s') \<Longrightarrow> list_all2 reports xs rs"
proof (induction xs arbitrary: s rs)
  case (Cons x xs)
  obtain recipient access sig where x: "x = (recipient, access, sig)"
    by (cases x)
  obtain r s1 where run: "try_send_message E self recipient access body timestamp sig online s = (r, s1)"
    by fastforce
  have "reports x r" "\<exists>rs' s2. rs = r # rs' \<and> send_to_each xs E self body timestamp online s1 = (Ok rs', s2) \<and> s2 = s'"
    using Cons.prems run returnsD [OF try_send_message_recipient, of E self recipient access body timestamp sig online s]
    by (cases r; auto simp: x Let_def matchE_def bindE_Ok_iff reports_def)+
  with Cons.IH show ?case
    by auto
qed simp

lemma never_fails_send_to_each: "never_fails (send_to_each xs E self body timestamp online)"
proof (induction xs)
  case (Cons x xs)
  then show ?case
    by (cases x) (auto simp: Let_def intro!: never_fails_rules)
qed (auto intro: never_fails_rules)

lemma never_fails_transcript:
  "never_fails (create_multi_device_sent_transcript_content E recipient body timestamp results)"
  unfolding create_multi_device_sent_transcript_content_def with_padding_def
  by (auto intro!: never_fails_rules split: option.splits)

lemma never_fails_is_multi_device: "never_fails (is_multi_device E self)"
  unfolding is_multi_device_def
  by (auto intro!: never_fails_rules)


text \<open>With no session to another device of our own there is nothing to send to ourselves.\<close>

lemma no_own_devices:
  assumes "hash_order E" "ms_device_id self = DEFAULT_DEVICE_ID"
    and "\<And>s. fst (get_sub_device_sessions E (Aci (ms_local_aci self)) s) = Ok []"
  shows "fst (try_send_message E self (Aci (ms_local_aci self)) access body timestamp False online s) = Err NoMessagesToSend"
proof -
  have none: "fst (create_encrypted_messages E self (Aci (ms_local_aci self)) c content t) = Ok None" for c content t
  proof -
    obtain t' where "get_sub_device_sessions E (Aci (ms_local_aci self)) t = (Ok [], t')"
      using assms(3) [of t] by (cases "get_sub_device_sessions E (Aci (ms_local_aci self)) t") auto
    moreover have "hash_iter E {} t' = []"
      using assms(1) unfolding hash_order_def by (metis finite.emptyI set_empty)
    ultimately show ?thesis
      using assms(2) by (simp add: create_encrypted_messages_def bindE_def msProto_def map_errE_def target_devices_def drawE_def)
  qed
  have "fst (send_attempts 4 E self (Aci (ms_local_aci self)) access content timestamp online t) = Err NoMessagesToSend" for content t
    using none [of "map_option ua_certificate access" content t]
    by (cases "create_encrypted_messages E self (Aci (ms_local_aci self)) (map_option ua_certificate access) content t")
      (simp add: eval_nat_numeral)
  then show ?thesis
    by (simp add: try_send_message_def try_send_content_def with_session_lock_def Let_def split: prod.splits) (metis fst_conv)
qed

text \<open>
  C21: a delivered message can be reported as a failure. When the primary device has no session
  with another device of its account and the server answers a delivery with \<open>needs_sync\<close> (a device
  was just linked), the transcript cannot be sent and \<open>send_message\<close> returns \<open>NoMessagesToSend\<close>,
  although the message has been delivered to the recipient.
\<close>

theorem send_message_delivered_but_failed:
  assumes "hash_order E" "ms_device_id self = DEFAULT_DEVICE_ID" "recipient \<noteq> Aci (ms_local_aci self)"
    and "\<And>s. fst (get_sub_device_sessions E (Aci (ms_local_aci self)) s) = Ok []"
    and "is_multi_device E self s = (Ok False, s1)"
    and "try_send_message E self recipient access (DataMessage d) timestamp include_pni online s1 = (Ok m, s2)"
    and "sm_needs_sync m"
  shows "fst (send_message E self recipient access (DataMessage d) timestamp include_pni online s) = Err NoMessagesToSend"
proof -
  obtain sync s3 where t: "create_multi_device_sent_transcript_content E (Some recipient) (DataMessage d) timestamp [Ok m] s2 =
      (Ok (Some sync) :: (content_body option, message_sender_error) result, s3)"
    by (cases "random_size E s2"; cases "fill_bytes E (fst (random_size E s2)) (snd (random_size E s2))")
      (simp add: create_multi_device_sent_transcript_content_def with_padding_def drawE_def bindE_def)
  obtain s4 where "try_send_message E self (Aci (ms_local_aci self)) None sync timestamp False False s3 = (Err NoMessagesToSend, s4)"
    using no_own_devices [OF assms(1,2,4), of None sync timestamp False s3]
    by (cases "try_send_message E self (Aci (ms_local_aci self)) None sync timestamp False False s3") auto
  then show ?thesis
    using assms(3,5-7) t
    by (simp add: send_message_def sync_after_send_def is_sync_message_def needs_sync_of_def matchE_def Let_def)
qed

theorem send_message_delivered_but_failed_witness:
  "fst (send_message (sample_net True []) sample_sender (Aci [49]) None (DataMessage \<lparr>expire_timer = None, data_rest = []\<rparr>)
     5 False False []) = Err NoMessagesToSend"
proof -
  let ?E = "sample_net True []" and ?body = "DataMessage \<lparr>expire_timer = None, data_rest = []\<rparr>"
  have hash: "hash_order ?E"
    by (simp add: hash_order_def)
  have "sorted_list_of_set (target_devices sample_sender (Aci [49]) []) \<noteq> []"
    by (simp add: target_devices_def sample_sender_def as_bytes_def byte_of_char_def)
  from sample_send_attempts [OF this] obtain m s2 where
    "try_send_message ?E sample_sender (Aci [49]) None ?body 5 False False [] = (Ok m, s2)" "sm_needs_sync m"
    by (simp add: try_send_message_def try_send_content_def with_session_lock_def Let_def eval_nat_numeral del: send_attempts.simps)
      (metis sent_message.select_convs(4))
  then show ?thesis
    by (intro send_message_delivered_but_failed [OF hash])
      (simp_all add: sample_sender_def DEFAULT_DEVICE_ID_def is_multi_device_def matchE_def as_bytes_def byte_of_char_def)
qed

text \<open>
  On an account with several devices a synchronisation message addressed to our own account
  is sent to our devices twice, because the step that follows the delivery sends it again. The
  result of the first send is returned when the second one succeeds.
\<close>

theorem sync_message_to_self_sent_twice:
  assumes "is_multi_device E self s = (Ok True, s1)"
    and "try_send_message E self (Aci (ms_local_aci self)) None (SynchronizeMessage sync) timestamp False False s1 = (Ok m1, s2)"
    and "try_send_message E self (Aci (ms_local_aci self)) None (SynchronizeMessage sync) timestamp False False s2 = (Ok m2, s3)"
  shows "send_message E self (Aci (ms_local_aci self)) access (SynchronizeMessage sync) timestamp False False s = (Ok m1, s3)"
  using assms by (simp add: send_message_def sync_after_send_def is_sync_message_def matchE_def Let_def)

theorem sync_message_to_self_sent_twice_witness:
  "length (snd (send_message (sample_net False [3]) sample_sender (Aci (as_bytes ''2'')) None
     (SynchronizeMessage (SyncMessage None None)) 5 False False [])) = 2"
proof -
  let ?E = "sample_net False [3]" and ?body = "SynchronizeMessage (SyncMessage None None)"
  have own: "Aci (ms_local_aci sample_sender) = Aci (as_bytes ''2'')"
    by (simp add: sample_sender_def)
  have "sorted_list_of_set (target_devices sample_sender (Aci (as_bytes ''2'')) [3]) \<noteq> []"
    by (simp add: target_devices_def sample_sender_def DEFAULT_DEVICE_ID_def insert_Diff_if)
  from sample_send_attempts [OF this] have send: "\<exists>m q.
      try_send_message ?E sample_sender (Aci (as_bytes ''2'')) None ?body 5 False False t = (Ok m, t @ [(False, q)])" for t
    by (simp add: try_send_message_def try_send_content_def with_session_lock_def Let_def eval_nat_numeral del: send_attempts.simps)
      (metis id_apply)
  obtain m1 q1 where 1: "try_send_message ?E sample_sender (Aci (as_bytes ''2'')) None ?body 5 False False [] = (Ok m1, [(False, q1)])"
    using send [of "[]"] by auto
  obtain m2 q2 where 2: "try_send_message ?E sample_sender (Aci (as_bytes ''2'')) None ?body 5 False False [(False, q1)] =
      (Ok m2, [(False, q1), (False, q2)])"
    using send [of "[(False, q1)]"] by auto
  have "is_multi_device ?E sample_sender [] = (Ok True, [])"
    by (simp add: is_multi_device_def sample_sender_def DEFAULT_DEVICE_ID_def matchE_def)
  from sync_message_to_self_sent_twice [OF this, unfolded own, OF 1 2] show ?thesis
    by simp
qed

end
