(* ===== verification/Ws_Process.thy ===== *)
theory Ws_Process
  imports Ws_Endpoints Invariants
begin

text \<open>
  The worker of a websocket (\<open>websocket/mod.rs\<close>): it forwards requests of the application under
  fresh identifiers, routes the answers back, hands requests of the server to the application and
  keeps the connection alive. One iteration of its \<open>select!\<close> loop is a function of the event that
  was chosen; the runs are a step relation. A caller of \<open>request\<close> is represented by the one-shot
  channel on which it waits, of type \<open>'c\<close>.
\<close>

section \<open>State\<close>

datatype disconnect_reason =
    ConnectedElsewhere
  | ConnectionInvalidated
  | KeepaliveTimeout
  | ServerClosed u16 string
  | Transport

definition from_close :: "u16 \<Rightarrow> string \<Rightarrow> disconnect_reason" where
  "from_close code reason =
     (if code = 4409 then ConnectedElsewhere
      else if code = 4401 then ConnectionInvalidated
      else ServerClosed code reason)"

datatype ws_message_type = UnknownFrame | RequestFrame | ResponseFrame

record ws_message =
  wm_type :: ws_message_type
  wm_request :: "ws_request option"
  wm_response :: "ws_response option"

text \<open>What the worker did, oldest first.\<close>

datatype 'c ws_output =
    SendRequest 'c ws_request
  | SendKeepAlive ws_request
  | SendResponse ws_response
  | Answer 'c ws_response
  | ToApplication ws_request
  | CloseSocket

record 'c ws_process =
  keep_alive_path :: string
  outgoing_requests :: "u64 \<Rightarrow> 'c option"
  outgoing_keep_alive_set :: "u64 set"
  reason_sender :: bool
  reason_sent :: "disconnect_reason option"
  outputs :: "'c ws_output list"

record ws_pkgs =
  ws_http :: http_pkgs
  ws_decode :: "bytes \<Rightarrow> string + ws_message"
  status_error :: "u32 \<Rightarrow> string"

definition new_process :: "string \<Rightarrow> 'c ws_process" where
  "new_process path = \<lparr>keep_alive_path = path, outgoing_requests = Map.empty, outgoing_keep_alive_set = {},
     reason_sender = True, reason_sent = None, outputs = []\<rparr>"

definition set_disconnect_reason :: "disconnect_reason \<Rightarrow> 'c ws_process \<Rightarrow> 'c ws_process" where
  "set_disconnect_reason reason p =
     (if reason_sender p then p\<lparr>reason_sender := False, reason_sent := Some reason\<rparr> else p)"

definition emit :: "'c ws_output \<Rightarrow> 'c ws_process \<Rightarrow> 'c ws_process" where
  "emit out p = p\<lparr>outputs := outputs p @ [out]\<rparr>"

section \<open>Incoming frames\<close>

definition is_success :: "u16 \<Rightarrow> bool" where
  "is_success status \<longleftrightarrow> 200 \<le> status \<and> status < 300"

text \<open>The answer to a keep-alive must carry a success status.\<close>

definition keep_alive_status :: "ws_pkgs \<Rightarrow> ws_response \<Rightarrow> (unit, service_error) result" where
  "keep_alive_status W response =
     (let status = (case resp_status response of Some s \<Rightarrow> s | None \<Rightarrow> 0) in
      case status_from_u16 (ws_http W) (ucast status) of
        None \<Rightarrow> Err (IO (status_error W status))
      | Some code \<Rightarrow>
          if is_success code then Ok ()
          else Err (UnhandledResponseCode code
            (from_utf8_lossy (case resp_body response of Some b \<Rightarrow> b | None \<Rightarrow> []))))"

definition route_response :: "ws_pkgs \<Rightarrow> ws_response \<Rightarrow> ('c ws_process, unit, service_error) eff" where
  "route_response W response p =
     (case resp_id response of
        None \<Rightarrow> (Ok (), p)
      | Some i \<Rightarrow>
          (case outgoing_requests p i of
             Some responder \<Rightarrow>
               (Ok (), emit (Answer responder response)
                  (p\<lparr>outgoing_requests := (outgoing_requests p)(i := None)\<rparr>))
           | None \<Rightarrow>
               if i \<in> outgoing_keep_alive_set p
               then (keep_alive_status W response,
                     p\<lparr>outgoing_keep_alive_set := outgoing_keep_alive_set p - {i}\<rparr>)
               else (Ok (), p)))"

text \<open>\<open>listening\<close>: the application still reads the stream of server requests.\<close>

definition process_frame :: "ws_pkgs \<Rightarrow> bool \<Rightarrow> bytes \<Rightarrow> ('c ws_process, unit, service_error) eff" where
  "process_frame W listening frame p =
     (case ws_decode W frame of
        Inl e \<Rightarrow> (Err (ProtobufDecodeError e), p)
      | Inr msg \<Rightarrow>
          (case wm_type msg of
             UnknownFrame \<Rightarrow> (Err (InvalidFrame ''unknown frame type''), p)
           | RequestFrame \<Rightarrow>
               (case wm_request msg of
                  None \<Rightarrow> (Err (InvalidFrame ''type was request, but does not contain request''), p)
                | Some request \<Rightarrow>
                    if listening then (Ok (), emit (ToApplication request) p)
                    else (Err (WsClosing ''request handler failed''), p))
           | ResponseFrame \<Rightarrow>
               (case wm_response msg of
                  None \<Rightarrow> (Err (InvalidFrame ''type was response, but does not contain response''), p)
                | Some response \<Rightarrow> route_response W response p)))"

section \<open>The loop\<close>

text \<open>The random draws of \<open>next_request_id\<close>; \<open>None\<close> while all of them are taken.\<close>

definition next_request_id :: "u64 list \<Rightarrow> 'c ws_process \<Rightarrow> u64 option" where
  "next_request_id draws p = find (\<lambda>i. outgoing_requests p i = None) draws"

text \<open>
  The branches of \<open>select!\<close> with what the outside world contributes: the draws, and the error of
  the socket if sending on it fails.
\<close>

datatype 'c ws_event =
    Tick "u64 list" "ws_error option"
  | AppRequest ws_request 'c "u64 list" "ws_error option"
  | AppClosed
  | SocketClose u16 string
  | SocketBinary bytes bool
  | SocketPing
  | SocketPong
  | SocketText
  | SocketError ws_error
  | SocketEnd
  | AppResponse ws_response "ws_error option"
  | AppCanceled

text \<open>The outcome of an iteration: \<open>None\<close> to go on, or the result of \<open>run\<close>.\<close>

type_synonym 'c iteration = "(unit, service_error) result option \<times> 'c ws_process"

definition after_send :: "ws_error option \<Rightarrow> (unit, service_error) result option" where
  "after_send failure = map_option (\<lambda>e. Err (WsError e)) failure"

definition on_tick :: "u64 list \<Rightarrow> ws_error option \<Rightarrow> 'c ws_process \<Rightarrow> 'c iteration option" where
  "on_tick draws failure p =
     (if outgoing_keep_alive_set p \<noteq> {}
      then Some (Some (Ok ()), (emit CloseSocket (set_disconnect_reason KeepaliveTimeout p))
              \<lparr>outgoing_keep_alive_set := {}\<rparr>)
      else map_option (\<lambda>i.
          (if failure = None then None else Some (Ok ()),
           emit (SendKeepAlive (with_path (keep_alive_path p) (with_id i (new_request ''GET''))))
             (p\<lparr>outgoing_keep_alive_set := insert i (outgoing_keep_alive_set p)\<rparr>)))
        (next_request_id draws p))"

text \<open>An application request keeps its identifier unless it is taken.\<close>

definition request_id_for :: "ws_request \<Rightarrow> u64 list \<Rightarrow> 'c ws_process \<Rightarrow> u64 option" where
  "request_id_for request draws p =
     (case req_id request of
        Some i \<Rightarrow> if outgoing_requests p i = None then Some i else next_request_id draws p
      | None \<Rightarrow> next_request_id draws p)"

definition on_app_request ::
    "ws_request \<Rightarrow> 'c \<Rightarrow> u64 list \<Rightarrow> ws_error option \<Rightarrow> 'c ws_process \<Rightarrow> 'c iteration option" where
  "on_app_request request responder draws failure p =
     map_option (\<lambda>i.
         (after_send failure,
          emit (SendRequest responder (request\<lparr>req_id := Some i\<rparr>))
            (p\<lparr>outgoing_requests := (outgoing_requests p)(i \<mapsto> responder)\<rparr>)))
       (request_id_for request draws p)"

definition on_event :: "ws_pkgs \<Rightarrow> 'c ws_event \<Rightarrow> 'c ws_process \<Rightarrow> 'c iteration option" where
  "on_event W event p =
     (case event of
        Tick draws failure \<Rightarrow> on_tick draws failure p
      | AppRequest request responder draws failure \<Rightarrow> on_app_request request responder draws failure p
      | AppClosed \<Rightarrow> Some (Some (Ok ()), p)
      | SocketClose code reason \<Rightarrow> Some (Some (Ok ()), set_disconnect_reason (from_close code reason) p)
      | SocketBinary frame listening \<Rightarrow>
          Some (case process_frame W listening frame p of
              (Ok _, p') \<Rightarrow> (None, p')
            | (r, p') \<Rightarrow> (Some r, p'))
      | SocketPing \<Rightarrow> Some (None, p)
      | SocketPong \<Rightarrow> Some (None, p)
      | SocketText \<Rightarrow> Some (None, p)
      | SocketError e \<Rightarrow> Some (Some (Err (WsError e)), set_disconnect_reason Transport p)
      | SocketEnd \<Rightarrow> Some (Some (Err (WsClosing ''end of web request stream; socket closing'')),
            set_disconnect_reason Transport p)
      | AppResponse response failure \<Rightarrow> Some (after_send failure, emit (SendResponse response) p)
      | AppCanceled \<Rightarrow> Some (None, p))"

section \<open>Runs\<close>

text \<open>
  The worker with its callers: \<open>issued\<close> are the channels of all calls of \<open>request\<close> the worker has
  received; every call creates a new channel.
\<close>

record 'c ws_system =
  process :: "'c ws_process"
  stopped :: "(unit, service_error) result option"
  issued :: "'c set"

definition issues :: "'c ws_event \<Rightarrow> 'c set" where
  "issues event = (case event of AppRequest _ c _ _ \<Rightarrow> {c} | _ \<Rightarrow> {})"

inductive ws_step :: "ws_pkgs \<Rightarrow> 'c ws_system \<Rightarrow> 'c ws_system \<Rightarrow> bool" for W where
  iterate: "stopped w = None \<Longrightarrow> issues event \<inter> issued w = {} \<Longrightarrow>
    on_event W event (process w) = Some (r, p) \<Longrightarrow>
    ws_step W w \<lparr>process = p, stopped = r, issued = issued w \<union> issues event\<rparr>"

inductive_cases ws_stepE: "ws_step W w w'"

definition ws_start :: "'c ws_system \<Rightarrow> bool" where
  "ws_start w \<longleftrightarrow> (\<exists>path. process w = new_process path) \<and> stopped w = None \<and> issued w = {}"

definition answers :: "'c ws_output list \<Rightarrow> ('c \<times> ws_response) list" where
  "answers = List.map_filter (\<lambda>out. case out of Answer c r \<Rightarrow> Some (c, r) | _ \<Rightarrow> None)"

text \<open>
  \<open>SignalWebSocket::request\<close>: \<open>accepted\<close> says that the channel to the worker took the request;
  the outcome is \<open>None\<close> while the caller waits.
\<close>

definition request_outcome ::
    "bool \<Rightarrow> 'c ws_system \<Rightarrow> 'c \<Rightarrow> (ws_response, service_error) result option" where
  "request_outcome accepted w c =
     (if \<not> accepted then Some (Err (WsClosing ''WebSocket closing while sending request''))
      else case map_of (answers (outputs (process w))) c of
        Some response \<Rightarrow> Some (Ok response)
      | None \<Rightarrow>
          if stopped w = None then None
          else Some (Err (WsClosing ''WebSocket closing while waiting for a response'')))"

end
