(* ===== verification/Ws_Properties.thy ===== *)
theory Ws_Properties
  imports Ws_Process
begin

text \<open>
  Safety of the websocket worker over all runs: every caller gets the answer to its own request and
  no other, at most one keep-alive is open, and the reason of a disconnect is recorded once and
  correctly.
\<close>

section \<open>The invariant\<close>

definition answered :: "'c ws_process \<Rightarrow> 'c set" where
  "answered p = fst ` set (answers (outputs p))"

definition asked :: "'c ws_process \<Rightarrow> 'c \<Rightarrow> u64 option \<Rightarrow> bool" where
  "asked p c i \<longleftrightarrow> (\<exists>q. SendRequest c q \<in> set (outputs p) \<and> req_id q = i \<and> i \<noteq> None)"

definition routing_inv :: "'c set \<Rightarrow> 'c ws_process \<Rightarrow> bool" where
  "routing_inv I p \<longleftrightarrow>
     (\<forall>i c. outgoing_requests p i = Some c \<longrightarrow> asked p c (Some i)) \<and>
     (\<forall>i j c. outgoing_requests p i = Some c \<longrightarrow> outgoing_requests p j = Some c \<longrightarrow> i = j) \<and>
     distinct (map fst (answers (outputs p))) \<and>
     (\<forall>c r. (c, r) \<in> set (answers (outputs p)) \<longrightarrow> asked p c (resp_id r)) \<and>
     I = ran (outgoing_requests p) \<union> answered p \<and> ran (outgoing_requests p) \<inter> answered p = {}"

definition keep_alive_inv :: "'c ws_process \<Rightarrow> bool" where
  "keep_alive_inv p \<longleftrightarrow> outgoing_keep_alive_set p = {} \<or> (\<exists>i. outgoing_keep_alive_set p = {i})"

definition ws_inv :: "'c ws_system \<Rightarrow> bool" where
  "ws_inv w \<longleftrightarrow> routing_inv (issued w) (process w) \<and> keep_alive_inv (process w) \<and>
     (stopped w = None \<longrightarrow> reason_sender (process w) \<and> reason_sent (process w) = None)"

lemma answers_append [simp]: "answers (xs @ ys) = answers xs @ answers ys"
  by (simp add: answers_def List.map_filter_def)

lemma answers_single [simp]:
  "answers [SendRequest c q] = []" "answers [SendKeepAlive q] = []" "answers [SendResponse r] = []"
  "answers [Answer c r] = [(c, r)]" "answers [ToApplication q] = []" "answers [CloseSocket] = []"
  by (simp_all add: answers_def List.map_filter_def)

lemma emit_simps [simp]:
  "outputs (emit out p) = outputs p @ [out]" "outgoing_requests (emit out p) = outgoing_requests p"
  "outgoing_keep_alive_set (emit out p) = outgoing_keep_alive_set p" "reason_sender (emit out p) = reason_sender p"
  "reason_sent (emit out p) = reason_sent p" "keep_alive_path (emit out p) = keep_alive_path p"
  by (simp_all add: emit_def)

lemma set_reason_simps [simp]:
  "outputs (set_disconnect_reason r p) = outputs p"
  "outgoing_requests (set_disconnect_reason r p) = outgoing_requests p"
  "outgoing_keep_alive_set (set_disconnect_reason r p) = outgoing_keep_alive_set p"
  by (simp_all add: set_disconnect_reason_def)

lemma asked_mono: "asked p c i \<Longrightarrow> outputs p' = outputs p @ outs \<Longrightarrow> asked p' c i"
  by (auto simp: asked_def)

lemma routing_invD:
  assumes "routing_inv I p"
  shows "outgoing_requests p i = Some c \<Longrightarrow> asked p c (Some i)"
    "outgoing_requests p i = Some c \<Longrightarrow> outgoing_requests p j = Some c \<Longrightarrow> i = j"
    "distinct (map fst (answers (outputs p)))"
    "(c, r) \<in> set (answers (outputs p)) \<Longrightarrow> asked p c (resp_id r)"
    "I = ran (outgoing_requests p) \<union> answered p" "ran (outgoing_requests p) \<inter> answered p = {}"
  using assms unfolding routing_inv_def by blast+

lemma routing_invI:
  assumes "\<And>i c. outgoing_requests p i = Some c \<Longrightarrow> asked p c (Some i)"
    "\<And>i j c. outgoing_requests p i = Some c \<Longrightarrow> outgoing_requests p j = Some c \<Longrightarrow> i = j"
    "distinct (map fst (answers (outputs p)))"
    "\<And>c r. (c, r) \<in> set (answers (outputs p)) \<Longrightarrow> asked p c (resp_id r)"
    "I = ran (outgoing_requests p) \<union> answered p" "ran (outgoing_requests p) \<inter> answered p = {}"
  shows "routing_inv I p"
  using assms unfolding routing_inv_def by blast

text \<open>Only the outputs and the table matter to the routing of answers.\<close>

lemma routing_inv_quiet:
  assumes "routing_inv I p" "outgoing_requests p' = outgoing_requests p" "outputs p' = outputs p @ outs" "answers outs = []"
  shows "routing_inv I p'"
proof -
  have "answered p' = answered p"
    using assms by (simp add: answered_def)
  then show ?thesis
    using routing_invD [OF assms(1)] asked_mono [OF _ assms(3)] assms(2-4)
    by (intro routing_invI) simp_all
qed

lemma routing_inv_unrelated [simp]:
  "routing_inv I (p\<lparr>outgoing_keep_alive_set := ids\<rparr>) = routing_inv I p"
  "routing_inv I (set_disconnect_reason r p) = routing_inv I p"
  by (simp_all add: routing_inv_def answered_def asked_def)

lemma routing_inv_answer:
  assumes inv: "routing_inv I p" and i: "outgoing_requests p i = Some c" and r: "resp_id r = Some i"
  shows "routing_inv I (emit (Answer c r) (p\<lparr>outgoing_requests := (outgoing_requests p)(i := None)\<rparr>))" (is "routing_inv I ?p")
proof (rule routing_invI)
  note inv = routing_invD [OF inv]
  have asked: "asked ?p d j" if "asked p d j" for d j
    by (rule asked_mono [OF that]) simp
  have answered: "answered ?p = insert c (answered p)"
    by (auto simp: answered_def)
  have ran: "ran (outgoing_requests ?p) = ran (outgoing_requests p) - {c}"
    using i inv(2) by (auto simp: ran_def) (metis option.inject)
  have c: "c \<in> ran (outgoing_requests p)"
    using i by (rule ranI)
  then have c': "c \<notin> answered p"
    using inv(6) by blast
  show "asked ?p d (Some j)" if "outgoing_requests ?p j = Some d" for j d
    using that inv(1) asked by (auto split: if_splits)
  show "j = k" if "outgoing_requests ?p j = Some d" "outgoing_requests ?p k = Some d" for j k d
    using that inv(2) by (auto split: if_splits)
  show "distinct (map fst (answers (outputs ?p)))"
    using inv(3) c' by (auto simp: answered_def)
  show "asked ?p d (resp_id r')" if "(d, r') \<in> set (answers (outputs ?p))" for d r'
    using that inv(1) [OF i] inv(4) asked r by auto
  show "I = ran (outgoing_requests ?p) \<union> answered ?p" "ran (outgoing_requests ?p) \<inter> answered ?p = {}"
    using inv(5,6) c ran answered by auto
qed

lemma routing_inv_ask:
  assumes inv: "routing_inv I p" and i: "outgoing_requests p i = None" and c: "c \<notin> I" and q: "req_id q = Some i"
  shows "routing_inv (I \<union> {c}) (emit (SendRequest c q) (p\<lparr>outgoing_requests := (outgoing_requests p)(i \<mapsto> c)\<rparr>))"
    (is "routing_inv _ ?p")
proof (rule routing_invI)
  note inv = routing_invD [OF inv]
  have asked: "asked ?p d j" if "asked p d j" for d j
    by (rule asked_mono [OF that]) simp
  have new: "asked ?p c (Some i)"
    using q by (auto simp: asked_def)
  have answered: "answered ?p = answered p"
    by (simp add: answered_def)
  have ran: "ran (outgoing_requests ?p) = insert c (ran (outgoing_requests p))"
    using i by (simp add: ran_map_upd)
  have c: "outgoing_requests p j \<noteq> Some c" for j
    using c inv(5) by (auto simp: ran_def)
  show "asked ?p d (Some j)" if "outgoing_requests ?p j = Some d" for j d
    using that inv(1) asked new by (auto split: if_splits)
  show "j = k" if "outgoing_requests ?p j = Some d" "outgoing_requests ?p k = Some d" for j k d
    using that inv(2) c by (auto split: if_splits)
  show "distinct (map fst (answers (outputs ?p)))"
    using inv(3) by simp
  show "asked ?p d (resp_id r')" if "(d, r') \<in> set (answers (outputs ?p))" for d r'
    using that inv(4) asked by simp
  show "I \<union> {c} = ran (outgoing_requests ?p) \<union> answered ?p"
    using inv(5) ran answered by auto
  show "ran (outgoing_requests ?p) \<inter> answered ?p = {}"
    using inv(5,6) ran answered assms(3) by auto
qed

section \<open>Every iteration keeps it\<close>

lemma next_request_id_free: "next_request_id draws p = Some i \<Longrightarrow> outgoing_requests p i = None"
  by (auto simp: next_request_id_def find_Some_iff)

lemma request_id_for_free: "request_id_for q draws p = Some i \<Longrightarrow> outgoing_requests p i = None"
  by (auto simp: request_id_for_def next_request_id_free split: option.splits if_splits)

lemma routing_inv_frame:
  assumes "routing_inv I p" "process_frame W listening frame p = (r, p')"
  shows "routing_inv I p'"
  using assms
  by (auto simp: process_frame_def route_response_def split: sum.splits ws_message_type.splits option.splits if_splits
      intro: routing_inv_answer routing_inv_quiet [where outs = "[ToApplication q]" for q])

lemma routing_inv_event:
  assumes inv: "routing_inv I p" and fresh: "issues event \<inter> I = {}" and run: "on_event W event p = Some (r, p')"
  shows "routing_inv (I \<union> issues event) p'"
proof (cases event)
  case (Tick draws failure)
  then show ?thesis
    using run inv by (auto simp: on_event_def on_tick_def issues_def split: if_splits
        intro: routing_inv_quiet [where outs = "[CloseSocket]"] routing_inv_quiet [where outs = "[SendKeepAlive q]" for q])
next
  case (AppRequest q c draws failure)
  then show ?thesis
    using run inv fresh by (auto simp: on_event_def on_app_request_def issues_def dest!: request_id_for_free
        intro: routing_inv_ask [where I = I, simplified])
next
  case (SocketBinary frame listening)
  then show ?thesis
    using run routing_inv_frame [OF inv] by (auto simp: on_event_def issues_def split: prod.splits result.splits)
qed (use run inv in \<open>auto simp: on_event_def issues_def 
      intro: routing_inv_quiet [where outs = "[SendResponse q]" for q]\<close>)

lemma keep_alive_inv_event:
  assumes "keep_alive_inv p" "on_event W event p = Some (r, p')"
  shows "keep_alive_inv p'"
  using assms
  by (cases event)
    (auto simp: on_event_def on_tick_def on_app_request_def process_frame_def route_response_def keep_alive_inv_def
      split: if_splits sum.splits ws_message_type.splits option.splits prod.splits result.splits)

text \<open>The reason an iteration records, if it is the last one.\<close>

definition recorded_reason :: "'c ws_event \<Rightarrow> 'c ws_process \<Rightarrow> disconnect_reason option" where
  "recorded_reason event p =
     (case event of
        SocketClose code reason \<Rightarrow> Some (from_close code reason)
      | SocketError _ \<Rightarrow> Some Transport
      | SocketEnd \<Rightarrow> Some Transport
      | Tick _ _ \<Rightarrow> if outgoing_keep_alive_set p \<noteq> {} then Some KeepaliveTimeout else None
      | _ \<Rightarrow> None)"

lemma reason_event:
  assumes "reason_sender p" "reason_sent p = None" "on_event W event p = Some (r, p')"
  shows "(r = None \<longrightarrow> reason_sender p' \<and> reason_sent p' = None) \<and> reason_sent p' = recorded_reason event p"
  using assms
  by (cases event)
    (auto simp: on_event_def on_tick_def on_app_request_def process_frame_def route_response_def recorded_reason_def
      set_disconnect_reason_def split: if_splits sum.splits ws_message_type.splits option.splits prod.splits result.splits)

interpretation ws_runs: invariant ws_start "ws_step W" ws_inv for W
proof
  show "ws_inv w" if "ws_start w" for w :: "'c ws_system"
    using that
    by (auto simp: ws_start_def ws_inv_def new_process_def routing_inv_def keep_alive_inv_def answered_def answers_def
        List.map_filter_def)
next
  fix w w' :: "'c ws_system"
  assume inv: "ws_inv w" and "ws_step W w w'"
  then obtain event r p where "stopped w = None" and step: "issues event \<inter> issued w = {}"
      "on_event W event (process w) = Some (r, p)"
    and "w' = \<lparr>process = p, stopped = r, issued = issued w \<union> issues event\<rparr>"
    by (auto elim: ws_stepE)
  with inv show "ws_inv w'"
    using routing_inv_event [OF _ step] keep_alive_inv_event [OF _ step(2)] reason_event [OF _ _ step(2)]
    by (auto simp: ws_inv_def)
qed

text \<open>
  C23: whatever the order of ticks, requests, frames and failures, the worker routes answers
  correctly. No caller is answered twice, an answer reaches the caller whose request carried its
  identifier, a caller that is neither answered nor dropped is in the table, and when the worker
  has stopped every accepted caller has an outcome: its answer or the error that the socket closed.
  At most one keep-alive is open at any time.
\<close>

theorem websocket_routes_answers:
  assumes "ws_start w0" "(ws_step W)\<^sup>*\<^sup>* w0 w"
  shows "distinct (map fst (answers (outputs (process w)))) \<and>
    (\<forall>c \<in> issued w. case request_outcome True w c of
        Some (Ok response) \<Rightarrow> (\<exists>q. SendRequest c q \<in> set (outputs (process w)) \<and> req_id q = resp_id response \<and>
            resp_id response \<noteq> None)
      | Some (Err e) \<Rightarrow> stopped w \<noteq> None \<and> e = WsClosing ''WebSocket closing while waiting for a response''
      | Some (Panic _) \<Rightarrow> False
      | None \<Rightarrow> stopped w = None \<and> (\<exists>i. outgoing_requests (process w) i = Some c)) \<and>
    card (outgoing_keep_alive_set (process w)) \<le> 1"
proof -
  let ?p = "process w"
  have inv: "ws_inv w"
    using ws_runs.inv_reachable [OF assms] .
  note r = routing_invD [of "issued w" ?p]
  have routing: "routing_inv (issued w) ?p"
    using inv by (simp add: ws_inv_def)
  have "card (outgoing_keep_alive_set ?p) \<le> 1"
    using inv by (auto simp: ws_inv_def keep_alive_inv_def)
  moreover have "case request_outcome True w c of
        Some (Ok response) \<Rightarrow> (\<exists>q. SendRequest c q \<in> set (outputs ?p) \<and> req_id q = resp_id response \<and>
            resp_id response \<noteq> None)
      | Some (Err e) \<Rightarrow> stopped w \<noteq> None \<and> e = WsClosing ''WebSocket closing while waiting for a response''
      | Some (Panic _) \<Rightarrow> False
      | None \<Rightarrow> stopped w = None \<and> (\<exists>i. outgoing_requests ?p i = Some c)" if c: "c \<in> issued w" for c
  proof (cases "map_of (answers (outputs ?p)) c")
    case (Some response)
    from r(4) [OF routing map_of_SomeD [OF Some]] Some show ?thesis
      by (auto simp: request_outcome_def asked_def)
  next
    case None
    then have "c \<notin> answered ?p"
      by (simp add: map_of_eq_None_iff answered_def)
    with r(5) [OF routing] c have "\<exists>i. outgoing_requests ?p i = Some c"
      by (auto simp: ran_def)
    with None show ?thesis
      by (auto simp: request_outcome_def)
  qed
  ultimately show ?thesis
    using r(3) [OF routing] by blast
qed

definition sample_ws :: ws_pkgs where
  "sample_ws = \<lparr>ws_http = sample_pkgs, ws_decode = (\<lambda>_. Inr \<lparr>wm_type = ResponseFrame, wm_request = None,
     wm_response = Some \<lparr>resp_id = Some 7, resp_status = Some 200, resp_message = None, resp_headers = [],
       resp_body = None\<rparr>\<rparr>), status_error = (\<lambda>_. [])\<rparr>"

definition sample_start :: "nat ws_system" where
  "sample_start = \<lparr>process = new_process ''/v1/keepalive'', stopped = None, issued = {}\<rparr>"

definition sample_asked :: "nat ws_system" where
  "sample_asked = \<lparr>process = (new_process ''/v1/keepalive'')\<lparr>outgoing_requests := [7 \<mapsto> 0],
     outputs := [SendRequest 0 ((new_request ''GET'')\<lparr>req_id := Some 7\<rparr>)]\<rparr>, stopped = None, issued = {0}\<rparr>"

lemma sample_ask_step: "ws_step sample_ws sample_start sample_asked"
proof -
  have "on_event sample_ws (AppRequest (new_request ''GET'') 0 [7] None) (process sample_start) =
      Some (None, process sample_asked)"
    by (simp add: on_event_def on_app_request_def request_id_for_def next_request_id_def new_request_def sample_start_def
        sample_asked_def new_process_def after_send_def emit_def)
  from ws_step.iterate [OF _ _ this] show ?thesis
    by (simp add: sample_start_def sample_asked_def issues_def)
qed

theorem websocket_routes_answers_witness:
  "\<exists>i. request_outcome True sample_asked 0 = None \<and> outgoing_requests (process sample_asked) i = Some 0"
proof -
  have "(ws_step sample_ws)\<^sup>*\<^sup>* sample_start sample_asked" "ws_start sample_start"
    using sample_ask_step by (auto simp: ws_start_def sample_start_def)
  moreover have "request_outcome True sample_asked 0 = None" "0 \<in> issued sample_asked"
    by (simp_all add: request_outcome_def sample_asked_def answers_def List.map_filter_def new_process_def)
  ultimately show ?thesis
    using websocket_routes_answers [of sample_start sample_ws sample_asked] by fastforce
qed

text \<open>
  When an iteration ends the worker, the reason it has recorded is the one of that
  iteration: the server's close code, an unanswered keep-alive, or a failure of the transport.
  After every other end (a rejected frame, a failed send, the application going away) nothing is
  recorded, which the message pipe reports as a transport failure.
\<close>

theorem disconnect_reason_exact:
  assumes "ws_start w0" "(ws_step W)\<^sup>*\<^sup>* w0 w" "stopped w = None" "on_event W event (process w) = Some (Some r, p)"
  shows "reason_sent p = (case event of
        SocketClose code reason \<Rightarrow> Some (if code = 4409 then ConnectedElsewhere
          else if code = 4401 then ConnectionInvalidated else ServerClosed code reason)
      | SocketError _ \<Rightarrow> Some Transport
      | SocketEnd \<Rightarrow> Some Transport
      | Tick _ _ \<Rightarrow> if outgoing_keep_alive_set (process w) = {} then None else Some KeepaliveTimeout
      | _ \<Rightarrow> None)"
proof -
  have "reason_sender (process w)" "reason_sent (process w) = None"
    using ws_runs.inv_reachable [OF assms(1,2)] assms(3) by (simp_all add: ws_inv_def)
  from reason_event [OF this assms(4)] show ?thesis
    by (cases event) (auto simp: recorded_reason_def from_close_def)
qed

theorem disconnect_reason_exact_witness:
  "\<exists>p. on_event sample_ws (SocketClose 4409 []) (process sample_asked) = Some (Some (Ok ()), p) \<and>
     reason_sent p = Some ConnectedElsewhere"
proof -
  have run: "(ws_step sample_ws)\<^sup>*\<^sup>* sample_start sample_asked" "ws_start sample_start" "stopped sample_asked = None"
    using sample_ask_step by (auto simp: ws_start_def sample_start_def sample_asked_def)
  have "on_event sample_ws (SocketClose 4409 []) (process sample_asked) =
      Some (Some (Ok ()), set_disconnect_reason (from_close 4409 []) (process sample_asked))"
    by (simp add: on_event_def)
  from disconnect_reason_exact [OF run(2,1,3) this] show ?thesis
    using \<open>on_event sample_ws _ _ = _\<close> by simp
qed

end
