(* ===== verification/Message_Pipe.thy ===== *)
theory Message_Pipe
  imports Ws_Process
begin

text \<open>
  \<open>MessagePipe\<close> of \<open>messagepipe.rs\<close>: it reads the requests of the server that the websocket worker
  hands over, acknowledges them and yields envelopes to the client, and ends with the reason of the
  disconnect. A request comes with the information whether the worker still waits for its answer;
  \<open>room\<close> is the number of items the client takes before it drops the stream.
\<close>

datatype (plugins only: size) incoming =
    IncomingEnvelope envelope
  | QueueEmpty
  | Disconnected disconnect_reason

text \<open>The shared part of the socket handle: whether the request stream and the reason are still there.\<close>

record ws_inner =
  inner_stream :: bool
  inner_reason :: bool

definition take_request_stream :: "ws_inner \<Rightarrow> bool \<times> ws_inner" where
  "take_request_stream h = (inner_stream h, h\<lparr>inner_stream := False\<rparr>)"

definition take_disconnect_reason :: "ws_inner \<Rightarrow> bool \<times> ws_inner" where
  "take_disconnect_reason h = (inner_reason h, h\<lparr>inner_reason := False\<rparr>)"

definition return_request_stream :: "ws_inner \<Rightarrow> ws_inner" where
  "return_request_stream h = h\<lparr>inner_stream := True\<rparr>"

definition is_used :: "ws_inner \<Rightarrow> bool" where
  "is_used h \<longleftrightarrow> \<not> inner_stream h"

section \<open>One request\<close>

definition process_request ::
    "(bytes \<Rightarrow> string + envelope) \<Rightarrow> ws_request \<Rightarrow> bool
       \<Rightarrow> (incoming option, service_error) result \<times> ws_response option" where
  "process_request decode request waiting =
     (let response = from_request request;
          result =
            (if is_signal_service_envelope request
             then (case req_body request of
                     None \<Rightarrow> Err (InvalidFrame ''request without body.'')
                   | Some body \<Rightarrow>
                       (case decode body of
                          Inl e \<Rightarrow> Err (ProtobufDecodeError e)
                        | Inr env \<Rightarrow> Ok (Some (IncomingEnvelope env))))
             else if is_queue_empty request then Ok (Some QueueEmpty)
             else Ok None)
      in case result of
           Ok item \<Rightarrow>
             if waiting then (Ok item, Some response)
             else (Err (WsClosing ''could not respond to message pipe request''), None)
         | r \<Rightarrow> (r, None))"

text \<open>\<open>Result<Option<T>, E>::transpose\<close>.\<close>

definition transpose_result :: "('a option, 'e) result \<Rightarrow> ('a, 'e) result option" where
  "transpose_result r =
     (case r of Ok None \<Rightarrow> None | Ok (Some a) \<Rightarrow> Some (Ok a) | Err e \<Rightarrow> Some (Err e) | Panic p \<Rightarrow> Some (Panic p))"

section \<open>The loop\<close>

record pipe_state =
  yielded :: "(incoming, service_error) result list"
  acknowledged :: "ws_response list"

text \<open>The result is the room that is left, or \<open>None\<close> when the client has gone.\<close>

primrec pipe_loop ::
    "(bytes \<Rightarrow> string + envelope) \<Rightarrow> (ws_request \<times> bool) list \<Rightarrow> nat \<Rightarrow> pipe_state \<Rightarrow> nat option \<times> pipe_state" where
  "pipe_loop decode [] room s = (Some room, s)"
| "pipe_loop decode (x # xs) room s =
     (case process_request decode (fst x) (snd x) of (r, ack) \<Rightarrow>
        let s = s\<lparr>acknowledged := acknowledged s @ (case ack of Some a \<Rightarrow> [a] | None \<Rightarrow> [])\<rparr>
        in case transpose_result r of
             None \<Rightarrow> pipe_loop decode xs room s
           | Some item \<Rightarrow>
               (case room of
                  0 \<Rightarrow> (None, s)
                | Suc n \<Rightarrow> pipe_loop decode xs n (s\<lparr>yielded := yielded s @ [item]\<rparr>)))"

text \<open>
  \<open>run\<close> over the requests that arrive until the worker exits; \<open>reason\<close> is what the worker recorded.
\<close>

definition pipe_run ::
    "(bytes \<Rightarrow> string + envelope) \<Rightarrow> ws_inner \<Rightarrow> (ws_request \<times> bool) list \<Rightarrow> disconnect_reason option \<Rightarrow> nat
       \<Rightarrow> (unit, unit) result \<times> pipe_state \<times> ws_inner" where
  "pipe_run decode handle requests reason room =
     (case take_request_stream handle of (stream, h) \<Rightarrow>
        if \<not> stream then (Panic ''web socket request handler not in use'', \<lparr>yielded = [], acknowledged = []\<rparr>, h)
        else case take_disconnect_reason h of (has_reason, h) \<Rightarrow>
          (case pipe_loop decode requests room \<lparr>yielded = [], acknowledged = []\<rparr> of
             (None, s) \<Rightarrow> (Err (), s, h)
           | (Some left, s) \<Rightarrow>
               let h = return_request_stream h;
                   last = Ok (Disconnected (case reason of Some r \<Rightarrow> r | None \<Rightarrow> Transport))
               in if \<not> has_reason then (Ok (), s, h)
                  else if left = 0 then (Err (), s, h)
                  else (Ok (), s\<lparr>yielded := yielded s @ [last]\<rparr>, h)))"

section \<open>Properties\<close>

text \<open>What the client sees of a request, and the answer the server gets.\<close>

definition seen :: "(bytes \<Rightarrow> string + envelope) \<Rightarrow> ws_request \<times> bool \<Rightarrow> (incoming, service_error) result option" where
  "seen decode x = transpose_result (fst (process_request decode (fst x) (snd x)))"

definition acked :: "(bytes \<Rightarrow> string + envelope) \<Rightarrow> ws_request \<times> bool \<Rightarrow> ws_response option" where
  "acked decode x = snd (process_request decode (fst x) (snd x))"

lemma pipe_loop_all:
  assumes "length xs \<le> room"
  shows "\<exists>left. pipe_loop decode xs room s = (Some left, s\<lparr>yielded := yielded s @ List.map_filter (seen decode) xs,
      acknowledged := acknowledged s @ List.map_filter (acked decode) xs\<rparr>) \<and> room \<le> left + length xs"
  using assms
proof (induction xs arbitrary: room s)
  case Nil
  then show ?case
    by (simp add: List.map_filter_def)
next
  case (Cons x xs)
  obtain n where room: "room = Suc n" "length xs \<le> n"
    using Cons.prems by (cases room) auto
  obtain r ack where x: "process_request decode (fst x) (snd x) = (r, ack)"
    by fastforce
  let ?s = "s\<lparr>acknowledged := acknowledged s @ (case ack of Some a \<Rightarrow> [a] | None \<Rightarrow> [])\<rparr>"
  show ?case
  proof (cases "transpose_result r")
    case None
    from Cons.IH [of room ?s] room x None show ?thesis
      by (cases ack) (auto simp: List.map_filter_def seen_def acked_def)
  next
    case (Some item)
    from Cons.IH [OF room(2), of "?s\<lparr>yielded := yielded s @ [item]\<rparr>"] room x Some show ?thesis
      by (cases ack) (auto simp: List.map_filter_def seen_def acked_def)
  qed
qed

lemma seen_envelope:
  "seen decode (q, waiting) = Some (Ok (IncomingEnvelope e)) \<longleftrightarrow>
     is_signal_service_envelope q \<and> waiting \<and> (\<exists>body. req_body q = Some body \<and> decode body = Inr e)"
  by (auto simp: seen_def process_request_def transpose_result_def Let_def split: option.splits sum.splits)



end
