(* ===== verification/Http.thy ===== *)
theory Http
  imports Response Rust_Str
begin

text \<open>
  The HTTP side of the service: credentials, server choice and endpoints of \<open>configuration.rs\<close>, and
  \<open>PushService::request\<close> with the group calls of \<open>push_service/mod.rs\<close>. URLs and the HTTP client
  belong to other packages: a URL is an opaque string with the operations of the \<open>url\<close> package, and
  the client executes a request as an effect.
\<close>

section \<open>Credentials and servers\<close>

record http_auth =
  ha_username :: string
  ha_password :: string

record service_credentials =
  sc_aci :: "uuid option"
  sc_pni :: "uuid option"
  sc_phonenumber :: string
  sc_password :: "string option"
  sc_device_id :: "device_id option"

text \<open>The login name: the account or the phone number, with the device unless it is the primary.\<close>

definition login :: "(uuid \<Rightarrow> string) \<Rightarrow> service_credentials \<Rightarrow> string" where
  "login uuid_to_string c =
     (let identifier = (case sc_aci c of Some u \<Rightarrow> uuid_to_string u | None \<Rightarrow> sc_phonenumber c) in
      case sc_device_id c of
        None \<Rightarrow> identifier
      | Some d \<Rightarrow> if d = 1 then identifier else identifier @ ''.'' @ nat_to_string (unat d))"

definition authorization :: "(uuid \<Rightarrow> string) \<Rightarrow> service_credentials \<Rightarrow> http_auth option" where
  "authorization uuid_to_string c =
     map_option (\<lambda>password. \<lparr>ha_username = login uuid_to_string c, ha_password = password\<rparr>) (sc_password c)"

datatype signal_servers = Staging | Production

definition servers_from_str :: "string \<Rightarrow> (signal_servers, string) result" where
  "servers_from_str s =
     (if s = ''staging'' then Ok Staging
      else if s = ''production'' then Ok Production
      else Err ''invalid signal servers, can be either: staging or production'')"

primrec servers_display :: "signal_servers \<Rightarrow> string" where
  "servers_display Staging = ''staging''"
| "servers_display Production = ''production''"

record service_configuration =
  service_url :: string
  storage_url :: string
  cdn_urls :: "(u32 \<times> string) list"

primrec configuration_of :: "signal_servers \<Rightarrow> service_configuration" where
  "configuration_of Staging = \<lparr>service_url = ''https://chat.staging.signal.org'',
     storage_url = ''https://storage-staging.signal.org'',
     cdn_urls = [(0, ''https://cdn-staging.signal.org''), (2, ''https://cdn2-staging.signal.org''),
       (3, ''https://cdn3-staging.signal.org'')]\<rparr>"
| "configuration_of Production = \<lparr>service_url = ''https://chat.signal.org'',
     storage_url = ''https://storage.signal.org'',
     cdn_urls = [(0, ''https://cdn.signal.org''), (2, ''https://cdn2.signal.org''),
       (3, ''https://cdn3.signal.org'')]\<rparr>"

section \<open>Endpoints\<close>

record url_pkgs =
  url_join :: "string \<Rightarrow> string \<Rightarrow> (string, string) result"
  url_set_path :: "string \<Rightarrow> string \<Rightarrow> string"
  url_set_query :: "string option \<Rightarrow> string \<Rightarrow> string"
  url_path :: "string \<Rightarrow> string"
  url_query :: "string \<Rightarrow> string option"

datatype endpoint =
    AbsoluteEndpoint string
  | ServiceEndpoint string
  | StorageEndpoint string
  | CdnEndpoint u32 string "string option"

definition cdn_url :: "url_pkgs \<Rightarrow> u32 \<Rightarrow> string \<Rightarrow> endpoint" where
  "cdn_url U cdn_id url = CdnEndpoint cdn_id (url_path U url) (url_query U url)"

primrec into_url :: "url_pkgs \<Rightarrow> service_configuration \<Rightarrow> endpoint \<Rightarrow> (string, service_error) result" where
  "into_url U cfg (ServiceEndpoint path) = map_err InvalidUrl (url_join U (service_url cfg) path)"
| "into_url U cfg (StorageEndpoint path) = map_err InvalidUrl (url_join U (storage_url cfg) path)"
| "into_url U cfg (CdnEndpoint cdn_id path query) =
     (case map_of (cdn_urls cfg) cdn_id of
        None \<Rightarrow> Err (UnknownCdnVersion cdn_id)
      | Some url \<Rightarrow> Ok (url_set_query U query (url_set_path U path url)))"
| "into_url U cfg (AbsoluteEndpoint url) = Ok url"

section \<open>Requests\<close>

datatype http_auth_override = NoOverride | UnidentifiedAuth | IdentifiedAuth http_auth

record push_service =
  ps_servers :: signal_servers
  ps_cfg :: service_configuration
  ps_credentials :: "http_auth option"

definition new_push_service :: "(uuid \<Rightarrow> string) \<Rightarrow> signal_servers \<Rightarrow> service_credentials option \<Rightarrow> push_service" where
  "new_push_service uuid_to_string env credentials =
     \<lparr>ps_servers = env, ps_cfg = configuration_of env,
      ps_credentials = Option.bind credentials (authorization uuid_to_string)\<rparr>"

record http_req =
  hr_method :: string
  hr_url :: string
  hr_basic_auth :: "http_auth option"
  hr_headers :: "(string \<times> string) list"
  hr_body :: "bytes option"

definition push_request ::
    "url_pkgs \<Rightarrow> push_service \<Rightarrow> string \<Rightarrow> endpoint \<Rightarrow> http_auth_override \<Rightarrow> (http_req, service_error) result" where
  "push_request U self method endpoint auth_override =
     and_then (into_url U (ps_cfg self) endpoint) (\<lambda>url.
     Ok \<lparr>hr_method = method, hr_url = url,
         hr_basic_auth =
           (case auth_override of
              NoOverride \<Rightarrow> ps_credentials self
            | IdentifiedAuth auth \<Rightarrow> Some auth
            | UnidentifiedAuth \<Rightarrow> None),
         hr_headers = [], hr_body = None\<rparr>)"

definition http_header :: "string \<Rightarrow> string \<Rightarrow> http_req \<Rightarrow> http_req" where
  "http_header name v r = r\<lparr>hr_headers := hr_headers r @ [(name, v)]\<rparr>"

definition http_body :: "bytes \<Rightarrow> http_req \<Rightarrow> http_req" where
  "http_body b r = r\<lparr>hr_body := Some b\<rparr>"

definition http_protobuf :: "bytes \<Rightarrow> http_req \<Rightarrow> http_req" where
  "http_protobuf encoded r = http_body encoded (http_header ''content-type'' ''application/x-protobuf'' r)"

text \<open>
  A received response with the raw values of its headers (names are case-insensitive); reading its
  text or its bytes can fail on the connection. \<open>HeaderValue::to_str\<close> accepts visible ASCII and tabs.
\<close>

definition header_to_str :: "string \<Rightarrow> string option" where
  "header_to_str v = (if list_all (\<lambda>c. 32 \<le> (of_char c :: nat) \<and> (of_char c :: nat) < 127 \<or> (of_char c :: nat) = 9) v then Some v else None)"

record http_response =
  hres_status :: u16
  hres_headers :: "string \<Rightarrow> string option"
  hres_text :: "(string, service_error) result"
  hres_bytes :: "(bytes, service_error) result"

definition http_ops :: "http_response response_ops" where
  "http_ops = \<lparr>status_code = hres_status, response_text = hres_text,
     response_header = (\<lambda>r name. Option.bind (hres_headers r name) header_to_str)\<rparr>"

definition http_decode_protobuf :: "(bytes \<Rightarrow> string + 'a) \<Rightarrow> http_response \<Rightarrow> ('a, service_error) result" where
  "http_decode_protobuf decode r =
     and_then (hres_bytes r) (\<lambda>body.
     case decode body of Inl e \<Rightarrow> Err (ProtobufDecodeError e) | Inr a \<Rightarrow> Ok a)"

record 'w http_env =
  he_urls :: url_pkgs
  he_http :: http_pkgs
  he_service :: push_service
  execute :: "http_req \<Rightarrow> ('w, http_response, service_error) eff"

definition http_call ::
    "('w, 'm) http_env_scheme \<Rightarrow> string \<Rightarrow> endpoint \<Rightarrow> http_auth_override \<Rightarrow> (http_req \<Rightarrow> http_req)
       \<Rightarrow> ('w, http_response, service_error) eff" where
  "http_call E method endpoint auth build =
     bindE (lift (push_request (he_urls E) (he_service E) method endpoint auth)) (\<lambda>r. execute E (build r))"

section \<open>Groups\<close>

definition get_group ::
    "('w, 'm) http_env_scheme \<Rightarrow> (bytes \<Rightarrow> string + 'g) \<Rightarrow> http_auth \<Rightarrow> ('w, 'g, service_error) eff" where
  "get_group E decode credentials =
     bindE (http_call E ''GET'' (StorageEndpoint ''/v1/groups/'') (IdentifiedAuth credentials) id) (\<lambda>response.
     bindE (lift (service_error_for_status (he_http E) http_ops response)) (\<lambda>response.
     lift (http_decode_protobuf decode response)))"

definition create_group ::
    "('w, 'm) http_env_scheme \<Rightarrow> http_auth \<Rightarrow> bytes \<Rightarrow> ('w, unit, service_error) eff" where
  "create_group E credentials encoded =
     bindE (http_call E ''PUT'' (StorageEndpoint ''/v1/groups/'') (IdentifiedAuth credentials) (http_protobuf encoded)) (\<lambda>response.
     bindE (lift (service_error_for_status (he_http E) http_ops response)) (\<lambda>_. pure ()))"

definition patch_group ::
    "('w, 'm) http_env_scheme \<Rightarrow> (bytes \<Rightarrow> string + 'g) \<Rightarrow> http_auth \<Rightarrow> bytes \<Rightarrow> ('w, 'g, service_error) eff" where
  "patch_group E decode credentials actions =
     bindE (http_call E ''PATCH'' (StorageEndpoint ''/v1/groups/'') (IdentifiedAuth credentials) (http_protobuf actions)) (\<lambda>response.
     bindE (lift (service_error_for_status_with (he_http E) http_ops (patch_group_errors (he_http E) http_ops) response)) (\<lambda>response.
     lift (http_decode_protobuf decode response)))"

section \<open>Properties\<close>

text \<open>
  The name of a server set reads back as that set and nothing else is accepted; both server
  sets serve the same CDN numbers, and a request for any other CDN is refused before it is sent.
\<close>

theorem endpoints_resolved:
  "(servers_from_str s = Ok e \<longleftrightarrow> s = servers_display e) \<and>
   (into_url U (configuration_of e) (CdnEndpoint cdn path query) = Err (UnknownCdnVersion cdn) \<longleftrightarrow> cdn \<notin> {0, 2, 3}) \<and>
   (push_request U (new_push_service u e c) m (CdnEndpoint cdn path query) a = Err (UnknownCdnVersion cdn) \<longleftrightarrow> cdn \<notin> {0, 2, 3})"
proof -
  have "map_of (cdn_urls (configuration_of e)) cdn = None \<longleftrightarrow> cdn \<notin> {0, 2, 3}"
    by (cases e) (auto simp: map_of_eq_None_iff)
  then show ?thesis
    by (cases e) (auto simp: servers_from_str_def push_request_def new_push_service_def split: option.splits)
qed

text \<open>A concrete client that answers every request with the same status and an empty body.\<close>

definition sample_response :: "u16 \<Rightarrow> http_response" where
  "sample_response code = \<lparr>hres_status = code, hres_headers = (\<lambda>_. None), hres_text = Ok [], hres_bytes = Ok []\<rparr>"

definition sample_http :: "u16 \<Rightarrow> unit http_env" where
  "sample_http code = \<lparr>he_urls = \<lparr>url_join = (\<lambda>base path. Ok (base @ path)), url_set_path = (\<lambda>path url. url @ path),
       url_set_query = (\<lambda>_ url. url), url_path = id, url_query = (\<lambda>_. None)\<rparr>,
     he_http = sample_pkgs, he_service = new_push_service (\<lambda>_. []) Staging None,
     execute = (\<lambda>_. pure (sample_response code))\<rparr>"

lemma sample_http_call: "http_call (sample_http code) m (StorageEndpoint path) a build s = (Ok (sample_response code), s)"
  by (simp add: http_call_def sample_http_def push_request_def new_push_service_def)

end
