(* ===== verification/Storage.thy ===== *)
theory Storage
  imports Http Crypto
begin

text \<open>
  The storage service (\<open>storage_service.rs\<close>) and the keys it derives (\<open>master_key.rs\<close>): the account
  state that all devices share, kept on the server as one encrypted manifest and encrypted items.
  AES-GCM, HMAC, HKDF, base64 and the protocol buffers are parameters; the random initialisation
  vectors are the draws \<open>os_rng 0\<close>, \<open>os_rng 1\<close>, ... in the order the code makes them.
\<close>

section \<open>Keys\<close>

record storage_pkgs =
  st_aead :: aead
  st_hmac :: "bytes \<Rightarrow> bytes \<Rightarrow> bytes"
  st_hkdf :: "bytes \<Rightarrow> bytes \<Rightarrow> bytes"
  base64_standard :: "bytes \<Rightarrow> string"

record master_key =
  mk_inner :: bytes

record storage_service_key =
  sk_inner :: bytes

definition master_key_from_slice :: "bytes \<Rightarrow> master_key option" where
  "master_key_from_slice s = map_option (\<lambda>k. \<lparr>mk_inner = k\<rparr>) (try_into_array 32 s)"

definition generate_master_key :: "(nat \<Rightarrow> bytes) \<Rightarrow> master_key" where
  "generate_master_key fill = \<lparr>mk_inner = fill 32\<rparr>"

definition from_master_key :: "storage_pkgs \<Rightarrow> master_key \<Rightarrow> storage_service_key" where
  "from_master_key P k = \<lparr>sk_inner = st_hmac P (mk_inner k) (as_bytes ''Storage Service Encryption'')\<rparr>"

definition storage_key_from_slice :: "bytes \<Rightarrow> storage_service_key option" where
  "storage_key_from_slice s = map_option (\<lambda>k. \<lparr>sk_inner = k\<rparr>) (try_into_array 32 s)"

definition IV_LEN :: nat where "IV_LEN = 12"

definition ITEM_KEY_INFO_PREFIX :: bytes where
  "ITEM_KEY_INFO_PREFIX = as_bytes ''20240801_SIGNAL_STORAGE_SERVICE_ITEM_''"

text \<open>The messages and the info string that the keys are derived from.\<close>

definition manifest_label :: "u64 \<Rightarrow> bytes" where
  "manifest_label version = as_bytes ''Manifest_'' @ as_bytes (nat_to_string (unat version))"

definition item_label :: "storage_pkgs \<Rightarrow> bytes \<Rightarrow> bytes" where
  "item_label P raw_id = as_bytes ''Item_'' @ as_bytes (base64_standard P raw_id)"

definition item_info :: "bytes \<Rightarrow> bytes" where
  "item_info raw_id = ITEM_KEY_INFO_PREFIX @ raw_id"

definition manifest_key :: "storage_pkgs \<Rightarrow> storage_service_key \<Rightarrow> u64 \<Rightarrow> bytes" where
  "manifest_key P k version = st_hmac P (sk_inner k) (manifest_label version)"

definition item_key :: "storage_pkgs \<Rightarrow> storage_service_key \<Rightarrow> bytes \<Rightarrow> bytes option \<Rightarrow> bytes" where
  "item_key P k raw_id record_ikm =
     (case record_ikm of
        Some ikm \<Rightarrow>
          if ikm \<noteq> [] then st_hkdf P ikm (item_info raw_id)
          else st_hmac P (sk_inner k) (item_label P raw_id)
      | None \<Rightarrow> st_hmac P (sk_inner k) (item_label P raw_id))"

section \<open>Encrypting blobs\<close>

datatype (plugins only: size) storage_service_error = StorageInvalid | StorageConflict | StorageService service_error

definition storage_decrypt :: "storage_pkgs \<Rightarrow> bytes \<Rightarrow> bytes \<Rightarrow> (bytes, storage_service_error) result" where
  "storage_decrypt P key blob =
     and_then (ok_or StorageInvalid (split_first_chunk IV_LEN blob)) (\<lambda>(iv, ct).
     ok_or StorageInvalid (unseal (st_aead P) key iv ct))"

definition storage_encrypt :: "storage_pkgs \<Rightarrow> bytes \<Rightarrow> bytes \<Rightarrow> bytes \<Rightarrow> (bytes, storage_service_error) result" where
  "storage_encrypt P iv key plaintext =
     map_ok (\<lambda>sealed. iv @ sealed)
       (expect ''AES-256-GCM encryption is infallible for valid keys'' (seal (st_aead P) key iv plaintext))"

section \<open>Manifests and items\<close>

text \<open>A manifest record; \<open>identifiers\<close> stands for its other fields.\<close>

record manifest_record =
  mr_version :: u64
  mr_record_ikm :: bytes
  mr_identifiers :: "bytes list"

record storage_manifest =
  sm_version :: u64
  sm_value :: bytes

record storage_item =
  si_key :: bytes
  si_value :: bytes

record decrypted_item =
  di_key :: bytes
  di_plaintext :: bytes
  di_record :: bytes

record write_operation_message =
  wo_manifest :: "storage_manifest option"
  wo_insert_item :: "storage_item list"
  wo_delete_key :: "bytes list"
  wo_clear_all :: bool

record storage_codec =
  manifest_encode :: "manifest_record \<Rightarrow> bytes"
  manifest_decode :: "bytes \<Rightarrow> string + manifest_record"
  storage_record_decode :: "bytes \<Rightarrow> string + bytes"
  storage_manifest_decode :: "bytes \<Rightarrow> string + storage_manifest"
  storage_items_decode :: "bytes \<Rightarrow> string + storage_item list"
  read_operation_encode :: "bytes list \<Rightarrow> bytes"
  write_operation_encode :: "write_operation_message \<Rightarrow> bytes"

definition decoded :: "string + 'a \<Rightarrow> ('a, storage_service_error) result" where
  "decoded r = (case r of Inl _ \<Rightarrow> Err StorageInvalid | Inr a \<Rightarrow> Ok a)"

definition decrypt_manifest ::
    "storage_pkgs \<Rightarrow> storage_codec \<Rightarrow> storage_service_key \<Rightarrow> storage_manifest
       \<Rightarrow> (manifest_record, storage_service_error) result" where
  "decrypt_manifest P K k manifest =
     and_then (storage_decrypt P (manifest_key P k (sm_version manifest)) (sm_value manifest)) (\<lambda>plaintext.
     decoded (manifest_decode K plaintext))"

definition encrypt_manifest ::
    "storage_pkgs \<Rightarrow> storage_codec \<Rightarrow> bytes \<Rightarrow> storage_service_key \<Rightarrow> manifest_record
       \<Rightarrow> (storage_manifest, storage_service_error) result" where
  "encrypt_manifest P K iv k record =
     map_ok (\<lambda>v. \<lparr>sm_version = mr_version record, sm_value = v\<rparr>)
       (storage_encrypt P iv (manifest_key P k (mr_version record)) (manifest_encode K record))"

definition decrypt_item ::
    "storage_pkgs \<Rightarrow> storage_codec \<Rightarrow> storage_service_key \<Rightarrow> storage_item \<Rightarrow> bytes option
       \<Rightarrow> (decrypted_item, storage_service_error) result" where
  "decrypt_item P K k item record_ikm =
     and_then (storage_decrypt P (item_key P k (si_key item) record_ikm) (si_value item)) (\<lambda>plaintext.
     and_then (decoded (storage_record_decode K plaintext)) (\<lambda>record.
     Ok \<lparr>di_key = si_key item, di_plaintext = plaintext, di_record = record\<rparr>))"

definition encrypt_item ::
    "storage_pkgs \<Rightarrow> bytes \<Rightarrow> storage_service_key \<Rightarrow> bytes \<Rightarrow> bytes \<Rightarrow> bytes option
       \<Rightarrow> (storage_item, storage_service_error) result" where
  "encrypt_item P iv k raw_id record record_ikm =
     map_ok (\<lambda>v. \<lparr>si_key = raw_id, si_value = v\<rparr>)
       (storage_encrypt P iv (item_key P k raw_id record_ikm) record)"

primrec encrypt_items ::
    "(bytes \<times> bytes) list \<Rightarrow> storage_pkgs \<Rightarrow> (nat \<Rightarrow> bytes) \<Rightarrow> nat \<Rightarrow> storage_service_key \<Rightarrow> bytes option
       \<Rightarrow> (storage_item list, storage_service_error) result" where
  "encrypt_items [] P os_rng i k record_ikm = Ok []"
| "encrypt_items (x # xs) P os_rng i k record_ikm =
     and_then (encrypt_item P (os_rng i) k (fst x) (snd x) record_ikm) (\<lambda>item.
     and_then (encrypt_items xs P os_rng (Suc i) k record_ikm) (\<lambda>items.
     Ok (item # items)))"

definition write_operation ::
    "storage_pkgs \<Rightarrow> storage_codec \<Rightarrow> (nat \<Rightarrow> bytes) \<Rightarrow> storage_service_key \<Rightarrow> manifest_record
       \<Rightarrow> (bytes \<times> bytes) list \<Rightarrow> bytes list \<Rightarrow> (write_operation_message, storage_service_error) result" where
  "write_operation P K os_rng k manifest insert_records delete_keys =
     (let record_ikm = (if mr_record_ikm manifest = [] then None else Some (mr_record_ikm manifest)) in
      and_then (encrypt_items insert_records P os_rng 0 k record_ikm) (\<lambda>insert_item.
      and_then (encrypt_manifest P K (os_rng (length insert_records)) k manifest) (\<lambda>m.
      Ok \<lparr>wo_manifest = Some m, wo_insert_item = insert_item, wo_delete_key = delete_keys,
          wo_clear_all = False\<rparr>)))"

section \<open>The service\<close>

record storage_service =
  ss_credentials :: http_auth
  ss_storage_key :: storage_service_key

definition serviceE :: "('w, 'a, service_error) eff \<Rightarrow> ('w, 'a, storage_service_error) eff" where
  "serviceE m = (\<lambda>s. case m s of (r, s') \<Rightarrow> (map_err StorageService r, s'))"

definition storage_call ::
    "('w, 'm) http_env_scheme \<Rightarrow> storage_service \<Rightarrow> string \<Rightarrow> string \<Rightarrow> (http_req \<Rightarrow> http_req)
       \<Rightarrow> ('w, http_response, storage_service_error) eff" where
  "storage_call E self method path build =
     serviceE (http_call E method (StorageEndpoint path) (IdentifiedAuth (ss_credentials self)) build)"

definition checked :: "('w, 'm) http_env_scheme \<Rightarrow> http_response \<Rightarrow> ('w, http_response, storage_service_error) eff" where
  "checked E response = serviceE (lift (service_error_for_status (he_http E) http_ops response))"

definition new_storage_service ::
    "('w, 'm) http_env_scheme \<Rightarrow> (string \<Rightarrow> http_auth option) \<Rightarrow> storage_service_key \<Rightarrow> ('w, storage_service, service_error) eff" where
  "new_storage_service E json_auth k =
     bindE (http_call E ''GET'' (ServiceEndpoint ''/v1/storage/auth'') NoOverride id) (\<lambda>response.
     bindE (lift (service_error_for_status (he_http E) http_ops response)) (\<lambda>response.
     bindE (lift (and_then (hres_text response) (\<lambda>body. ok_or (Http ''error decoding response body'') (json_auth body)))) (\<lambda>auth.
     pure \<lparr>ss_credentials = auth, ss_storage_key = k\<rparr>)))"

definition manifest ::
    "('w, 'm) http_env_scheme \<Rightarrow> storage_pkgs \<Rightarrow> storage_codec \<Rightarrow> storage_service
       \<Rightarrow> ('w, manifest_record, storage_service_error) eff" where
  "manifest E P K self =
     bindE (storage_call E self ''GET'' ''/v1/storage/manifest'' id) (\<lambda>response.
     bindE (checked E response) (\<lambda>response.
     bindE (serviceE (lift (http_decode_protobuf (storage_manifest_decode K) response))) (\<lambda>m.
     lift (decrypt_manifest P K (ss_storage_key self) m))))"

definition manifest_if_changed ::
    "('w, 'm) http_env_scheme \<Rightarrow> storage_pkgs \<Rightarrow> storage_codec \<Rightarrow> storage_service \<Rightarrow> u64
       \<Rightarrow> ('w, manifest_record option, storage_service_error) eff" where
  "manifest_if_changed E P K self version =
     bindE (storage_call E self ''GET'' (''/v1/storage/manifest/version/'' @ nat_to_string (unat version)) id) (\<lambda>response.
     bindE (checked E response) (\<lambda>response.
     if hres_status response = 204 then pure None
     else
       bindE (serviceE (lift (http_decode_protobuf (storage_manifest_decode K) response))) (\<lambda>m.
       bindE (lift (decrypt_manifest P K (ss_storage_key self) m)) (\<lambda>record. pure (Some record)))))"

definition read_items ::
    "('w, 'm) http_env_scheme \<Rightarrow> storage_pkgs \<Rightarrow> storage_codec \<Rightarrow> storage_service \<Rightarrow> bytes list \<Rightarrow> bytes option
       \<Rightarrow> ('w, decrypted_item list, storage_service_error) eff" where
  "read_items E P K self keys record_ikm =
     bindE (storage_call E self ''PUT'' ''/v1/storage/read''
         (\<lambda>r. http_body (read_operation_encode K keys) (http_header ''Content-Type'' ''application/x-protobuf'' r))) (\<lambda>response.
     bindE (checked E response) (\<lambda>response.
     bindE (serviceE (lift (http_decode_protobuf (storage_items_decode K) response))) (\<lambda>items.
     lift (collect (map (\<lambda>item. decrypt_item P K (ss_storage_key self) item record_ikm) items)))))"

definition write_items ::
    "('w, 'm) http_env_scheme \<Rightarrow> storage_pkgs \<Rightarrow> storage_codec \<Rightarrow> (nat \<Rightarrow> bytes) \<Rightarrow> storage_service \<Rightarrow> manifest_record
       \<Rightarrow> (bytes \<times> bytes) list \<Rightarrow> bytes list \<Rightarrow> ('w, unit, storage_service_error) eff" where
  "write_items E P K os_rng self m insert_records delete_keys =
     bindE (lift (write_operation P K os_rng (ss_storage_key self) m insert_records delete_keys)) (\<lambda>body.
     bindE (storage_call E self ''PUT'' ''/v1/storage/''
         (\<lambda>r. http_body (write_operation_encode K body) (http_header ''Content-Type'' ''application/x-protobuf'' r))) (\<lambda>response.
     if hres_status response = 409 then throw StorageConflict
     else bindE (checked E response) (\<lambda>_. pure ())))"

section \<open>Properties\<close>

lemma storage_blob:
  assumes "aead_correct (st_aead P)" "length iv = 12" "length m \<le> 2 ^ 36"
  shows "\<exists>c. storage_encrypt P iv key m = Ok c \<and> length c = length m + 28 \<and> storage_decrypt P key c = Ok m"
proof -
  obtain c where "seal (st_aead P) key iv m = Some c" "length c = length m + 16" "unseal (st_aead P) key iv c = Some m"
    by (rule aead_correct_sealE [OF assms(1,3)])
  with assms(2) show ?thesis
    by (simp add: storage_encrypt_def storage_decrypt_def IV_LEN_def split_first_chunk_def)
qed

text \<open>An empty input key selects the legacy derivation, whether it is given or left out.\<close>

lemma item_key_ikm: "item_key P k i (if ikm = [] then None else Some ikm) = item_key P k i (Some ikm)"
  by (simp add: item_key_def)

definition readable :: "storage_codec \<Rightarrow> (bytes \<Rightarrow> bytes) \<Rightarrow> bytes \<times> bytes \<Rightarrow> bool" where
  "readable K decode x \<longleftrightarrow> length (snd x) \<le> 2 ^ 36 \<and> storage_record_decode K (snd x) = Inr (decode (snd x))"

lemma encrypt_items_readable:
  assumes "aead_correct (st_aead P)" "\<And>i. length (os_rng i) = 12" "list_all (readable K decode) xs"
  shows "\<exists>items. encrypt_items xs P os_rng n k (if ikm = [] then None else Some ikm) = Ok items \<and>
    collect (map (\<lambda>item. decrypt_item P K k item (Some ikm)) items) =
      Ok (map (\<lambda>(i, r). \<lparr>di_key = i, di_plaintext = r, di_record = decode r\<rparr>) xs)"
  using assms(3)
proof (induction xs arbitrary: n)
  case (Cons x xs)
  obtain raw_id rec where x: "x = (raw_id, rec)" "length rec \<le> 2 ^ 36" "storage_record_decode K rec = Inr (decode rec)"
    using Cons.prems by (cases x) (auto simp: readable_def)
  obtain c where "storage_encrypt P (os_rng n) (item_key P k raw_id (Some ikm)) rec = Ok c"
    "storage_decrypt P (item_key P k raw_id (Some ikm)) c = Ok rec"
    using storage_blob [OF assms(1,2) x(2)] by blast
  moreover obtain items where "encrypt_items xs P os_rng (Suc n) k (if ikm = [] then None else Some ikm) = Ok items"
    "collect (map (\<lambda>item. decrypt_item P K k item (Some ikm)) items) =
      Ok (map (\<lambda>(i, r). \<lparr>di_key = i, di_plaintext = r, di_record = decode r\<rparr>) xs)"
    using Cons by fastforce
  ultimately show ?case
    by (simp add: x encrypt_item_def decrypt_item_def decoded_def item_key_ikm)
qed simp

text \<open>
  C26: what one device writes every device of the account reads. A write carries the manifest and
  all inserted records, encrypted so that decrypting with the storage key and with the input key
  that the manifest itself carries gives back the manifest and, in order and byte for byte, the
  records under their identifiers, for accounts with an input key and for legacy accounts without
  one. A write never clears the account. The hypotheses are the documented behaviour of AES-GCM and
  of the encoding of these messages, and that the records are within the cipher's limit.
\<close>

theorem storage_write_read:
  assumes "aead_correct (st_aead P)" "\<And>i. length (os_rng i) = 12"
    and "length (manifest_encode K m) \<le> 2 ^ 36" "manifest_decode K (manifest_encode K m) = Inr m"
    and "list_all (readable K decode) records"
  shows "\<exists>w v. write_operation P K os_rng k m records deletes = Ok w \<and> wo_manifest w = Some v \<and>
    sm_version v = mr_version m \<and> decrypt_manifest P K k v = Ok m \<and>
    collect (map (\<lambda>item. decrypt_item P K k item (Some (mr_record_ikm m))) (wo_insert_item w)) =
      Ok (map (\<lambda>(i, r). \<lparr>di_key = i, di_plaintext = r, di_record = decode r\<rparr>) records) \<and>
    wo_delete_key w = deletes \<and> \<not> wo_clear_all w"
proof -
  let ?iv = "os_rng (length records)" and ?key = "manifest_key P k (mr_version m)"
  obtain c where "storage_encrypt P ?iv ?key (manifest_encode K m) = Ok c" "storage_decrypt P ?key c = Ok (manifest_encode K m)"
    using storage_blob [OF assms(1,2,3)] by blast
  moreover obtain items where
    "encrypt_items records P os_rng 0 k (if mr_record_ikm m = [] then None else Some (mr_record_ikm m)) = Ok items"
    "collect (map (\<lambda>item. decrypt_item P K k item (Some (mr_record_ikm m))) items) =
      Ok (map (\<lambda>(i, r). \<lparr>di_key = i, di_plaintext = r, di_record = decode r\<rparr>) records)"
    using encrypt_items_readable [where os_rng = os_rng, OF assms(1,2,5)] by blast
  ultimately show ?thesis
    using assms(4) by (simp add: write_operation_def encrypt_manifest_def decrypt_manifest_def decoded_def Let_def)
qed

definition sample_storage :: storage_pkgs where
  "sample_storage = \<lparr>st_aead = sample_aead, st_hmac = (\<lambda>k m. k @ m), st_hkdf = (\<lambda>k i. k @ i),
     base64_standard = map char_of_byte\<rparr>"

definition sample_manifest_codec :: "manifest_record \<Rightarrow> storage_codec" where
  "sample_manifest_codec m = \<lparr>manifest_encode = (\<lambda>_. [1]), manifest_decode = (\<lambda>_. Inr m), storage_record_decode = Inr,
     storage_manifest_decode = (\<lambda>_. Inl []), storage_items_decode = (\<lambda>_. Inl []),
     read_operation_encode = concat, write_operation_encode = (\<lambda>_. [])\<rparr>"

theorem storage_write_read_witness:
  "\<exists>w v. write_operation sample_storage (sample_manifest_codec \<lparr>mr_version = 4, mr_record_ikm = [], mr_identifiers = [[9]]\<rparr>)
       (\<lambda>_. replicate 12 0) \<lparr>sk_inner = [7]\<rparr> \<lparr>mr_version = 4, mr_record_ikm = [], mr_identifiers = [[9]]\<rparr> [([9], [1, 2])] [[8]] = Ok w \<and>
     wo_manifest w = Some v \<and> sm_version v = 4 \<and> wo_delete_key w = [[8]]"
  using storage_write_read [of sample_storage "\<lambda>_. replicate 12 0"
      "sample_manifest_codec \<lparr>mr_version = 4, mr_record_ikm = [], mr_identifiers = [[9]]\<rparr>"
      "\<lparr>mr_version = 4, mr_record_ikm = [], mr_identifiers = [[9]]\<rparr>" id "[([9], [1, 2])]" "\<lparr>sk_inner = [7]\<rparr>" "[[8]]"]
  by (fastforce simp: sample_storage_def sample_manifest_codec_def sample_aead_correct readable_def)

text \<open>
  Keys of different blobs are derived from different inputs. Two versions of the manifest,
  two items and a manifest and an item never share the message their key is derived from, so no key
  is used for two purposes. The hypothesis is that base64 is injective.
\<close>

theorem storage_labels_distinct:
  assumes "inj (base64_standard P)"
  shows "inj manifest_label \<and> inj (item_label P) \<and> inj item_info \<and> manifest_label v \<noteq> item_label P i"
proof -
  have "inj as_bytes"
    by (rule injI) (metis map_char_of_byte_as_bytes)
  moreover have "hd (manifest_label v) \<noteq> hd (item_label P i)"
    by (simp add: manifest_label_def item_label_def as_bytes_def)
  then have "manifest_label v \<noteq> item_label P i"
    by metis
  ultimately show ?thesis
    using assms by (auto simp: inj_def manifest_label_def item_label_def item_info_def unsigned_word_eqI)
qed

theorem storage_labels_distinct_witness:
  "inj (item_label sample_storage) \<and> manifest_label 3 \<noteq> item_label sample_storage [9]"
proof -
  have "inj (base64_standard sample_storage)"
    by (rule injI) (metis as_bytes_map_char_of_byte sample_storage_def storage_pkgs.select_convs(4))
  from storage_labels_distinct [OF this] show ?thesis
    by blast
qed

lemma serviceE_apply: "serviceE m s = (map_err StorageService (fst (m s)), snd (m s))"
  by (simp add: serviceE_def split: prod.splits)

text \<open>
  A write is reported as done exactly when the server answered with a success status, and as a
  conflict exactly when it answered with 409, which is never mistaken for another error.
\<close>

theorem storage_write_outcome:
  assumes "write_operation P K os_rng (ss_storage_key self) m records deletes = Ok body"
    and "storage_call E self ''PUT'' ''/v1/storage/''
      (\<lambda>r. http_body (write_operation_encode K body) (http_header ''Content-Type'' ''application/x-protobuf'' r)) s = (Ok response, s')"
  shows "(fst (write_items E P K os_rng self m records deletes s) = Ok () \<longleftrightarrow> hres_status response \<in> success_codes) \<and>
    (fst (write_items E P K os_rng self m records deletes s) = Err StorageConflict \<longleftrightarrow> hres_status response = 409)"
proof (cases "hres_status response = 409")
  case True
  with assms show ?thesis
    by (simp add: write_items_def success_codes_def)
next
  case False
  have "fst (write_items E P K os_rng self m records deletes s) =
      map_ok (\<lambda>_. ()) (map_err StorageService (service_error_for_status (he_http E) http_ops response))"
    using assms False
    by (cases "service_error_for_status (he_http E) http_ops response")
      (simp_all add: write_items_def checked_def bindE_def serviceE_apply)
  moreover have "(\<exists>r. service_error_for_status (he_http E) http_ops response = Ok r) \<longleftrightarrow> hres_status response \<in> success_codes"
    by (auto simp: service_error_for_status_def baseline_decode_def http_ops_def success_codes_def Let_def
        json_or_unhandled_def and_then_Ok_iff)
  ultimately show ?thesis
    using False by (cases "service_error_for_status (he_http E) http_ops response") auto
qed

theorem storage_write_outcome_witness:
  "fst (write_items (sample_http 409) sample_storage (sample_manifest_codec \<lparr>mr_version = 4, mr_record_ikm = [], mr_identifiers = []\<rparr>)
      (\<lambda>_. replicate 12 0) \<lparr>ss_credentials = \<lparr>ha_username = [], ha_password = []\<rparr>, ss_storage_key = \<lparr>sk_inner = [7]\<rparr>\<rparr>
      \<lparr>mr_version = 4, mr_record_ikm = [], mr_identifiers = []\<rparr> [] [] ()) = Err StorageConflict"
proof -
  let ?m = "\<lparr>mr_version = 4, mr_record_ikm = [], mr_identifiers = []\<rparr>"
  let ?self = "\<lparr>ss_credentials = \<lparr>ha_username = [], ha_password = []\<rparr>, ss_storage_key = \<lparr>sk_inner = [7]\<rparr>\<rparr>"
  have "\<exists>body. write_operation sample_storage (sample_manifest_codec ?m) (\<lambda>_. replicate 12 0) (ss_storage_key ?self) ?m [] [] = Ok body"
    by (simp add: write_operation_def encrypt_manifest_def storage_encrypt_def sample_storage_def sample_manifest_codec_def
        sample_aead_def)
  then obtain body where body: "write_operation sample_storage (sample_manifest_codec ?m) (\<lambda>_. replicate 12 0)
      (ss_storage_key ?self) ?m [] [] = Ok body"
    by blast
  have call: "storage_call (sample_http 409) ?self x y b () = (Ok (sample_response 409), ())" for x y b
    by (simp add: storage_call_def serviceE_apply sample_http_call)
  from storage_write_outcome [OF body call] show ?thesis
    by (simp add: sample_response_def)
qed

end
