(* ===== verification/Cdn.thy ===== *)
theory Cdn
  imports Http Effect_Logic Content
begin

text \<open>
  Transfers to and from the content delivery networks (\<open>push_service/cdn.rs\<close>, \<open>digeststream.rs\<close>):
  downloads of attachments and transfer archives, upload forms, and the two resumable upload
  protocols with the digest of what was read. URLs, percent encoding, multipart bodies and SHA-256
  belong to other packages; \<open>rd_chunk\<close> is the number of bytes, less one, that one read returns at
  most, depending on how much was read before.
\<close>

section \<open>Readers and digests\<close>

text \<open>A seekable reader over given bytes; a faulty one fails on its first read.\<close>

record reader =
  rd_data :: bytes
  rd_pos :: nat
  rd_fault :: "string option"

definition cursor :: "bytes \<Rightarrow> reader" where
  "cursor data = \<lparr>rd_data = data, rd_pos = 0, rd_fault = None\<rparr>"

definition remaining :: "reader \<Rightarrow> bytes" where
  "remaining r = drop (rd_pos r) (rd_data r)"

definition read :: "nat \<Rightarrow> reader \<Rightarrow> (bytes, string) result \<times> reader" where
  "read n r =
     (case rd_fault r of
        Some e \<Rightarrow> (Err e, r)
      | None \<Rightarrow> let got = take n (remaining r) in (Ok got, r\<lparr>rd_pos := rd_pos r + length got\<rparr>))"

record digesting_reader =
  dr_inner :: reader
  dr_digest :: bytes

definition new_digest :: "reader \<Rightarrow> digesting_reader" where
  "new_digest r = \<lparr>dr_inner = r, dr_digest = []\<rparr>"

definition digest_read :: "nat \<Rightarrow> digesting_reader \<Rightarrow> (bytes, string) result \<times> digesting_reader" where
  "digest_read n d =
     (case read n (dr_inner d) of
        (Ok got, r) \<Rightarrow> (Ok got, \<lparr>dr_inner = r, dr_digest = dr_digest d @ got\<rparr>)
      | (x, r) \<Rightarrow> (x, d\<lparr>dr_inner := r\<rparr>))"

definition digest_seek :: "nat \<Rightarrow> digesting_reader \<Rightarrow> digesting_reader" where
  "digest_seek pos d = d\<lparr>dr_inner := (dr_inner d)\<lparr>rd_pos := pos\<rparr>\<rparr>"

definition finalize :: "(bytes \<Rightarrow> bytes) \<Rightarrow> digesting_reader \<Rightarrow> bytes" where
  "finalize sha256 d = sha256 (dr_digest d)"

lemma digest_read_less:
  "digest_read n d = (Ok got, d') \<Longrightarrow> got \<noteq> [] \<Longrightarrow> length (remaining (dr_inner d')) < length (remaining (dr_inner d))"
  by (auto simp: digest_read_def read_def Let_def remaining_def split: option.splits)

text \<open>\<open>read_to_end\<close>: reads until a read returns nothing.\<close>

function read_to_end ::
    "(nat \<Rightarrow> nat) \<Rightarrow> digesting_reader \<Rightarrow> bytes \<Rightarrow> (bytes, string) result \<times> digesting_reader" where
  "read_to_end chunk d buf =
     (case digest_read (Suc (chunk (length buf))) d of
        (Ok got, d') \<Rightarrow> if got = [] then (Ok buf, d') else read_to_end chunk d' (buf @ got)
      | (r, d') \<Rightarrow> (r, d'))"
  by pat_completeness auto

termination
  by (relation "measure (\<lambda>(_, d, _). length (remaining (dr_inner d)))") (auto intro: digest_read_less [OF sym])

declare read_to_end.simps [simp del]

section \<open>The service\<close>

record attachment_upload_form =
  auf_cdn :: u32
  auf_key :: string
  auf_headers :: "(string \<times> string) list"
  auf_signed_upload_location :: string

record attachment_v2_upload_attributes =
  av2_key :: string
  av2_credential :: string
  av2_acl :: string
  av2_algorithm :: string
  av2_date :: string
  av2_policy :: string
  av2_signature :: string

record attachment_digest =
  ad_digest :: bytes
  ad_incremental_digest :: "bytes option"
  ad_incremental_mac_chunk_size :: u64

record resume_info =
  content_range :: "string option"
  content_start :: u64

record attachment_download =
  dl_stream :: "(bytes, service_error) result"
  dl_content_length :: "u64 option"

datatype multipart_field = TextField string string | FileField string bytes string string

record 'w cdn_env = "'w http_env" +
  percent_encode :: "(char \<Rightarrow> bool) \<Rightarrow> string \<Rightarrow> string"
  status_error :: "http_response \<Rightarrow> string"
  upload_form_json :: "http_response \<Rightarrow> (attachment_upload_form, service_error) result"
  url_parse :: "string \<Rightarrow> (string, string) result"
  multipart :: "multipart_field list \<Rightarrow> http_req \<Rightarrow> http_req"
  sha256 :: "bytes \<Rightarrow> bytes"
  rd_chunk :: "nat \<Rightarrow> nat"

text \<open>The bytes that are percent-encoded: everything but alphanumerics and nine punctuation characters.\<close>

definition ENCODE_URI_COMPONENT :: "char \<Rightarrow> bool" where
  "ENCODE_URI_COMPONENT c =
     (let n = of_char c :: nat in
      \<not> (48 \<le> n \<and> n \<le> 57 \<or> 65 \<le> n \<and> n \<le> 90 \<or> 97 \<le> n \<and> n \<le> 122) \<and>
      c \<notin> {CHR ''-'', CHR ''_'', CHR ''.'', CHR ''!'', CHR ''~'', CHR ''*'', CHR 0x27, CHR ''('', CHR '')''})"

text \<open>\<open>reqwest::Response::error_for_status\<close>: client and server errors are refused.\<close>

definition error_for_status :: "('w, 'm) cdn_env_scheme \<Rightarrow> http_response \<Rightarrow> (http_response, service_error) result" where
  "error_for_status E r =
     (if 400 \<le> hres_status r \<and> hres_status r < 600 then Err (service_error.Http (status_error E r)) else Ok r)"

definition read_all :: "('w, 'm) cdn_env_scheme \<Rightarrow> digesting_reader \<Rightarrow> (bytes \<times> digesting_reader, service_error) result" where
  "read_all E d = (case read_to_end (rd_chunk E) d [] of (r, d') \<Rightarrow> map_ok (\<lambda>buf. (buf, d')) (map_err service_error.IO r))"

section \<open>Downloads\<close>

definition get_from_cdn ::
    "('w, 'm) cdn_env_scheme \<Rightarrow> u32 \<Rightarrow> string \<Rightarrow> ('w, attachment_download, service_error) eff" where
  "get_from_cdn E cdn_id path =
     bindE (http_call E ''GET'' (CdnEndpoint cdn_id path None) UnidentifiedAuth id) (\<lambda>response.
     bindE (lift (error_for_status E response)) (\<lambda>response.
     pure \<lparr>dl_stream = hres_bytes response,
           dl_content_length =
             Option.bind (Option.bind (hres_headers response ''content-length'') header_to_str) parse_u64\<rparr>))"

definition get_attachment ::
    "('w, 'm) cdn_env_scheme \<Rightarrow> attachment_pointer \<Rightarrow> ('w, attachment_download, service_error) eff" where
  "get_attachment E ptr =
     (let cdn_number = (case ap_cdn_number ptr of Some n \<Rightarrow> n | None \<Rightarrow> 0) in
      case ap_identifier ptr of
        Some (CdnId i) \<Rightarrow> get_from_cdn E cdn_number (''attachments/'' @ nat_to_string (unat i))
      | Some (CdnKey key) \<Rightarrow> get_from_cdn E cdn_number (''attachments/'' @ percent_encode E ENCODE_URI_COMPONENT key)
      | None \<Rightarrow> throw (InvalidFrame ''no attachment identifier in pointer''))"

definition archive_total :: "u64 \<Rightarrow> http_response \<Rightarrow> (u64, service_error) result" where
  "archive_total range_start response =
     (if range_start = 0 then
        and_then (ok_or (InvalidFrame ''Content-Length header absent'') (hres_headers response ''content-length'')) (\<lambda>v.
        and_then (ok_or (InvalidFrame ''Content-Length is not valid UTF-8'') (header_to_str v)) (\<lambda>v.
        ok_or (InvalidFrame ''Content-Length is not a number'') (parse_u64 v)))
      else if hres_status response \<noteq> 206 then
        and_then (hres_text response) (\<lambda>body. Err (UnhandledResponseCode (hres_status response) body))
      else if (case Option.bind (hres_headers response ''content-type'') header_to_str of
                 Some ct \<Rightarrow> str_contains ''multipart'' ct | None \<Rightarrow> False) then
        Err (InvalidFrame ''multipart response not supported for range requests'')
      else
        and_then (ok_or (InvalidFrame ''Content-Range header absent'') (hres_headers response ''content-range'')) (\<lambda>v.
        and_then (ok_or (InvalidFrame ''Content-Range is not valid UTF-8'') (header_to_str v)) (\<lambda>v.
        ok_or (InvalidFrame ''Content-Range total is not a number'') (parse_u64 (last (split_on (\<lambda>c. c = CHR ''/'') v))))))"

definition download_transfer_archive ::
    "('w, 'm) cdn_env_scheme \<Rightarrow> u32 \<Rightarrow> string \<Rightarrow> u64 \<Rightarrow> ('w, (bytes, service_error) result \<times> u64, service_error) eff" where
  "download_transfer_archive E cdn_id key range_start =
     bindE (http_call E ''GET'' (CdnEndpoint cdn_id (''attachments/'' @ percent_encode E ENCODE_URI_COMPONENT key) None)
              UnidentifiedAuth
              (\<lambda>r. if range_start > 0 then http_header ''range'' (''bytes='' @ nat_to_string (unat range_start) @ ''-'') r else r))
       (\<lambda>response.
     bindE (lift (error_for_status E response)) (\<lambda>response.
     bindE (lift (archive_total range_start response)) (\<lambda>total_bytes.
     pure (hres_bytes response, total_bytes))))"

section \<open>Upload forms\<close>

definition get_attachment_v4_upload_attributes ::
    "('w, 'm) cdn_env_scheme \<Rightarrow> ('w, attachment_upload_form, service_error) eff" where
  "get_attachment_v4_upload_attributes E =
     bindE (http_call E ''GET'' (ServiceEndpoint ''/v4/attachments/form/upload'') NoOverride id) (\<lambda>response.
     bindE (lift (service_error_for_status_with (he_http E) http_ops
              (get_attachment_upload_form_errors (he_http E) http_ops) response)) (\<lambda>response.
     lift (upload_form_json E response)))"

definition with_headers :: "(string \<times> string) list \<Rightarrow> http_req \<Rightarrow> http_req" where
  "with_headers hs r = fold (\<lambda>(k, v). http_header k v) hs r"

definition get_attachment_resumable_upload_url ::
    "('w, 'm) cdn_env_scheme \<Rightarrow> attachment_upload_form \<Rightarrow> ('w, string, service_error) eff" where
  "get_attachment_resumable_upload_url E form =
     bindE (lift (push_request (he_urls E) (he_service E) ''POST''
              (AbsoluteEndpoint (auf_signed_upload_location form)) UnidentifiedAuth)) (\<lambda>request.
     let request = http_header ''content-length'' ''0'' (with_headers (auf_headers form) request) in
     bindE (if auf_cdn form = 2 then pure (http_header ''content-type'' ''application/octet-stream'' request)
            else if auf_cdn form = 3
            then pure (http_header ''Tus-Resumable'' ''1.0.0'' (http_header ''Upload-Defer-Length'' ''1'' request))
            else throw (UnknownCdnVersion (auf_cdn form))) (\<lambda>request.
     bindE (execute E request) (\<lambda>response.
     bindE (lift (error_for_status E response)) (\<lambda>response.
     bindE (lift (ok_or (InvalidFrame ''missing location header in HTTP response'') (hres_headers response ''location''))) (\<lambda>v.
     bindE (lift (ok_or (InvalidFrame ''invalid location header bytes in HTTP response'') (header_to_str v))) (\<lambda>v.
     lift (map_err InvalidUrl (url_parse E v))))))))"

section \<open>Where an upload continues\<close>

definition range_offset :: "http_response \<Rightarrow> (u64, service_error) result" where
  "range_offset response =
     (case hres_headers response ''range'' of
        None \<Rightarrow> Ok 0
      | Some value \<Rightarrow>
          and_then (ok_or (InvalidFrame ''invalid format for Range HTTP header'') (header_to_str value)) (\<lambda>v.
          let parts = split_on (\<lambda>c. c = CHR ''-'') v in
          and_then (ok_or (InvalidFrame ''invalid value format for Range HTTP header'')
                      (if length parts > 1 then Some (parts ! 1) else None)) (\<lambda>last_byte.
          and_then (ok_or (InvalidFrame ''invalid number format for Range HTTP header'') (parse_u64 last_byte)) (\<lambda>n.
          checked_add n 1))))"

definition get_attachment_resume_info_cdn2 ::
    "('w, 'm) cdn_env_scheme \<Rightarrow> string \<Rightarrow> u64 \<Rightarrow> ('w, resume_info, service_error) eff" where
  "get_attachment_resume_info_cdn2 E resumable_url content_length =
     bindE (http_call E ''PUT'' (cdn_url (he_urls E) 2 resumable_url) UnidentifiedAuth
              (http_header ''content-range'' (''bytes */'' @ nat_to_string (unat content_length)))) (\<lambda>response.
     bindE (lift (error_for_status E response)) (\<lambda>response.
     if 200 \<le> hres_status response \<and> hres_status response < 300
     then pure \<lparr>content_range = None, content_start = content_length\<rparr>
     else if hres_status response = 308 then
       bindE (lift (range_offset response)) (\<lambda>offset.
       bindE (lift (checked_sub content_length 1)) (\<lambda>last_byte.
       pure \<lparr>content_range = Some (''bytes '' @ nat_to_string (unat offset) @ ''-'' @ nat_to_string (unat last_byte)
               @ ''/'' @ nat_to_string (unat content_length)),
             content_start = offset\<rparr>))
     else throw (InvalidFrame ''failed to get resumable upload data from CDN2'')))"

definition get_attachment_resume_info_cdn3 ::
    "('w, 'm) cdn_env_scheme \<Rightarrow> string \<Rightarrow> (string \<times> string) list \<Rightarrow> ('w, resume_info, service_error) eff" where
  "get_attachment_resume_info_cdn3 E resumable_url headers =
     bindE (http_call E ''HEAD'' (cdn_url (he_urls E) 3 resumable_url) UnidentifiedAuth
              (\<lambda>r. with_headers headers (http_header ''Tus-Resumable'' ''1.0.0'' r))) (\<lambda>response.
     bindE (lift (error_for_status E response)) (\<lambda>response.
     bindE (lift (ok_or (InvalidFrame ''no Upload-Offset header in response'') (hres_headers response ''upload-offset''))) (\<lambda>v.
     bindE (lift (ok_or (InvalidFrame ''invalid upload-offset header bytes in HTTP response'') (header_to_str v))) (\<lambda>v.
     bindE (lift (ok_or (InvalidFrame ''invalid integer value for Upload-Offset header'') (parse_u64 v))) (\<lambda>offset.
     pure \<lparr>content_range = None, content_start = offset\<rparr>)))))"

section \<open>Uploads\<close>

definition whole_digest :: "('w, 'm) cdn_env_scheme \<Rightarrow> digesting_reader \<Rightarrow> attachment_digest" where
  "whole_digest E d =
     \<lparr>ad_digest = finalize (sha256 E) d, ad_incremental_digest = None, ad_incremental_mac_chunk_size = 0\<rparr>"

definition upload_to_cdn2 ::
    "('w, 'm) cdn_env_scheme \<Rightarrow> string \<Rightarrow> u64 \<Rightarrow> reader \<Rightarrow> ('w, attachment_digest, service_error) eff" where
  "upload_to_cdn2 E resumable_url content_length content =
     bindE (get_attachment_resume_info_cdn2 E resumable_url content_length) (\<lambda>resume_info.
     bindE (lift (read_all E (new_digest content))) (\<lambda>(buf, digester).
     bindE (http_call E ''PUT'' (cdn_url (he_urls E) 2 resumable_url) UnidentifiedAuth
              (\<lambda>r. http_body buf (case content_range resume_info of
                  Some value \<Rightarrow> http_header ''content-range'' value r | None \<Rightarrow> r))) (\<lambda>response.
     bindE (lift (error_for_status E response)) (\<lambda>_.
     pure (whole_digest E digester)))))"

definition upload_to_cdn3 ::
    "('w, 'm) cdn_env_scheme \<Rightarrow> string \<Rightarrow> (string \<times> string) list \<Rightarrow> u64 \<Rightarrow> reader
       \<Rightarrow> ('w, attachment_digest, service_error) eff" where
  "upload_to_cdn3 E resumable_url headers content_length content =
     bindE (get_attachment_resume_info_cdn3 E resumable_url headers) (\<lambda>resume_info.
     if content_start resume_info = content_length
     then bindE (lift (read_all E (new_digest content))) (\<lambda>(buf, digester). pure (whole_digest E digester))
     else
       bindE (lift (read_all E (digest_seek (unat (content_start resume_info)) (new_digest content)))) (\<lambda>(buf, digester).
       bindE (http_call E ''PATCH'' (CdnEndpoint 3 (url_path (he_urls E) resumable_url) None) UnidentifiedAuth
                (\<lambda>r. http_body buf
                      (http_header ''content-type'' ''application/offset+octet-stream''
                      (http_header ''Upload-Length'' (nat_to_string (length buf))
                      (http_header ''Upload-Offset'' (nat_to_string (unat (content_start resume_info)))
                      (http_header ''Tus-Resumable'' ''1.0.0'' (with_headers headers r))))))) (\<lambda>response.
       bindE (lift (error_for_status E response)) (\<lambda>_.
       pure (whole_digest E digester)))))"

definition upload_attachment_v4 ::
    "('w, 'm) cdn_env_scheme \<Rightarrow> u32 \<Rightarrow> string \<Rightarrow> u64 \<Rightarrow> (string \<times> string) list \<Rightarrow> reader
       \<Rightarrow> ('w, attachment_digest, service_error) eff" where
  "upload_attachment_v4 E cdn_id resumable_url content_length headers content =
     (if cdn_id = 2 then upload_to_cdn2 E resumable_url content_length content
      else upload_to_cdn3 E resumable_url headers content_length content)"

definition upload_to_cdn0 ::
    "('w, 'm) cdn_env_scheme \<Rightarrow> string \<Rightarrow> attachment_v2_upload_attributes \<Rightarrow> string \<Rightarrow> reader
       \<Rightarrow> ('w, unit, service_error) eff" where
  "upload_to_cdn0 E path upload_attributes filename reader =
     bindE (lift (case read_to_end (rd_chunk E) (new_digest reader) [] of
                    (Ok buf, _) \<Rightarrow> Ok buf
                  | (_, _) \<Rightarrow> Panic ''infallible Read instance'')) (\<lambda>buf.
     bindE (http_call E ''POST'' (CdnEndpoint 0 path None) NoOverride
              (multipart E
                 [TextField ''acl'' (av2_acl upload_attributes), TextField ''key'' (av2_key upload_attributes),
                  TextField ''policy'' (av2_policy upload_attributes),
                  TextField ''Content-Type'' ''application/octet-stream'',
                  TextField ''x-amz-algorithm'' (av2_algorithm upload_attributes),
                  TextField ''x-amz-credential'' (av2_credential upload_attributes),
                  TextField ''x-amz-date'' (av2_date upload_attributes),
                  TextField ''x-amz-signature'' (av2_signature upload_attributes),
                  FileField ''file'' buf ''application/octet-stream'' filename])) (\<lambda>response.
     bindE (lift (error_for_status E response)) (\<lambda>_. pure ())))"

section \<open>Properties\<close>

text \<open>However the reads are cut, \<open>read_to_end\<close> returns and digests everything from the position to the end.\<close>

lemma read_to_end_all:
  assumes "rd_fault (dr_inner d) = None"
  shows "\<exists>d'. read_to_end chunk d buf = (Ok (buf @ remaining (dr_inner d)), d') \<and>
     dr_digest d' = dr_digest d @ remaining (dr_inner d)"
  using assms
proof (induction chunk d buf rule: read_to_end.induct)
  case (1 chunk d buf)
  define got where "got = take (Suc (chunk (length buf))) (remaining (dr_inner d))"
  define d' where "d' = \<lparr>dr_inner = (dr_inner d)\<lparr>rd_pos := rd_pos (dr_inner d) + length got\<rparr>, dr_digest = dr_digest d @ got\<rparr>"
  have step: "digest_read (Suc (chunk (length buf))) d = (Ok got, d')"
    using 1(2) by (simp add: digest_read_def read_def got_def d'_def Let_def)
  have rest: "remaining (dr_inner d) = got @ remaining (dr_inner d')"
  proof -
    have "drop (length got) (remaining (dr_inner d)) = drop (Suc (chunk (length buf))) (remaining (dr_inner d))"
      by (cases "Suc (chunk (length buf)) \<le> length (remaining (dr_inner d))") (simp_all add: got_def)
    moreover have "remaining (dr_inner d') = drop (length got) (remaining (dr_inner d))"
      by (simp add: remaining_def d'_def add.commute)
    ultimately show ?thesis
      by (simp add: got_def)
  qed
  show ?case
  proof (cases "got = []")
    case True
    then have "remaining (dr_inner d) = []"
      by (simp add: got_def)
    then show ?thesis
      using True step by (subst read_to_end.simps) (simp add: d'_def)
  next
    case False
    have "rd_fault (dr_inner d') = None"
      using 1(2) by (simp add: d'_def)
    from 1(1) [OF step [symmetric] refl False this] show ?thesis
      using False step rest by (subst read_to_end.simps) (auto simp: d'_def)
  qed
qed

lemma read_all_cursor:
  "\<exists>d. read_all E (digest_seek p (new_digest (cursor data))) = Ok (drop p data, d) \<and> dr_digest d = drop p data"
proof -
  have "rd_fault (dr_inner (digest_seek p (new_digest (cursor data)))) = None"
    by (simp add: digest_seek_def new_digest_def cursor_def)
  from read_to_end_all [OF this, of "rd_chunk E" "[]"] show ?thesis
    by (auto simp: read_all_def digest_seek_def new_digest_def cursor_def remaining_def)
qed

lemma digest_seek_0: "digest_seek 0 (new_digest (cursor data)) = new_digest (cursor data)"
  by (simp add: digest_seek_def new_digest_def cursor_def)

lemmas read_all_whole = read_all_cursor [where p = 0, unfolded digest_seek_0 drop_0]

text \<open>The requests that have been sent, as a function of the world that only sending extends.\<close>

definition records_requests :: "('w, 'm) http_env_scheme \<Rightarrow> ('w \<Rightarrow> http_req list) \<Rightarrow> bool" where
  "records_requests E sent \<longleftrightarrow> (\<forall>r s. sent (snd (execute E r s)) = sent s @ [r])"

lemma http_call_sent:
  assumes "records_requests E sent" "http_call E m e a build s = (Ok response, s')"
  shows "\<exists>r. push_request (he_urls E) (he_service E) m e a = Ok r \<and> sent s' = sent s @ [build r]"
  using assms unfolding http_call_def records_requests_def by (auto simp: bindE_Ok_iff) (metis snd_conv)

lemma push_request_basics:
  "push_request U self m e a = Ok r \<Longrightarrow> hr_method r = m \<and> hr_headers r = [] \<and> hr_body r = None"
  by (auto simp: push_request_def)

lemma http_builders [simp]:
  "hr_method (http_header k v r) = hr_method r" "hr_body (http_header k v r) = hr_body r"
  "hr_headers (http_header k v r) = hr_headers r @ [(k, v)]"
  "hr_method (http_body b r) = hr_method r" "hr_body (http_body b r) = Some b"
  "hr_headers (http_body b r) = hr_headers r"
  by (simp_all add: http_header_def http_body_def)

lemma with_headers [simp]:
  "hr_headers (with_headers hs r) = hr_headers r @ hs" "hr_method (with_headers hs r) = hr_method r"
  "hr_body (with_headers hs r) = hr_body r"
  unfolding with_headers_def by (induction hs arbitrary: r) auto

lemma resume_info_cdn2_sent:
  assumes "records_requests E sent" "get_attachment_resume_info_cdn2 E url n s = (Ok info, s')"
  shows "\<exists>q. sent s' = sent s @ [q] \<and> hr_body q = None"
proof -
  have "\<exists>r s1. http_call E ''PUT'' (cdn_url (he_urls E) 2 url) UnidentifiedAuth
      (http_header ''content-range'' (''bytes */'' @ nat_to_string (unat n))) s = (Ok r, s1) \<and> s1 = s'"
    using assms(2) unfolding get_attachment_resume_info_cdn2_def
    by (auto simp: bindE_Ok_iff split: if_splits)
  then show ?thesis
    using http_call_sent [OF assms(1)] push_request_basics by fastforce
qed

lemma resume_info_cdn3_sent:
  assumes "records_requests E sent" "get_attachment_resume_info_cdn3 E url hs s = (Ok info, s')"
  shows "\<exists>q. sent s' = sent s @ [q] \<and> hr_body q = None"
proof -
  have "\<exists>r s1. http_call E ''HEAD'' (cdn_url (he_urls E) 3 url) UnidentifiedAuth
      (\<lambda>r. with_headers hs (http_header ''Tus-Resumable'' ''1.0.0'' r)) s = (Ok r, s1) \<and> s1 = s'"
    using assms(2) unfolding get_attachment_resume_info_cdn3_def
    by (auto simp: bindE_Ok_iff)
  then show ?thesis
    using http_call_sent [OF assms(1)] push_request_basics by fastforce
qed

lemma upload_to_cdn2_sent:
  assumes log: "records_requests E sent" and run: "upload_to_cdn2 E url n (cursor data) s = (Ok dg, s')"
  shows "ad_digest dg = sha256 E data \<and>
     (\<exists>q0 q. sent s' = sent s @ [q0, q] \<and> hr_body q0 = None \<and> hr_body q = Some data)"
proof -
  obtain d where d: "read_all E (new_digest (cursor data)) = Ok (data, d)" "dr_digest d = data"
    using read_all_whole by blast
  obtain info s1 response where info: "get_attachment_resume_info_cdn2 E url n s = (Ok info, s1)"
    and put: "http_call E ''PUT'' (cdn_url (he_urls E) 2 url) UnidentifiedAuth
      (\<lambda>r. http_body data (case content_range info of Some value \<Rightarrow> http_header ''content-range'' value r | None \<Rightarrow> r)) s1
      = (Ok response, s')"
    and dg: "dg = whole_digest E d"
    using run by (auto simp: upload_to_cdn2_def bindE_Ok_iff d(1))
  then show ?thesis
    using resume_info_cdn2_sent [OF log info] http_call_sent [OF log put] d(2)
    by (fastforce simp: whole_digest_def finalize_def)
qed

lemma upload_to_cdn3_sent:
  assumes log: "records_requests E sent" and run: "upload_to_cdn3 E url hs n (cursor data) s = (Ok dg, s')"
  shows "\<exists>info s1 q0. get_attachment_resume_info_cdn3 E url hs s = (Ok info, s1) \<and> hr_body q0 = None \<and>
     (if content_start info = n then ad_digest dg = sha256 E data \<and> sent s' = sent s @ [q0]
      else (let suffix = drop (unat (content_start info)) data in
        ad_digest dg = sha256 E suffix \<and>
        (\<exists>q. sent s' = sent s @ [q0, q] \<and> hr_body q = Some suffix \<and>
             {(''Upload-Offset'', nat_to_string (unat (content_start info))), (''Upload-Length'', nat_to_string (length suffix))}
               \<subseteq> set (hr_headers q))))"
proof -
  obtain info s1 where info: "get_attachment_resume_info_cdn3 E url hs s = (Ok info, s1)"
    using run by (auto simp: upload_to_cdn3_def bindE_Ok_iff)
  obtain q0 where q0: "sent s1 = sent s @ [q0]" "hr_body q0 = None"
    using resume_info_cdn3_sent [OF log info] by blast
  show ?thesis
  proof (cases "content_start info = n")
    case True
    obtain d where d: "read_all E (new_digest (cursor data)) = Ok (data, d)" "dr_digest d = data"
      using read_all_whole by blast
    have "dg = whole_digest E d" "s' = s1"
      using run True d(1) by (auto simp: upload_to_cdn3_def bindE_Ok_iff info)
    then show ?thesis
      using info q0 True d(2) by (auto simp: whole_digest_def finalize_def)
  next
    case False
    define suffix where "suffix = drop (unat (content_start info)) data"
    obtain d where d: "read_all E (digest_seek (unat (content_start info)) (new_digest (cursor data))) = Ok (suffix, d)"
      "dr_digest d = suffix"
      using read_all_cursor suffix_def by blast
    obtain response where
      patch: "http_call E ''PATCH'' (CdnEndpoint 3 (url_path (he_urls E) url) None) UnidentifiedAuth
                (\<lambda>r. http_body suffix
                      (http_header ''content-type'' ''application/offset+octet-stream''
                      (http_header ''Upload-Length'' (nat_to_string (length suffix))
                      (http_header ''Upload-Offset'' (nat_to_string (unat (content_start info)))
                      (http_header ''Tus-Resumable'' ''1.0.0'' (with_headers hs r)))))) s1 = (Ok response, s')"
      and dg: "dg = whole_digest E d"
      using run False d(1) by (auto simp: upload_to_cdn3_def bindE_Ok_iff info)
    show ?thesis
      using http_call_sent [OF log patch] info q0 False dg d(2)
      by (auto simp: whole_digest_def finalize_def suffix_def [symmetric] Let_def)
  qed
qed

text \<open>
  C34: what an upload sends and which digest it reports. On CDN 2 the whole content is sent and
  digested. On CDN 3 the server is asked how much it already has: a complete upload is digested
  again and nothing more is sent; otherwise only the bytes from the offset on are sent, announced
  with their own number as the length of the upload, and the digest is that of the bytes sent, which
  is the digest of the attachment only when the offset is zero.
\<close>

theorem cdn_upload_sends:
  assumes "records_requests E sent"
    and "upload_attachment_v4 E cdn url n headers (cursor data) s = (Ok dg, s')"
  shows "(cdn = 2 \<longrightarrow> ad_digest dg = sha256 E data \<and>
       (\<exists>q0 q. sent s' = sent s @ [q0, q] \<and> hr_body q0 = None \<and> hr_body q = Some data)) \<and>
     (cdn \<noteq> 2 \<longrightarrow> (\<exists>info s1 q0. get_attachment_resume_info_cdn3 E url headers s = (Ok info, s1) \<and> hr_body q0 = None \<and>
       (if content_start info = n then ad_digest dg = sha256 E data \<and> sent s' = sent s @ [q0]
        else (let suffix = drop (unat (content_start info)) data in
          ad_digest dg = sha256 E suffix \<and>
          (\<exists>q. sent s' = sent s @ [q0, q] \<and> hr_body q = Some suffix \<and>
               {(''Upload-Offset'', nat_to_string (unat (content_start info))), (''Upload-Length'', nat_to_string (length suffix))}
                 \<subseteq> set (hr_headers q))))))"
proof (intro conjI impI)
  assume "cdn = 2"
  then show "ad_digest dg = sha256 E data"
    and "\<exists>q0 q. sent s' = sent s @ [q0, q] \<and> hr_body q0 = None \<and> hr_body q = Some data"
    using upload_to_cdn2_sent [OF assms(1), of url n data s dg s'] assms(2) by (simp_all add: upload_attachment_v4_def)
next
  assume "cdn \<noteq> 2"
  then have "upload_to_cdn3 E url headers n (cursor data) s = (Ok dg, s')"
    using assms(2) by (simp add: upload_attachment_v4_def)
  from upload_to_cdn3_sent [OF assms(1) this]
  show "\<exists>info s1 q0. get_attachment_resume_info_cdn3 E url headers s = (Ok info, s1) \<and> hr_body q0 = None \<and>
       (if content_start info = n then ad_digest dg = sha256 E data \<and> sent s' = sent s @ [q0]
        else (let suffix = drop (unat (content_start info)) data in
          ad_digest dg = sha256 E suffix \<and>
          (\<exists>q. sent s' = sent s @ [q0, q] \<and> hr_body q = Some suffix \<and>
               {(''Upload-Offset'', nat_to_string (unat (content_start info))), (''Upload-Length'', nat_to_string (length suffix))}
                 \<subseteq> set (hr_headers q))))" .
qed

text \<open>A concrete network that logs requests and answers with a status and an upload offset.\<close>

definition sample_cdn :: "u16 \<Rightarrow> string \<Rightarrow> bytes \<Rightarrow> http_req list cdn_env" where
  "sample_cdn code offset body = \<lparr>he_urls = he_urls (sample_http 200), he_http = sample_pkgs,
     he_service = new_push_service (\<lambda>_. []) Staging None,
     execute = (\<lambda>r s. (Ok \<lparr>hres_status = code,
        hres_headers = (\<lambda>h. if h = ''upload-offset'' then Some offset else None), hres_text = Ok [], hres_bytes = Ok body\<rparr>, s @ [r])),
     percent_encode = (\<lambda>_. id), status_error = (\<lambda>_. []), upload_form_json = (\<lambda>_. Err Unauthorized), url_parse = Ok,
     multipart = (\<lambda>_. id), sha256 = id, rd_chunk = (\<lambda>_. 0)\<rparr>"

lemma sample_cdn_records: "records_requests (sample_cdn code offset body) id"
  by (simp add: records_requests_def sample_cdn_def)

lemma sample_cdn_request:
  "http_call (sample_cdn code offset body) m (CdnEndpoint 3 path query) a build s =
     (let q = build \<lparr>hr_method = m, hr_url = ''https://cdn3-staging.signal.org'' @ path,
          hr_basic_auth = (case a of IdentifiedAuth x \<Rightarrow> Some x | _ \<Rightarrow> None), hr_headers = [], hr_body = None\<rparr>
      in execute (sample_cdn code offset body) q s)"
  by (simp add: http_call_def sample_cdn_def sample_http_def push_request_def new_push_service_def Let_def
      split: http_auth_override.splits)

lemma sample_upload:
  "case fst (upload_attachment_v4 (sample_cdn 200 ''2'' []) 3 ''/x'' 3 [] (cursor [7, 8, 9]) []) of
     Ok dg \<Rightarrow> ad_digest dg = [9] | _ \<Rightarrow> False"
  by code_simp

lemma sample_info:
  "case fst (get_attachment_resume_info_cdn3 (sample_cdn 200 ''2'' []) ''/x'' [] []) of
     Ok info \<Rightarrow> content_start info = 2 | _ \<Rightarrow> False"
  by code_simp

text \<open>An attachment of three bytes of which the server has two: the reported digest is that of the last byte.\<close>

theorem cdn_upload_sends_witness:
  "\<exists>dg q0 q. upload_attachment_v4 (sample_cdn 200 ''2'' []) 3 ''/x'' 3 [] (cursor [7, 8, 9]) [] = (Ok dg, [q0, q]) \<and>
     ad_digest dg = [9] \<and> hr_body q = Some [9] \<and> (''Upload-Length'', ''1'') \<in> set (hr_headers q)"
proof -
  let ?E = "sample_cdn 200 ''2'' []"
  obtain dg s' where run: "upload_attachment_v4 ?E 3 ''/x'' 3 [] (cursor [7, 8, 9]) [] = (Ok dg, s')" "ad_digest dg = [9]"
    using sample_upload by (cases "upload_attachment_v4 ?E 3 ''/x'' 3 [] (cursor [7, 8, 9]) []") (auto split: result.splits)
  from cdn_upload_sends [OF sample_cdn_records run(1)]
  obtain info s1 q0 where info: "get_attachment_resume_info_cdn3 ?E ''/x'' [] [] = (Ok info, s1)"
    and parts: "if content_start info = 3 then ad_digest dg = sha256 ?E [7, 8, 9] \<and> id s' = id [] @ [q0]
        else (let suffix = drop (unat (content_start info)) [7, 8, 9] in
          ad_digest dg = sha256 ?E suffix \<and>
          (\<exists>q. id s' = id [] @ [q0, q] \<and> hr_body q = Some suffix \<and>
               {(''Upload-Offset'', nat_to_string (unat (content_start info))), (''Upload-Length'', nat_to_string (length suffix))}
                 \<subseteq> set (hr_headers q)))"
    by auto
  have "content_start info = 2"
    using sample_info info by simp
  moreover have "nat_to_string (Suc 0) = ''1''"
    by code_simp
  ultimately show ?thesis
    using parts run by (auto simp: Let_def)
qed

end
