(* ===== verification/Attachments.thy ===== *)
theory Attachments
  imports Cdn Attachment_Cipher
begin

text \<open>
  Uploading an attachment (\<open>upload_attachment\<close> of \<open>sender.rs\<close>): pad, encrypt under a fresh key, ask for
  an upload form and a resumable location, upload, and describe the result in a pointer. The padded
  length is computed in floating point whose rounding the language leaves open, so
  \<open>attachment_bracket len\<close> stands for \<open>1.05.powf((len as f64).log(1.05).ceil()).floor() as usize\<close>.
\<close>

record attachment_spec =
  as_content_type :: string
  as_length :: nat
  as_file_name :: "string option"
  as_preview :: "bytes option"
  as_voice_note :: "bool option"
  as_borderless :: "bool option"
  as_width :: "u32 option"
  as_height :: "u32 option"
  as_caption :: "string option"
  as_blur_hash :: "string option"

record 'w upload_env = "'w cdn_env" +
  up_cipher :: cbc_mac
  up_random :: "nat \<Rightarrow> 'w \<Rightarrow> bytes \<times> 'w"
  up_now_millis :: "'w \<Rightarrow> u64 \<times> 'w"
  attachment_bracket :: "nat \<Rightarrow> nat"

definition padded_len :: "('w, 'm) upload_env_scheme \<Rightarrow> nat \<Rightarrow> nat" where
  "padded_len E len = max 541 (attachment_bracket E len)"

definition pad_attachment :: "('w, 'm) upload_env_scheme \<Rightarrow> bytes \<Rightarrow> bytes" where
  "pad_attachment E contents =
     (let len = length contents in
      if padded_len E len < len then contents else resize (padded_len E len) 0 contents)"

definition attachment_flags :: "attachment_spec \<Rightarrow> u32" where
  "attachment_flags spec =
     or (if as_voice_note spec = Some True then 1 else 0) (if as_borderless spec = Some True then 2 else 0)"

definition upload_attachment ::
    "('w, 'm) upload_env_scheme \<Rightarrow> attachment_spec \<Rightarrow> bytes \<Rightarrow> ('w, attachment_pointer, service_error) eff" where
  "upload_attachment E spec contents =
     bindE (drawE (up_random E 64)) (\<lambda>key.
     bindE (drawE (up_random E 16)) (\<lambda>iv.
     let len = length contents;
         (encrypted, contents) = encrypt_in_place (up_cipher E) iv key (pad_attachment E contents) in
     bindE (lift (case encrypted of Panic p \<Rightarrow> Panic p | _ \<Rightarrow> Ok ())) (\<lambda>_.
     bindE (get_attachment_v4_upload_attributes E) (\<lambda>form.
     bindE (get_attachment_resumable_upload_url E form) (\<lambda>resumable_upload_url.
     bindE (upload_attachment_v4 E (auf_cdn form) resumable_upload_url (of_nat (length contents)) (auf_headers form)
              (cursor contents)) (\<lambda>digest.
     bindE (drawE (up_now_millis E)) (\<lambda>now.
     pure \<lparr>ap_identifier = Some (CdnKey (auf_key form)), ap_content_type = Some (as_content_type spec), ap_key = Some key,
           ap_size = Some (of_nat len), ap_thumbnail = None, ap_digest = Some (ad_digest digest),
           ap_file_name = as_file_name spec, ap_flags = Some (attachment_flags spec), ap_width = as_width spec,
           ap_height = as_height spec, ap_caption = as_caption spec, ap_blur_hash = as_blur_hash spec,
           ap_upload_timestamp = Some now, ap_cdn_number = Some (auf_cdn form), ap_client_uuid = None,
           ap_incremental_mac = None, ap_chunk_size = None\<rparr>)))))))"

section \<open>Properties\<close>

lemma pad_attachment_prefix: "\<exists>k. pad_attachment E contents = contents @ replicate k 0"
proof -
  have "pad_attachment E contents = contents @ replicate (padded_len E (length contents) - length contents) 0"
    by (auto simp: pad_attachment_def Let_def resize_def)
  then show ?thesis ..
qed

text \<open>Random values have the requested length, and neither they nor the clock send anything.\<close>

definition upload_log :: "('w, 'm) upload_env_scheme \<Rightarrow> ('w \<Rightarrow> http_req list) \<Rightarrow> bool" where
  "upload_log E sent \<longleftrightarrow> records_requests E sent \<and>
     (\<forall>n s. length (fst (up_random E n s)) = n \<and> sent (snd (up_random E n s)) = sent s) \<and>
     (\<forall>s. sent (snd (up_now_millis E s)) = sent s)"

lemma drawE_Ok_iff: "drawE f s = (Ok a, s') \<longleftrightarrow> f s = (a, s')"
  by (auto simp: drawE_def split: prod.splits)

text \<open>
  The last request carries the end of the encrypted attachment, and the pointer its key. On CDN 2
  that end is everything.
\<close>

lemma upload_attachment_sent:
  assumes log: "upload_log E sent" and M: "cbc_mac_correct (up_cipher E)"
    and run: "upload_attachment E spec contents s = (Ok ptr, s')"
  shows "\<exists>key iv b. length key = 64 \<and> length iv = 16 \<and> ap_key ptr = Some key \<and>
     encrypt_in_place (up_cipher E) iv key (pad_attachment E contents) = (Ok (), b) \<and>
     (\<forall>body. hr_body (last (sent s')) = Some body \<longrightarrow> (\<exists>n. body = drop n b \<and> (ap_cdn_number ptr = Some 2 \<longrightarrow> n = 0)))"
proof -
  obtain key iv s1 s2 where draws: "up_random E 64 s = (key, s1)" "up_random E 16 s1 = (iv, s2)"
    by (metis surj_pair)
  have lens: "length key = 64" "length iv = 16"
    using log draws unfolding upload_log_def by (metis fst_conv)+
  obtain b where b: "encrypt_in_place (up_cipher E) iv key (pad_attachment E contents) = (Ok (), b)"
    by (rule encrypt_in_place_eq [OF M lens(2), of key "pad_attachment E contents"]) simp
  obtain form :: attachment_upload_form and url dg s4 s5 now where
    up: "upload_attachment_v4 E (auf_cdn form) url (of_nat (length b)) (auf_headers form) (cursor b) s4 = (Ok dg, s5)"
    and now: "up_now_millis E s5 = (now, s')" and key: "ap_key ptr = Some key" and cdn: "ap_cdn_number ptr = Some (auf_cdn form)"
    using run by (auto simp: upload_attachment_def bindE_Ok_iff drawE_Ok_iff draws b Let_def)
  have "sent s' = sent s5"
    using log now unfolding upload_log_def by (metis snd_conv)
  moreover have "\<exists>n. body = drop n b \<and> (auf_cdn form = 2 \<longrightarrow> n = 0)" if "hr_body (last (sent s5)) = Some body" for body
  proof (cases "auf_cdn form = 2")
    case True
    then have "upload_to_cdn2 E url (of_nat (length b)) (cursor b) s4 = (Ok dg, s5)"
      using up by (simp add: upload_attachment_v4_def)
    from upload_to_cdn2_sent [OF _ this, of sent] log that show ?thesis
      by (intro exI [of _ 0]) (auto simp: upload_log_def)
  next
    case False
    then have "upload_to_cdn3 E url (auf_headers form) (of_nat (length b)) (cursor b) s4 = (Ok dg, s5)"
      using up by (simp add: upload_attachment_v4_def)
    from upload_to_cdn3_sent [OF _ this, of sent] log that False show ?thesis
      by (auto simp: upload_log_def Let_def split: if_splits)
  qed
  ultimately show ?thesis
    using lens b key cdn by auto
qed

end
