(* ===== verification/Contacts.thy ===== *)
theory Contacts
  imports Attachments Cipher_Properties Sender
begin

text \<open>
  Contact synchronisation: \<open>upload_contact_details\<close> and \<open>send_contact_details\<close> of \<open>sender.rs\<close>,
  \<open>retrieve_contacts\<close> and the iterator over the decrypted blob of \<open>receiver.rs\<close>, and the contacts of
  \<open>models.rs\<close>. Length-delimited protocol buffers are a pair of functions; the decoder returns what is
  left of the buffer.
\<close>

record contact_avatar =
  ca_content_type :: "string option"
  ca_length :: "u32 option"

record contact_details =
  cd_number :: "string option"
  cd_aci :: "string option"
  cd_aci_binary :: "bytes option"
  cd_name :: "string option"
  cd_avatar :: "contact_avatar option"
  cd_expire_timer :: "u32 option"
  cd_expire_timer_version :: "u32 option"
  cd_inbox_position :: "u32 option"

record contact_codec =
  encode_length_delimited :: "contact_details \<Rightarrow> bytes"
  decode_length_delimited :: "bytes \<Rightarrow> (string + contact_details) \<times> bytes"

record attachment =
  att_content_type :: string
  att_reader :: bytes

record contact =
  ct_uuid :: uuid
  ct_phone_number :: "string option"
  ct_name :: string
  ct_expire_timer :: u32
  ct_expire_timer_version :: u32
  ct_inbox_position :: u32
  ct_avatar :: "attachment option"

datatype parse_contact_error =
    ContactProtobuf string
  | ContactUuid string
  | MissingUuid
  | MissingProfileKey
  | MissingAvatarContentType

text \<open>\<open>e164\<close> parses a phone number; a number that cannot be parsed is dropped.\<close>

definition contact_from_proto ::
    "sid_pkgs \<Rightarrow> (string \<Rightarrow> string option) \<Rightarrow> contact_details \<Rightarrow> bytes option \<Rightarrow> (contact, parse_contact_error) result" where
  "contact_from_proto S e164 details avatar_data =
     and_then (ok_or MissingUuid (parse_uuid_with_fallback S (cd_aci_binary details) (cd_aci details))) (\<lambda>uuid.
     Ok \<lparr>ct_uuid = uuid,
         ct_phone_number = Option.bind (cd_number details) e164,
         ct_name = (case cd_name details of Some n \<Rightarrow> n | None \<Rightarrow> []),
         ct_expire_timer = (case cd_expire_timer details of Some n \<Rightarrow> n | None \<Rightarrow> 0),
         ct_expire_timer_version = (case cd_expire_timer_version details of Some n \<Rightarrow> n | None \<Rightarrow> 0),
         ct_inbox_position = (case cd_inbox_position details of Some n \<Rightarrow> n | None \<Rightarrow> 0),
         ct_avatar =
           Option.bind (cd_avatar details) (\<lambda>avatar.
             case (ca_content_type avatar, avatar_data) of
               (Some content_type, Some data) \<Rightarrow> Some \<lparr>att_content_type = content_type, att_reader = data\<rparr>
             | _ \<Rightarrow> None)\<rparr>)"

section \<open>Reading contacts\<close>

text \<open>\<open>DeviceContactsIterator::next\<close> on the buffer that is left; \<open>Ok None\<close> ends the iteration.\<close>

definition next_contact ::
    "contact_codec \<Rightarrow> sid_pkgs \<Rightarrow> (string \<Rightarrow> string option)
       \<Rightarrow> (bytes, (contact, parse_contact_error) result option, unit) eff" where
  "next_contact K S e164 buffer =
     (if buffer = [] then (Ok None, buffer)
      else
        (case decode_length_delimited K buffer of
           (Inl e, rest) \<Rightarrow> (Ok None, rest)
         | (Inr details, rest) \<Rightarrow>
             (case Option.bind (cd_avatar details) ca_length of
                Some n \<Rightarrow>
                  if unat n \<le> length rest
                  then (Ok (Some (contact_from_proto S e164 details (Some (take (unat n) rest)))), drop (unat n) rest)
                  else (Panic ''advance out of bounds'', rest)
              | None \<Rightarrow> (Ok (Some (contact_from_proto S e164 details None)), rest))))"

definition MAX_DOWNLOAD_RETRIES :: nat where
  "MAX_DOWNLOAD_RETRIES = 3"

text \<open>The loop of \<open>retrieve_contacts\<close>; the number is the attempts that are left.\<close>

primrec download_blob ::
    "('w, 'm) cdn_env_scheme \<Rightarrow> attachment_pointer \<Rightarrow> nat \<Rightarrow> ('w, (bytes, service_error) result, service_error) eff" where
  "download_blob E blob 0 = throw (Timeout ''too many retries'')"
| "download_blob E blob (Suc n) =
     matchE (get_attachment E blob)
       (\<lambda>download. pure (dl_stream download))
       (\<lambda>e. case e of Timeout _ \<Rightarrow> download_blob E blob n | _ \<Rightarrow> throw e)"

text \<open>The result is the buffer of the iterator.\<close>

definition retrieve_contacts ::
    "('w, 'm) cdn_env_scheme \<Rightarrow> cbc_mac \<Rightarrow> attachment_pointer option \<Rightarrow> ('w, bytes, service_error) eff" where
  "retrieve_contacts E M blob =
     (case blob of
        None \<Rightarrow> pure []
      | Some blob \<Rightarrow>
          bindE (download_blob E blob MAX_DOWNLOAD_RETRIES) (\<lambda>stream.
          bindE (lift (case stream of Ok ciphertext \<Rightarrow> Ok ciphertext | _ \<Rightarrow> Panic ''streamed attachment'')) (\<lambda>ciphertext.
          let key = (case ap_key blob of Some k \<Rightarrow> k | None \<Rightarrow> []) in
          if length key \<noteq> 64 then lift (Panic ''key material for attachments is ought to be 64 bytes'')
          else
            lift (case decrypt_in_place M key ciphertext of
                    (Ok _, plaintext) \<Rightarrow> Ok plaintext
                  | _ \<Rightarrow> Panic ''attachment decryption''))))"

section \<open>Sending contacts\<close>

definition contact_spec :: "nat \<Rightarrow> attachment_spec" where
  "contact_spec len =
     \<lparr>as_content_type = ''application/octet-stream'', as_length = len, as_file_name = None, as_preview = None,
      as_voice_note = None, as_borderless = None, as_width = None, as_height = None, as_caption = None, as_blur_hash = None\<rparr>"

definition upload_contact_details ::
    "('w, 'm) upload_env_scheme \<Rightarrow> contact_codec \<Rightarrow> contact_details list \<Rightarrow> ('w, attachment_pointer, service_error) eff" where
  "upload_contact_details E K contacts =
     (let out = concat (map (encode_length_delimited K) contacts)
      in upload_attachment E (contact_spec (length out)) out)"

definition send_contact_details ::
    "('w, 'm) sender_env_scheme \<Rightarrow> ('w, 'n) upload_env_scheme \<Rightarrow> contact_codec \<Rightarrow> message_sender
       \<Rightarrow> contact_details list \<Rightarrow> bool \<Rightarrow> ('w, unit, message_sender_error) eff" where
  "send_contact_details E U K self contacts complete =
     bindE (map_errE (MsAttachmentUploadError \<circ> UploadServiceError) (upload_contact_details U K contacts)) (\<lambda>ptr.
     bindE (with_padding E (SyncContacts (Some ptr) (Some complete))) (\<lambda>msg.
     send_sync_message E self msg))"

section \<open>Properties\<close>

text \<open>A client that takes all contacts: at most \<open>n\<close> calls of the iterator; \<open>Err\<close> when they do not reach its end.\<close>

primrec drain ::
    "nat \<Rightarrow> contact_codec \<Rightarrow> sid_pkgs \<Rightarrow> (string \<Rightarrow> string option) \<Rightarrow> bytes
       \<Rightarrow> ((contact, parse_contact_error) result list, unit) result" where
  "drain 0 K S e164 buffer = Err ()"
| "drain (Suc n) K S e164 buffer =
     (case next_contact K S e164 buffer of
        (Ok None, _) \<Rightarrow> Ok []
      | (Ok (Some item), rest) \<Rightarrow> map_ok (Cons item) (drain n K S e164 rest)
      | (Err e, _) \<Rightarrow> Err e
      | (Panic p, _) \<Rightarrow> Panic p)"

text \<open>
  Documented behaviour of length-delimited messages: decoding reads back one encoded message and
  leaves the rest, a zero length is the empty message, and every decoding consumes a byte.
\<close>

definition empty_details :: contact_details where
  "empty_details = \<lparr>cd_number = None, cd_aci = None, cd_aci_binary = None, cd_name = None, cd_avatar = None,
     cd_expire_timer = None, cd_expire_timer_version = None, cd_inbox_position = None\<rparr>"

definition consumes :: "contact_codec \<Rightarrow> bool" where
  "consumes K \<longleftrightarrow> (\<forall>b. b \<noteq> [] \<longrightarrow> (\<exists>k > 0. snd (decode_length_delimited K b) = drop k b))"

definition delimited :: "contact_codec \<Rightarrow> contact_details set \<Rightarrow> bool" where
  "delimited K C \<longleftrightarrow>
     (\<forall>c \<in> C. encode_length_delimited K c \<noteq> [] \<and>
        (\<forall>rest. decode_length_delimited K (encode_length_delimited K c @ rest) = (Inr c, rest))) \<and>
     (\<forall>rest. decode_length_delimited K (0 # rest) = (Inr empty_details, rest))"

lemma consumes_rest:
  assumes "consumes K" "decode_length_delimited K b = (r, rest)" "b \<noteq> []"
  obtains k where "0 < k" "rest = drop k b"
  using assms unfolding consumes_def by (metis snd_conv)

lemma next_contact_rest:
  assumes "consumes K" "next_contact K S e164 buffer = (Ok (Some item), rest)"
  obtains k where "0 < k" "rest = drop k buffer" "buffer \<noteq> []"
proof -
  obtain details rest1 k where d: "decode_length_delimited K buffer = (Inr details, rest1)" "buffer \<noteq> []"
    and rest: "rest = drop k rest1"
  proof (cases "Option.bind (cd_avatar (projr (fst (decode_length_delimited K buffer)))) ca_length")
    case None
    then show ?thesis
      using assms(2) that [of _ _ 0] by (auto simp: next_contact_def split: if_splits prod.splits sum.splits)
  next
    case (Some n)
    then show ?thesis
      using assms(2) that [of _ _ "unat n"] by (auto simp: next_contact_def split: if_splits prod.splits sum.splits)
  qed
  obtain j where "0 < j" "rest1 = drop j buffer"
    using consumes_rest [OF assms(1) d] .
  then show ?thesis
    using that [of "k + j"] rest d(2) by simp
qed

lemma next_contact_Panic:
  "next_contact K S e164 buffer = (Panic p, rest) \<Longrightarrow>
     p = ''advance out of bounds'' \<and> (\<exists>details rest len. decode_length_delimited K buffer = (Inr details, rest) \<and>
       Option.bind (cd_avatar details) ca_length = Some len \<and> length rest < unat len)"
  by (auto simp: next_contact_def not_le split: if_splits prod.splits sum.splits option.splits)

lemma next_contact_not_Err: "next_contact K S e164 buffer \<noteq> (Err e, rest)"
  by (auto simp: next_contact_def split: prod.splits sum.splits option.splits)


text \<open>A codec for evaluation, which knows one contact with an identifier and the empty one.\<close>

definition sample_contact :: contact_details where
  "sample_contact = empty_details\<lparr>cd_aci_binary := Some (replicate 16 7), cd_name := Some ''n''\<rparr>"

definition sample_contacts :: contact_codec where
  "sample_contacts = \<lparr>encode_length_delimited = (\<lambda>_. [1]),
     decode_length_delimited = (\<lambda>b. (if hd b = 0 then Inr empty_details else if hd b = 1 then Inr sample_contact else Inl [], tl b))\<rparr>"

lemma sample_contacts_consumes: "consumes sample_contacts"
  unfolding consumes_def by (auto simp: sample_contacts_def intro!: exI [of _ "1::nat"] simp: drop_Suc)

lemma sample_contacts_delimited: "delimited sample_contacts {sample_contact}"
  by (simp add: delimited_def sample_contacts_def)


section \<open>What another device reads\<close>

lemma drain_mono: "drain n K S e164 buffer = Ok items \<Longrightarrow> n \<le> m \<Longrightarrow> drain m K S e164 buffer = Ok items"
proof (induction n arbitrary: m buffer items)
  case (Suc n)
  then obtain m' where m: "m = Suc m'" "n \<le> m'"
    by (cases m) auto
  obtain r rest where step: "next_contact K S e164 buffer = (r, rest)"
    by fastforce
  show ?case
  proof (cases r)
    case (Ok item)
    then show ?thesis
      using Suc.prems(1) Suc.IH [OF _ m(2)] step m(1) by (cases item) auto
  qed (use Suc.prems(1) step in simp_all)
qed simp

lemma drain_zeros:
  assumes "delimited K C"
  shows "drain (Suc k) K S e164 (replicate k 0) = Ok (replicate k (Err MissingUuid))"
proof (induction k)
  case 0
  show ?case by (simp add: next_contact_def)
next
  case (Suc k)
  have "next_contact K S e164 (replicate (Suc k) 0) = (Ok (Some (Err MissingUuid)), replicate k 0)"
    using assms by (simp add: delimited_def next_contact_def empty_details_def contact_from_proto_def
        parse_uuid_with_fallback_def or_else_def)
  with Suc show ?case
    by simp
qed

lemma drain_encoded:
  assumes "delimited K C" "set cs \<subseteq> C" "\<forall>c \<in> set cs. Option.bind (cd_avatar c) ca_length = None"
    "drain n K S e164 tail = Ok items"
  shows "drain (length cs + n) K S e164 (concat (map (encode_length_delimited K) cs) @ tail) =
     Ok (map (\<lambda>c. contact_from_proto S e164 c None) cs @ items)"
  using assms(2,3)
proof (induction cs)
  case Nil
  then show ?case using assms(4) by simp
next
  case (Cons c cs)
  let ?rest = "concat (map (encode_length_delimited K) cs) @ tail"
  have "encode_length_delimited K c @ ?rest \<noteq> []"
    using assms(1) Cons.prems by (simp add: delimited_def)
  then have "next_contact K S e164 (encode_length_delimited K c @ ?rest) = (Ok (Some (contact_from_proto S e164 c None)), ?rest)"
    using assms(1) Cons.prems by (simp add: delimited_def next_contact_def)
  with Cons show ?case
    by simp
qed

lemma encoded_length:
  "delimited K C \<Longrightarrow> set cs \<subseteq> C \<Longrightarrow> length cs \<le> length (concat (map (encode_length_delimited K) cs))"
proof (induction cs)
  case (Cons c cs)
  then have "encode_length_delimited K c \<noteq> []"
    by (simp add: delimited_def)
  with Cons show ?case
    by (cases "encode_length_delimited K c") auto
qed simp

text \<open>
  C32: contacts reach the other devices, with garbage behind them. Let contacts without avatars be
  uploaded, and let the CDN serve the complete body of the last request of the upload. Then another
  device that is given the pointer downloads and decrypts it, and reads first all contacts in order
  and then, because the padding of the attachment is not removed, one error about a missing
  identifier for each byte of padding.
\<close>

theorem contacts_synchronised:
  fixes U :: "('w, 'm) upload_env_scheme" and K cs
  defines "encoded \<equiv> concat (map (encode_length_delimited K) cs)"
  assumes log: "upload_log U sent" and M: "cbc_mac_correct (up_cipher U)" and K: "delimited K (set cs)"
    and avatars: "\<forall>c \<in> set cs. Option.bind (cd_avatar c) ca_length = None"
    and upload: "upload_contact_details U K cs s = (Ok ptr, s')"
    and body: "hr_body (last (sent s')) = Some body"
      "length body = 48 + pkcs7_length (length (pad_attachment U encoded))"
    and download: "get_attachment D ptr w = (Ok dl, w')" "dl_stream dl = Ok body"
  shows "\<exists>buffer. retrieve_contacts D (up_cipher U) (Some ptr) w = (Ok buffer, w') \<and>
     (\<forall>n > length buffer. drain n K S e164 buffer =
        Ok (map (\<lambda>c. contact_from_proto S e164 c None) cs
            @ replicate (padded_len U (length encoded) - length encoded) (Err MissingUuid)))"
proof -
  define k where "k = padded_len U (length encoded) - length encoded"
  have pad: "pad_attachment U encoded = encoded @ replicate k 0"
    by (auto simp: pad_attachment_def Let_def resize_def k_def)
  obtain key iv b n where key: "length key = 64" "length iv = 16" "ap_key ptr = Some key"
    and b: "encrypt_in_place (up_cipher U) iv key (encoded @ replicate k 0) = (Ok (), b)" "body = drop n b"
    using upload_attachment_sent [OF log M] upload body(1) unfolding upload_contact_details_def Let_def
    by (metis encoded_def pad)
  obtain "length b = 48 + pkcs7_length (length (encoded @ replicate k 0))"
    and dec: "decrypt_in_place (up_cipher U) key b = (Ok (), encoded @ replicate k 0)"
    using encrypt_decrypt_in_place [OF M key(2), of key "encoded @ replicate k 0"] b(1) by auto
  then have "body = b"
    using b(2) body(2) by (cases "n = 0") (auto simp: pad)
  then have "retrieve_contacts D (up_cipher U) (Some ptr) w = (Ok (encoded @ replicate k 0), w')"
    using download key dec by (simp add: retrieve_contacts_def MAX_DOWNLOAD_RETRIES_def numeral_3_eq_3 matchE_def bindE_def)
  moreover have "drain n K S e164 (encoded @ replicate k 0) =
      Ok (map (\<lambda>c. contact_from_proto S e164 c None) cs @ replicate k (Err MissingUuid))"
    if "length (encoded @ replicate k 0) < n" for n
  proof (rule drain_mono)
    show "drain (length cs + Suc k) K S e164 (encoded @ replicate k 0) =
        Ok (map (\<lambda>c. contact_from_proto S e164 c None) cs @ replicate k (Err MissingUuid))"
      unfolding encoded_def using drain_encoded [OF K _ avatars drain_zeros [OF K]] by simp
    show "length cs + Suc k \<le> n"
      using that encoded_length [OF K, of cs] by (simp add: encoded_def)
  qed
  ultimately show ?thesis
    by (auto simp: k_def)
qed

text \<open>A network with an upload form for CDN 2.\<close>

definition sample_form :: attachment_upload_form where
  "sample_form = \<lparr>auf_cdn = 2, auf_key = ''k'', auf_headers = [], auf_signed_upload_location = ''/form''\<rparr>"

definition sample_uploads :: "http_req list upload_env" where
  "sample_uploads = \<lparr>he_urls = he_urls (sample_http 200), he_http = sample_pkgs,
     he_service = new_push_service (\<lambda>_. []) Staging None,
     execute = (\<lambda>r s. (Ok \<lparr>hres_status = 200,
        hres_headers = (\<lambda>h. if h = ''location'' then Some ''/x'' else None), hres_text = Ok [], hres_bytes = Ok []\<rparr>, s @ [r])),
     percent_encode = (\<lambda>_. id), status_error = (\<lambda>_. []), upload_form_json = (\<lambda>_. Ok sample_form), url_parse = Ok,
     multipart = (\<lambda>_. id), sha256 = id, rd_chunk = (\<lambda>_. 0), up_cipher = sample_cbc_mac,
     up_random = (\<lambda>n s. (replicate n 3, s)), up_now_millis = Pair 5, attachment_bracket = (\<lambda>_. 0)\<rparr>"

lemma sample_uploads_log: "upload_log sample_uploads id"
  by (simp add: upload_log_def records_requests_def sample_uploads_def)

lemma sample_uploads_sel [simp]:
  "he_urls sample_uploads = he_urls (sample_http 200)" "he_http sample_uploads = sample_pkgs"
  "he_service sample_uploads = new_push_service (\<lambda>_. []) Staging None"
  "execute sample_uploads r s = (Ok \<lparr>hres_status = 200,
     hres_headers = (\<lambda>h. if h = ''location'' then Some ''/x'' else None), hres_text = Ok [], hres_bytes = Ok []\<rparr>, s @ [r])"
  "upload_form_json sample_uploads r' = Ok sample_form" "url_parse sample_uploads = Ok" "sha256 sample_uploads = id"
  "up_cipher sample_uploads = sample_cbc_mac" "up_random sample_uploads n s = (replicate n 3, s)"
  "up_now_millis sample_uploads = Pair 5" "padded_len sample_uploads n = 541"
  by (simp_all add: sample_uploads_def padded_len_def)

lemma sample_upload_contacts:
  "\<exists>b ptr s'. upload_contact_details sample_uploads sample_contacts [sample_contact] [] = (Ok ptr, s') \<and>
     hr_body (last s') = Some b \<and> length b = 48 + pkcs7_length 541 \<and>
     ap_identifier ptr = Some (CdnKey ''k'') \<and> ap_cdn_number ptr = Some 2"
proof -
  have pad: "pad_attachment sample_uploads [1] = 1 # replicate 540 0"
    by (simp add: pad_attachment_def resize_def)
  obtain b where b: "encrypt_in_place sample_cbc_mac (replicate 16 3) (replicate 64 3) (1 # replicate 540 0) = (Ok (), b)"
    "length b = 48 + pkcs7_length 541"
    using encrypt_decrypt_in_place [OF sample_cbc_mac_correct, of "replicate 16 3" "replicate 64 3" "1 # replicate 540 0"]
    by auto
  obtain d where d: "read_all sample_uploads (new_digest (cursor b)) = Ok (b, d)"
    using read_all_whole by blast
  have ok: "error_for_status sample_uploads r = Ok r" if "hres_status r = 200" for r
    using that by (simp add: error_for_status_def)
  have form: "service_error_for_status_with sample_pkgs http_ops (get_attachment_upload_form_errors sample_pkgs http_ops) r = Ok r"
    if "hres_status r = 200" for r
    using that by (simp add: service_error_for_status_with_def get_attachment_upload_form_errors_def error_mapper_def
        baseline_decode_def http_ops_def Let_def)
  show ?thesis
    using b(2)
    by (simp add: upload_contact_details_def upload_attachment_def sample_contacts_def pad b(1) d ok form drawE_def Let_def bindE_def
        get_attachment_v4_upload_attributes_def http_call_def push_request_def new_push_service_def sample_http_def
        get_attachment_resumable_upload_url_def sample_form_def with_headers_def header_to_str_def
        upload_attachment_v4_def upload_to_cdn2_def get_attachment_resume_info_cdn2_def cdn_url_def)
qed

lemma sample_download:
  "ap_identifier ptr = Some (CdnKey ''k'') \<Longrightarrow> ap_cdn_number ptr = Some 2 \<Longrightarrow>
   \<exists>dl w. get_attachment (sample_cdn 200 [] b) ptr [] = (Ok dl, w) \<and> dl_stream dl = Ok b"
  by (simp add: get_attachment_def get_from_cdn_def http_call_def push_request_def new_push_service_def sample_cdn_def
      sample_http_def bindE_def error_for_status_def)

text \<open>One contact is sent; the other device reads it and 540 errors.\<close>

theorem contacts_synchronised_witness:
  "\<exists>ptr s' b buffer w. upload_contact_details sample_uploads sample_contacts [sample_contact] [] = (Ok ptr, s') \<and>
     hr_body (last s') = Some b \<and>
     retrieve_contacts (sample_cdn 200 [] b) sample_cbc_mac (Some ptr) [] = (Ok buffer, w) \<and>
     drain (Suc (length buffer)) sample_contacts sample_sids Some buffer =
       Ok (contact_from_proto sample_sids Some sample_contact None # replicate 540 (Err MissingUuid))"
proof -
  obtain b ptr s' where up: "upload_contact_details sample_uploads sample_contacts [sample_contact] [] = (Ok ptr, s')"
    and b: "hr_body (last s') = Some b" "length b = 48 + pkcs7_length 541"
    and ptr: "ap_identifier ptr = Some (CdnKey ''k'')" "ap_cdn_number ptr = Some 2"
    using sample_upload_contacts by blast
  obtain dl w where dl: "get_attachment (sample_cdn 200 [] b) ptr [] = (Ok dl, w)" "dl_stream dl = Ok b"
    using sample_download [OF ptr] by blast
  have one: "concat (map (encode_length_delimited sample_contacts) [sample_contact]) = [1]"
    by (simp add: sample_contacts_def)
  have "\<exists>buffer. retrieve_contacts (sample_cdn 200 [] b) (up_cipher sample_uploads) (Some ptr) [] = (Ok buffer, w) \<and>
     (\<forall>n > length buffer. drain n sample_contacts sample_sids Some buffer =
        Ok (map (\<lambda>c. contact_from_proto sample_sids Some c None) [sample_contact]
            @ replicate (padded_len sample_uploads (length (concat (map (encode_length_delimited sample_contacts) [sample_contact])))
                - length (concat (map (encode_length_delimited sample_contacts) [sample_contact]))) (Err MissingUuid)))"
  proof (rule contacts_synchronised [OF sample_uploads_log _ _ _ up _ _ dl])
    show "delimited sample_contacts (set [sample_contact])"
      using sample_contacts_delimited by simp
    show "length b = 48 + pkcs7_length (length (pad_attachment sample_uploads
        (concat (map (encode_length_delimited sample_contacts) [sample_contact]))))"
      unfolding one by (simp add: b(2) pad_attachment_def resize_def)
  qed (simp_all add: sample_cbc_mac_correct b sample_contact_def empty_details_def)
  then show ?thesis
    using up b(1) unfolding one by auto
qed

end
