(* ===== verification/Group_Manager.thy ===== *)
theory Group_Manager
  imports Cdn Group_Change
begin

text \<open>
  The group manager (\<open>groups_v2/manager.rs\<close>, \<open>groups_v2/utils.rs\<close>): the cache of daily credentials with
  its in-memory implementation, the authorisation for a group, and the requests that use it. The
  zero-knowledge operations, the clock and the formats are parameters. The state is the cache
  together with the world of the network.
\<close>

section \<open>The credentials cache\<close>

record 'c cache_ops =
  cc_clear :: "('c, unit, credentials_cache_error) eff"
  cc_get :: "u64 \<Rightarrow> 'c \<Rightarrow> (bytes option, credentials_cache_error) result"
  cc_write :: "(u64 \<rightharpoonup> bytes) \<Rightarrow> ('c, unit, credentials_cache_error) eff"

record in_memory_credentials_cache =
  cache_map :: "u64 \<rightharpoonup> bytes"

definition in_memory_clear :: "(in_memory_credentials_cache, unit, credentials_cache_error) eff" where
  "in_memory_clear c = (Ok (), c\<lparr>cache_map := Map.empty\<rparr>)"

definition in_memory_get :: "u64 \<Rightarrow> in_memory_credentials_cache \<Rightarrow> (bytes option, credentials_cache_error) result" where
  "in_memory_get key c = Ok (cache_map c key)"

definition in_memory_write :: "(u64 \<rightharpoonup> bytes) \<Rightarrow> (in_memory_credentials_cache, unit, credentials_cache_error) eff" where
  "in_memory_write m c = (Ok (), c\<lparr>cache_map := m\<rparr>)"

definition in_memory :: "in_memory_credentials_cache cache_ops" where
  "in_memory = \<lparr>cc_clear = in_memory_clear, cc_get = in_memory_get, cc_write = in_memory_write\<rparr>"

text \<open>The implementation for a mutable reference forwards every call to what it refers to.\<close>

definition by_mut_ref :: "'c cache_ops \<Rightarrow> 'c cache_ops" where
  "by_mut_ref C = \<lparr>cc_clear = (\<lambda>c. cc_clear C c), cc_get = (\<lambda>k c. cc_get C k c), cc_write = (\<lambda>m c. cc_write C m c)\<rparr>"

section \<open>The manager\<close>

record temporal_credential =
  tc_credential :: string
  tc_redemption_time :: u64

record 'w group_env = "'w cdn_env" +
  ge_now :: "'w \<Rightarrow> int \<times> 'w"
  ge_random :: "'w \<Rightarrow> bytes \<times> 'w"
  ge_credentials_json :: "http_response \<Rightarrow> (temporal_credential list, service_error) result"
  ge_base64_relaxed :: "string \<Rightarrow> (bytes, string) result"
  ge_response_new :: "bytes \<Rightarrow> bytes option"
  ge_receive :: "bytes \<Rightarrow> uuid \<Rightarrow> uuid \<Rightarrow> u64 \<Rightarrow> bytes \<Rightarrow> bytes option"
  ge_credential_new :: "bytes \<Rightarrow> bytes option"
  ge_present :: "bytes \<Rightarrow> bytes \<Rightarrow> bytes \<Rightarrow> bytes \<Rightarrow> bytes"
  ge_public_params :: "bytes \<Rightarrow> (bytes, string) result"
  ge_hex :: "bytes \<Rightarrow> string"
  ge_hkdf :: "bytes \<Rightarrow> bytes \<Rightarrow> bytes"

record groups_manager =
  gm_aci :: uuid
  gm_pni :: uuid
  gm_server_public_params :: bytes

record ('c, 'w) manager_state =
  ms_cache :: 'c
  ms_world :: 'w

definition on_world :: "('w, 'a, 'e) eff \<Rightarrow> (('c, 'w) manager_state, 'a, 'e) eff" where
  "on_world m = (\<lambda>s. case m (ms_world s) of (r, w) \<Rightarrow> (r, s\<lparr>ms_world := w\<rparr>))"

definition on_cache ::
    "('c, 'a, credentials_cache_error) eff \<Rightarrow> (('c, 'w) manager_state, 'a, service_error) eff" where
  "on_cache m = (\<lambda>s. case m (ms_cache s) of (r, c) \<Rightarrow> (map_err CredentialsCacheError r, s\<lparr>ms_cache := c\<rparr>))"

text \<open>\<open>CredentialResponse::parse\<close>; of two entries for the same time the later one stays.\<close>

definition parse_credential ::
    "('w, 'm) group_env_scheme \<Rightarrow> temporal_credential \<Rightarrow> (u64 \<times> bytes, service_error) result" where
  "parse_credential E c =
     and_then (map_err Base64DecodeError (ge_base64_relaxed E (tc_credential c))) (\<lambda>bytes.
     and_then (ok_or ZkGroupDeserializationFailure (ge_response_new E bytes)) (\<lambda>data.
     Ok (tc_redemption_time c, data)))"

definition parse_credentials ::
    "('w, 'm) group_env_scheme \<Rightarrow> temporal_credential list \<Rightarrow> (u64 \<rightharpoonup> bytes, service_error) result" where
  "parse_credentials E cs = map_ok (\<lambda>entries. map_of (rev entries)) (collect (map (parse_credential E) cs))"

text \<open>Midnight of the day of a time in seconds, and of the day a week later.\<close>

definition current_days_seconds :: "int \<Rightarrow> u64 \<times> u64" where
  "current_days_seconds now =
     (let today = now div 86400 in (of_int (today * 86400), of_int ((today + 7) * 86400)))"

definition fetch_credentials ::
    "('w, 'm) group_env_scheme \<Rightarrow> u64 \<Rightarrow> u64 \<Rightarrow> ('w, u64 \<rightharpoonup> bytes, service_error) eff" where
  "fetch_credentials E today today_plus_7_days =
     bindE (http_call E ''GET''
              (ServiceEndpoint (''/v1/certificate/auth/group?redemptionStartSeconds='' @ nat_to_string (unat today)
                 @ ''&redemptionEndSeconds='' @ nat_to_string (unat today_plus_7_days) @ ''&pniAsServiceId=true''))
              NoOverride id) (\<lambda>response.
     bindE (lift (service_error_for_status (he_http E) http_ops response)) (\<lambda>response.
     bindE (lift (ge_credentials_json E response)) (\<lambda>credentials.
     lift (parse_credentials E credentials))))"

definition todays_credential ::
    "'c cache_ops \<Rightarrow> ('w, 'm) group_env_scheme \<Rightarrow> u64 \<Rightarrow> u64 \<Rightarrow> (('c, 'w) manager_state, bytes, service_error) eff" where
  "todays_credential C E today today_plus_7_days =
     bindE (on_cache (\<lambda>c. (cc_get C today c, c))) (\<lambda>cached.
     case cached of
       Some response \<Rightarrow> pure response
     | None \<Rightarrow>
         bindE (on_world (fetch_credentials E today today_plus_7_days)) (\<lambda>entries.
         bindE (on_cache (cc_write C entries)) (\<lambda>_.
         bindE (on_cache (\<lambda>c. (cc_get C today c, c))) (\<lambda>cached.
         lift (ok_or (InvalidFrame ''credentials received did not contain requested day'') cached)))))"

definition get_authorization_string ::
    "('w, 'm) group_env_scheme \<Rightarrow> groups_manager \<Rightarrow> bytes \<Rightarrow> bytes \<Rightarrow> u64 \<Rightarrow> ('w, http_auth, service_error) eff" where
  "get_authorization_string E self params credential_response today =
     bindE (lift (ok_or ZkGroupVerificationFailure
              (ge_receive E (gm_server_public_params self) (gm_aci self) (gm_pni self) today credential_response))) (\<lambda>bytes.
     bindE (lift (expect ''just validated'' (ge_credential_new E bytes))) (\<lambda>auth_credential.
     bindE (drawE (ge_random E)) (\<lambda>random_bytes.
     let presentation = ge_present E (gm_server_public_params self) params random_bytes auth_credential in
     bindE (lift (map_err BincodeError (ge_public_params E params))) (\<lambda>public_params.
     pure \<lparr>ha_username = ge_hex E public_params, ha_password = ge_hex E presentation\<rparr>))))"

definition get_authorization_for_today ::
    "'c cache_ops \<Rightarrow> ('w, 'm) group_env_scheme \<Rightarrow> groups_manager \<Rightarrow> bytes
       \<Rightarrow> (('c, 'w) manager_state, http_auth, service_error) eff" where
  "get_authorization_for_today C E self params =
     bindE (on_world (drawE (ge_now E))) (\<lambda>now.
     case current_days_seconds now of (today, today_plus_7_days) \<Rightarrow>
       bindE (todays_credential C E today today_plus_7_days) (\<lambda>response.
       on_world (get_authorization_string E self params response today)))"

definition group_authorization ::
    "'c cache_ops \<Rightarrow> ('w, 'm) group_env_scheme \<Rightarrow> zkgroup \<Rightarrow> groups_manager \<Rightarrow> bytes
       \<Rightarrow> (('c, 'w) manager_state, http_auth, service_error) eff" where
  "group_authorization C E Z self master_key_bytes =
     bindE (lift (ok_or GroupsV2Error (try_into_array 32 master_key_bytes))) (\<lambda>key.
     get_authorization_for_today C E self (zk_derive_from_master_key Z key))"

definition fetch_encrypted_group ::
    "'c cache_ops \<Rightarrow> ('w, 'm) group_env_scheme \<Rightarrow> zkgroup \<Rightarrow> groups_manager \<Rightarrow> (bytes \<Rightarrow> string + 'g) \<Rightarrow> bytes
       \<Rightarrow> (('c, 'w) manager_state, 'g, service_error) eff" where
  "fetch_encrypted_group C E Z self decode master_key_bytes =
     bindE (group_authorization C E Z self master_key_bytes) (\<lambda>authorization.
     on_world (get_group E decode authorization))"

definition manager_create_group ::
    "'c cache_ops \<Rightarrow> ('w, 'm) group_env_scheme \<Rightarrow> zkgroup \<Rightarrow> groups_manager \<Rightarrow> bytes \<Rightarrow> bytes
       \<Rightarrow> (('c, 'w) manager_state, unit, service_error) eff" where
  "manager_create_group C E Z self master_key_bytes encoded_group =
     bindE (group_authorization C E Z self master_key_bytes) (\<lambda>authorization.
     on_world (create_group E authorization encoded_group))"

definition manager_patch_group ::
    "'c cache_ops \<Rightarrow> ('w, 'm) group_env_scheme \<Rightarrow> zkgroup \<Rightarrow> groups_manager \<Rightarrow> (bytes \<Rightarrow> string + 'g) \<Rightarrow> bytes \<Rightarrow> bytes
       \<Rightarrow> (('c, 'w) manager_state, 'g, service_error) eff" where
  "manager_patch_group C E Z self decode master_key_bytes encoded_actions =
     bindE (group_authorization C E Z self master_key_bytes) (\<lambda>authorization.
     on_world (patch_group E decode authorization encoded_actions))"

section \<open>Avatars and decryption\<close>

text \<open>\<open>E\<close> is here the service of the unidentified websocket.\<close>

definition retrieve_groups_v2_profile_avatar ::
    "('w, 'm) cdn_env_scheme \<Rightarrow> string \<Rightarrow> ('w, (bytes, service_error) result, service_error) eff" where
  "retrieve_groups_v2_profile_avatar E path = bindE (get_from_cdn E 0 path) (\<lambda>download. pure (dl_stream download))"

definition retrieve_avatar ::
    "('w, 'm) group_env_scheme \<Rightarrow> zkgroup \<Rightarrow> string \<Rightarrow> bytes \<Rightarrow> ('w, bytes option, service_error) eff" where
  "retrieve_avatar E Z path params =
     bindE (retrieve_groups_v2_profile_avatar E path) (\<lambda>stream.
     bindE (lift stream) (\<lambda>encrypted.
     pure (decrypt_group_avatar Z \<lparr>group_secret_params = params\<rparr> encrypted)))"

definition decrypt_group_context ::
    "zkgroup \<Rightarrow> bytes option \<Rightarrow> bytes option \<Rightarrow> (group_changes option, group_decoding_error) result" where
  "decrypt_group_context Z master_key group_change =
     (case (master_key, group_change) of
        (Some mk, Some gc) \<Rightarrow>
          and_then (ok_or WrongBlob (try_into_array 32 mk)) (\<lambda>key.
          and_then (case group_change_decode Z gc of
                      Inl e \<Rightarrow> Err (GdProtobufDecodeError e) | Inr g \<Rightarrow> Ok g) (\<lambda>encrypted.
          map_ok Some (decrypt_group_change Z \<lparr>group_secret_params = zk_derive_from_master_key Z key\<rparr> encrypted)))
      | _ \<Rightarrow> Ok None)"

definition manager_decrypt_group ::
    "zkgroup \<Rightarrow> bytes \<Rightarrow> encrypted_group \<Rightarrow> (group, service_error) result" where
  "manager_decrypt_group Z master_key_bytes encrypted =
     and_then (expect ''wrong master key bytes length'' (try_into_array 32 master_key_bytes)) (\<lambda>key.
     map_err GroupsV2DecryptionError
       (decrypt_group Z \<lparr>group_secret_params = zk_derive_from_master_key Z key\<rparr> encrypted))"

definition derive_v2_migration_master_key ::
    "('w, 'm) group_env_scheme \<Rightarrow> bytes \<Rightarrow> (bytes, signal_protocol_error) result" where
  "derive_v2_migration_master_key E gid =
     (if length gid \<noteq> 16 then Panic ''Group ID must be exactly 16 bytes''
      else Ok (ge_hkdf E gid (as_bytes ''GV2 Migration'')))"

lemma on_cache_Ok_iff:
  "on_cache m s = (Ok a, s') \<longleftrightarrow> (\<exists>c. m (ms_cache s) = (Ok a, c) \<and> s' = s\<lparr>ms_cache := c\<rparr>)"
  by (auto simp: on_cache_def split: prod.splits)

lemma on_world_Ok_iff:
  "on_world m s = (Ok a, s') \<longleftrightarrow> (\<exists>w. m (ms_world s) = (Ok a, w) \<and> s' = s\<lparr>ms_world := w\<rparr>)"
  by (auto simp: on_world_def split: prod.splits)

section \<open>What a cache promises\<close>

text \<open>
  The contract of \<open>CredentialsCache\<close>: a cache stands for a map from days to credentials, reading
  looks up that map, writing replaces it and clearing empties it. Each call may fail.
\<close>

locale credentials_cache =
  fixes C :: "'c cache_ops" and entries :: "'c \<Rightarrow> u64 \<rightharpoonup> bytes"
  assumes get_entry: "cc_get C key c = Ok r \<Longrightarrow> r = entries c key"
    and write_replaces: "cc_write C m c = (Ok (), c') \<Longrightarrow> entries c' = m"
    and clear_empties: "cc_clear C c = (Ok (), c') \<Longrightarrow> entries c' = Map.empty"
begin

text \<open>A credential that is handed out is one of today, from the cache or freshly fetched.\<close>

lemma todays_credential_sound:
  assumes "todays_credential C E today later s = (Ok r, s')"
  shows "entries (ms_cache s) today = Some r \<and> s' = s \<or>
     (\<exists>batch. fetch_credentials E today later (ms_world s) = (Ok batch, ms_world s') \<and>
        entries (ms_cache s') = batch \<and> batch today = Some r)"
proof -
  obtain cached where cached: "cc_get C today (ms_cache s) = Ok cached"
    and rest: "(case cached of Some response \<Rightarrow> pure response
      | None \<Rightarrow>
         bindE (on_world (fetch_credentials E today later)) (\<lambda>entries.
         bindE (on_cache (cc_write C entries)) (\<lambda>_.
         bindE (on_cache (\<lambda>c. (cc_get C today c, c))) (\<lambda>cached.
         lift (ok_or (InvalidFrame ''credentials received did not contain requested day'') cached))))) s = (Ok r, s')"
    using assms by (auto simp: todays_credential_def bindE_Ok_iff on_cache_Ok_iff)
  show ?thesis
  proof (cases cached)
    case None
    then show ?thesis
      using rest by (fastforce simp: bindE_Ok_iff on_cache_Ok_iff on_world_Ok_iff dest: get_entry write_replaces)
  next
    case (Some x)
    then show ?thesis
      using rest get_entry [OF cached] by simp
  qed
qed

end

text \<open>A cache whose calls do not fail.\<close>

locale reliable_cache = credentials_cache +
  assumes get_total: "\<exists>r. cc_get C key c = Ok r"
    and write_total: "fst (cc_write C m c) = Ok ()"
begin

lemma cc_get_eq [simp]: "cc_get C key c = Ok (entries c key)"
  using get_total get_entry by metis

lemma cc_write_eq:
  obtains c' where "cc_write C m c = (Ok (), c')" "entries c' = m"
  using write_total write_replaces by (metis prod.collapse)

end

text \<open>
  The abstract specification of the lookup: a partial map that is consulted first and replaced as a
  whole by what the server sends.
\<close>

definition spec_credential ::
    "('w, u64 \<rightharpoonup> bytes, service_error) eff \<Rightarrow> u64 \<Rightarrow> ((u64 \<rightharpoonup> bytes) \<times> 'w, bytes, service_error) eff" where
  "spec_credential fetch today = (\<lambda>(m, w).
     case m today of
       Some r \<Rightarrow> (Ok r, (m, w))
     | None \<Rightarrow>
         (case fetch w of
            (Ok batch, w') \<Rightarrow> (ok_or (InvalidFrame ''credentials received did not contain requested day'') (batch today), (batch, w'))
          | (Err e, w') \<Rightarrow> (Err e, (m, w'))
          | (Panic p, w') \<Rightarrow> (Panic p, (m, w'))))"

definition abs_state :: "('c \<Rightarrow> u64 \<rightharpoonup> bytes) \<Rightarrow> ('c, 'w) manager_state \<Rightarrow> (u64 \<rightharpoonup> bytes) \<times> 'w" where
  "abs_state entries s = (entries (ms_cache s), ms_world s)"

context reliable_cache
begin

lemma todays_credential_refines:
  assumes "todays_credential C E today later s = (r, s')"
  shows "spec_credential (fetch_credentials E today later) today (abs_state entries s) = (r, abs_state entries s')"
proof (cases "entries (ms_cache s) today")
  case (Some x)
  then show ?thesis
    using assms by (auto simp: todays_credential_def on_cache_def bindE_def spec_credential_def abs_state_def)
next
  case None
  obtain f w where f: "fetch_credentials E today later (ms_world s) = (f, w)"
    by fastforce
  show ?thesis
  proof (cases f)
    case (Ok batch)
    obtain c' where c': "cc_write C batch (ms_cache s) = (Ok (), c')" "entries c' = batch"
      by (rule cc_write_eq)
    show ?thesis
      using assms None f Ok c'
      by (auto simp: todays_credential_def on_cache_def on_world_def bindE_def spec_credential_def abs_state_def)
  qed (use assms None f in \<open>auto simp: todays_credential_def on_cache_def on_world_def bindE_def spec_credential_def abs_state_def\<close>)
qed

text \<open>Days that the server has covered with one answer cost no further request.\<close>

lemma covered_days:
  assumes "set (map fst days) \<subseteq> dom (entries (ms_cache s))"
  shows "mapE days (\<lambda>(day, later). todays_credential C E day later) s =
     (Ok (map (the \<circ> entries (ms_cache s) \<circ> fst) days), s)"
  using assms
proof (induction days)
  case (Cons d days)
  then obtain r where "entries (ms_cache s) (fst d) = Some r"
    by auto
  then have "(case d of (day, later) \<Rightarrow> todays_credential C E day later) s = (Ok r, s)"
    by (auto simp: todays_credential_def on_cache_def bindE_def split: prod.splits)
  with Cons \<open>entries (ms_cache s) (fst d) = Some r\<close> show ?case
    by (simp add: bindE_def)
qed simp

lemma fetched_once:
  assumes "entries (ms_cache s) day = None" "fetch_credentials E day later (ms_world s) = (Ok batch, w)"
    "day \<in> dom batch" "set (map fst days) \<subseteq> dom batch"
  shows "\<exists>c. entries c = batch \<and> mapE ((day, later) # days) (\<lambda>(day, later). todays_credential C E day later) s =
     (Ok (map (the \<circ> batch \<circ> fst) ((day, later) # days)), s\<lparr>ms_cache := c, ms_world := w\<rparr>)"
proof -
  obtain c where c: "cc_write C batch (ms_cache s) = (Ok (), c)" "entries c = batch"
    by (rule cc_write_eq)
  obtain r where "batch day = Some r"
    using assms(3) by blast
  then have "todays_credential C E day later s = (Ok r, s\<lparr>ms_cache := c, ms_world := w\<rparr>)"
    using assms(1,2) c by (simp add: todays_credential_def on_cache_def on_world_def bindE_def)
  then show ?thesis
    using covered_days [of days "s\<lparr>ms_cache := c, ms_world := w\<rparr>" E] assms(4) c \<open>batch day = Some r\<close>
    by (intro exI [of _ c]) (simp add: bindE_def)
qed

end

interpretation memory_cache: reliable_cache in_memory cache_map
  by unfold_locales (auto simp: in_memory_def in_memory_get_def in_memory_write_def in_memory_clear_def)

interpretation memory_cache_ref: reliable_cache "by_mut_ref in_memory" cache_map
  by unfold_locales (auto simp: by_mut_ref_def in_memory_def in_memory_get_def in_memory_write_def in_memory_clear_def)

section \<open>Properties\<close>

lemma fetch_credentials_sent:
  assumes "records_requests E sent" "fetch_credentials E day later w = (Ok batch, w')"
  shows "\<exists>q. sent w' = sent w @ [q]"
  using assms(2) http_call_sent [OF assms(1)] by (fastforce simp: fetch_credentials_def bindE_Ok_iff)

text \<open>
  C29: the group manager's credentials refine a map from days to credentials that is replaced as a
  whole: result, contents and network agree with the specification in every case, failures
  included. Consequently one request serves every day the server's answer covers: a first lookup and
  all later ones for covered days together send exactly one request and return the server's
  credentials for these days.
\<close>

theorem group_credentials_refine:
  assumes "records_requests E sent" "cache_map (ms_cache s) day = None"
    and "fetch_credentials E day later (ms_world s) = (Ok batch, w)"
    and "insert day (set (map fst days)) \<subseteq> dom batch"
  shows "(case todays_credential in_memory E today next_week t of
       (r, t') \<Rightarrow> spec_credential (fetch_credentials E today next_week) today (abs_state cache_map t) = (r, abs_state cache_map t')) \<and>
     (\<exists>s' q. mapE ((day, later) # days) (\<lambda>(d, l). todays_credential in_memory E d l) s =
          (Ok (map (the \<circ> batch \<circ> fst) ((day, later) # days)), s') \<and>
        cache_map (ms_cache s') = batch \<and> sent (ms_world s') = sent (ms_world s) @ [q])"
proof (intro conjI)
  show "case todays_credential in_memory E today next_week t of
       (r, t') \<Rightarrow> spec_credential (fetch_credentials E today next_week) today (abs_state cache_map t) = (r, abs_state cache_map t')"
    using memory_cache.todays_credential_refines [of E today next_week t] by (auto split: prod.splits)
  show "\<exists>s' q. mapE ((day, later) # days) (\<lambda>(d, l). todays_credential in_memory E d l) s =
          (Ok (map (the \<circ> batch \<circ> fst) ((day, later) # days)), s') \<and>
        cache_map (ms_cache s') = batch \<and> sent (ms_world s') = sent (ms_world s) @ [q]"
    using memory_cache.fetched_once [OF assms(2,3), of days] assms(4) fetch_credentials_sent [OF assms(1,3)]
    by fastforce
qed

text \<open>A server that issues credentials for two days.\<close>

definition sample_groups :: "http_req list group_env" where
  "sample_groups = \<lparr>he_urls = he_urls (sample_http 200), he_http = sample_pkgs,
     he_service = new_push_service (\<lambda>_. []) Staging None,
     execute = (\<lambda>r s. (Ok (sample_response 200), s @ [r])),
     percent_encode = (\<lambda>_. id), status_error = (\<lambda>_. []), upload_form_json = (\<lambda>_. Err Unauthorized), url_parse = Ok,
     multipart = (\<lambda>_. id), sha256 = id, rd_chunk = (\<lambda>_. 0), ge_now = Pair 0, ge_random = Pair (replicate 32 0),
     ge_credentials_json = (\<lambda>_. Ok [\<lparr>tc_credential = ''a'', tc_redemption_time = 0\<rparr>,
       \<lparr>tc_credential = ''b'', tc_redemption_time = 86400\<rparr>]),
     ge_base64_relaxed = Ok \<circ> as_bytes, ge_response_new = Some, ge_receive = (\<lambda>_ _ _ _. Some), ge_credential_new = Some,
     ge_present = (\<lambda>_ _ _. id), ge_public_params = Ok, ge_hex = map char_of_byte, ge_hkdf = (\<lambda>k i. i)\<rparr>"

lemma sample_groups_fetch:
  "\<exists>q. fetch_credentials sample_groups 0 604800 [] = (Ok [0 \<mapsto> as_bytes ''a'', 86400 \<mapsto> as_bytes ''b''], [q])"
  by (simp add: fetch_credentials_def http_call_def push_request_def new_push_service_def sample_groups_def sample_http_def
      bindE_def service_error_for_status_def baseline_decode_def http_ops_def sample_response_def Let_def
      parse_credentials_def parse_credential_def)

theorem group_credentials_refine_witness:
  "\<exists>s' q. mapE [(0, 604800), (86400, 691200), (0, 604800)] (\<lambda>(d, l). todays_credential in_memory sample_groups d l)
        \<lparr>ms_cache = \<lparr>cache_map = Map.empty\<rparr>, ms_world = []\<rparr> =
      (Ok [as_bytes ''a'', as_bytes ''b'', as_bytes ''a''], s') \<and> ms_world s' = [q]"
proof -
  let ?s = "\<lparr>ms_cache = \<lparr>cache_map = Map.empty\<rparr>, ms_world = []\<rparr> :: (in_memory_credentials_cache, http_req list) manager_state"
  obtain q where fetch: "fetch_credentials sample_groups 0 604800 (ms_world ?s) =
      (Ok [0 \<mapsto> as_bytes ''a'', 86400 \<mapsto> as_bytes ''b''], [q])"
    using sample_groups_fetch by auto
  have "records_requests sample_groups id"
    by (simp add: records_requests_def sample_groups_def)
  from group_credentials_refine [OF this _ fetch, where days = "[(86400, 691200), (0, 604800)]", THEN conjunct2]
  show ?thesis
    by auto
qed

end
