(* ===== verification/Usernames.thy ===== *)
theory Usernames
  imports Ws_Request Effect_Logic
begin

text \<open>
  User names and the links that share them (\<open>websocket/usernames.rs\<close>). A link carries the entropy
  that decrypts the user name and the handle under which the server keeps the ciphertext. The
  encryption of user names, base64 and the parsing of URLs belong to other packages and are a record
  of functions; a user name itself is opaque.
\<close>

section \<open>The code\<close>

definition USERNAME_LINK_ENTROPY_SIZE :: nat where
  "USERNAME_LINK_ENTROPY_SIZE = 32"

record ('w, 'u) username_pkgs =
  un_http :: http_pkgs
  un_sids :: sid_pkgs
  un_hash :: "'u \<Rightarrow> bytes"
  un_to_string :: "'u \<Rightarrow> string"
  un_new :: "string \<Rightarrow> 'u option"
  un_decrypt :: "bytes \<Rightarrow> bytes \<Rightarrow> string option"
  un_create :: "string \<Rightarrow> 'w \<Rightarrow> (bytes \<times> bytes) option \<times> 'w"
  un_base64_encode :: "bytes \<Rightarrow> string"
  un_base64_decode :: "string \<Rightarrow> (bytes, string) result"
  un_uuid_string :: "uuid \<Rightarrow> string"
  un_url_parse :: "string \<Rightarrow> string option"
  un_url_scheme :: "string \<Rightarrow> string"
  un_url_host :: "string \<Rightarrow> string option"
  un_url_fragment :: "string \<Rightarrow> string option"
  un_json_hash_response :: "bytes \<Rightarrow> (string, string) result"
  un_json_link_response :: "bytes \<Rightarrow> (bytes, string) result"
  un_json_set_link :: "bytes \<Rightarrow> bool \<Rightarrow> (bytes, string) result"
  un_json_link_handle :: "bytes \<Rightarrow> (uuid, string) result"

text \<open>An answer with status 404 means that there is no such entry; any other answer is decoded.\<close>

definition unless_missing ::
    "('w, 'u) username_pkgs \<Rightarrow> (bytes \<Rightarrow> ('a, string) result) \<Rightarrow> ('a \<Rightarrow> ('b, service_error) result) \<Rightarrow> ws_response
       \<Rightarrow> ('b option, service_error) result" where
  "unless_missing P from_slice f response =
     (if resp_status response = Some 404 then Ok None
      else and_then (service_error_for_status (un_http P) (ws_ops (un_http P)) response) (\<lambda>response.
           and_then (response_json from_slice response) (\<lambda>result. map_ok Some (f result))))"

definition look_up_username_hash ::
    "('w, 'u) username_pkgs \<Rightarrow> 'v socket \<Rightarrow> bytes \<Rightarrow> ('v, uuid option, service_error) eff" where
  "look_up_username_hash P request hash =
     bindE (send request (http_request ''GET'' (''/v1/accounts/username_hash/'' @ un_base64_encode P hash))) (\<lambda>response.
     lift (unless_missing P (un_json_hash_response P)
       (\<lambda>uuid. ok_or (InvalidAddressType AciKind) (aci_from_service_id_string (un_sids P) uuid)) response))"

definition look_up_username :: "('w, 'u) username_pkgs \<Rightarrow> 'v socket \<Rightarrow> 'u \<Rightarrow> ('v, uuid option, service_error) eff" where
  "look_up_username P request username = look_up_username_hash P request (un_hash P username)"

definition parse_username_link :: "('w, 'u) username_pkgs \<Rightarrow> string \<Rightarrow> (uuid \<times> bytes, service_error) result" where
  "parse_username_link P link =
     (if un_url_scheme P link \<noteq> ''https'' \<or> un_url_host P link \<noteq> Some ''signal.me''
      then Err (InvalidFrame ''username link base is not https://signal.me'')
      else
        and_then (ok_or (InvalidFrame ''username link missing fragment'') (un_url_fragment P link)) (\<lambda>fragment.
        case split_on (\<lambda>c. c = CHR ''/'') fragment of
          marker # segments \<Rightarrow>
            if marker \<noteq> ''eu'' then Err (InvalidFrame ''username link must start with #eu/'')
            else (case segments of
                [] \<Rightarrow> Err (InvalidFrame ''username link payload missing'')
              | payload # extra \<Rightarrow>
                  if extra \<noteq> [] then Err (InvalidFrame ''username link has extra path segments'')
                  else
                    and_then (map_err Base64DecodeError (un_base64_decode P payload)) (\<lambda>bytes.
                    and_then (ok_or (InvalidFrame ''username link payload shorter than entropy'')
                      (split_first_chunk USERNAME_LINK_ENTROPY_SIZE bytes)) (\<lambda>(entropy, rest).
                    and_then (ok_or (InvalidFrame ''username link payload missing handle UUID'') (try_into_array 16 rest)) (\<lambda>handle.
                    Ok (handle, entropy)))))))"

definition look_up_username_link :: "('w, 'u) username_pkgs \<Rightarrow> 'v socket \<Rightarrow> string \<Rightarrow> ('v, 'u option, service_error) eff" where
  "look_up_username_link P request link =
     bindE (lift (parse_username_link P link)) (\<lambda>(uuid, entropy).
     bindE (send request (http_request ''GET'' (''/v1/accounts/username_link/'' @ un_uuid_string P uuid))) (\<lambda>response.
     lift (unless_missing P (un_json_link_response P)
       (\<lambda>encrypted_username.
          and_then (ok_or (InvalidFrame ''undecryptable username link'') (un_decrypt P entropy encrypted_username)) (\<lambda>plaintext.
          ok_or (InvalidFrame ''undecryptable username link'') (un_new P plaintext))) response)))"

definition generate_username_link :: "('w, 'u) username_pkgs \<Rightarrow> uuid \<Rightarrow> bytes \<Rightarrow> (string, 'e) result" where
  "generate_username_link P handle entropy =
     expect ''can only generate valid URLs''
       (un_url_parse P (''https://signal.me/#eu/'' @ un_base64_encode P (entropy @ handle)))"

definition set_username_link ::
    "('w, 'u) username_pkgs \<Rightarrow> 'w socket \<Rightarrow> 'u \<Rightarrow> bool \<Rightarrow> ('w, string, service_error) eff" where
  "set_username_link P request username keep_link_handle =
     bindE (drawE (un_create P (un_to_string P username))) (\<lambda>created.
     bindE (lift (ok_or (InvalidFrame ''username too long to encrypt'') created)) (\<lambda>(entropy, ciphertext).
     bindE (send_json request (un_json_set_link P ciphertext keep_link_handle)
              (http_request ''PUT'' ''/v1/accounts/username_link'')) (\<lambda>response.
     bindE (lift (service_error_for_status_with (un_http P) (ws_ops (un_http P))
              (put_username_link_errors (un_http P) (ws_ops (un_http P))) response)) (\<lambda>response.
     bindE (lift (response_json (un_json_link_handle P) response)) (\<lambda>handle.
     lift (generate_username_link P handle entropy))))))"

section \<open>Properties\<close>

text \<open>
  What the code relies on: the URL-safe alphabet has no slash and decoding inverts encoding; a URL
  that consists of the fixed prefix and such a payload parses into its parts; an encrypted user name
  comes with 32 bytes of entropy that decrypt it, and a user name can be parsed from its text.
\<close>

definition links_correct :: "('w, 'u) username_pkgs \<Rightarrow> bool" where
  "links_correct P \<longleftrightarrow>
     (\<forall>b. un_base64_decode P (un_base64_encode P b) = Ok b \<and> CHR ''/'' \<notin> set (un_base64_encode P b)) \<and>
     (\<forall>b. \<exists>url. un_url_parse P (''https://signal.me/#eu/'' @ un_base64_encode P b) = Some url \<and>
        un_url_scheme P url = ''https'' \<and> un_url_host P url = Some ''signal.me'' \<and>
        un_url_fragment P url = Some (''eu/'' @ un_base64_encode P b))"

definition names_encrypted :: "('w, 'u) username_pkgs \<Rightarrow> bool" where
  "names_encrypted P \<longleftrightarrow>
     (\<forall>name s entropy ciphertext s'. un_create P name s = (Some (entropy, ciphertext), s') \<longrightarrow>
        length entropy = USERNAME_LINK_ENTROPY_SIZE \<and> un_decrypt P entropy ciphertext = Some name) \<and>
     (\<forall>u. un_new P (un_to_string P u) = Some u)"

lemma parse_generated_link:
  assumes "links_correct P" "length entropy = USERNAME_LINK_ENTROPY_SIZE" "length handle = 16"
  shows "\<exists>url. generate_username_link P handle entropy = Ok url \<and> parse_username_link P url = Ok (handle, entropy)"
proof -
  obtain url where url: "un_url_parse P (''https://signal.me/#eu/'' @ un_base64_encode P (entropy @ handle)) = Some url"
    "un_url_scheme P url = ''https''" "un_url_host P url = Some ''signal.me''"
    "un_url_fragment P url = Some (''eu/'' @ un_base64_encode P (entropy @ handle))"
    using assms(1) unfolding links_correct_def by blast
  have "split_on (\<lambda>c. c = CHR ''/'') (''eu/'' @ un_base64_encode P (entropy @ handle)) = [''eu'', un_base64_encode P (entropy @ handle)]"
    using assms(1) split_on_none [of "un_base64_encode P (entropy @ handle)" "\<lambda>c. c = CHR ''/''"]
    by (auto simp: links_correct_def)
  with url show ?thesis
    using assms by (simp add: generate_username_link_def parse_username_link_def links_correct_def)
qed

text \<open>
  C38: a shared user name arrives. When an account has set a link for its user name, anybody who
  follows the link the call returned, on a server that answers for the link's handle with the
  ciphertext it was given, reads that user name. The hypotheses are the documented behaviour of the
  alphabet, of URLs and of the encryption of user names, and that a handle is a UUID.
\<close>

theorem username_link_shared:
  assumes pkgs: "links_correct P" "names_encrypted P" "\<forall>b handle. un_json_link_handle P b = Ok handle \<longrightarrow> length handle = 16"
    and set: "set_username_link P request username keep s = (Ok link, s')"
  shows "\<exists>ciphertext handle response s1.
     send_json request (un_json_set_link P ciphertext keep) (http_request ''PUT'' ''/v1/accounts/username_link'') s1 = (Ok response, s') \<and>
     response_json (un_json_link_handle P) response = Ok handle \<and>
     (\<forall>server answer body w w'.
        server (http_request ''GET'' (''/v1/accounts/username_link/'' @ un_uuid_string P handle)) w = (Ok answer, w') \<and>
        resp_status answer \<noteq> Some 404 \<and> service_error_for_status (un_http P) (ws_ops (un_http P)) answer = Ok answer \<and>
        resp_body answer = Some body \<and> un_json_link_response P body = Ok ciphertext \<longrightarrow>
        look_up_username_link P server link w = (Ok (Some username), w'))"
proof -
  obtain entropy ciphertext s1 response handle where
    created: "un_create P (un_to_string P username) s = (Some (entropy, ciphertext), s1)"
    and sent: "send_json request (un_json_set_link P ciphertext keep) (http_request ''PUT'' ''/v1/accounts/username_link'') s1 = (Ok response, s')"
    and handle: "response_json (un_json_link_handle P) response = Ok handle"
    and link: "generate_username_link P handle entropy = (Ok link :: (string, service_error) result)"
    using set by (auto simp: set_username_link_def bindE_Ok_iff drawE_def put_username_link.with_Ok_iff split: prod.splits)
  have names: "length entropy = USERNAME_LINK_ENTROPY_SIZE" "un_decrypt P entropy ciphertext = Some (un_to_string P username)"
    "un_new P (un_to_string P username) = Some username"
    using pkgs(2) created unfolding names_encrypted_def by blast+
  have "length handle = 16"
    using handle pkgs(3) by (auto simp: response_json_def split: option.splits)
  then have "parse_username_link P link = Ok (handle, entropy)"
    using parse_generated_link [OF pkgs(1) names(1), of handle] link unfolding generate_username_link_def by fastforce
  then have "look_up_username_link P server link w = (Ok (Some username), w')"
    if "server (http_request ''GET'' (''/v1/accounts/username_link/'' @ un_uuid_string P handle)) w = (Ok answer, w')"
      "resp_status answer \<noteq> Some 404" "service_error_for_status (un_http P) (ws_ops (un_http P)) answer = Ok answer"
      "resp_body answer = Some body" "un_json_link_response P body = Ok ciphertext" for server answer body w w'
    using that names by (simp add: look_up_username_link_def unless_missing_def response_json_def send_def bindE_def)
  with sent handle show ?thesis
    by (intro exI conjI) auto
qed

text \<open>A concrete instance: two characters for each byte, a URL as its text, and user names in the clear.\<close>

definition two_letters :: "u8 \<Rightarrow> string" where
  "two_letters b = (if b = 47 then ''aa'' else [CHR ''b'', char_of_byte b])"

fun from_letters :: "string \<Rightarrow> bytes" where
  "from_letters (a # b # s) = (if a = CHR ''a'' then 47 else byte_of_char b) # from_letters s"
| "from_letters s = []"

lemma from_letters_encoded: "from_letters (concat (map two_letters bs)) = bs"
  by (induction bs) (simp_all add: two_letters_def)

lemma letters_no_slash: "CHR ''/'' \<notin> set (concat (map two_letters bs))"
proof -
  have "b = 47" if "char_of_byte b = CHR ''/''" for b
  proof -
    have "b = byte_of_char (CHR ''/'')"
      using that by (metis byte_of_char_of_byte)
    then show ?thesis
      by (simp add: byte_of_char_def)
  qed
  then have "CHR ''/'' \<notin> set (two_letters b)" for b
    by (auto simp: two_letters_def eq_commute [of "CHR ''/''"])
  then show ?thesis
    by fastforce
qed

definition sample_usernames :: "(unit, string) username_pkgs" where
  "sample_usernames = \<lparr>un_http = sample_pkgs, un_sids = \<lparr>service_id_string = (\<lambda>_. []),
       parse_from_service_id_string = (\<lambda>_. None), parse_from_service_id_binary = (\<lambda>_. None),
       aci_from_service_id_string = (\<lambda>_. None), pni_from_service_id_string = (\<lambda>_. None), uuid_from_str = (\<lambda>_. None)\<rparr>,
     un_hash = as_bytes, un_to_string = id, un_new = Some, un_decrypt = (\<lambda>_ c. Some (map char_of_byte c)),
     un_create = (\<lambda>name. Pair (Some (replicate 32 0, as_bytes name))),
     un_base64_encode = (\<lambda>b. concat (map two_letters b)), un_base64_decode = (\<lambda>s. Ok (from_letters s)),
     un_uuid_string = (\<lambda>_. ''uuid''), un_url_parse = Some, un_url_scheme = (\<lambda>_. ''https''),
     un_url_host = (\<lambda>_. Some ''signal.me''), un_url_fragment = (\<lambda>url. Some (drop 19 url)),
     un_json_hash_response = (\<lambda>_. Err []), un_json_link_response = Ok, un_json_set_link = (\<lambda>c _. Ok c),
     un_json_link_handle = (\<lambda>_. Ok (replicate 16 7))\<rparr>"

definition sample_answer :: ws_response where
  "sample_answer = \<lparr>resp_id = Some 1, resp_status = Some 200, resp_message = None, resp_headers = [],
     resp_body = Some (as_bytes ''alice.42'')\<rparr>"

lemma sample_links_correct: "links_correct sample_usernames" "names_encrypted sample_usernames"
  using letters_no_slash
  by (simp_all add: links_correct_def names_encrypted_def sample_usernames_def from_letters_encoded USERNAME_LINK_ENTROPY_SIZE_def)

lemma sample_put_username_link:
  "service_error_for_status_with sample_pkgs (ws_ops sample_pkgs)
     (put_username_link_errors sample_pkgs (ws_ops sample_pkgs)) sample_answer = Ok sample_answer"
  by (simp add: put_username_link.with_Ok_iff success_codes_def ws_status_code_def sample_pkgs_def sample_answer_def)

lemma sample_set_username_link:
  "\<exists>link. set_username_link sample_usernames (\<lambda>_. Pair (Ok sample_answer)) ''alice.42'' True () = (Ok link, ())"
proof -
  have "un_http sample_usernames = sample_pkgs"
    "send_json (\<lambda>_. Pair (Ok sample_answer)) (un_json_set_link sample_usernames c True) r s = (Ok sample_answer, s)"
    "response_json (un_json_link_handle sample_usernames) sample_answer = Ok (replicate 16 7)"
    "\<exists>link. generate_username_link sample_usernames (replicate 16 7) (replicate 32 0) = (Ok link :: (string, service_error) result)"
    "un_create sample_usernames = (\<lambda>name. Pair (Some (replicate 32 0, as_bytes name)))" for c r and s :: unit
    by (simp_all add: sample_usernames_def send_json_def with_json_def response_json_def generate_username_link_def sample_answer_def)
  then show ?thesis
    using sample_put_username_link unfolding set_username_link_def by (auto simp: drawE_def bindE_def)
qed

theorem username_link_shared_witness:
  "\<exists>link server. set_username_link sample_usernames (\<lambda>_. Pair (Ok sample_answer)) ''alice.42'' True () = (Ok link, ()) \<and>
     look_up_username_link sample_usernames server link () = (Ok (Some ''alice.42''), ())"
proof -
  obtain link where link: "set_username_link sample_usernames (\<lambda>_. Pair (Ok sample_answer)) ''alice.42'' True () = (Ok link, ())"
    using sample_set_username_link ..
  have handle: "\<forall>b h. un_json_link_handle sample_usernames b = Ok h \<longrightarrow> length h = 16"
    by (auto simp: sample_usernames_def)
  from username_link_shared [OF sample_links_correct handle link]
  obtain ciphertext handle where found: "\<forall>(server :: unit socket) answer body w w'.
      server (http_request ''GET'' (''/v1/accounts/username_link/'' @ un_uuid_string sample_usernames handle)) w = (Ok answer, w') \<and>
      resp_status answer \<noteq> Some 404 \<and>
      service_error_for_status (un_http sample_usernames) (ws_ops (un_http sample_usernames)) answer = Ok answer \<and>
      resp_body answer = Some body \<and> un_json_link_response sample_usernames body = Ok ciphertext \<longrightarrow>
      look_up_username_link sample_usernames server link w = (Ok (Some ''alice.42''), w')"
    by (elim exE conjE) (rule that)
  let ?answer = "sample_answer\<lparr>resp_body := Some ciphertext\<rparr>"
  have "service_error_for_status sample_pkgs (ws_ops sample_pkgs) ?answer = Ok ?answer"
    by (simp add: service_error_for_status_def baseline_decode_Ok_iff success_codes_def ws_status_code_def sample_pkgs_def sample_answer_def)
  then have "look_up_username_link sample_usernames (\<lambda>_. Pair (Ok ?answer)) link () = (Ok (Some ''alice.42''), ())"
    by (intro found [rule_format, of _ _ ?answer]) (simp add: sample_usernames_def sample_answer_def)
  with link show ?thesis
    by blast
qed

end
