(* ===== verification/Profiles.thy ===== *)
theory Profiles
  imports Profile_Cipher Ws_Request Cdn
begin

text \<open>
  Profiles on the server: the profile endpoints of \<open>websocket/profile.rs\<close>, the requests for profile
  key credentials of \<open>profile_credential.rs\<close>, and upload and retrieval in \<open>account_manager.rs\<close>. What
  zkgroup derives from a profile key (version, commitment, access key, credential requests) is a
  record of functions.
\<close>

section \<open>Credential requests\<close>

record profile_zk =
  zk_request_context :: "bytes \<Rightarrow> bytes \<Rightarrow> uuid \<Rightarrow> bytes \<Rightarrow> bytes"
  zk_serialized_request :: "bytes \<Rightarrow> bytes"
  zk_credential_response :: "bytes \<Rightarrow> bytes option"
  zk_receive_credential :: "bytes \<Rightarrow> bytes \<Rightarrow> bytes \<Rightarrow> u64 \<Rightarrow> bytes option"
  zk_version :: "bytes \<Rightarrow> uuid \<Rightarrow> string"
  zk_commitment :: "bytes \<Rightarrow> uuid \<Rightarrow> bytes"
  zk_commitment_bytes :: "bytes \<Rightarrow> (bytes, string) result"
  zk_access_key :: "bytes \<Rightarrow> bytes"
  zk_hex :: "bytes \<Rightarrow> string"

datatype profile_credential_error = Deserialization | Verification

record profile_credential_request =
  pcr_server_public_params :: bytes
  pcr_context :: bytes
  pcr_aci :: uuid
  pcr_profile_key :: bytes
  pcr_hex :: string

definition with_randomness :: "profile_zk \<Rightarrow> bytes \<Rightarrow> bytes \<Rightarrow> uuid \<Rightarrow> bytes \<Rightarrow> profile_credential_request" where
  "with_randomness Z randomness params aci_uuid key =
     (let context = zk_request_context Z params randomness aci_uuid key in
      \<lparr>pcr_server_public_params = params, pcr_context = context, pcr_aci = aci_uuid, pcr_profile_key = key,
       pcr_hex = zk_hex Z (zk_serialized_request Z context)\<rparr>)"

definition new_credential_request ::
    "profile_zk \<Rightarrow> ('w \<Rightarrow> bytes \<times> 'w) \<Rightarrow> bytes \<Rightarrow> uuid \<Rightarrow> bytes \<Rightarrow> ('w, profile_credential_request, 'e) eff" where
  "new_credential_request Z random_32 params aci_uuid key =
     bindE (drawE random_32) (\<lambda>randomness. pure (with_randomness Z randomness params aci_uuid key))"

text \<open>The clock is a number of seconds since the epoch; before the epoch it counts as zero.\<close>

definition receive_credential ::
    "profile_zk \<Rightarrow> profile_credential_request \<Rightarrow> bytes \<Rightarrow> int \<Rightarrow> (bytes, profile_credential_error) result" where
  "receive_credential Z self response now =
     and_then (ok_or Deserialization (zk_credential_response Z response)) (\<lambda>response.
     ok_or Verification (zk_receive_credential Z (pcr_server_public_params self) (pcr_context self) response
       (word_of_int (max 0 now))))"

section \<open>The endpoints\<close>

datatype 'c avatar_write = NewAvatar 'c | RetainAvatar | NoAvatar

record signal_service_profile_write =
  pw_version :: string
  pw_name :: bytes
  pw_about :: bytes
  pw_about_emoji :: bytes
  pw_avatar :: bool
  pw_same_avatar :: bool
  pw_commitment :: bytes

record ('w, 'c, 'b) profile_env = "'w cdn_env" +
  pf_identified :: "'w socket"
  pf_unidentified :: "'w socket"
  pf_sids :: sid_pkgs
  pf_zk :: profile_zk
  pf_aead :: aead
  pf_nonce :: "'w \<Rightarrow> bytes \<times> 'w"
  pf_base64 :: "bytes \<Rightarrow> string"
  pf_profile_json :: "bytes \<Rightarrow> (('c, 'b) signal_service_profile, string) result"
  pf_write_json :: "signal_service_profile_write \<Rightarrow> (bytes, string) result"
  pf_upload_url_json :: "bytes \<Rightarrow> (string, string) result"
  pf_credential_json :: "bytes \<Rightarrow> (bytes option, string) result"

definition retrieve_profile_by_id ::
    "('w, 'c, 'b, 'm) profile_env_scheme \<Rightarrow> uuid \<Rightarrow> bytes option \<Rightarrow> ('w, ('c, 'b) signal_service_profile, service_error) eff" where
  "retrieve_profile_by_id E address key =
     (let path = ''/v1/profile/'' @ service_id_string (pf_sids E) (Aci address) @
        (case key of Some k \<Rightarrow> ''/'' @ zk_version (pf_zk E) k address | None \<Rightarrow> []) in
      get_json (he_http E) (pf_identified E) path (pf_profile_json E))"

definition profile_key_credential_path :: "('w, 'c, 'b, 'm) profile_env_scheme \<Rightarrow> profile_credential_request \<Rightarrow> string" where
  "profile_key_credential_path E request =
     ''/v1/profile/'' @ service_id_string (pf_sids E) (Aci (pcr_aci request)) @ ''/''
       @ zk_version (pf_zk E) (pcr_profile_key request) (pcr_aci request) @ ''/'' @ pcr_hex request
       @ ''?credentialType=expiringProfileKey''"

definition retrieve_profile_key_credential_impl ::
    "('w, 'c, 'b, 'm) profile_env_scheme \<Rightarrow> 'w socket \<Rightarrow> profile_credential_request \<Rightarrow> bytes option
       \<Rightarrow> ('w, bytes, service_error) eff" where
  "retrieve_profile_key_credential_impl E socket request access_key =
     (let builder = http_request ''GET'' (profile_key_credential_path E request);
          builder = (case access_key of
              Some key \<Rightarrow> with_header ''Unidentified-Access-Key'' (pf_base64 E key) builder
            | None \<Rightarrow> builder) in
      bindE (send socket builder) (\<lambda>response.
      bindE (lift (service_error_for_status (he_http E) (ws_ops (he_http E)) response)) (\<lambda>response.
      bindE (lift (response_json (pf_credential_json E) response)) (\<lambda>credential.
      lift (case credential of
          Some bytes \<Rightarrow> if bytes \<noteq> [] then Ok bytes else Err UnsupportedContent
        | None \<Rightarrow> Err UnsupportedContent)))))"

definition retrieve_own_profile_key_credential ::
    "('w, 'c, 'b, 'm) profile_env_scheme \<Rightarrow> profile_credential_request \<Rightarrow> ('w, bytes, service_error) eff" where
  "retrieve_own_profile_key_credential E request = retrieve_profile_key_credential_impl E (pf_identified E) request None"

definition retrieve_profile_key_credential ::
    "('w, 'c, 'b, 'm) profile_env_scheme \<Rightarrow> profile_credential_request \<Rightarrow> ('w, bytes, service_error) eff" where
  "retrieve_profile_key_credential E request =
     retrieve_profile_key_credential_impl E (pf_unidentified E) request (Some (zk_access_key (pf_zk E) (pcr_profile_key request)))"

definition retrieve_profile_avatar ::
    "('w, 'c, 'b, 'm) profile_env_scheme \<Rightarrow> string \<Rightarrow> ('w, (bytes, service_error) result, service_error) eff" where
  "retrieve_profile_avatar E path = bindE (get_from_cdn E 0 path) (\<lambda>download. pure (dl_stream download))"

text \<open>
  \<open>write_profile\<close>: whether the answer is a URL or not, an upload that keeps or removes the avatar
  returns none.
\<close>

definition write_profile ::
    "('w, 'c, 'b, 'm) profile_env_scheme \<Rightarrow> string \<Rightarrow> bytes \<Rightarrow> bytes \<Rightarrow> bytes \<Rightarrow> bytes \<Rightarrow> 'a avatar_write
       \<Rightarrow> ('w, string option, service_error) eff" where
  "write_profile E version name about emoji commitment avatar =
     bindE (lift (map_err BincodeError (zk_commitment_bytes (pf_zk E) commitment))) (\<lambda>commitment.
     let command = \<lparr>pw_version = version, pw_name = name, pw_about = about, pw_about_emoji = emoji,
           pw_avatar = (case avatar of NoAvatar \<Rightarrow> False | _ \<Rightarrow> True),
           pw_same_avatar = (case avatar of RetainAvatar \<Rightarrow> True | _ \<Rightarrow> False), pw_commitment = commitment\<rparr> in
     bindE (send_json (pf_identified E) (pf_write_json E command) (http_request ''PUT'' ''/v1/profile'')) (\<lambda>response.
     bindE (lift (service_error_for_status (he_http E) (ws_ops (he_http E)) response)) (\<lambda>response.
     bindE (lift (to_option (response_json (pf_upload_url_json E) response))) (\<lambda>upload_url.
     lift (case avatar of
         NewAvatar _ \<Rightarrow> Panic ''Uploading avatar unimplemented''
       | RetainAvatar \<Rightarrow> Ok None
       | NoAvatar \<Rightarrow> Ok None)))))"

section \<open>The account manager\<close>

datatype (plugins only: size) profile_manager_error =
    PmServiceError service_error
  | PmCipherError profile_cipher_error

text \<open>
  An encryption with a fresh nonce. The nonce is drawn after the padding, so nothing is drawn for an
  input that is too long.
\<close>

definition with_nonce ::
    "('w, 'c, 'b, 'm) profile_env_scheme \<Rightarrow> (bytes \<Rightarrow> (bytes, profile_cipher_error) result)
       \<Rightarrow> ('w, bytes, profile_manager_error) eff" where
  "with_nonce E encryption s =
     (case pf_nonce E s of (nonce, s') \<Rightarrow>
        (map_err PmCipherError (encryption nonce), if encryption nonce = Err InputTooLong then s else s'))"

definition upload_versioned_profile ::
    "('w, 'c, 'b, 'm) profile_env_scheme \<Rightarrow> bytes option \<Rightarrow> uuid \<Rightarrow> profile_name \<Rightarrow> string option \<Rightarrow> string option
       \<Rightarrow> 'a avatar_write \<Rightarrow> ('w, string option, profile_manager_error) eff" where
  "upload_versioned_profile E own_key address name about about_emoji avatar =
     bindE (lift (expect ''set profile key in AccountManager'' own_key)) (\<lambda>key.
     let cipher = \<lparr>profile_key = key\<rparr> in
     bindE (with_nonce E (encrypt_name (pf_aead E) cipher name)) (\<lambda>name.
     bindE (with_nonce E (encrypt_about (pf_aead E) cipher (case about of Some a \<Rightarrow> a | None \<Rightarrow> []))) (\<lambda>about.
     bindE (with_nonce E (encrypt_emoji (pf_aead E) cipher (case about_emoji of Some e \<Rightarrow> e | None \<Rightarrow> []))) (\<lambda>about_emoji.
     case avatar of
       NewAvatar _ \<Rightarrow> lift (Panic ''not implemented: Setting avatar requires ProfileCipherStream'')
     | _ \<Rightarrow> map_errE PmServiceError
         (write_profile E (zk_version (pf_zk E) key address) name about about_emoji (zk_commitment (pf_zk E) key address) avatar)))))"

definition upload_versioned_profile_without_avatar ::
    "('w, 'c, 'b, 'm) profile_env_scheme \<Rightarrow> bytes option \<Rightarrow> uuid \<Rightarrow> profile_name \<Rightarrow> string option \<Rightarrow> string option
       \<Rightarrow> bool \<Rightarrow> ('w, unit, profile_manager_error) eff" where
  "upload_versioned_profile_without_avatar E own_key address name about about_emoji retain_avatar =
     bindE (upload_versioned_profile E own_key address name about about_emoji
              (if retain_avatar then RetainAvatar else NoAvatar :: unit avatar_write)) (\<lambda>_. pure ())"

definition retrieve_profile ::
    "('w, 'c, 'b, 'm) profile_env_scheme \<Rightarrow> bytes option \<Rightarrow> uuid \<Rightarrow> ('w, profile, profile_manager_error) eff" where
  "retrieve_profile E own_key address =
     bindE (lift (expect ''set profile key in AccountManager'' own_key)) (\<lambda>key.
     bindE (map_errE PmServiceError (retrieve_profile_by_id E address (Some key))) (\<lambda>encrypted.
     lift (map_err PmCipherError (decrypt_profile (pf_aead E) \<lparr>profile_key = key\<rparr> encrypted))))"

section \<open>Properties\<close>

lemma with_nonce_Ok:
  "encryption (fst (pf_nonce E s)) = Ok c \<Longrightarrow> with_nonce E encryption s = (Ok c, snd (pf_nonce E s))"
  by (simp add: with_nonce_def case_prod_unfold)

lemma with_nonce_too_long:
  "encryption (fst (pf_nonce E s)) = Err InputTooLong \<Longrightarrow> with_nonce E encryption s = (Err (PmCipherError InputTooLong), s)"
  by (simp add: with_nonce_def case_prod_unfold)

lemma encrypt_name_too_long: "257 < length (serialize n) \<Longrightarrow> encrypt_name A self n nonce = Err InputTooLong"
  by (simp add: encrypt_name_def pad_and_encrypt_too_long NAME_PADDING_BRACKETS_def)

text \<open>What the profile consists of that an account with these fields uploads.\<close>

abbreviation fits :: "profile_name \<Rightarrow> string \<Rightarrow> string \<Rightarrow> bool" where
  "fits name about emoji \<equiv> length (serialize name) \<le> 257 \<and> length about \<le> 512 \<and> length emoji \<le> 32"

abbreviation or_default :: "string option \<Rightarrow> string" where
  "or_default x \<equiv> (case x of Some a \<Rightarrow> a | None \<Rightarrow> [])"

lemma upload_encrypted:
  assumes "with_nonce E (encrypt_name (pf_aead E) \<lparr>profile_key = key\<rparr> name) s = (Ok n, t)"
    and "with_nonce E (encrypt_about (pf_aead E) \<lparr>profile_key = key\<rparr> (or_default about)) t = (Ok a, u)"
    and "with_nonce E (encrypt_emoji (pf_aead E) \<lparr>profile_key = key\<rparr> (or_default emoji)) u = (Ok e, v)"
    and "\<forall>a. avatar \<noteq> NewAvatar a"
  shows "upload_versioned_profile E (Some key) address name about emoji avatar s =
     map_errE PmServiceError (write_profile E (zk_version (pf_zk E) key address) n a e (zk_commitment (pf_zk E) key address) avatar) v"
  using assms unfolding upload_versioned_profile_def Let_def by (cases avatar) simp_all

lemma upload_too_long:
  assumes crypto: "aead_correct (pf_aead E)" "\<And>s. length (fst (pf_nonce E s)) = 12"
    and strings: "name_ok name" "str_ok (or_default about)" "no_nul (or_default about)"
      "str_ok (or_default emoji)" "no_nul (or_default emoji)"
    and long: "\<not> fits name (or_default about) (or_default emoji)"
  shows "fst (upload_versioned_profile E (Some key) address name about emoji avatar s) = Err (PmCipherError InputTooLong)"
proof -
  let ?A = "pf_aead E" and ?c = "\<lparr>profile_key = key\<rparr>"
  define s1 where "s1 = snd (pf_nonce E s)"
  define s2 where "s2 = snd (pf_nonce E s1)"
  have name: "(\<exists>n. with_nonce E (encrypt_name ?A ?c name) s = (Ok n, s1)) \<and> length (serialize name) \<le> 257 \<or>
      with_nonce E (encrypt_name ?A ?c name) s = (Err (PmCipherError InputTooLong), s)"
    using encrypt_name_ok [OF crypto(1) crypto(2) strings(1)] encrypt_name_too_long [of name ?A ?c] unfolding s1_def
    by (metis not_le with_nonce_Ok with_nonce_too_long)
  have about: "(\<exists>a. with_nonce E (encrypt_about ?A ?c (or_default about)) s1 = (Ok a, s2)) \<and> length (or_default about) \<le> 512 \<or>
      with_nonce E (encrypt_about ?A ?c (or_default about)) s1 = (Err (PmCipherError InputTooLong), s1)"
    using encrypt_about_emoji_roundtrip [OF crypto(1) crypto(2) [of s1] strings(2,3), THEN conjunct1, of ?c] unfolding s2_def
    by (metis with_nonce_Ok with_nonce_too_long)
  have emoji: "32 < length (or_default emoji) \<Longrightarrow>
      with_nonce E (encrypt_emoji ?A ?c (or_default emoji)) s2 = (Err (PmCipherError InputTooLong), s2)"
    using encrypt_about_emoji_roundtrip [OF crypto(1) crypto(2) [of s2] strings(4,5), THEN conjunct2, of ?c]
    by (metis not_le with_nonce_too_long)
  show ?thesis
    using name about emoji long unfolding upload_versioned_profile_def Let_def
    by (cases "32 < length (or_default emoji)") auto
qed

lemma upload_fits:
  assumes crypto: "aead_correct (pf_aead E)" "\<And>s. length (fst (pf_nonce E s)) = 12"
    and strings: "name_ok name" "str_ok (or_default about)" "no_nul (or_default about)"
      "str_ok (or_default emoji)" "no_nul (or_default emoji)"
    and fits: "fits name (or_default about) (or_default emoji)" and avatar: "\<forall>a. avatar \<noteq> NewAvatar a"
  obtains n a e s' where "upload_versioned_profile E (Some key) address name about emoji avatar s =
      map_errE PmServiceError (write_profile E (zk_version (pf_zk E) key address) n a e (zk_commitment (pf_zk E) key address) avatar) s'"
    and "decrypt_name (pf_aead E) \<lparr>profile_key = key\<rparr> n = Ok (Some (canonical_name name))"
    and "decrypt_about (pf_aead E) \<lparr>profile_key = key\<rparr> a = Ok (or_default about)"
    and "decrypt_emoji (pf_aead E) \<lparr>profile_key = key\<rparr> e = Ok (or_default emoji)"
proof -
  let ?A = "pf_aead E" and ?c = "\<lparr>profile_key = key\<rparr>"
  define s1 where "s1 = snd (pf_nonce E s)"
  define s2 where "s2 = snd (pf_nonce E s1)"
  obtain n where n: "encrypt_name ?A ?c name (fst (pf_nonce E s)) = Ok n" "decrypt_name ?A ?c n = Ok (Some (canonical_name name))"
    using fits by (auto intro: encrypt_name_ok [OF crypto strings(1)])
  obtain a where a: "encrypt_about ?A ?c (or_default about) (fst (pf_nonce E s1)) = Ok a" "decrypt_about ?A ?c a = Ok (or_default about)"
    using encrypt_about_emoji_roundtrip [OF crypto(1) crypto(2) [of s1] strings(2,3), THEN conjunct1, of ?c] fits by auto
  obtain e where e: "encrypt_emoji ?A ?c (or_default emoji) (fst (pf_nonce E s2)) = Ok e" "decrypt_emoji ?A ?c e = Ok (or_default emoji)"
    using encrypt_about_emoji_roundtrip [OF crypto(1) crypto(2) [of s2] strings(4,5), THEN conjunct2, of ?c] fits by auto
  have upload: "upload_versioned_profile E (Some key) address name about emoji avatar s =
      map_errE PmServiceError (write_profile E (zk_version (pf_zk E) key address) n a e (zk_commitment (pf_zk E) key address) avatar)
        (snd (pf_nonce E s2))"
    by (rule upload_encrypted [where t = s1 and u = s2, OF _ _ _ avatar]) (simp_all add: with_nonce_Ok n a e flip: s1_def s2_def)
  show thesis
    by (rule that [OF upload n(2) a(2) e(2)])
qed


text \<open>A concrete account with a name and an about text.\<close>

definition sample_profiles :: "(http_req list, unit, unit) profile_env" where
  "sample_profiles = cdn_env.extend (sample_cdn 200 ''0'' []) (profile_env.fields
     (\<lambda>_. Pair (Err Unauthorized)) (\<lambda>_. Pair (Err Unauthorized))
     \<lparr>service_id_string = (\<lambda>_. []), parse_from_service_id_string = (\<lambda>_. None), parse_from_service_id_binary = (\<lambda>_. None),
      aci_from_service_id_string = (\<lambda>_. None), pni_from_service_id_string = (\<lambda>_. None), uuid_from_str = (\<lambda>_. None)\<rparr>
     \<lparr>zk_request_context = (\<lambda>_ _ _ _. []), zk_serialized_request = id, zk_credential_response = Some,
      zk_receive_credential = (\<lambda>_ _ _ _. None), zk_version = (\<lambda>_ _. ''version''), zk_commitment = (\<lambda>_ _. []),
      zk_commitment_bytes = Ok, zk_access_key = id, zk_hex = map char_of_byte\<rparr>
     sample_aead (Pair (replicate 12 9)) (map char_of_byte) (\<lambda>_. Err []) (\<lambda>_. Err []) (\<lambda>_. Err []) (\<lambda>_. Err []))"

lemma sample_profiles_fields: "pf_aead sample_profiles = sample_aead" "pf_nonce sample_profiles = Pair (replicate 12 9)"
  by (simp_all add: sample_profiles_def cdn_env.defs profile_env.defs)


end
