(* ===== verification/Transfer_Archive.thy ===== *)
theory Transfer_Archive
  imports Http Effect_Logic
begin

text \<open>
  Waiting for the message history of the primary device
  (\<open>push_service/linking.rs::get_transfer_archive\<close>): a newly linked device polls the server until an
  archive is available or a time limit has passed. The loop is not bounded by the code, only by the
  clock, so it is a partial function whose value \<open>None\<close> means that it runs forever; times are
  nanoseconds.
\<close>

section \<open>The code\<close>

datatype transfer_archive_error = RelinkRequested | ContinueWithoutUpload

datatype transfer_archive_result = ArchiveAvailable u32 string | ArchiveError transfer_archive_error

record 'w archive_env = "'w http_env" +
  ar_now :: "'w \<Rightarrow> nat \<times> 'w"
  ar_timeout :: "nat \<Rightarrow> http_req \<Rightarrow> http_req"
  ar_json :: "bytes \<Rightarrow> (transfer_archive_result, string) result"

text \<open>\<open>min(remaining, 5 minutes)\<close> in seconds, rounded to the nearest integer, halves upwards.\<close>

definition poll_secs :: "nat \<Rightarrow> nat" where
  "poll_secs remaining = (min remaining (300 * 10 ^ 9) + 5 * 10 ^ 8) div 10 ^ 9"

text \<open>One request; \<open>None\<close> means that the archive is not ready yet.\<close>

definition poll_once :: "('w, 'm) archive_env_scheme \<Rightarrow> nat \<Rightarrow> ('w, transfer_archive_result option, service_error) eff" where
  "poll_once E remaining =
     bindE (http_call E ''GET''
              (ServiceEndpoint (''/v1/devices/transfer_archive?timeout='' @ nat_to_string (poll_secs remaining)))
              NoOverride (ar_timeout E (poll_secs remaining + 15))) (\<lambda>response.
     if hres_status response = 200 then
       bindE (lift (hres_bytes response)) (\<lambda>bytes.
       if bytes = [] then throw (InvalidFrame ''200 response had empty body'')
       else lift (map_ok Some (map_err JsonDecodeError (ar_json E bytes))))
     else if hres_status response = 204 then pure None
     else bindE (lift (hres_text response)) (\<lambda>body. throw (UnhandledResponseCode (hres_status response) body)))"

partial_function (option) poll_archive ::
    "('w, 'm) archive_env_scheme \<Rightarrow> nat \<Rightarrow> 'w \<Rightarrow> ((transfer_archive_result, service_error) result \<times> 'w) option" where
  "poll_archive E deadline s =
     (case ar_now E s of (now, s) \<Rightarrow>
        if deadline \<le> now then Some (Err (Timeout ''timed out waiting for transfer archive''), s)
        else (case poll_once E (deadline - now) s of (r, s) \<Rightarrow>
          (case r of
             Ok answer \<Rightarrow> (case answer of None \<Rightarrow> poll_archive E deadline s | Some archive \<Rightarrow> Some (Ok archive, s))
           | Err e \<Rightarrow> Some (Err e, s)
           | Panic p \<Rightarrow> Some (Panic p, s))))"

definition get_transfer_archive ::
    "('w, 'm) archive_env_scheme \<Rightarrow> nat \<Rightarrow> 'w \<Rightarrow> ((transfer_archive_result, service_error) result \<times> 'w) option" where
  "get_transfer_archive E total_timeout s =
     (case ar_now E s of (now, s) \<Rightarrow> poll_archive E (now + total_timeout) s)"

section \<open>Properties\<close>

text \<open>A clock that never runs backwards and moves on while a request is under way.\<close>

definition ticking :: "('w, 'm) archive_env_scheme \<Rightarrow> ('w \<Rightarrow> nat) \<Rightarrow> bool" where
  "ticking E clock \<longleftrightarrow>
     (\<forall>s. fst (ar_now E s) = clock s \<and> clock s \<le> clock (snd (ar_now E s))) \<and>
     (\<forall>q s. clock s < clock (snd (execute E q s)))"

lemma poll_once_not_ready:
  assumes "ticking E clock" "poll_once E remaining s = (Ok None, s')"
  shows "clock s < clock s'"
proof -
  obtain q response where "execute E q s = (Ok response, s')"
    using assms(2) by (auto simp: poll_once_def http_call_def bindE_Ok_iff split: if_splits)
  with assms(1) show ?thesis
    unfolding ticking_def by (metis snd_conv)
qed

lemma poll_once_archive:
  assumes "poll_once E remaining s = (Ok (Some archive), s')"
  shows "\<exists>q response body. execute E q s = (Ok response, s') \<and> hres_status response = 200 \<and>
     hres_bytes response = Ok body \<and> body \<noteq> [] \<and> ar_json E body = Ok archive"
  using assms by (auto simp: poll_once_def http_call_def bindE_Ok_iff split: if_splits)

lemma poll_secs_bound: "poll_secs remaining \<le> 300"
  by (simp add: poll_secs_def)

text \<open>How a finished wait can have ended.\<close>

definition wait_outcome ::
    "('w, 'm) archive_env_scheme \<Rightarrow> ('w \<Rightarrow> nat) \<Rightarrow> nat \<Rightarrow> (transfer_archive_result, service_error) result \<times> 'w \<Rightarrow> bool" where
  "wait_outcome E clock deadline outcome \<longleftrightarrow>
     (case outcome of
        (Ok archive, s') \<Rightarrow> \<exists>q s response body. execute E q s = (Ok response, s') \<and> clock s < clock s' \<and>
          hres_status response = 200 \<and> hres_bytes response = Ok body \<and> body \<noteq> [] \<and> ar_json E body = Ok archive
      | (Err e, s') \<Rightarrow> e = Timeout ''timed out waiting for transfer archive'' \<and> deadline \<le> clock s' \<or>
          (\<exists>remaining s. poll_once E remaining s = (Err e, s'))
      | (Panic p, s') \<Rightarrow> \<exists>remaining s. poll_once E remaining s = (Panic p, s'))"

lemma poll_archive_ends:
  assumes "ticking E clock"
  shows "\<exists>outcome. poll_archive E deadline s = Some outcome \<and> wait_outcome E clock deadline outcome"
proof (induction "deadline - clock s" arbitrary: s rule: less_induct)
  case less
  obtain s1 where now: "ar_now E s = (clock s, s1)" "clock s \<le> clock s1"
    using assms unfolding ticking_def by (metis prod.collapse)
  show ?case
  proof (cases "deadline \<le> clock s")
    case True
    with now show ?thesis
      by (simp add: poll_archive.simps wait_outcome_def)
  next
    case False
    obtain r s2 where poll: "poll_once E (deadline - clock s) s1 = (r, s2)"
      by fastforce
    show ?thesis
    proof (cases "r = Ok None")
      case True
      with poll assms have "clock s1 < clock s2"
        by (simp add: poll_once_not_ready)
      with now(2) False have "deadline - clock s2 < deadline - clock s"
        by simp
      from less [OF this] show ?thesis
        using now(1) False poll True by (simp add: poll_archive.simps [of E deadline s])
    next
      case ended: False
      with poll have "wait_outcome E clock deadline (map_ok the r, s2)"
        using poll_once_archive [of E "deadline - clock s" s1 _ s2] assms unfolding ticking_def wait_outcome_def
        by (cases r) (auto, metis snd_conv)
      moreover have "poll_archive E deadline s = Some (map_ok the r, s2)"
        using now(1) False poll ended by (cases r) (auto simp: poll_archive.simps [of E deadline s])
      ultimately show ?thesis
        by blast
    qed
  qed
qed


text \<open>A server that is never ready; every request takes a second.\<close>

definition sample_waiting :: "nat archive_env" where
  "sample_waiting = \<lparr>he_urls = he_urls (sample_http 200), he_http = sample_pkgs,
     he_service = new_push_service (\<lambda>_. []) Staging None, execute = (\<lambda>_ t. (Ok (sample_response 204), t + 10 ^ 9)),
     ar_now = (\<lambda>t. (t, t)), ar_timeout = (\<lambda>_. id), ar_json = (\<lambda>_. Err [])\<rparr>"


end
