(* ===== verification/Provisioning_Cipher.thy ===== *)
theory Provisioning_Cipher
  imports Crypto Ids
begin

text \<open>
  The cipher of device provisioning (\<open>provisioning/cipher.rs\<close>): the existing device encrypts a
  provision message to the public key of the new one. The envelope's body is a version byte, the
  initialisation vector, the ciphertext and a code over all of it. The ephemeral key pair and the
  initialisation vector are arguments.
\<close>

record provision_message =
  pm_aci_identity_key_public :: "bytes option"
  pm_aci_identity_key_private :: "bytes option"
  pm_pni_identity_key_public :: "bytes option"
  pm_pni_identity_key_private :: "bytes option"
  pm_aci :: "string option"
  pm_pni :: "string option"
  pm_number :: "string option"
  pm_provisioning_code :: "string option"
  pm_user_agent :: "string option"
  pm_profile_key :: "bytes option"
  pm_read_receipts :: "bool option"
  pm_provisioning_version :: "u32 option"
  pm_ephemeral_backup_key :: "bytes option"
  pm_account_entropy_pool :: "string option"
  pm_media_root_backup_key :: "bytes option"
  pm_aci_binary :: "bytes option"
  pm_pni_binary :: "bytes option"

record provision_envelope =
  pe_public_key :: "bytes option"
  pe_body :: "bytes option"

datatype (plugins only: size) provisioning_error =
    MissingUrl
  | BadVersionNumber
  | MissingPublicKey
  | MissingPrivateKey
  | InvalidPublicKey string
  | InvalidPrivateKey string
  | PvMissingUuid
  | MissingMessage
  | PvMissingProfileKey
  | MissingPhoneNumber
  | PvInvalidPhoneNumber
  | MissingProvisioningCode
  | MismatchedMac
  | AesPaddingError
  | InvalidStep
  | DecodeError string
  | PvWsError string
  | PvWsClosing
  | PvServiceError service_error
  | PvProtocolError signal_protocol_error
  | PvInvalidDeviceId
  | EncryptOnlyProvisioningCipher
  | InvalidProfileKey
  | InvalidAccountEntropyPool string
  | InvalidEphemeralBackupKey nat

datatype cipher_mode = DecryptAndEncrypt key_pair | EncryptOnly bytes

primrec cipher_mode_public :: "cipher_mode \<Rightarrow> bytes" where
  "cipher_mode_public (DecryptAndEncrypt pair) = kp_public pair"
| "cipher_mode_public (EncryptOnly pub_key) = pub_key"

definition PROVISIONING_VERSION :: u8 where "PROVISIONING_VERSION = 1"

record provisioning_cipher =
  key_material :: cipher_mode

definition from_public :: "bytes \<Rightarrow> provisioning_cipher" where
  "from_public key = \<lparr>key_material = EncryptOnly key\<rparr>"

definition from_key_pair :: "key_pair \<Rightarrow> provisioning_cipher" where
  "from_key_pair pair = \<lparr>key_material = DecryptAndEncrypt pair\<rparr>"

definition public_key :: "provisioning_cipher \<Rightarrow> bytes" where
  "public_key self = cipher_mode_public (key_material self)"

text \<open>\<open>pv_hkdf secret info\<close> expands to 64 bytes.\<close>

record provisioning_pkgs =
  pv_curve :: curve
  pv_cipher :: cbc_mac
  pv_hkdf :: "bytes \<Rightarrow> bytes \<Rightarrow> bytes"
  pv_encode :: "provision_message \<Rightarrow> bytes"
  pv_decode :: "bytes \<Rightarrow> string + provision_message"

definition shared_secrets :: "provisioning_pkgs \<Rightarrow> bytes \<Rightarrow> bytes" where
  "shared_secrets P agreement = pv_hkdf P agreement (as_bytes ''TextSecure Provisioning Message'')"

definition provisioning_encrypt ::
    "provisioning_pkgs \<Rightarrow> provisioning_cipher \<Rightarrow> key_pair \<Rightarrow> bytes \<Rightarrow> provision_message
       \<Rightarrow> (provision_envelope, provisioning_error) result" where
  "provisioning_encrypt P self our_key_pair iv msg =
     and_then (map_err InvalidPublicKey (calculate_agreement (pv_curve P) (kp_private our_key_pair) (public_key self))) (\<lambda>agreement.
     let secrets = shared_secrets P agreement; aes_key = take 32 secrets; mac_key = drop 32 secrets in
     and_then (encrypt_padded_vec (pv_cipher P) aes_key iv (pv_encode P msg)) (\<lambda>ciphertext.
     let mac = hmac_sha256 (pv_cipher P) mac_key (PROVISIONING_VERSION # iv @ ciphertext) in
     Ok \<lparr>pe_public_key = Some (public_serialize (pv_curve P) (kp_public our_key_pair)),
         pe_body = Some (PROVISIONING_VERSION # iv @ ciphertext @ mac)\<rparr>))"

text \<open>The slices of the body that \<open>decrypt\<close> takes, in their order, each of which panics when the body is too short.\<close>

definition split_body :: "bytes \<Rightarrow> (bytes \<times> bytes \<times> bytes \<times> bytes, provisioning_error) result" where
  "split_body body =
     (if length body < IV_LENGTH + IV_OFFSET then Panic ''range end index out of range''
      else if length body < CIPHER_KEY_SIZE then Panic ''attempt to subtract with overflow''
      else if length body - CIPHER_KEY_SIZE < 16 + 1 then Panic ''slice index starts after its end''
      else Ok (take IV_LENGTH (drop IV_OFFSET body), drop (length body - 32) body,
               drop (16 + 1) (take (length body - CIPHER_KEY_SIZE) body), take (length body - CIPHER_KEY_SIZE) body))"

definition provisioning_decrypt ::
    "provisioning_pkgs \<Rightarrow> provisioning_cipher \<Rightarrow> provision_envelope \<Rightarrow> (provision_message, provisioning_error) result" where
  "provisioning_decrypt P self envelope =
     (case key_material self of
        EncryptOnly _ \<Rightarrow> Err EncryptOnlyProvisioningCipher
      | DecryptAndEncrypt pair \<Rightarrow>
          and_then (expect ''no public key'' (pe_public_key envelope)) (\<lambda>key.
          and_then (map_err InvalidPublicKey (public_deserialize (pv_curve P) key)) (\<lambda>master_ephemeral.
          and_then (expect ''no body in ProvisionMessage'' (pe_body envelope)) (\<lambda>body.
          if body = [] then Panic ''index out of bounds''
          else if hd body \<noteq> PROVISIONING_VERSION then Err BadVersionNumber
          else
            and_then (split_body body) (\<lambda>(iv, mac, cipher_text, iv_and_cipher_text).
            and_then (map_err InvalidPrivateKey
                        (calculate_agreement (pv_curve P) (kp_private pair) master_ephemeral)) (\<lambda>agreement.
            let secrets = shared_secrets P agreement; parts1 = take 32 secrets; parts2 = drop 32 secrets in
            if hmac_sha256 (pv_cipher P) parts2 iv_and_cipher_text \<noteq> mac then Err MismatchedMac
            else
              and_then (ok_or AesPaddingError (decrypt_padded_vec (pv_cipher P) parts1 iv cipher_text)) (\<lambda>input.
              case pv_decode P input of Inl e \<Rightarrow> Err (DecodeError e) | Inr m \<Rightarrow> Ok m)))))))"

section \<open>Properties\<close>

lemma split_body_layout:
  assumes "length iv = 16" "length mac = 32"
  shows "split_body (v # iv @ ciphertext @ mac) = Ok (iv, mac, ciphertext, v # iv @ ciphertext)"
proof -
  have "drop 17 (v # iv @ ciphertext) = ciphertext"
    using assms(1) by (simp add: drop_Cons')
  moreover have "length (v # iv @ ciphertext @ mac) - 32 = length (v # iv @ ciphertext)"
    using assms by simp
  then have "take (length (v # iv @ ciphertext @ mac) - 32) (v # iv @ ciphertext @ mac) = v # iv @ ciphertext"
    "drop (length (v # iv @ ciphertext @ mac) - 32) (v # iv @ ciphertext @ mac) = mac"
    by simp_all
  ultimately show ?thesis
    using assms unfolding split_body_def IV_LENGTH_def IV_OFFSET_def VERSION_OFFSET_def VERSION_LENGTH_def CIPHER_KEY_SIZE_def
    by (simp del: take_Suc_Cons drop_Suc_Cons add: take_Cons' drop_Cons')
qed

lemma provisioning_encrypt_decrypt:
  assumes "agree (pv_curve P) ours theirs" "cbc_mac_correct (pv_cipher P)" "length iv = 16"
    and "pv_decode P (pv_encode P msg) = Inr msg"
  shows "\<exists>envelope. provisioning_encrypt P (from_public (kp_public theirs)) ours iv msg = Ok envelope \<and>
     provisioning_decrypt P (from_key_pair theirs) envelope = Ok msg \<and>
     provisioning_decrypt P (from_public (kp_public theirs)) envelope = Err EncryptOnlyProvisioningCipher"
proof -
  obtain secret where secret: "calculate_agreement (pv_curve P) (kp_private ours) (kp_public theirs) = Ok secret"
    "calculate_agreement (pv_curve P) (kp_private theirs) (kp_public ours) = Ok secret"
    "public_deserialize (pv_curve P) (public_serialize (pv_curve P) (kp_public ours)) = Ok (kp_public ours)"
    using assms(1) by (auto simp: agree_def)
  obtain c where c: "encrypt_padded_vec (pv_cipher P) (take 32 (shared_secrets P secret)) iv (pv_encode P msg) =
      (Ok c :: (bytes, provisioning_error) result)"
    "decrypt_padded_vec (pv_cipher P) (take 32 (shared_secrets P secret)) iv c = Some (pv_encode P msg)"
    using padded_vecE [OF assms(2)] by metis
  let ?mac = "hmac_sha256 (pv_cipher P) (drop 32 (shared_secrets P secret)) (PROVISIONING_VERSION # iv @ c)"
  have "length ?mac = 32"
    using assms(2) by simp
  from split_body_layout [OF assms(3) this, of PROVISIONING_VERSION c] show ?thesis
    using secret c assms(4)
    by (simp add: provisioning_encrypt_def provisioning_decrypt_def from_public_def from_key_pair_def public_key_def Let_def)
qed

text \<open>
  A provision message that the existing device encrypts to the new device's public key arrives
  unchanged, and only the holder of the private key reads it: an encrypt-only cipher refuses. The
  hypotheses are the documented behaviour of key agreement, of AES-CBC and HMAC, and of the encoding
  of the message.
\<close>

theorem provisioning_roundtrip:
  assumes "agree (pv_curve P) ours theirs" "cbc_mac_correct (pv_cipher P)" "length iv = 16"
    and "pv_decode P (pv_encode P msg) = Inr msg"
  shows "\<exists>envelope. provisioning_encrypt P (from_public (kp_public theirs)) ours iv msg = Ok envelope \<and>
     provisioning_decrypt P (from_key_pair theirs) envelope = Ok msg \<and>
     provisioning_decrypt P (from_public (kp_public theirs)) envelope = Err EncryptOnlyProvisioningCipher"
  using assms by (rule provisioning_encrypt_decrypt)

text \<open>A concrete instance, whose codec knows one message.\<close>

definition sample_message :: provision_message where
  "sample_message = \<lparr>pm_aci_identity_key_public = Some [1], pm_aci_identity_key_private = Some [1],
     pm_pni_identity_key_public = Some [2], pm_pni_identity_key_private = Some [2], pm_aci = None, pm_pni = None,
     pm_number = Some ''+1'', pm_provisioning_code = Some ''c'', pm_user_agent = None, pm_profile_key = Some (replicate 32 0),
     pm_read_receipts = None, pm_provisioning_version = None, pm_ephemeral_backup_key = None, pm_account_entropy_pool = None,
     pm_media_root_backup_key = None, pm_aci_binary = None, pm_pni_binary = None\<rparr>"

definition sample_provisioning :: provisioning_pkgs where
  "sample_provisioning = \<lparr>pv_curve = sample_curve, pv_cipher = sample_cbc_mac, pv_hkdf = (\<lambda>k _. replicate 64 (sum_list k)),
     pv_encode = (\<lambda>_. [9]), pv_decode = (\<lambda>_. Inr sample_message)\<rparr>"

theorem provisioning_roundtrip_witness:
  "\<exists>envelope. provisioning_encrypt sample_provisioning (from_public [8]) (sample_key 7) (replicate 16 4) sample_message = Ok envelope \<and>
     provisioning_decrypt sample_provisioning (from_key_pair (sample_key 8)) envelope = Ok sample_message"
proof -
  have "kp_public (sample_key 8) = [8]"
    by (simp add: sample_key_def)
  then show ?thesis
    using provisioning_roundtrip [of sample_provisioning "sample_key 7" "sample_key 8" "replicate 16 4" sample_message]
    by (auto simp: sample_provisioning_def sample_agree sample_cbc_mac_correct)
qed



end
