(* ===== verification/Pre_Keys.thy ===== *)
theory Pre_Keys
  imports Effect_Logic Service_Error
begin

text \<open>
  Replenishing prekeys (\<open>pre_keys.rs\<close>): fresh one-time keys, a signed key and a last-resort key are
  generated, stored under identifiers below the medium maximum, and returned for publication. Key
  generation and the store are effects; identifiers are 32-bit words and their arithmetic panics on
  overflow.
\<close>

section \<open>Identifiers\<close>

definition PRE_KEY_MINIMUM :: u32 where "PRE_KEY_MINIMUM = 10"
definition PRE_KEY_BATCH_SIZE :: u32 where "PRE_KEY_BATCH_SIZE = 100"
definition PRE_KEY_MEDIUM_MAX_VALUE :: u32 where "PRE_KEY_MEDIUM_MAX_VALUE = 0xFFFFFF"

definition pre_key_id :: "u32 \<Rightarrow> u32 \<Rightarrow> (u32, 'e) result" where
  "pre_key_id offset i = map_ok (\<lambda>n. n mod (PRE_KEY_MEDIUM_MAX_VALUE - 1) + 1) (checked_add offset i)"

section \<open>Keys and the store\<close>

record pre_key_record =
  pkr_id :: u32
  pkr_key_pair :: bytes

record signed_pre_key_record =
  spk_id :: u32
  spk_timestamp :: u64
  spk_key_pair :: bytes
  spk_signature :: bytes

record ('w, 'k) pre_key_env =
  next_pre_key_id :: "('w, u32, signal_protocol_error) eff"
  next_signed_pre_key_id :: "('w, u32, signal_protocol_error) eff"
  next_pq_pre_key_id :: "('w, u32, signal_protocol_error) eff"
  generate_key_pair :: "'w \<Rightarrow> bytes \<times> 'w"
  public_key_of :: "bytes \<Rightarrow> bytes"
  calculate_signature :: "bytes \<Rightarrow> bytes \<Rightarrow> ('w, bytes, signal_protocol_error) eff"
  timestamp_now :: "'w \<Rightarrow> u64 \<times> 'w"
  kyber_generate :: "u32 \<Rightarrow> bytes \<Rightarrow> ('w, 'k, signal_protocol_error) eff"
  kyber_id :: "'k \<Rightarrow> (u32, signal_protocol_error) result"
  kyber_public :: "'k \<Rightarrow> (bytes, signal_protocol_error) result"
  kyber_signature :: "'k \<Rightarrow> (bytes, signal_protocol_error) result"
  save_pre_key :: "u32 \<Rightarrow> pre_key_record \<Rightarrow> ('w, unit, signal_protocol_error) eff"
  save_kyber_pre_key :: "u32 \<Rightarrow> 'k \<Rightarrow> ('w, unit, signal_protocol_error) eff"
  save_signed_pre_key :: "u32 \<Rightarrow> signed_pre_key_record \<Rightarrow> ('w, unit, signal_protocol_error) eff"
  store_last_resort_kyber_pre_key :: "u32 \<Rightarrow> 'k \<Rightarrow> ('w, unit, signal_protocol_error) eff"

definition counts :: "u32 \<Rightarrow> u32 list" where
  "counts n = map of_nat [0..<unat n]"

definition generate_ec_key ::
    "('w, 'k, 'm) pre_key_env_scheme \<Rightarrow> u32 \<Rightarrow> u32 \<Rightarrow> ('w, pre_key_record, signal_protocol_error) eff" where
  "generate_ec_key E offset i =
     bindE (drawE (generate_key_pair E)) (\<lambda>key_pair.
     bindE (lift (pre_key_id offset i)) (\<lambda>key_id.
     bindE (save_pre_key E key_id \<lparr>pkr_id = key_id, pkr_key_pair = key_pair\<rparr>) (\<lambda>_.
     pure \<lparr>pkr_id = key_id, pkr_key_pair = key_pair\<rparr>)))"

definition generate_kyber_key ::
    "('w, 'k, 'm) pre_key_env_scheme \<Rightarrow> bytes \<Rightarrow> u32 \<Rightarrow> u32 \<Rightarrow> ('w, 'k, signal_protocol_error) eff" where
  "generate_kyber_key E identity offset i =
     bindE (lift (pre_key_id offset i)) (\<lambda>key_id.
     bindE (kyber_generate E key_id identity) (\<lambda>record.
     bindE (save_kyber_pre_key E key_id record) (\<lambda>_. pure record)))"

definition generate_signed_key ::
    "('w, 'k, 'm) pre_key_env_scheme \<Rightarrow> bytes \<Rightarrow> u32 \<Rightarrow> ('w, signed_pre_key_record, signal_protocol_error) eff" where
  "generate_signed_key E identity key_id =
     bindE (drawE (generate_key_pair E)) (\<lambda>key_pair.
     bindE (calculate_signature E identity (public_key_of E key_pair)) (\<lambda>signature.
     bindE (drawE (timestamp_now E)) (\<lambda>now.
     let record = \<lparr>spk_id = key_id, spk_timestamp = now, spk_key_pair = key_pair, spk_signature = signature\<rparr> in
     bindE (save_signed_pre_key E key_id record) (\<lambda>_. pure record))))"

definition generate_last_resort_key ::
    "('w, 'k, 'm) pre_key_env_scheme \<Rightarrow> bytes \<Rightarrow> u32 \<Rightarrow> u32 \<Rightarrow> 'k list \<Rightarrow> ('w, 'k, signal_protocol_error) eff" where
  "generate_last_resort_key E identity offset count pq_pre_keys =
     bindE (lift (pre_key_id offset count)) (\<lambda>key_id.
     bindE (if pq_pre_keys = [] then pure ()
            else
              bindE (lift (kyber_id E (last pq_pre_keys))) (\<lambda>last_id.
              bindE (lift (checked_add last_id 1)) (\<lambda>expected.
              if expected = key_id then pure ()
              else lift (Panic ''assertion `left == right` failed'')))) (\<lambda>_.
     bindE (kyber_generate E key_id identity) (\<lambda>record.
     bindE (store_last_resort_kyber_pre_key E key_id record) (\<lambda>_. pure record))))"

definition replenish_pre_keys ::
    "('w, 'k, 'm) pre_key_env_scheme \<Rightarrow> bytes \<Rightarrow> bool \<Rightarrow> u32 \<Rightarrow> u32
       \<Rightarrow> ('w, pre_key_record list \<times> signed_pre_key_record \<times> 'k list \<times> 'k option, signal_protocol_error) eff" where
  "replenish_pre_keys E identity use_last_resort_key pre_key_count kyber_pre_key_count =
     bindE (next_pre_key_id E) (\<lambda>offset.
     bindE (next_signed_pre_key_id E) (\<lambda>signed_id.
     bindE (next_pq_pre_key_id E) (\<lambda>pq_offset.
     bindE (mapE (counts pre_key_count) (generate_ec_key E offset)) (\<lambda>pre_keys.
     bindE (mapE (counts kyber_pre_key_count) (generate_kyber_key E identity pq_offset)) (\<lambda>pq_pre_keys.
     bindE (generate_signed_key E identity signed_id) (\<lambda>signed.
     bindE (if use_last_resort_key
            then bindE (generate_last_resort_key E identity pq_offset kyber_pre_key_count pq_pre_keys) (\<lambda>k. pure (Some k))
            else pure None) (\<lambda>last_resort.
     pure (pre_keys, signed, pq_pre_keys, last_resort))))))))"

section \<open>Properties\<close>

definition kyber_ids :: "('w, 'k, 'm) pre_key_env_scheme \<Rightarrow> bool" where
  "kyber_ids E \<longleftrightarrow> (\<forall>i identity. returns (\<lambda>k. kyber_id E k = Ok i) (kyber_generate E i identity))"

lemma mapE_Ok:
  "mapE xs f s = (Ok as, s') \<Longrightarrow> (\<And>x. returns (P x) (f x)) \<Longrightarrow> list_all2 P xs as"
  by (induction xs arbitrary: as s) (auto simp: bindE_Ok_iff dest: returnsD)

lemma pre_key_id_Ok:
  "pre_key_id offset i = Ok n \<longleftrightarrow>
     unat offset + unat i < 2 ^ 32 \<and> n = (offset + i) mod 0xFFFFFE + 1"
  by (auto simp: pre_key_id_def checked_add_def PRE_KEY_MEDIUM_MAX_VALUE_def)

text \<open>As a number: the offset advanced by the index, wrapped into the range from 1 to 0xFFFFFE.\<close>

lemma pre_key_id_unat:
  assumes "pre_key_id offset i = Ok n"
  shows "unat n = (unat offset + unat i) mod 0xFFFFFE + 1"
proof -
  have "unat (offset + i) = unat offset + unat i"
    using assms by (auto simp: pre_key_id_Ok unat_word_ariths)
  then have "unat ((offset + i) mod 0xFFFFFE) = (unat offset + unat i) mod 0xFFFFFE"
    by (simp add: unat_mod)
  then show ?thesis
    using assms mod_less_divisor [of "0xFFFFFE" "unat offset + unat i"]
    by (simp add: pre_key_id_Ok unat_word_ariths del: mod_less_divisor)
qed

definition wrapped :: "u32 \<Rightarrow> nat \<Rightarrow> nat" where
  "wrapped offset i = (unat offset + i) mod 0xFFFFFE + 1"

lemma wrapped_range: "1 \<le> wrapped offset i \<and> wrapped offset i \<le> 0xFFFFFE"
  using mod_less_divisor [of "0xFFFFFE" "unat offset + i"] by (simp add: wrapped_def del: mod_less_divisor)

lemma mod_shift_inj:
  assumes "(a + i) mod m = (a + j) mod m" "i < m" "j < (m :: nat)"
  shows "i = j"
proof -
  have "i = j" if "i \<le> j" "j < m" "(a + j) mod m = (a + i) mod m" for i j :: nat
  proof -
    have "m dvd (a + j) - (a + i)"
      using that mod_eq_dvd_iff_nat [of "a + i" "a + j" m] by simp
    then have "m dvd j - i"
      by simp
    with that(2) have "j - i = 0"
      using dvd_imp_le [of m "j - i"] by (cases "j - i = 0") auto
    with that(1) show ?thesis
      by simp
  qed
  with assms show ?thesis
    by (metis nat_le_linear)
qed

lemma wrapped_inj: "i < n \<Longrightarrow> j < n \<Longrightarrow> n \<le> 0xFFFFFE \<Longrightarrow> wrapped offset i = wrapped offset j \<Longrightarrow> i = j"
  unfolding wrapped_def using mod_shift_inj [of "unat offset" i "0xFFFFFE" j] by simp

lemma generate_ec_key_id:
  "returns (\<lambda>k. unat (pkr_id k) = wrapped offset (unat i)) (generate_ec_key E offset i)"
  by (auto simp: returns_def generate_ec_key_def bindE_Ok_iff wrapped_def dest!: pre_key_id_unat)

lemma generate_kyber_key_id:
  "kyber_ids E \<Longrightarrow> returns (\<lambda>k. \<exists>n. kyber_id E k = Ok n \<and> unat n = wrapped offset (unat i)) (generate_kyber_key E identity offset i)"
  by (fastforce simp: returns_def kyber_ids_def generate_kyber_key_def bindE_Ok_iff wrapped_def dest!: pre_key_id_unat)

lemma generate_last_resort_key_id:
  "kyber_ids E \<Longrightarrow> returns (\<lambda>k. \<exists>n. kyber_id E k = Ok n \<and> unat n = wrapped offset (unat c))
     (generate_last_resort_key E identity offset c ks)"
  by (fastforce simp: returns_def kyber_ids_def generate_last_resort_key_def bindE_Ok_iff wrapped_def dest!: pre_key_id_unat)

lemma generate_signed_key_id: "returns (\<lambda>k. spk_id k = i) (generate_signed_key E identity i)"
  by (auto simp: returns_def generate_signed_key_def bindE_Ok_iff Let_def)

lemma counts_unat: "list_all2 P (counts n) ks \<Longrightarrow> list_all2 (\<lambda>i. P (of_nat i)) [0..<unat n] ks"
  by (simp add: counts_def list_all2_map1)

lemma unat_of_index: "i < unat (n :: u32) \<Longrightarrow> unat (of_nat i :: u32) = i"
  using unsigned_less [of n, where ?'a = nat] by (simp add: unat_of_nat)

lemma counts_wrapped:
  assumes "list_all2 (\<lambda>i k. Q (unat i) k) (counts n) ks"
  shows "list_all2 Q [0..<unat n] ks"
proof -
  have "list_all2 (\<lambda>i k. Q (unat (of_nat i :: u32)) k) [0..<unat n] ks"
    using counts_unat [OF assms] .
  then show ?thesis
    by (rule list.rel_mono_strong) (auto simp: unat_of_index)
qed

text \<open>
  C27: the identifiers of replenished keys. The one-time keys are numbered consecutively from the
  store's offset, wrapped into the range from 1 to 0xFFFFFE; within a batch that fits the range
  they are pairwise different; the signed key has the identifier the store gave, and the last-resort
  key follows the post-quantum one-time keys. The hypothesis is that a generated post-quantum key
  carries the identifier it was generated for.
\<close>

theorem replenish_pre_keys_ids:
  assumes "kyber_ids E"
    and run: "replenish_pre_keys E identity use_last_resort ec_count pq_count s = (Ok (ec, sk, pq, last_resort), s')"
  shows "\<exists>offset signed_id pq_offset s1 s2 s3. next_pre_key_id E s = (Ok offset, s1) \<and>
    next_signed_pre_key_id E s1 = (Ok signed_id, s2) \<and> next_pq_pre_key_id E s2 = (Ok pq_offset, s3) \<and>
    list_all2 (\<lambda>i k. unat (pkr_id k) = (unat offset + i) mod 0xFFFFFE + 1) [0..<unat ec_count] ec \<and>
    list_all2 (\<lambda>i k. \<exists>n. kyber_id E k = Ok n \<and> unat n = (unat pq_offset + i) mod 0xFFFFFE + 1) [0..<unat pq_count] pq \<and>
    spk_id sk = signed_id \<and>
    (case last_resort of None \<Rightarrow> \<not> use_last_resort
     | Some k \<Rightarrow> use_last_resort \<and> (\<exists>n. kyber_id E k = Ok n \<and> unat n = (unat pq_offset + unat pq_count) mod 0xFFFFFE + 1)) \<and>
    (unat ec_count \<le> 0xFFFFFE \<longrightarrow> distinct (map pkr_id ec))"
proof -
  obtain offset signed_id pq_offset s1 s2 s3 s4 s5 s6 where
    ids: "next_pre_key_id E s = (Ok offset, s1)" "next_signed_pre_key_id E s1 = (Ok signed_id, s2)"
      "next_pq_pre_key_id E s2 = (Ok pq_offset, s3)"
    and ec: "mapE (counts ec_count) (generate_ec_key E offset) s3 = (Ok ec, s4)"
    and pq: "mapE (counts pq_count) (generate_kyber_key E identity pq_offset) s4 = (Ok pq, s5)"
    and sk: "generate_signed_key E identity signed_id s5 = (Ok sk, s6)"
    and lr: "(if use_last_resort
      then bindE (generate_last_resort_key E identity pq_offset pq_count pq) (\<lambda>k. pure (Some k)) else pure None) s6 = (Ok last_resort, s')"
    using run by (auto simp: replenish_pre_keys_def bindE_Ok_iff)
  have 1: "list_all2 (\<lambda>i k. unat (pkr_id k) = wrapped offset i) [0..<unat ec_count] ec"
    by (rule counts_wrapped, rule mapE_Ok [OF ec]) (rule generate_ec_key_id)
  have 2: "list_all2 (\<lambda>i k. \<exists>n. kyber_id E k = Ok n \<and> unat n = wrapped pq_offset i) [0..<unat pq_count] pq"
    by (rule counts_wrapped, rule mapE_Ok [OF pq]) (rule generate_kyber_key_id [OF assms(1)])
  have 3: "case last_resort of None \<Rightarrow> \<not> use_last_resort
     | Some k \<Rightarrow> use_last_resort \<and> (\<exists>n. kyber_id E k = Ok n \<and> unat n = wrapped pq_offset (unat pq_count))"
    using lr returnsD [OF generate_last_resort_key_id [OF assms(1)]]
    by (fastforce simp: bindE_Ok_iff split: if_splits)
  have "distinct (map pkr_id ec)" if "unat ec_count \<le> 0xFFFFFE"
    unfolding distinct_conv_nth
  proof (intro allI impI)
    fix i j
    assume ij: "i < length (map pkr_id ec)" "j < length (map pkr_id ec)" "i \<noteq> j"
    have len: "length ec = unat ec_count" and nth: "\<And>i. i < unat ec_count \<Longrightarrow> unat (pkr_id (ec ! i)) = wrapped offset i"
      using 1 by (auto simp: list_all2_conv_all_nth)
    show "map pkr_id ec ! i \<noteq> map pkr_id ec ! j"
      using ij len nth [of i] nth [of j] wrapped_inj [of i "unat ec_count" j offset] that by auto
  qed
  with ids 1 2 3 returnsD [OF generate_signed_key_id sk] show ?thesis
    unfolding wrapped_def by blast
qed

text \<open>A concrete store: nothing is kept, and a post-quantum key is its identifier.\<close>

definition sample_pre_keys :: "u32 \<Rightarrow> (unit, u32) pre_key_env" where
  "sample_pre_keys offset = \<lparr>next_pre_key_id = pure offset, next_signed_pre_key_id = pure 5, next_pq_pre_key_id = pure offset,
     generate_key_pair = (\<lambda>s. ([1], s)), public_key_of = id, calculate_signature = (\<lambda>_ _. pure [2]),
     timestamp_now = (\<lambda>s. (0, s)), kyber_generate = (\<lambda>i _. pure i), kyber_id = Ok, kyber_public = (\<lambda>_. Ok [3]), kyber_signature = (\<lambda>_. Ok [4]),
     save_pre_key = (\<lambda>_ _. pure ()), save_kyber_pre_key = (\<lambda>_ _. pure ()), save_signed_pre_key = (\<lambda>_ _. pure ()),
     store_last_resort_kyber_pre_key = (\<lambda>_ _. pure ())\<rparr>"

lemma sample_kyber_ids: "kyber_ids (sample_pre_keys offset)"
  by (simp add: kyber_ids_def returns_def sample_pre_keys_def)

lemma sample_replenish:
  "replenish_pre_keys (sample_pre_keys 7) [] True 2 1 () =
     (Ok ([\<lparr>pkr_id = 8, pkr_key_pair = [1]\<rparr>, \<lparr>pkr_id = 9, pkr_key_pair = [1]\<rparr>],
       \<lparr>spk_id = 5, spk_timestamp = 0, spk_key_pair = [1], spk_signature = [2]\<rparr>, [8], Some 9), ())"
  by (simp add: replenish_pre_keys_def sample_pre_keys_def counts_def upt_rec generate_ec_key_def generate_kyber_key_def
      generate_signed_key_def generate_last_resort_key_def drawE_def bindE_def pre_key_id_def checked_add_def
      PRE_KEY_MEDIUM_MAX_VALUE_def Let_def)

theorem replenish_pre_keys_ids_witness:
  "distinct (map pkr_id [\<lparr>pkr_id = 8, pkr_key_pair = [1]\<rparr>, \<lparr>pkr_id = 9, pkr_key_pair = [1]\<rparr>]) \<and>
   list_all2 (\<lambda>i k. unat (pkr_id k) = (7 + i) mod 0xFFFFFE + 1) [0..<2]
     [\<lparr>pkr_id = 8, pkr_key_pair = [1]\<rparr>, \<lparr>pkr_id = 9, pkr_key_pair = [1 :: u8]\<rparr>]"
  using replenish_pre_keys_ids [OF sample_kyber_ids sample_replenish] by (auto simp: sample_pre_keys_def)

text \<open>
  C28: replenishing can panic. When post-quantum one-time keys and a last-resort key are generated
  together and the offset plus their number is a multiple of 0xFFFFFE, the last-resort identifier
  wraps around to 1 while the last one-time key has 0xFFFFFE, and the assertion that they are
  consecutive fails; no store or key error is involved.
\<close>

lemma last_mapE:
  assumes "mapE xs f s = (Ok as, s')" "xs \<noteq> []" "\<And>x. returns (P x) (f x)"
  shows "as \<noteq> [] \<and> P (last xs) (last as)"
proof -
  have "list_all2 P xs as"
    using mapE_Ok [OF assms(1,3)] .
  with assms(2) show ?thesis
    by (metis last_conv_nth length_greater_0_conv list_all2_conv_all_nth diff_less zero_less_one)
qed

theorem replenish_pre_keys_wrap_panics:
  assumes "kyber_ids E" "next_pre_key_id E s = (Ok offset, s1)" "next_signed_pre_key_id E s1 = (Ok signed_id, s2)"
    and "next_pq_pre_key_id E s2 = (Ok pq_offset, s3)"
    and ec: "mapE (counts ec_count) (generate_ec_key E offset) s3 = (Ok ec, s4)"
    and pq: "mapE (counts pq_count) (generate_kyber_key E identity pq_offset) s4 = (Ok pq, s5)"
    and "generate_signed_key E identity signed_id s5 = (Ok sk, s6)"
    and "0 < pq_count" "unat pq_offset + unat pq_count < 2 ^ 32" "0xFFFFFE dvd unat pq_offset + unat pq_count"
  shows "is_panic (fst (replenish_pre_keys E identity True ec_count pq_count s))"
proof -
  let ?n = "unat pq_count - 1" and ?total = "unat pq_offset + unat pq_count"
  have pos: "0 < unat pq_count"
    using assms(8) by (simp add: word_less_nat_alt)
  have last: "last (counts pq_count) = of_nat ?n" "counts pq_count \<noteq> []"
    using pos by (simp_all add: counts_def last_map)
  have ne: "pq \<noteq> []" and ex: "\<exists>n. kyber_id E (last pq) = Ok n \<and> unat n = wrapped pq_offset (unat (of_nat ?n :: u32))"
    using last_mapE [OF pq last(2) generate_kyber_key_id [OF assms(1)]] by (auto simp: last(1))
  obtain last_id where id: "kyber_id E (last pq) = Ok last_id" "unat last_id = wrapped pq_offset ?n"
    using ex pos unat_of_index [of ?n pq_count] by auto
  have "\<exists>c. ?total = Suc c * 0xFFFFFE"
    using assms(10) pos by (metis dvdE mult.commute mult_0 not0_implies_Suc add_is_0 not_gr_zero)
  then obtain c where "?total = Suc c * 0xFFFFFE" ..
  then have "unat pq_offset + ?n = c * 0xFFFFFE + 0xFFFFFD" "?total mod 0xFFFFFE = 0"
    using pos by simp_all
  then have "unat last_id = 0xFFFFFE"
    by (simp add: id(2) wrapped_def)
  then have "last_id = 0xFFFFFE"
    by (intro unsigned_word_eqI [where ?'a = nat]) simp
  moreover obtain n where n: "pre_key_id pq_offset pq_count = (Ok n :: (u32, signal_protocol_error) result)"
    using assms(9) by (simp add: pre_key_id_def checked_add_def)
  have "unat n = unat (1 :: u32)"
    using pre_key_id_unat [OF n] \<open>?total mod 0xFFFFFE = 0\<close> by simp
  then have "n = 1"
    by (rule unsigned_word_eqI)
  ultimately show ?thesis
    using assms ne id n
    by (simp add: replenish_pre_keys_def generate_last_resort_key_def checked_add_def)
qed

theorem replenish_pre_keys_wrap_panics_witness:
  "is_panic (fst (replenish_pre_keys (sample_pre_keys 0xFFFFFD) [] True 0 1 ()))"
  by (rule replenish_pre_keys_wrap_panics [OF sample_kyber_ids, where offset = "0xFFFFFD" and signed_id = 5 and pq_offset = "0xFFFFFD"
        and ec = "[]" and pq = "[0xFFFFFE]"
        and sk = "\<lparr>spk_id = 5, spk_timestamp = 0, spk_key_pair = [1], spk_signature = [2]\<rparr>"])
    (simp_all add: sample_pre_keys_def counts_def generate_kyber_key_def generate_signed_key_def pre_key_id_def checked_add_def
      PRE_KEY_MEDIUM_MAX_VALUE_def drawE_def bindE_def Let_def)

end
