(* ===== verification/Device_Names.thy ===== *)
theory Device_Names
  imports Crypto Rust_Str Service_Error
begin

text \<open>
  Encrypted device data of \<open>account_manager.rs\<close>: the name of a device is encrypted to the account's
  identity key with a synthetic initialisation vector, and the time of its creation is sealed with
  associated data. The ephemeral key pair is an argument; \<open>dn_ctr\<close> applies the AES-CTR key stream with
  a zero initialisation vector, \<open>dn_hpke_open\<close> opens a sealed box and \<open>dn_from_millis\<close> is the calendar's
  range check.
\<close>

record device_name =
  dn_ephemeral_public :: "bytes option"
  dn_synthetic_iv :: "bytes option"
  dn_ciphertext :: "bytes option"

record device_pkgs =
  dn_curve :: curve
  dn_mac :: cbc_mac
  dn_ctr :: "bytes \<Rightarrow> bytes \<Rightarrow> bytes"
  dn_base64_decode :: "string \<Rightarrow> (bytes, string) result"
  dn_decode :: "bytes \<Rightarrow> string + device_name"
  dn_hpke_open :: "bytes \<Rightarrow> bytes \<Rightarrow> bytes \<Rightarrow> bytes \<Rightarrow> (bytes, string) result"
  dn_from_millis :: "int \<Rightarrow> int option"

definition calculate_hmac256 :: "device_pkgs \<Rightarrow> bytes \<Rightarrow> bytes \<Rightarrow> (bytes, service_error) result" where
  "calculate_hmac256 P mac_key ciphertext = Ok (hmac_sha256 (dn_mac P) mac_key ciphertext)"

definition encrypt_device_name ::
    "device_pkgs \<Rightarrow> key_pair \<Rightarrow> string \<Rightarrow> bytes \<Rightarrow> (device_name, service_error) result" where
  "encrypt_device_name P ephemeral_key_pair device_name identity_public =
     (let plaintext = as_bytes device_name in
      and_then (map_err Curve (calculate_agreement (dn_curve P) (kp_private ephemeral_key_pair) identity_public)) (\<lambda>master_secret.
      and_then (calculate_hmac256 P master_secret (as_bytes ''auth'')) (\<lambda>key1.
      and_then (calculate_hmac256 P key1 plaintext) (\<lambda>siv.
      let synthetic_iv = take 16 siv in
      and_then (calculate_hmac256 P master_secret (as_bytes ''cipher'')) (\<lambda>key2.
      and_then (calculate_hmac256 P key2 synthetic_iv) (\<lambda>cipher_key.
      Ok \<lparr>dn_ephemeral_public = Some (public_serialize (dn_curve P) (kp_public ephemeral_key_pair)),
          dn_synthetic_iv = Some synthetic_iv,
          dn_ciphertext = Some (dn_ctr P cipher_key plaintext)\<rparr>))))))"

definition decrypt_device_name ::
    "device_pkgs \<Rightarrow> bytes \<Rightarrow> device_name \<Rightarrow> (string, service_error) result" where
  "decrypt_device_name P private_key name =
     (case (dn_ephemeral_public name, dn_synthetic_iv name, dn_ciphertext name) of
        (Some ephemeral_public, Some synthetic_iv, Some ciphertext) \<Rightarrow>
          and_then (ok_or service_error.MacError (try_into_array 16 (take (min (length synthetic_iv) 16) synthetic_iv))) (\<lambda>synthetic_iv.
          and_then (map_err Curve (public_deserialize (dn_curve P) ephemeral_public)) (\<lambda>ephemeral_public.
          and_then (map_err Curve (calculate_agreement (dn_curve P) private_key ephemeral_public)) (\<lambda>master_secret.
          and_then (calculate_hmac256 P master_secret (as_bytes ''cipher'')) (\<lambda>key2.
          and_then (calculate_hmac256 P key2 synthetic_iv) (\<lambda>cipher_key.
          let plaintext = dn_ctr P cipher_key ciphertext in
          and_then (calculate_hmac256 P master_secret (as_bytes ''auth'')) (\<lambda>key1.
          and_then (calculate_hmac256 P key1 plaintext) (\<lambda>our_synthetic_iv.
          if synthetic_iv \<noteq> take 16 our_synthetic_iv then Err service_error.MacError
          else Ok (from_utf8_lossy plaintext))))))))
      | _ \<Rightarrow> Err (DecryptDeviceInfoFieldError ''name''))"

definition decrypt_device_name_from_device_info ::
    "device_pkgs \<Rightarrow> string \<Rightarrow> key_pair \<Rightarrow> (string, service_error) result" where
  "decrypt_device_name_from_device_info P s identity =
     (case dn_base64_decode P s of
        Ok data \<Rightarrow>
          (case dn_decode P data of
             Inr name \<Rightarrow> decrypt_device_name P (kp_private identity) name
           | Inl _ \<Rightarrow> Ok s)
      | _ \<Rightarrow> Ok s)"

section \<open>Creation times\<close>

definition be_bytes :: "nat \<Rightarrow> 'a::len word \<Rightarrow> bytes" where
  "be_bytes n w = map (\<lambda>i. ucast (drop_bit (8 * i) w)) (rev [0..<n])"

definition from_be_bytes :: "bytes \<Rightarrow> u64" where
  "from_be_bytes bs = fold (\<lambda>b acc. push_bit 8 acc + ucast b) bs 0"

definition decrypt_device_created_at_from_device_info ::
    "device_pkgs \<Rightarrow> u8 \<Rightarrow> i32 \<Rightarrow> string \<Rightarrow> key_pair \<Rightarrow> (int, service_error) result" where
  "decrypt_device_created_at_from_device_info P dev registration_id s identity =
     (let associated_data = dev # be_bytes 4 registration_id in
      and_then (map_err Base64DecodeError (dn_base64_decode P s)) (\<lambda>data.
      and_then (map_err Hpke (dn_hpke_open P (kp_private identity) (as_bytes ''deviceCreatedAt'') associated_data data)) (\<lambda>result.
      and_then (ok_or (DecryptDeviceInfoFieldError ''created-at'') (try_into_array 8 result)) (\<lambda>bytes.
      ok_or (DecryptDeviceInfoFieldError ''created-at'') (dn_from_millis P (sint (from_be_bytes bytes)))))))"

section \<open>The list of devices\<close>

record device_info_encrypted =
  die_id :: u8
  die_name :: "string option"
  die_registration_id :: i32
  die_created_at_ciphertext :: string
  die_last_seen :: int

record device_info =
  di_id :: u8
  di_registration_id :: i32
  di_name :: "string option"
  di_created_at :: int
  di_last_seen :: int

definition decrypt_device_info ::
    "device_pkgs \<Rightarrow> key_pair \<Rightarrow> device_info_encrypted \<Rightarrow> (device_info, service_error) result" where
  "decrypt_device_info P identity i =
     and_then (case die_name i of
                 None \<Rightarrow> Ok None
               | Some s \<Rightarrow> to_option (decrypt_device_name_from_device_info P s identity)) (\<lambda>name.
     and_then (decrypt_device_created_at_from_device_info P (die_id i) (die_registration_id i)
                 (die_created_at_ciphertext i) identity) (\<lambda>created_at.
     Ok \<lparr>di_id = die_id i, di_registration_id = die_registration_id i, di_name = name, di_created_at = created_at,
         di_last_seen = die_last_seen i\<rparr>))"

definition linked_devices ::
    "device_pkgs \<Rightarrow> ('w, device_info_encrypted list, service_error) eff \<Rightarrow> ('w, key_pair, service_error) eff
       \<Rightarrow> ('w, device_info list, service_error) eff" where
  "linked_devices P devices get_identity_key_pair =
     bindE devices (\<lambda>device_infos.
     bindE get_identity_key_pair (\<lambda>identity.
     lift (collect (map (decrypt_device_info P identity) device_infos))))"

section \<open>Properties\<close>

text \<open>
  The owner of the account reads the name that was given to a device, and nobody else's: a name
  is only returned when its synthetic initialisation vector is the code of the decrypted name under
  the agreed secret. The hypotheses are the documented behaviour of key agreement and HMAC, that the
  key stream cancels itself, and that the name is UTF-8, as every string is.
\<close>

theorem device_name_roundtrip:
  assumes "agree (dn_curve P) ephemeral identity" "cbc_mac_correct (dn_mac P)"
    and "\<And>k m. dn_ctr P k (dn_ctr P k m) = m" "utf8_valid (as_bytes name)"
  shows "(\<exists>encrypted. encrypt_device_name P ephemeral name (kp_public identity) = Ok encrypted \<and>
            decrypt_device_name P (kp_private identity) encrypted = Ok name) \<and>
     (decrypt_device_name P private encrypted' = Ok name' \<longrightarrow>
        (\<exists>public secret iv plaintext. dn_ephemeral_public encrypted' = Some public \<and> dn_synthetic_iv encrypted' = Some iv \<and>
           map_ok (calculate_agreement (dn_curve P) private) (public_deserialize (dn_curve P) public) = Ok (Ok secret) \<and>
           take 16 iv = take 16 (hmac_sha256 (dn_mac P) (hmac_sha256 (dn_mac P) secret (as_bytes ''auth'')) plaintext) \<and>
           name' = from_utf8_lossy plaintext))"
proof (intro conjI impI)
  obtain secret where secret: "calculate_agreement (dn_curve P) (kp_private ephemeral) (kp_public identity) = Ok secret"
    "calculate_agreement (dn_curve P) (kp_private identity) (kp_public ephemeral) = Ok secret"
    "public_deserialize (dn_curve P) (public_serialize (dn_curve P) (kp_public ephemeral)) = Ok (kp_public ephemeral)"
    using assms(1) by (auto simp: agree_def)
  have "from_utf8_lossy (as_bytes name) = name"
    using from_utf8_lossy_valid [OF assms(4)] by simp
  then show "\<exists>encrypted. encrypt_device_name P ephemeral name (kp_public identity) = Ok encrypted \<and>
      decrypt_device_name P (kp_private identity) encrypted = Ok name"
    using secret assms(2,3)
    by (simp add: encrypt_device_name_def decrypt_device_name_def calculate_hmac256_def Let_def try_into_array_def)
next
  assume "decrypt_device_name P private encrypted' = Ok name'"
  then show "\<exists>public secret iv plaintext. dn_ephemeral_public encrypted' = Some public \<and> dn_synthetic_iv encrypted' = Some iv \<and>
      map_ok (calculate_agreement (dn_curve P) private) (public_deserialize (dn_curve P) public) = Ok (Ok secret) \<and>
      take 16 iv = take 16 (hmac_sha256 (dn_mac P) (hmac_sha256 (dn_mac P) secret (as_bytes ''auth'')) plaintext) \<and>
      name' = from_utf8_lossy plaintext"
    by (fastforce simp: decrypt_device_name_def calculate_hmac256_def Let_def min_def
        split: option.splits if_splits)
qed

text \<open>An instance whose key stream complements every byte.\<close>

definition sample_device_pkgs :: device_pkgs where
  "sample_device_pkgs = \<lparr>dn_curve = sample_curve, dn_mac = sample_cbc_mac, dn_ctr = (\<lambda>k. map (\<lambda>b. 255 - b)),
     dn_base64_decode = (\<lambda>_. Err []), dn_decode = (\<lambda>_. Inl []), dn_hpke_open = (\<lambda>_ _ _ _. Err []), dn_from_millis = Some\<rparr>"

theorem device_name_roundtrip_witness:
  "\<exists>encrypted. encrypt_device_name sample_device_pkgs (sample_key 3) ''Phone'' [5] = Ok encrypted \<and>
     decrypt_device_name sample_device_pkgs [5] encrypted = Ok ''Phone''"
proof -
  have "utf8_valid (as_bytes ''Phone'')"
    by code_simp
  then show ?thesis
    using device_name_roundtrip [of sample_device_pkgs "sample_key 3" "sample_key 5" "''Phone''"] sample_agree [of 3 5]
      sample_cbc_mac_correct by (simp add: sample_device_pkgs_def sample_key_def comp_def)
qed

end
