(* ===== verification/Account_Keys.thy ===== *)
theory Account_Keys
  imports Pre_Keys Ws_Endpoints Device_Names
begin

text \<open>
  Keeping the published prekeys fresh: the conversions of stored keys into uploaded entities
  (\<open>pre_keys.rs\<close>), the upload endpoint (\<open>websocket/keys.rs\<close>), and \<open>check_pre_keys\<close> and
  \<open>update_pre_key_bundle\<close> of \<open>account_manager.rs\<close>. The store, the socket and the hash are part of the
  environment.
\<close>

section \<open>Entities\<close>

record pre_key_state =
  pks_pre_keys :: "pre_key_entity list"
  pks_signed_pre_key :: signed_pre_key_entity
  pks_identity_key :: bytes
  pks_pq_last_resort_key :: "kyber_pre_key_entity option"
  pks_pq_pre_keys :: "kyber_pre_key_entity list"

definition pre_key_entity_from :: "('w, 'k, 'm) pre_key_env_scheme \<Rightarrow> pre_key_record \<Rightarrow> pre_key_entity" where
  "pre_key_entity_from E key = \<lparr>pke_key_id = pkr_id key, pke_public_key = public_key_of E (pkr_key_pair key)\<rparr>"

definition signed_pre_key_entity_from ::
    "('w, 'k, 'm) pre_key_env_scheme \<Rightarrow> signed_pre_key_record \<Rightarrow> signed_pre_key_entity" where
  "signed_pre_key_entity_from E key =
     \<lparr>pke_key_id = spk_id key, pke_public_key = public_key_of E (spk_key_pair key), pke_signature = spk_signature key\<rparr>"

definition kyber_pre_key_entity_from ::
    "('w, 'k, 'm) pre_key_env_scheme \<Rightarrow> 'k \<Rightarrow> (kyber_pre_key_entity, signal_protocol_error) result" where
  "kyber_pre_key_entity_from E key =
     and_then (kyber_id E key) (\<lambda>i.
     and_then (kyber_public E key) (\<lambda>public.
     and_then (kyber_signature E key) (\<lambda>signature.
     Ok \<lparr>pke_key_id = i, pke_public_key = public, pke_signature = signature\<rparr>)))"

section \<open>The account manager\<close>

record ('w, 'k) account_env = "('w, 'k) pre_key_env" +
  ak_http :: http_pkgs
  ak_keys :: key_pkgs
  ak_socket :: "'w socket"
  ak_sha256 :: "bytes \<Rightarrow> bytes"
  json_pre_key_state :: "pre_key_state \<Rightarrow> (bytes, string) result"
  signed_prekey_id :: "('w, u32 option, signal_protocol_error) eff"
  last_resort_kyber_prekey_id :: "('w, u32 option, signal_protocol_error) eff"
  get_signed_pre_key :: "u32 \<Rightarrow> ('w, signed_pre_key_record, signal_protocol_error) eff"
  get_kyber_pre_key :: "u32 \<Rightarrow> ('w, 'k, signal_protocol_error) eff"
  get_identity_key_pair :: "('w, bytes, signal_protocol_error) eff"
  identity_public :: "bytes \<Rightarrow> bytes"
  signed_pre_keys_count :: "('w, nat, signal_protocol_error) eff"
  kyber_pre_keys_count :: "bool \<Rightarrow> ('w, nat, signal_protocol_error) eff"
  load_last_resort_kyber_pre_keys :: "('w, 'k list, signal_protocol_error) eff"

definition storeE :: "('w, 'a, signal_protocol_error) eff \<Rightarrow> ('w, 'a, service_error) eff" where
  "storeE = map_errE SignalProtocolError"

definition register_pre_keys ::
    "('w, 'k, 'm) account_env_scheme \<Rightarrow> service_id_kind \<Rightarrow> pre_key_state \<Rightarrow> ('w, unit, service_error) eff" where
  "register_pre_keys E kind state =
     bindE (send_json (ak_socket E) (json_pre_key_state E state)
         (http_request ''PUT'' (''/v2/keys?identity='' @ kind_string (ak_keys E) kind))) (\<lambda>response.
     bindE (lift (service_error_for_status (ak_http E) (ws_ops (ak_http E)) response)) (\<lambda>_. pure ()))"

text \<open>The digest over identity key, signed prekey and last-resort prekey, with 8-byte identifiers.\<close>

definition pre_keys_digest :: "('w, 'k, 'm) account_env_scheme \<Rightarrow> bytes \<Rightarrow> u32 \<Rightarrow> bytes \<Rightarrow> u32 \<Rightarrow> bytes \<Rightarrow> bytes" where
  "pre_keys_digest E identity signed_id signed_public kyber_key_id kyber_public_key =
     ak_sha256 E (identity @ be_bytes 8 (ucast signed_id :: u64) @ signed_public
                    @ be_bytes 8 (ucast kyber_key_id :: u64) @ kyber_public_key)"

definition account_check_pre_keys ::
    "('w, 'k, 'm) account_env_scheme \<Rightarrow> service_id_kind \<Rightarrow> ('w, bool, service_error) eff" where
  "account_check_pre_keys E kind =
     bindE (storeE (signed_prekey_id E)) (\<lambda>signed_id.
     case signed_id of None \<Rightarrow> pure False | Some signed_id \<Rightarrow>
     bindE (storeE (last_resort_kyber_prekey_id E)) (\<lambda>kyber_key_id.
     case kyber_key_id of None \<Rightarrow> pure False | Some kyber_key_id \<Rightarrow>
     bindE (storeE (get_signed_pre_key E signed_id)) (\<lambda>signed_prekey.
     bindE (storeE (get_kyber_pre_key E kyber_key_id)) (\<lambda>kyber_prekey.
     bindE (storeE (get_identity_key_pair E)) (\<lambda>identity.
     bindE (storeE (lift (kyber_public E kyber_prekey))) (\<lambda>kyber_public_key.
     check_pre_keys (ak_http E) (ak_keys E) (ak_socket E) kind
       (pre_keys_digest E (identity_public E identity) signed_id (public_key_of E (spk_key_pair signed_prekey))
          kyber_key_id kyber_public_key)))))))"

text \<open>The conjunction of four reads of the store; a later one is only made when the earlier ones hold.\<close>

definition store_complete :: "('w, 'k, 'm) account_env_scheme \<Rightarrow> ('w, bool, service_error) eff" where
  "store_complete E =
     bindE (storeE (signed_pre_keys_count E)) (\<lambda>n. if n = 0 then pure False else
     bindE (storeE (kyber_pre_keys_count E True)) (\<lambda>n. if n = 0 then pure False else
     bindE (storeE (signed_prekey_id E)) (\<lambda>i. if i = None then pure False else
     bindE (storeE (last_resort_kyber_prekey_id E)) (\<lambda>i. pure (i \<noteq> None)))))"

definition pre_key_status :: "('w, 'k, 'm) account_env_scheme \<Rightarrow> service_id_kind \<Rightarrow> ('w, u32 \<times> u32, service_error) eff" where
  "pre_key_status E kind =
     matchE (get_pre_key_status (ak_http E) (ak_keys E) (ak_socket E) kind) pure
       (\<lambda>e. case e of Unauthorized \<Rightarrow> pure (0, 0) | _ \<Rightarrow> throw e)"

text \<open>Generating the new keys and the state to upload.\<close>

definition refreshed_state ::
    "('w, 'k, 'm) account_env_scheme \<Rightarrow> bool \<Rightarrow> ('w, pre_key_state, service_error) eff" where
  "refreshed_state E use_last_resort_key =
     bindE (storeE (get_identity_key_pair E)) (\<lambda>identity.
     bindE (storeE (load_last_resort_kyber_pre_keys E)) (\<lambda>last_resort_keys.
     bindE (storeE (replenish_pre_keys E identity (use_last_resort_key \<and> last_resort_keys = [])
              PRE_KEY_BATCH_SIZE PRE_KEY_BATCH_SIZE)) (\<lambda>(pre_keys, signed_pre_key, pq_pre_keys, pq_last_resort_key).
     bindE (storeE (lift (if last_resort_keys \<noteq> []
              then map_ok Some (kyber_pre_key_entity_from E (hd last_resort_keys))
              else transpose_opt (map_option (kyber_pre_key_entity_from E) pq_last_resort_key)))) (\<lambda>pq_last_resort_key.
     bindE (storeE (lift (collect (map (kyber_pre_key_entity_from E) pq_pre_keys)))) (\<lambda>pq_pre_keys.
     pure \<lparr>pks_pre_keys = map (pre_key_entity_from E) pre_keys,
           pks_signed_pre_key = signed_pre_key_entity_from E signed_pre_key,
           pks_identity_key = identity_public E identity,
           pks_pq_last_resort_key = pq_last_resort_key, pks_pq_pre_keys = pq_pre_keys\<rparr>)))))"

definition update_pre_key_bundle ::
    "('w, 'k, 'm) account_env_scheme \<Rightarrow> service_id_kind \<Rightarrow> bool \<Rightarrow> ('w, unit, service_error) eff" where
  "update_pre_key_bundle E kind use_last_resort_key =
     bindE (pre_key_status E kind) (\<lambda>(count, pq_count).
     bindE (account_check_pre_keys E kind) (\<lambda>consistent.
     bindE (if consistent \<and> count \<ge> PRE_KEY_MINIMUM \<and> pq_count \<ge> PRE_KEY_MINIMUM then store_complete E else pure False) (\<lambda>sufficient.
     if sufficient then pure ()
     else bindE (refreshed_state E use_last_resort_key) (register_pre_keys E kind))))"

section \<open>Properties\<close>

lemma storeE_Ok_iff [simp]: "storeE m s = (Ok a, s') \<longleftrightarrow> m s = (Ok a, s')"
  by (simp add: storeE_def)

lemma mapE_length: "mapE xs f s = (Ok ys, s') \<Longrightarrow> length ys = length xs"
  by (induction xs arbitrary: ys s) (auto simp: bindE_Ok_iff)

lemma replenish_lengths:
  assumes "replenish_pre_keys E identity use_last_resort n m s = (Ok (ec, sk, pq, last_resort), s')"
  shows "length ec = unat n \<and> length pq = unat m \<and> (last_resort = None \<longleftrightarrow> \<not> use_last_resort)"
proof -
  have "length (counts n) = unat n" "length (counts m) = unat m"
    by (simp_all add: counts_def)
  then show ?thesis
    using assms unfolding replenish_pre_keys_def
    by (auto simp: bindE_Ok_iff split: if_splits dest!: mapE_length)
qed

lemma refreshed_state_complete:
  assumes "refreshed_state E use_last_resort_key s = (Ok state, s')"
  shows "length (pks_pre_keys state) = 100 \<and> length (pks_pq_pre_keys state) = 100 \<and>
     (use_last_resort_key \<longrightarrow> pks_pq_last_resort_key state \<noteq> None)"
proof -
  obtain identity last_resort_keys ec sk pq last_resort s1 s2 s3 pq_last pq_entities where
    keys: "replenish_pre_keys E identity (use_last_resort_key \<and> last_resort_keys = []) PRE_KEY_BATCH_SIZE PRE_KEY_BATCH_SIZE s2 =
      (Ok (ec, sk, pq, last_resort), s3)"
    and pq_last: "(if last_resort_keys \<noteq> [] then map_ok Some (kyber_pre_key_entity_from E (hd last_resort_keys))
      else transpose_opt (map_option (kyber_pre_key_entity_from E) last_resort)) = Ok pq_last"
    and pq: "collect (map (kyber_pre_key_entity_from E) pq) = Ok pq_entities"
    and state: "pks_pre_keys state = map (pre_key_entity_from E) ec" "pks_pq_pre_keys state = pq_entities"
      "pks_pq_last_resort_key state = pq_last"
    using assms unfolding refreshed_state_def by (auto simp: bindE_Ok_iff)
  have "unat PRE_KEY_BATCH_SIZE = 100"
    by (simp add: PRE_KEY_BATCH_SIZE_def)
  moreover have "pq_last \<noteq> None" if use_last_resort_key
    using replenish_lengths [OF keys] pq_last that by (cases last_resort) (auto split: if_splits)
  ultimately show ?thesis
    using replenish_lengths [OF keys] collect_length [OF pq] state by simp
qed


text \<open>A server with too few keys, and a store with nothing but a last-resort key.\<close>

definition sample_endpoints :: key_pkgs where
  "sample_endpoints = \<lparr>kind_string = (\<lambda>_. ''aci''), json_pre_key_response = (\<lambda>_. Err []), json_certificate = Ok,
     json_pre_key_status = (\<lambda>_. Ok (3, 200)), json_check_request = (\<lambda>_ d. Ok d), identity_key_decode = Ok,
     public_key_deserialize = Ok, curve_to_protocol = OtherProtocolError, kyber_key_deserialize = Ok,
     pre_key_bundle_new = (\<lambda>_ _ _ _ _ _ _ _ _ _. Err (OtherProtocolError [])), certificate_deserialize = Ok\<rparr>"

definition sample_account :: "(unit, u32) account_env" where
  "sample_account = pre_key_env.extend (sample_pre_keys 7) (account_env.fields sample_pkgs sample_endpoints
     (\<lambda>_. pure \<lparr>resp_id = None, resp_status = Some 200, resp_message = None, resp_headers = [], resp_body = Some []\<rparr>)
     id (\<lambda>_. Ok []) (pure None) (pure None) (\<lambda>_. throw (OtherProtocolError [])) (\<lambda>_. throw (OtherProtocolError []))
     (pure [9]) id (pure 0) (\<lambda>_. pure 0) (pure [5]))"

lemma sample_account_sel [simp]:
  "next_pre_key_id sample_account = pure 7" "next_signed_pre_key_id sample_account = pure 5"
  "next_pq_pre_key_id sample_account = pure 7" "generate_key_pair sample_account = Pair [1]"
  "public_key_of sample_account = id" "calculate_signature sample_account k m = pure [2]" "timestamp_now sample_account = Pair 0"
  "kyber_generate sample_account i k = pure i" "kyber_id sample_account = Ok" "kyber_public sample_account i = Ok [3]"
  "kyber_signature sample_account i = Ok [4]" "save_pre_key sample_account i r = pure ()"
  "save_kyber_pre_key sample_account i i' = pure ()" "save_signed_pre_key sample_account i sr = pure ()"
  "ak_http sample_account = sample_pkgs" "ak_keys sample_account = sample_endpoints"
  "ak_socket sample_account q =
     pure \<lparr>resp_id = None, resp_status = Some 200, resp_message = None, resp_headers = [], resp_body = Some []\<rparr>"
  "json_pre_key_state sample_account st = Ok []" "signed_prekey_id sample_account = pure None"
  "get_identity_key_pair sample_account = pure [9]" "identity_public sample_account = id"
  "load_last_resort_kyber_pre_keys sample_account = pure [5]"
  by (simp_all add: sample_account_def account_env.defs pre_key_env.defs sample_pre_keys_def fun_eq_iff)

lemma mapE_total: "(\<And>x. x \<in> set xs \<Longrightarrow> \<exists>a. f x () = (Ok a, ())) \<Longrightarrow> \<exists>as. mapE xs f () = (Ok as, ())"
proof (induction xs)
  case (Cons x xs)
  then obtain a as where "f x () = (Ok a, ())" "mapE xs f () = (Ok as, ())"
    by (metis list.set_intros)
  then show ?case
    by (simp add: bindE_def)
qed simp

lemma sample_pre_key_id: "i \<in> set (counts 100) \<Longrightarrow> \<exists>n. (pre_key_id 7 i :: (u32, signal_protocol_error) result) = Ok n"
proof -
  assume "i \<in> set (counts 100)"
  then obtain k where "i = of_nat k" "k < 100"
    by (auto simp: counts_def)
  then have "unat (7 :: u32) + unat i < 2 ^ 32"
    by (simp add: unat_of_nat)
  then show ?thesis
    by (simp add: pre_key_id_def checked_add_def)
qed

lemma sample_replenish_100:
  "\<exists>ec pq. replenish_pre_keys sample_account [9] False 100 100 () =
     (Ok (ec, \<lparr>spk_id = 5, spk_timestamp = 0, spk_key_pair = [1], spk_signature = [2]\<rparr>, pq, None), ())"
proof -
  have "\<exists>a. generate_ec_key sample_account 7 i () = (Ok a, ())" "\<exists>a. generate_kyber_key sample_account [9] 7 i () = (Ok a, ())"
    if "i \<in> set (counts 100)" for i
    using sample_pre_key_id [OF that] by (auto simp: generate_ec_key_def generate_kyber_key_def drawE_def bindE_def)
  then obtain ec pq where "mapE (counts 100) (generate_ec_key sample_account 7) () = (Ok ec, ())"
    "mapE (counts 100) (generate_kyber_key sample_account [9] 7) () = (Ok pq, ())"
    using mapE_total [of "counts 100" "generate_ec_key sample_account 7"]
      mapE_total [of "counts 100" "generate_kyber_key sample_account [9] 7"] by blast
  then show ?thesis
    by (simp add: replenish_pre_keys_def generate_signed_key_def drawE_def bindE_def Let_def)
qed

lemma sample_entities: "collect (map (kyber_pre_key_entity_from sample_account) ks) =
    Ok (map (\<lambda>k. \<lparr>pke_key_id = k, pke_public_key = [3], pke_signature = [4]\<rparr>) ks)"
  by (rule collect_map_cong) (simp add: kyber_pre_key_entity_from_def)

lemma sample_refresh: "update_pre_key_bundle sample_account AciKind True () = (Ok (), ())"
proof -
  have accepted: "service_error_for_status sample_pkgs (ws_ops sample_pkgs) r = Ok r"
    if "r = \<lparr>resp_id = None, resp_status = Some 200, resp_message = None, resp_headers = [], resp_body = Some []\<rparr>" for r
    using that by (simp add: service_error_for_status_def baseline_decode_def ws_ops_def ws_status_code_def sample_pkgs_def Let_def)
  obtain ec pq where keys: "replenish_pre_keys sample_account [9] False 100 100 () =
     (Ok (ec, \<lparr>spk_id = 5, spk_timestamp = 0, spk_key_pair = [1], spk_signature = [2]\<rparr>, pq, None), ())"
    using sample_replenish_100 by blast
  have "pre_key_status sample_account AciKind () = (Ok (3, 200), ())"
    by (simp add: pre_key_status_def get_pre_key_status_def get_json_def send_def accepted response_json_def sample_endpoints_def
        bindE_def matchE_def)
  moreover have "account_check_pre_keys sample_account AciKind () = (Ok False, ())"
    by (simp add: account_check_pre_keys_def bindE_def storeE_def map_errE_def)
  ultimately show ?thesis
    by (simp add: update_pre_key_bundle_def bindE_def refreshed_state_def storeE_def map_errE_def PRE_KEY_BATCH_SIZE_def keys
        kyber_pre_key_entity_from_def sample_entities register_pre_keys_def send_json_def with_json_def accepted)
qed


end
