(* ===== verification/Provisioning.thy ===== *)
theory Provisioning
  imports Provisioning_Cipher Account_Keys Http Ws_Process Message_Pipe
begin

text \<open>
  Linking a device: the provisioning pipe (\<open>provisioning/pipe.rs\<close>) and \<open>link_device\<close> of the new device
  (\<open>provisioning/mod.rs\<close>), and \<open>link_device\<close> of the account that is extended (\<open>account_manager.rs\<close>).
  What the provisioning socket delivers is an input, as are the random values.
\<close>

section \<open>The pipe\<close>

datatype provisioning_step = StepUrl string | StepMessage provision_message

record pipe_pkgs =
  pp_cipher :: provisioning_pkgs
  pp_address_decode :: "bytes \<Rightarrow> string + string option"
  pp_envelope_decode :: "bytes \<Rightarrow> string + provision_envelope"
  pp_url :: "string \<Rightarrow> (string \<times> string) list \<Rightarrow> (string, string) result"
  pp_base64 :: "bytes \<Rightarrow> string"

definition respond :: "bool \<Rightarrow> ws_request \<Rightarrow> provisioning_step
    \<Rightarrow> (provisioning_step option, provisioning_error) result \<times> ws_response option" where
  "respond waiting request step =
     (if waiting
      then (Ok (Some step), Some \<lparr>resp_id = req_id request, resp_status = Some 200, resp_message = Some ''OK'',
              resp_headers = [], resp_body = None\<rparr>)
      else (Err PvWsClosing, None))"

definition provisioning_process_request ::
    "pipe_pkgs \<Rightarrow> provisioning_cipher \<Rightarrow> ws_request \<Rightarrow> bool
       \<Rightarrow> (provisioning_step option, provisioning_error) result \<times> ws_response option" where
  "provisioning_process_request P cipher request waiting =
     (if req_verb request = Some ''PUT'' \<and> req_path request = Some ''/v1/address'' then
        (case and_then (expect ''called `Option::unwrap()` on a `None` value'' (req_body request)) (\<lambda>body.
              and_then (case pp_address_decode P body of Inl e \<Rightarrow> Err (DecodeError e) | Inr a \<Rightarrow> Ok a) (\<lambda>address.
              map_err PvWsError (pp_url P ''sgnl://linkdevice''
                [(''uuid'', case address of Some a \<Rightarrow> a | None \<Rightarrow> []),
                 (''pub_key'', pp_base64 P (public_serialize (pv_curve (pp_cipher P)) (public_key cipher))),
                 (''capabilities'', ''backup5'')]))) of
           Ok url \<Rightarrow> respond waiting request (StepUrl url)
         | Err e \<Rightarrow> (Err e, None)
         | Panic p \<Rightarrow> (Panic p, None))
      else if req_verb request = Some ''PUT'' \<and> req_path request = Some ''/v1/message'' then
        (case and_then (expect ''called `Option::unwrap()` on a `None` value'' (req_body request)) (\<lambda>body.
              and_then (case pp_envelope_decode P body of Inl e \<Rightarrow> Err (DecodeError e) | Inr env \<Rightarrow> Ok env) (\<lambda>env.
              provisioning_decrypt (pp_cipher P) cipher env)) of
           Ok message \<Rightarrow> respond waiting request (StepMessage message)
         | Err e \<Rightarrow> (Err e, None)
         | Panic p \<Rightarrow> (Panic p, None))
      else (Err (PvWsError ''Incorrect request''), None))"

text \<open>The items of the stream that the loop of \<open>run\<close> feeds, for the requests the socket delivers.\<close>

definition provisioning_items ::
    "pipe_pkgs \<Rightarrow> provisioning_cipher \<Rightarrow> (ws_request \<times> bool) list \<Rightarrow> (provisioning_step, provisioning_error) result list" where
  "provisioning_items P cipher requests =
     List.map_filter (\<lambda>(request, waiting). transpose_result (fst (provisioning_process_request P cipher request waiting))) requests"

section \<open>The new device\<close>

record link_account_attributes =
  la_fetches_messages :: bool
  la_name :: string
  la_registration_id :: u32
  la_pni_registration_id :: u32
  la_attachment_backfill :: bool
  la_spqr :: bool
  la_username_change_sync_message :: bool
  la_backup5 :: bool

record device_activation_request =
  aci_signed_pre_key :: signed_pre_key_entity
  pni_signed_pre_key :: signed_pre_key_entity
  aci_pq_last_resort_pre_key :: kyber_pre_key_entity
  pni_pq_last_resort_pre_key :: kyber_pre_key_entity

record link_request =
  lr_verification_code :: string
  lr_account_attributes :: link_account_attributes
  lr_device_activation_request :: device_activation_request

record link_response =
  lres_aci :: uuid
  lres_pni :: uuid
  lres_device_id :: device_id

text \<open>What the new device reads from a provision message.\<close>

record provisioned_account =
  pa_aci_public_key :: bytes
  pa_aci_private_key :: bytes
  pa_pni_public_key :: bytes
  pa_pni_private_key :: bytes
  pa_profile_key :: bytes
  pa_account_entropy_pool :: "string option"
  pa_ephemeral_backup_key :: "bytes option"
  pa_phone_number :: string
  pa_provisioning_code :: string

record ('w, 'k) link_env = "'w http_env" +
  lk_pipe :: pipe_pkgs
  lk_device :: device_pkgs
  lk_connect :: "('w, (ws_request \<times> bool) list, service_error) eff"
  lk_random_range :: "nat \<Rightarrow> nat \<Rightarrow> 'w \<Rightarrow> u32 \<times> 'w"
  lk_key_pair :: "'w \<Rightarrow> key_pair \<times> 'w"
  lk_aci_store :: "('w, 'k) pre_key_env"
  lk_pni_store :: "('w, 'k) pre_key_env"
  lk_e164 :: "string \<Rightarrow> string option"
  lk_e164_display :: "string \<Rightarrow> string"
  lk_entropy_pool :: "string \<Rightarrow> (string, string) result"
  lk_device_name_encode :: "device_name \<Rightarrow> bytes"
  lk_request_json :: "link_request \<Rightarrow> bytes"
  lk_response_json :: "http_response \<Rightarrow> (link_response, service_error) result"
  lk_url_announced :: "string \<Rightarrow> 'w \<Rightarrow> bool \<times> 'w"
  lk_linked_announced :: "u32 \<times> u32 \<times> link_response \<times> provisioned_account \<Rightarrow> 'w \<Rightarrow> bool \<times> 'w"

definition read_public_key :: "curve \<Rightarrow> bytes option \<Rightarrow> (bytes, provisioning_error) result" where
  "read_public_key X key =
     and_then (ok_or MissingPublicKey key) (\<lambda>k. map_err InvalidPublicKey (public_deserialize X k))"

definition read_private_key :: "curve \<Rightarrow> bytes option \<Rightarrow> (bytes, provisioning_error) result" where
  "read_private_key X key =
     and_then (ok_or MissingPrivateKey key) (\<lambda>k. map_err InvalidPrivateKey (private_deserialize X k))"

definition read_provision_message ::
    "('w, 'k, 'm) link_env_scheme \<Rightarrow> provision_message \<Rightarrow> (provisioned_account, provisioning_error) result" where
  "read_provision_message E message =
     (let X = pv_curve (pp_cipher (lk_pipe E)) in
      and_then (read_public_key X (pm_aci_identity_key_public message)) (\<lambda>aci_public_key.
      and_then (read_private_key X (pm_aci_identity_key_private message)) (\<lambda>aci_private_key.
      and_then (read_public_key X (pm_pni_identity_key_public message)) (\<lambda>pni_public_key.
      and_then (read_private_key X (pm_pni_identity_key_private message)) (\<lambda>pni_private_key.
      and_then (ok_or PvMissingProfileKey (pm_profile_key message)) (\<lambda>profile_key.
      and_then (transpose_opt (map_option (\<lambda>s. map_err InvalidAccountEntropyPool (lk_entropy_pool E s))
                  (pm_account_entropy_pool message))) (\<lambda>account_entropy_pool.
      and_then (ok_or MissingPhoneNumber (pm_number message)) (\<lambda>number.
      and_then (ok_or PvInvalidPhoneNumber (lk_e164 E number)) (\<lambda>phone_number.
      and_then (ok_or MissingProvisioningCode (pm_provisioning_code message)) (\<lambda>code.
      Ok \<lparr>pa_aci_public_key = aci_public_key, pa_aci_private_key = aci_private_key,
          pa_pni_public_key = pni_public_key, pa_pni_private_key = pni_private_key,
          pa_profile_key = profile_key, pa_account_entropy_pool = account_entropy_pool,
          pa_ephemeral_backup_key = Option.bind (pm_ephemeral_backup_key message) (try_into_array 32),
          pa_phone_number = phone_number, pa_provisioning_code = code\<rparr>))))))))))"

record new_device_registration =
  nd_phone_number :: string
  nd_device_id :: device_id
  nd_registration_id :: u32
  nd_pni_registration_id :: u32
  nd_aci :: uuid
  nd_pni :: uuid
  nd_account :: provisioned_account

text \<open>A signed and a last-resort key for one identity, and none of the one-time keys.\<close>

definition activation_keys ::
    "('w, 'k) pre_key_env \<Rightarrow> bytes \<Rightarrow> ('w, signed_pre_key_record \<times> 'k, provisioning_error) eff" where
  "activation_keys S identity =
     bindE (map_errE PvProtocolError (replenish_pre_keys S identity True 0 0))
       (\<lambda>(pre_keys, signed_pre_key, pq_pre_keys, last_resort).
     bindE (lift (expect ''requested last resort key'' last_resort)) (\<lambda>last_resort.
     if pre_keys \<noteq> [] \<or> pq_pre_keys \<noteq> [] then lift (Panic ''assertion failed'')
     else pure (signed_pre_key, last_resort)))"

definition http_json :: "bytes \<Rightarrow> http_req \<Rightarrow> http_req" where
  "http_json encoded r = http_body encoded (http_header ''content-type'' ''application/json'' r)"

definition push_link_device ::
    "('w, 'k, 'm) link_env_scheme \<Rightarrow> link_request \<Rightarrow> http_auth \<Rightarrow> ('w, link_response, service_error) eff" where
  "push_link_device E request auth =
     bindE (http_call E ''PUT'' (ServiceEndpoint ''/v1/devices/link'') (IdentifiedAuth auth)
              (http_json (lk_request_json E request))) (\<lambda>response.
     bindE (lift (service_error_for_status_with (he_http E) http_ops (link_device_errors (he_http E) http_ops) response)) (\<lambda>response.
     lift (lk_response_json E response)))"

text \<open>From the read message to the registration of the device.\<close>

definition register_device ::
    "('w, 'k, 'm) link_env_scheme \<Rightarrow> string \<Rightarrow> string \<Rightarrow> u32 \<Rightarrow> u32 \<Rightarrow> provisioned_account
       \<Rightarrow> ('w, new_device_registration, provisioning_error) eff" where
  "register_device E password name registration_id pni_registration_id account =
     bindE (activation_keys (lk_aci_store E) (pa_aci_private_key account)) (\<lambda>(aci_signed, aci_last_resort).
     bindE (activation_keys (lk_pni_store E) (pa_pni_private_key account)) (\<lambda>(pni_signed, pni_last_resort).
     bindE (drawE (lk_key_pair E)) (\<lambda>ephemeral.
     bindE (lift (map_err PvServiceError (encrypt_device_name (lk_device E) ephemeral name (pa_aci_public_key account)))) (\<lambda>encrypted_name.
     bindE (lift (ok_or InvalidProfileKey (try_into_array 32 (pa_profile_key account)))) (\<lambda>profile_key.
     bindE (lift (map_err PvProtocolError (kyber_pre_key_entity_from (lk_aci_store E) aci_last_resort))) (\<lambda>aci_pq.
     bindE (lift (map_err PvProtocolError (kyber_pre_key_entity_from (lk_pni_store E) pni_last_resort))) (\<lambda>pni_pq.
     let request = \<lparr>lr_verification_code = pa_provisioning_code account,
           lr_account_attributes = \<lparr>la_fetches_messages = True, la_name = pp_base64 (lk_pipe E) (lk_device_name_encode E encrypted_name),
             la_registration_id = registration_id, la_pni_registration_id = pni_registration_id,
             la_attachment_backfill = False, la_spqr = True, la_username_change_sync_message = True, la_backup5 = True\<rparr>,
           lr_device_activation_request = \<lparr>aci_signed_pre_key = signed_pre_key_entity_from (lk_aci_store E) aci_signed,
             pni_signed_pre_key = signed_pre_key_entity_from (lk_pni_store E) pni_signed,
             aci_pq_last_resort_pre_key = aci_pq, pni_pq_last_resort_pre_key = pni_pq\<rparr>\<rparr> in
     bindE (map_errE PvServiceError (push_link_device E request
              \<lparr>ha_username = lk_e164_display E (pa_phone_number account), ha_password = password\<rparr>)) (\<lambda>response.
     bindE (drawE (lk_linked_announced E (registration_id, pni_registration_id, response, account\<lparr>pa_profile_key := profile_key\<rparr>)))
       (\<lambda>announced.
     if \<not> announced then lift (Panic ''failed to send provisioning message in rx channel'')
     else pure \<lparr>nd_phone_number = pa_phone_number account, nd_device_id = lres_device_id response,
           nd_registration_id = registration_id, nd_pni_registration_id = pni_registration_id,
           nd_aci = lres_aci response, nd_pni = lres_pni response, nd_account = account\<lparr>pa_profile_key := profile_key\<rparr>\<rparr>)))))))))"

text \<open>
  \<open>link_device\<close>; the result is the registration that it hands to the caller's channel last, after the
  URL. A channel that is gone makes it panic.
\<close>

definition link_device ::
    "('w, 'k, 'm) link_env_scheme \<Rightarrow> string \<Rightarrow> string \<Rightarrow> ('w, new_device_registration, provisioning_error) eff" where
  "link_device E password name =
     bindE (map_errE PvServiceError (lk_connect E)) (\<lambda>requests.
     bindE (drawE (lk_random_range E 1 256)) (\<lambda>registration_id.
     bindE (drawE (lk_random_range E 1 256)) (\<lambda>pni_registration_id.
     bindE (drawE (lk_key_pair E)) (\<lambda>key_pair.
     let items = provisioning_items (lk_pipe E) (from_key_pair key_pair) requests in
     bindE (case items of [] \<Rightarrow> throw MissingUrl | item # _ \<Rightarrow> lift item) (\<lambda>step.
     case step of
       StepMessage _ \<Rightarrow> throw InvalidStep
     | StepUrl url \<Rightarrow>
         bindE (drawE (lk_url_announced E url)) (\<lambda>announced.
         if \<not> announced then lift (Panic ''failed to send provisioning Url in channel'')
         else
           bindE (case tl items of [] \<Rightarrow> throw MissingMessage | item # _ \<Rightarrow> lift item) (\<lambda>step.
           case step of
             StepUrl _ \<Rightarrow> throw InvalidStep
           | StepMessage message \<Rightarrow>
               bindE (lift (read_provision_message E message)) (\<lambda>account.
               register_device E password name registration_id pni_registration_id account))))))))"

definition generate_registration_id :: "('w, 'k, 'm) link_env_scheme \<Rightarrow> ('w, u32, 'e) eff" where
  "generate_registration_id E = drawE (lk_random_range E 1 16380)"

section \<open>The existing device\<close>

record provisioning_secrets =
  sec_credentials :: service_credentials
  sec_ephemeral_backup_key :: "bytes option"
  sec_account_entropy_pool :: string
  sec_media_root_backup_key :: "bytes option"

record 'w primary_env = "'w http_env" +
  pr_cipher :: provisioning_pkgs
  pr_query_pairs :: "string \<Rightarrow> (string \<times> string) list"
  pr_base64_decode :: "string \<Rightarrow> (bytes, string) result"
  pr_base64 :: "bytes \<Rightarrow> string"
  pr_aci_identity :: "('w, key_pair, signal_protocol_error) eff"
  pr_pni_identity :: "('w, key_pair, signal_protocol_error) eff"
  pr_key_pair :: "'w \<Rightarrow> key_pair \<times> 'w"
  pr_iv :: "'w \<Rightarrow> bytes \<times> 'w"
  pr_envelope_encode :: "provision_envelope \<Rightarrow> bytes"
  pr_message_json :: "string \<Rightarrow> bytes"
  pr_code_json :: "http_response \<Rightarrow> (string, service_error) result"
  pr_uuid_string :: "uuid \<Rightarrow> string"

definition new_device_provisioning_code :: "('w, 'm) primary_env_scheme \<Rightarrow> ('w, string, service_error) eff" where
  "new_device_provisioning_code E =
     bindE (http_call E ''GET'' (ServiceEndpoint ''/v1/devices/provisioning/code'') NoOverride id) (\<lambda>response.
     bindE (lift (service_error_for_status_with (he_http E) http_ops (get_provisioning_code_errors (he_http E) http_ops) response))
       (\<lambda>response. lift (pr_code_json E response)))"

definition send_provisioning_message ::
    "('w, 'm) primary_env_scheme \<Rightarrow> string \<Rightarrow> provision_envelope \<Rightarrow> ('w, unit, service_error) eff" where
  "send_provisioning_message E destination env =
     bindE (http_call E ''PUT'' (ServiceEndpoint (''/v1/provisioning/'' @ destination)) NoOverride
              (http_json (pr_message_json E (pr_base64 E (pr_envelope_encode E env))))) (\<lambda>response.
     bindE (lift (service_error_for_status (he_http E) http_ops response)) (\<lambda>_. pure ()))"

definition provision_message_for ::
    "('w, 'm) primary_env_scheme \<Rightarrow> bytes option \<Rightarrow> provisioning_secrets \<Rightarrow> key_pair \<Rightarrow> key_pair \<Rightarrow> string \<Rightarrow> provision_message" where
  "provision_message_for E own_profile_key secrets aci_pair pni_pair code =
     (let X = pv_curve (pr_cipher E); c = sec_credentials secrets in
      \<lparr>pm_aci_identity_key_public = Some (public_serialize X (kp_public aci_pair)),
       pm_aci_identity_key_private = Some (private_serialize X (kp_private aci_pair)),
       pm_pni_identity_key_public = Some (public_serialize X (kp_public pni_pair)),
       pm_pni_identity_key_private = Some (private_serialize X (kp_private pni_pair)),
       pm_aci = map_option (pr_uuid_string E) (sc_aci c), pm_pni = map_option (pr_uuid_string E) (sc_pni c),
       pm_number = Some (sc_phonenumber c), pm_provisioning_code = Some code, pm_user_agent = None,
       pm_profile_key = own_profile_key, pm_read_receipts = None, pm_provisioning_version = Some 1,
       pm_ephemeral_backup_key = sec_ephemeral_backup_key secrets,
       pm_account_entropy_pool = Some (sec_account_entropy_pool secrets),
       pm_media_root_backup_key = sec_media_root_backup_key secrets, pm_aci_binary = sc_aci c, pm_pni_binary = sc_pni c\<rparr>)"

text \<open>Of two query parameters with one name the later one counts, as in the map the code collects.\<close>

definition account_link_device ::
    "('w, 'm) primary_env_scheme \<Rightarrow> bytes option \<Rightarrow> string \<Rightarrow> provisioning_secrets \<Rightarrow> ('w, unit, provisioning_error) eff" where
  "account_link_device E own_profile_key url secrets =
     (let query = map_of (rev (pr_query_pairs E url)) in
      bindE (lift (ok_or PvMissingUuid (query ''uuid''))) (\<lambda>ephemeral_id.
      bindE (lift (ok_or MissingPublicKey (query ''pub_key''))) (\<lambda>pub_key.
      bindE (lift (map_err InvalidPublicKey (pr_base64_decode E pub_key))) (\<lambda>pub_key.
      bindE (lift (map_err InvalidPublicKey (public_deserialize (pv_curve (pr_cipher E)) pub_key))) (\<lambda>pub_key.
      bindE (map_errE PvProtocolError (pr_aci_identity E)) (\<lambda>aci_pair.
      bindE (map_errE PvProtocolError (pr_pni_identity E)) (\<lambda>pni_pair.
      bindE (map_errE PvServiceError (new_device_provisioning_code E)) (\<lambda>code.
      bindE (drawE (pr_key_pair E)) (\<lambda>ours.
      bindE (drawE (pr_iv E)) (\<lambda>iv.
      bindE (lift (provisioning_encrypt (pr_cipher E) (from_public pub_key) ours iv
               (provision_message_for E own_profile_key secrets aci_pair pni_pair code))) (\<lambda>encrypted.
      map_errE PvServiceError (send_provisioning_message E ephemeral_id encrypted))))))))))))"

section \<open>Properties\<close>

text \<open>The two requests of the provisioning socket.\<close>

definition put :: "string \<Rightarrow> bytes \<Rightarrow> ws_request" where
  "put path body = \<lparr>req_id = Some 1, req_verb = Some ''PUT'', req_path = Some path, req_body = Some body, req_headers = []\<rparr>"

lemma provisioning_items_pair:
  assumes "pp_address_decode P address = Inr (Some target)"
    and "pp_url P ''sgnl://linkdevice'' [(''uuid'', target),
      (''pub_key'', pp_base64 P (public_serialize (pv_curve (pp_cipher P)) (public_key cipher))), (''capabilities'', ''backup5'')] = Ok url"
    and "pp_envelope_decode P body = Inr envelope" "provisioning_decrypt (pp_cipher P) cipher envelope = Ok message"
  shows "provisioning_items P cipher [(put ''/v1/address'' address, True), (put ''/v1/message'' body, True)] =
     [Ok (StepUrl url), Ok (StepMessage message)]"
  using assms by (simp add: provisioning_items_def provisioning_process_request_def put_def respond_def transpose_result_def
      List.map_filter_simps)

text \<open>Keys that survive their serialisation.\<close>

definition storable :: "curve \<Rightarrow> key_pair \<Rightarrow> bool" where
  "storable X k \<longleftrightarrow> public_deserialize X (public_serialize X (kp_public k)) = Ok (kp_public k) \<and>
     private_deserialize X (private_serialize X (kp_private k)) = Ok (kp_private k)"

lemma read_provision_message_for:
  assumes "pr_cipher A = pp_cipher (lk_pipe E)" "storable (pv_curve (pr_cipher A)) aci_pair" "storable (pv_curve (pr_cipher A)) pni_pair"
    and "lk_e164 E (sc_phonenumber (sec_credentials secrets)) = Some number"
    and "lk_entropy_pool E (sec_account_entropy_pool secrets) = Ok pool"
  shows "read_provision_message E (provision_message_for A (Some profile_key) secrets aci_pair pni_pair code) =
     Ok \<lparr>pa_aci_public_key = kp_public aci_pair, pa_aci_private_key = kp_private aci_pair,
         pa_pni_public_key = kp_public pni_pair, pa_pni_private_key = kp_private pni_pair,
         pa_profile_key = profile_key, pa_account_entropy_pool = Some pool,
         pa_ephemeral_backup_key = Option.bind (sec_ephemeral_backup_key secrets) (try_into_array 32),
         pa_phone_number = number, pa_provisioning_code = code\<rparr>"
  using assms by (simp add: read_provision_message_def provision_message_for_def read_public_key_def read_private_key_def
      storable_def Let_def)

text \<open>
  C30: a linked device takes over the account. Let the existing device, which knows its profile key,
  encrypt its provision message to the key of the new device, and let the provisioning socket deliver
  an address and then that message. Then the new device announces its URL and goes on to register
  with exactly the identity keys, profile key, entropy pool, backup key, number and code of the
  existing device. The hypotheses are the documented behaviour of the curve, the cipher and the
  codecs, and that the existing device's number and entropy pool can be parsed.
\<close>

theorem linked_device_inherits_account:
  assumes same: "pr_cipher A = pp_cipher (lk_pipe E)"
    and crypto: "agree (pv_curve (pr_cipher A)) ours theirs" "cbc_mac_correct (pv_cipher (pr_cipher A))" "length iv = 16"
      "storable (pv_curve (pr_cipher A)) aci_pair" "storable (pv_curve (pr_cipher A)) pni_pair"
    and message: "message = provision_message_for A (Some profile_key) secrets aci_pair pni_pair code"
      "pv_decode (pr_cipher A) (pv_encode (pr_cipher A) message) = Inr message"
      "lk_e164 E (sc_phonenumber (sec_credentials secrets)) = Some number"
      "lk_entropy_pool E (sec_account_entropy_pool secrets) = Ok pool"
    and envelope: "provisioning_encrypt (pr_cipher A) (from_public (kp_public theirs)) ours iv message = Ok envelope"
      "pp_envelope_decode (lk_pipe E) body = Inr envelope"
    and address: "pp_address_decode (lk_pipe E) address_body = Inr (Some target)"
      "pp_url (lk_pipe E) ''sgnl://linkdevice'' [(''uuid'', target),
         (''pub_key'', pp_base64 (lk_pipe E) (public_serialize (pv_curve (pr_cipher A)) (kp_public theirs))),
         (''capabilities'', ''backup5'')] = Ok url"
    and socket: "lk_connect E s = (Ok [(put ''/v1/address'' address_body, True), (put ''/v1/message'' body, True)], s1)"
    and draws: "lk_random_range E 1 256 s1 = (r, s2)" "lk_random_range E 1 256 s2 = (p, s3)" "lk_key_pair E s3 = (theirs, s4)"
      "lk_url_announced E url s4 = (True, s5)"
  shows "link_device E password name s = register_device E password name r p
     \<lparr>pa_aci_public_key = kp_public aci_pair, pa_aci_private_key = kp_private aci_pair,
      pa_pni_public_key = kp_public pni_pair, pa_pni_private_key = kp_private pni_pair,
      pa_profile_key = profile_key, pa_account_entropy_pool = Some pool,
      pa_ephemeral_backup_key = Option.bind (sec_ephemeral_backup_key secrets) (try_into_array 32),
      pa_phone_number = number, pa_provisioning_code = code\<rparr> s5"
proof -
  have "provisioning_decrypt (pp_cipher (lk_pipe E)) (from_key_pair theirs) envelope = Ok message"
    using provisioning_encrypt_decrypt [OF crypto(1,2,3) message(2)] envelope(1) same by auto
  moreover have "public_key (from_key_pair theirs) = kp_public theirs"
    by (simp add: public_key_def from_key_pair_def)
  ultimately have items: "provisioning_items (lk_pipe E) (from_key_pair theirs)
      [(put ''/v1/address'' address_body, True), (put ''/v1/message'' body, True)] = [Ok (StepUrl url), Ok (StepMessage message)]"
    using provisioning_items_pair [OF address(1) _ envelope(2)] address(2) same by simp
  show ?thesis
    using socket draws read_provision_message_for [OF same crypto(4,5) message(3,4)]
    by (simp add: link_device_def bindE_def map_errE_def drawE_def items message(1) Let_def)
qed

text \<open>Two concrete devices; the network of the new one delivers a given envelope.\<close>

definition sample_secrets :: provisioning_secrets where
  "sample_secrets = \<lparr>sec_credentials = \<lparr>sc_aci = None, sc_pni = None, sc_phonenumber = ''+1'', sc_password = None, sc_device_id = None\<rparr>,
     sec_ephemeral_backup_key = Some (replicate 32 5), sec_account_entropy_pool = ''pool'', sec_media_root_backup_key = None\<rparr>"

definition sample_primary :: "provisioning_pkgs \<Rightarrow> unit primary_env" where
  "sample_primary P = http_env.extend (sample_http 200) (primary_env.fields P (\<lambda>_. []) (Ok \<circ> as_bytes) (map char_of_byte)
     (pure (sample_key 1)) (pure (sample_key 2)) (Pair (sample_key 3)) (Pair (replicate 16 4)) (\<lambda>_. [])
     as_bytes (\<lambda>_. Ok ''code'') (\<lambda>_. []))"

definition sample_linked :: provision_message where
  "sample_linked = provision_message_for (sample_primary sample_provisioning) (Some (replicate 32 6)) sample_secrets
     (sample_key 1) (sample_key 2) ''code''"

definition sample_shared :: provisioning_pkgs where
  "sample_shared = sample_provisioning\<lparr>pv_decode := (\<lambda>_. Inr sample_linked)\<rparr>"

definition sample_link :: "provision_envelope \<Rightarrow> (unit, u32) link_env" where
  "sample_link envelope = http_env.extend (sample_http 200) (link_env.fields
     \<lparr>pp_cipher = sample_shared, pp_address_decode = (\<lambda>_. Inr (Some ''target'')), pp_envelope_decode = (\<lambda>_. Inr envelope),
      pp_url = (\<lambda>_ _. Ok ''url''), pp_base64 = map char_of_byte\<rparr>
     sample_device_pkgs (pure [(put ''/v1/address'' [], True), (put ''/v1/message'' [], True)])
     (\<lambda>lo hi. Pair 7) (Pair (sample_key 8)) (sample_pre_keys 1) (sample_pre_keys 1) Some id Ok (\<lambda>_. []) (\<lambda>_. [])
     (\<lambda>_. Err Unauthorized) (\<lambda>_. Pair True) (\<lambda>_. Pair True))"

lemma sample_storable: "storable sample_curve (sample_key n)"
  by (simp add: storable_def sample_curve_def sample_key_def)

lemma sample_secrets_parts:
  "sc_phonenumber (sec_credentials sample_secrets) = ''+1''"
  "sec_account_entropy_pool sample_secrets = ''pool''"
  by (simp_all add: sample_secrets_def)

lemma sample_primary_message:
  "provision_message_for (sample_primary sample_shared) (Some (replicate 32 6)) sample_secrets (sample_key 1) (sample_key 2) ''code'' =
     sample_linked"
  by (simp add: sample_linked_def provision_message_for_def sample_primary_def http_env.defs primary_env.defs sample_shared_def)

theorem linked_device_inherits_account_witness:
  "\<exists>envelope. link_device (sample_link envelope) ''password'' ''name'' () = register_device (sample_link envelope) ''password'' ''name'' 7 7
     \<lparr>pa_aci_public_key = [1], pa_aci_private_key = [1], pa_pni_public_key = [2], pa_pni_private_key = [2],
      pa_profile_key = replicate 32 6, pa_account_entropy_pool = Some ''pool'', pa_ephemeral_backup_key = Some (replicate 32 5),
      pa_phone_number = ''+1'', pa_provisioning_code = ''code''\<rparr> ()"
proof -
  let ?A = "sample_primary sample_shared"
  have sel: "pr_cipher ?A = sample_shared" "pv_curve sample_shared = sample_curve" "pv_cipher sample_shared = sample_cbc_mac"
    "pv_decode sample_shared m = Inr sample_linked" for m
    by (simp_all add: sample_primary_def http_env.defs primary_env.defs sample_shared_def sample_provisioning_def)
  obtain envelope where envelope:
    "provisioning_encrypt sample_shared (from_public (kp_public (sample_key 8))) (sample_key 3) (replicate 16 4) sample_linked = Ok envelope"
    using provisioning_encrypt_decrypt [of sample_shared "sample_key 3" "sample_key 8" "replicate 16 4" sample_linked]
    by (auto simp: sel sample_agree sample_cbc_mac_correct)
  have "link_device (sample_link envelope) ''password'' ''name'' () = register_device (sample_link envelope) ''password'' ''name'' 7 7
     \<lparr>pa_aci_public_key = kp_public (sample_key 1), pa_aci_private_key = kp_private (sample_key 1),
      pa_pni_public_key = kp_public (sample_key 2), pa_pni_private_key = kp_private (sample_key 2),
      pa_profile_key = replicate 32 6, pa_account_entropy_pool = Some ''pool'',
      pa_ephemeral_backup_key = Option.bind (sec_ephemeral_backup_key sample_secrets) (try_into_array 32),
      pa_phone_number = ''+1'', pa_provisioning_code = ''code''\<rparr> ()"
    by (rule linked_device_inherits_account [where A = ?A and ours = "sample_key 3" and theirs = "sample_key 8"
          and iv = "replicate 16 4" and envelope = envelope and message = sample_linked and body = "[]" and address_body = "[]"
          and target = "''target''" and url = "''url''"])
      (simp_all add: sel envelope sample_agree sample_cbc_mac_correct sample_primary_message sample_storable sample_secrets_parts
        sample_link_def http_env.defs link_env.defs)
  then show ?thesis
    by (auto simp: sample_key_def sample_secrets_def try_into_array_def)
qed

end
