(* ===== verification/Pni_Devices.thy ===== *)
theory Pni_Devices
  imports Sender_Properties Account_Keys "HOL-Library.AList"
begin

text \<open>
  Giving the linked devices a phone-number identity
  (\<open>account_manager.rs::pnp_initialize_devices\<close>, \<open>websocket/keys.rs::distribute_pni_keys\<close>): the
  primary device generates keys and a registration identifier for itself and for every linked device
  it has a session with, encrypts them for the devices and hands everything to the server in one
  request. Registration identifiers are drawn until a fresh one is found; that loop may run forever,
  so the operation is a partial function. Hash maps are association lists.
\<close>

section \<open>Effects that may not return\<close>

type_synonym ('w, 'a, 'e) peff = "'w \<Rightarrow> (('a, 'e) result \<times> 'w) option"

definition liftP :: "('w, 'a, 'e) eff \<Rightarrow> ('w, 'a, 'e) peff" where
  "liftP m = (\<lambda>s. Some (m s))"

definition bindP :: "('w, 'a, 'e) peff \<Rightarrow> ('a \<Rightarrow> ('w, 'b, 'e) peff) \<Rightarrow> ('w, 'b, 'e) peff" where
  "bindP m f = (\<lambda>s. Option.bind (m s) (\<lambda>(r, s'). case r of
      Ok a \<Rightarrow> f a s'
    | Err e \<Rightarrow> Some (Err e, s')
    | Panic p \<Rightarrow> Some (Panic p, s')))"

lemma bindP_Ok_iff:
  "bindP m f s = Some (Ok b, s'') \<longleftrightarrow> (\<exists>a s'. m s = Some (Ok a, s') \<and> f a s' = Some (Ok b, s''))"
  by (cases "m s") (auto simp: bindP_def split: prod.splits result.splits)

lemma liftP_Ok_iff [simp]: "liftP m s = Some r \<longleftrightarrow> m s = r"
  by (simp add: liftP_def)

text \<open>Effects that return from every state, whatever their outcome is; the rules follow the code.\<close>

definition total :: "('w, 'a, 'e) peff \<Rightarrow> bool" where
  "total m \<longleftrightarrow> (\<forall>s. m s \<noteq> None)"

named_theorems total_rules

lemma total_liftP [total_rules]: "total (liftP m)"
  by (simp add: total_def liftP_def)

lemma total_bindP [total_rules]: "total m \<Longrightarrow> (\<And>a. total (f a)) \<Longrightarrow> total (bindP m f)"
  by (fastforce simp: total_def bindP_def split: bind_splits prod.splits result.splits)

lemma total_if [total_rules]: "(b \<Longrightarrow> total m) \<Longrightarrow> (\<not> b \<Longrightarrow> total n) \<Longrightarrow> total (if b then m else n)"
  by simp

lemma total_case_prod [total_rules]: "(\<And>a b. total (f a b)) \<Longrightarrow> total (case p of (a, b) \<Rightarrow> f a b)"
  by (cases p) simp

lemma liftP_returns: "liftP m s \<noteq> None"
  by (simp add: liftP_def)

lemma bindP_returns:
  "m s \<noteq> None \<Longrightarrow> (\<And>a s'. m s = Some (Ok a, s') \<Longrightarrow> f a s' \<noteq> None) \<Longrightarrow> bindP m f s \<noteq> None"
  by (cases "m s") (auto simp: bindP_def split: prod.splits result.splits)

section \<open>The code\<close>

record pni_change_number =
  pcn_identity_key_pair :: bytes
  pcn_signed_pre_key :: bytes
  pcn_last_resort_kyber_pre_key :: bytes
  pcn_registration_id :: u32
  pcn_new_e164 :: string

record verify_account_response =
  va_aci :: uuid
  va_pni :: uuid
  va_storage_capable :: bool
  va_number :: "string option"

record pni_key_distribution_request =
  pd_pni_identity_key :: bytes
  pd_device_messages :: "outgoing_push_message list"
  pd_signed_prekeys :: "(string \<times> signed_pre_key_entity) list"
  pd_last_resort_kyber_prekeys :: "(string \<times> kyber_pre_key_entity) list"
  pd_registration_ids :: "(string \<times> u32) list"
  pd_signature_valid_on_each_signed_pre_key :: bool

record ('w, 'k) pni_env = "('w, 'k) pre_key_env" +
  pn_identity_key_pair :: "('w, bytes, signal_protocol_error) eff"
  pn_identity_public :: "bytes \<Rightarrow> bytes"
  pn_identity_serialize :: "bytes \<Rightarrow> bytes"
  pn_local_registration_id :: "('w, u32, signal_protocol_error) eff"
  pn_sub_device_sessions :: "service_id \<Rightarrow> ('w, device_id list, signal_protocol_error) eff"
  pn_load_session :: "protocol_address \<Rightarrow> ('w, bytes option, signal_protocol_error) eff"
  pn_random_range :: "nat \<Rightarrow> nat \<Rightarrow> 'w \<Rightarrow> u32 \<times> 'w"
  pn_sign :: "bytes \<Rightarrow> bytes \<Rightarrow> ('w, bytes, string) eff"
  pn_signed_serialize :: "signed_pre_key_record \<Rightarrow> (bytes, signal_protocol_error) result"
  pn_kyber_serialize :: "'k \<Rightarrow> (bytes, signal_protocol_error) result"
  pn_change_number_encode :: "pni_change_number \<Rightarrow> bytes"
  pn_socket :: "'w socket"
  pn_request_json :: "pni_key_distribution_request \<Rightarrow> (bytes, string) result"
  pn_response_json :: "bytes \<Rightarrow> (verify_account_response, string) result"

definition distribute_pni_keys ::
    "http_pkgs \<Rightarrow> ('w, 'k, 'm) pni_env_scheme \<Rightarrow> pni_key_distribution_request \<Rightarrow> ('w, verify_account_response, service_error) eff" where
  "distribute_pni_keys P N request =
     bindE (send_json (pn_socket N) (pn_request_json N request)
              (http_request ''PUT'' ''/v2/accounts/phone_number_identity_key_distribution'')) (\<lambda>response.
     bindE (lift (service_error_for_status P (ws_ops P) response)) (\<lambda>response.
     lift (response_json (pn_response_json N) response)))"

text \<open>\<open>random_length_padding\<close>: a random number of random bytes below the maximum.\<close>

definition random_length_padding ::
    "('w, 'n) sender_env_scheme \<Rightarrow> ('w, 'k, 'm) pni_env_scheme \<Rightarrow> nat \<Rightarrow> ('w, bytes, 'e) eff" where
  "random_length_padding E N max_len =
     bindE (drawE (pn_random_range N 0 max_len)) (\<lambda>len. drawE (fill_bytes E (unat len)))"

text \<open>The keys of a linked device are generated and not stored.\<close>

definition linked_device_keys ::
    "('w, 'k, 'm) pni_env_scheme \<Rightarrow> bytes
       \<Rightarrow> ('w, pre_key_record list \<times> signed_pre_key_record \<times> 'k list \<times> 'k option, message_sender_error) eff" where
  "linked_device_keys N identity =
     bindE (drawE (generate_key_pair N)) (\<lambda>key_pair.
     bindE (map_errE MsInvalidPrivateKey (pn_sign N identity (public_key_of N key_pair))) (\<lambda>signature.
     bindE (drawE (pn_random_range N 0 0xFFFFFF)) (\<lambda>signed_id.
     bindE (drawE (timestamp_now N)) (\<lambda>now.
     let signed_key = \<lparr>spk_id = signed_id, spk_timestamp = now, spk_key_pair = key_pair, spk_signature = signature\<rparr> in
     bindE (drawE (pn_random_range N 0 0xFFFFFF)) (\<lambda>kyber_pre_key_id.
     bindE (msProto (kyber_generate N kyber_pre_key_id identity)) (\<lambda>kyber.
     pure ([], signed_key, [], Some kyber)))))))"

definition device_keys ::
    "('w, 'k, 'm) pni_env_scheme \<Rightarrow> bytes \<Rightarrow> device_id
       \<Rightarrow> ('w, pre_key_record list \<times> signed_pre_key_record \<times> 'k list \<times> 'k option, message_sender_error) eff" where
  "device_keys N identity device =
     (if device = DEFAULT_DEVICE_ID then msProto (replenish_pre_keys N identity True 0 0)
      else linked_device_keys N identity)"

partial_function (option) fresh_registration_id :: "('w \<Rightarrow> u32 \<times> 'w) \<Rightarrow> u32 list \<Rightarrow> 'w \<Rightarrow> (u32 \<times> 'w) option" where
  "fresh_registration_id draw used s =
     (case draw s of (regid, s') \<Rightarrow>
        if regid \<notin> set used then Some (regid, s') else fresh_registration_id draw used s')"

definition registration_id_for ::
    "('w, 'k, 'm) pni_env_scheme \<Rightarrow> (string \<times> u32) list \<Rightarrow> device_id \<Rightarrow> ('w, u32, message_sender_error) peff" where
  "registration_id_for N ids device =
     (if device = DEFAULT_DEVICE_ID then liftP (msProto (pn_local_registration_id N))
      else (\<lambda>s. map_option (\<lambda>(regid, s'). (Ok regid, s')) (fresh_registration_id (pn_random_range N 1 16380) (map snd ids) s)))"

text \<open>The message with its keys that a linked device receives.\<close>

definition device_message ::
    "('w, 'n) sender_env_scheme \<Rightarrow> ('w, 'k, 'm) pni_env_scheme \<Rightarrow> message_sender \<Rightarrow> uuid \<Rightarrow> string \<Rightarrow> bytes \<Rightarrow> device_id
       \<Rightarrow> signed_pre_key_record \<Rightarrow> 'k \<Rightarrow> u32 \<Rightarrow> ('w, outgoing_push_message, message_sender_error) eff" where
  "device_message E N sender local_aci e164 identity device signed_key last_resort registration_id =
     bindE (msProto (lift (pn_signed_serialize N signed_key))) (\<lambda>signed_bytes.
     bindE (msProto (lift (pn_kyber_serialize N last_resort))) (\<lambda>kyber_bytes.
     bindE (random_length_padding E N 512) (\<lambda>padding.
     let msg = SyncMessage (Some (SyncOther (pn_change_number_encode N
           \<lparr>pcn_identity_key_pair = pn_identity_serialize N identity, pcn_signed_pre_key = signed_bytes,
            pcn_last_resort_kyber_pre_key = kyber_bytes, pcn_registration_id = registration_id, pcn_new_e164 = e164\<rparr>))) (Some padding) in
     create_encrypted_message E sender (Aci local_aci) None device
       (Encrypted (content_encode (env_codec E) (into_proto (env_codec E) (SynchronizeMessage msg)))))))"

definition has_session ::
    "('w, 'n) sender_env_scheme \<Rightarrow> ('w, 'k, 'm) pni_env_scheme \<Rightarrow> uuid \<Rightarrow> device_id \<Rightarrow> ('w, bool, message_sender_error) eff" where
  "has_session E N local_aci device =
     (if device \<noteq> DEFAULT_DEVICE_ID
      then bindE (msProto (pn_load_session N (address_of E (Aci local_aci) device))) (\<lambda>session. pure (session \<noteq> None))
      else pure True)"

text \<open>
  One iteration of the loop over the devices: the device is skipped without a session, otherwise its
  keys are entered into the request.
\<close>

definition provision_known_device ::
    "('w, 'n) sender_env_scheme \<Rightarrow> ('w, 'k, 'm) pni_env_scheme \<Rightarrow> message_sender \<Rightarrow> uuid \<Rightarrow> string \<Rightarrow> bytes \<Rightarrow> device_id
       \<Rightarrow> pni_key_distribution_request \<Rightarrow> ('w, pni_key_distribution_request, message_sender_error) peff" where
  "provision_known_device E N sender local_aci e164 identity device acc =
     bindP (liftP (device_keys N identity device)) (\<lambda>(pre_keys, signed_key, kyber_pre_keys, last_resort).
     bindP (registration_id_for N (pd_registration_ids acc) device) (\<lambda>registration_id.
     bindP (liftP (lift (expect ''requested last resort key'' last_resort))) (\<lambda>last_resort.
     bindP (liftP (msProto (lift (kyber_pre_key_entity_from N last_resort)))) (\<lambda>kyber_entity.
     let key = nat_to_string (unat device);
         acc = acc\<lparr>pd_signed_prekeys := AList.update key (signed_pre_key_entity_from N signed_key) (pd_signed_prekeys acc),
                   pd_last_resort_kyber_prekeys := AList.update key kyber_entity (pd_last_resort_kyber_prekeys acc),
                   pd_registration_ids := AList.update key registration_id (pd_registration_ids acc)\<rparr> in
     if pre_keys \<noteq> [] \<or> kyber_pre_keys \<noteq> [] then liftP (lift (Panic ''assertion failed''))
     else if device = DEFAULT_DEVICE_ID then liftP (pure acc)
     else
       bindP (liftP (device_message E N sender local_aci e164 identity device signed_key last_resort registration_id)) (\<lambda>msg.
       liftP (pure (acc\<lparr>pd_device_messages := pd_device_messages acc @ [msg]\<rparr>)))))))"

definition provision_device ::
    "('w, 'n) sender_env_scheme \<Rightarrow> ('w, 'k, 'm) pni_env_scheme \<Rightarrow> message_sender \<Rightarrow> uuid \<Rightarrow> string \<Rightarrow> bytes \<Rightarrow> device_id
       \<Rightarrow> pni_key_distribution_request \<Rightarrow> ('w, pni_key_distribution_request, message_sender_error) peff" where
  "provision_device E N sender local_aci e164 identity device acc =
     bindP (liftP (has_session E N local_aci device)) (\<lambda>known.
     if \<not> known then liftP (pure acc)
     else provision_known_device E N sender local_aci e164 identity device acc)"

primrec provision_devices ::
    "device_id list \<Rightarrow> ('w, 'n) sender_env_scheme \<Rightarrow> ('w, 'k, 'm) pni_env_scheme \<Rightarrow> message_sender \<Rightarrow> uuid \<Rightarrow> string \<Rightarrow> bytes
       \<Rightarrow> pni_key_distribution_request \<Rightarrow> ('w, pni_key_distribution_request, message_sender_error) peff" where
  "provision_devices [] E N sender local_aci e164 identity acc = liftP (pure acc)"
| "provision_devices (d # ds) E N sender local_aci e164 identity acc =
     bindP (provision_device E N sender local_aci e164 identity d acc)
       (provision_devices ds E N sender local_aci e164 identity)"

definition no_devices :: "('w, 'k, 'm) pni_env_scheme \<Rightarrow> bytes \<Rightarrow> pni_key_distribution_request" where
  "no_devices N identity = \<lparr>pd_pni_identity_key = pn_identity_public N identity, pd_device_messages = [], pd_signed_prekeys = [],
     pd_last_resort_kyber_prekeys = [], pd_registration_ids = [], pd_signature_valid_on_each_signed_pre_key = True\<rparr>"

definition pnp_initialize_devices ::
    "('w, 'n) sender_env_scheme \<Rightarrow> ('w, 'k, 'm) pni_env_scheme \<Rightarrow> message_sender \<Rightarrow> uuid \<Rightarrow> string
       \<Rightarrow> ('w, unit, message_sender_error) peff" where
  "pnp_initialize_devices E N sender local_aci e164 =
     bindP (liftP (msProto (pn_identity_key_pair N))) (\<lambda>identity.
     bindP (liftP (msProto (pn_sub_device_sessions N (Aci local_aci)))) (\<lambda>devices.
     bindP (provision_devices (DEFAULT_DEVICE_ID # devices) E N sender local_aci e164 identity
              (no_devices N identity)) (\<lambda>request.
     bindP (liftP (msService (distribute_pni_keys (net_http E) N request))) (\<lambda>_.
     liftP (pure ())))))"

section \<open>Properties\<close>

lemma fresh_registration_id_fresh:
  assumes "fresh_registration_id draw used s = Some (regid, s')"
  shows "regid \<notin> set used"
proof -
  have "fst r \<notin> set used" if "fresh_registration_id draw used s = Some r" for r
  proof (rule fresh_registration_id.raw_induct [where P = "\<lambda>draw used s r. fst r \<notin> set used", OF _ that])
    fix f draw used s r
    assume IH: "\<And>draw used s r. f draw used s = Some r \<Longrightarrow> fst (r :: u32 \<times> 'a) \<notin> set used"
      and eq: "(case draw s of (regid, s') \<Rightarrow> if regid \<notin> set used then Some (regid, s') else f draw used s') = Some r"
    obtain regid t where "draw s = (regid, t)"
      by fastforce
    with eq have "(if regid \<notin> set used then Some (regid, t) else f draw used t) = Some r"
      by simp
    then show "fst r \<notin> set used"
      using IH [of draw used t r] by (auto split: if_splits)
  qed
  from this [OF assms] show ?thesis
    by simp
qed

text \<open>
  Draws that cannot avoid a value forever: from every state, some later draw lies outside a given
  short list of values.
\<close>

definition fair_draws :: "('w \<Rightarrow> u32 \<times> 'w) \<Rightarrow> bool" where
  "fair_draws draw \<longleftrightarrow> (\<forall>used s. length used \<le> 256 \<longrightarrow> (\<exists>n. fst (draw (((snd \<circ> draw) ^^ n) s)) \<notin> set used))"

lemma fresh_registration_id_returns:
  assumes "fst (draw (((snd \<circ> draw) ^^ n) s)) \<notin> set used"
  shows "fresh_registration_id draw used s \<noteq> None"
  using assms
proof (induction n arbitrary: s)
  case 0
  then show ?case
    by (cases "draw s") (simp add: fresh_registration_id.simps [of draw used s])
next
  case (Suc n)
  have "((snd \<circ> draw) ^^ Suc n) s = ((snd \<circ> draw) ^^ n) (snd (draw s))"
    by (simp add: funpow_swap1)
  with Suc.prems have "fst (draw (((snd \<circ> draw) ^^ n) (snd (draw s)))) \<notin> set used"
    by (simp only: not_False_eq_True)
  from Suc.IH [OF this] show ?case
    by (cases "draw s") (simp add: fresh_registration_id.simps [of draw used s])
qed

lemma update_new: "k \<notin> fst ` set al \<Longrightarrow> AList.update k v al = al @ [(k, v)]"
  by (induction al) auto

definition device_key :: "device_id \<Rightarrow> string" where
  "device_key d = nat_to_string (unat d)"

lemma device_key_inj: "device_key d = device_key e \<longleftrightarrow> d = e"
  by (auto simp: device_key_def word_unat_eq_iff)

text \<open>
  The three tables of a request describe the same devices, the registration identifiers differ, and
  there is a message for each of the devices but the primary.
\<close>

definition covers :: "device_id list \<Rightarrow> pni_key_distribution_request \<Rightarrow> bool" where
  "covers ds request \<longleftrightarrow>
     map fst (pd_signed_prekeys request) = map device_key ds \<and>
     map fst (pd_last_resort_kyber_prekeys request) = map device_key ds \<and>
     map fst (pd_registration_ids request) = map device_key ds \<and>
     distinct (map snd (pd_registration_ids request)) \<and>
     map destination_device_id (pd_device_messages request) = filter (\<lambda>d. d \<noteq> DEFAULT_DEVICE_ID) ds"

lemma registration_id_for_new:
  assumes "registration_id_for N ids d s = Some (Ok regid, s')" "d = DEFAULT_DEVICE_ID \<Longrightarrow> ids = []"
  shows "regid \<notin> set (map snd ids)"
  using assms fresh_registration_id_fresh
  by (fastforce simp: registration_id_for_def split: if_splits)

lemma device_message_device:
  "device_message E N sender local_aci e164 identity d signed_key k regid s = (Ok m, s') \<Longrightarrow> destination_device_id m = d"
  by (auto simp: device_message_def bindE_Ok_iff Let_def dest: create_encrypted_message_device)

lemma covers_recorded:
  assumes "covers ds acc" "d \<notin> set ds" "regid \<notin> set (map snd (pd_registration_ids acc))"
    and "map destination_device_id msgs = filter (\<lambda>d. d \<noteq> DEFAULT_DEVICE_ID) [d]"
  shows "covers (ds @ [d]) (acc\<lparr>pd_device_messages := pd_device_messages acc @ msgs,
     pd_signed_prekeys := AList.update (device_key d) k (pd_signed_prekeys acc),
     pd_last_resort_kyber_prekeys := AList.update (device_key d) q (pd_last_resort_kyber_prekeys acc),
     pd_registration_ids := AList.update (device_key d) regid (pd_registration_ids acc)\<rparr>)"
proof -
  have "device_key d \<notin> fst ` set (pd_signed_prekeys acc)" "device_key d \<notin> fst ` set (pd_last_resort_kyber_prekeys acc)"
    "device_key d \<notin> fst ` set (pd_registration_ids acc)"
    using assms(1,2) unfolding covers_def by (metis (no_types, lifting) device_key_inj imageE list.set_map)+
  with assms show ?thesis
    by (simp add: covers_def update_new)
qed

text \<open>A successful iteration skips the device or records its keys and, for a linked device, its message.\<close>

lemma provision_known_device_Ok:
  assumes "provision_known_device E N sender local_aci e164 identity d acc s = Some (Ok acc', s')"
  obtains k q regid msgs s1 s2 where
      "registration_id_for N (pd_registration_ids acc) d s1 = Some (Ok regid, s2)"
      "map destination_device_id msgs = filter (\<lambda>d. d \<noteq> DEFAULT_DEVICE_ID) [d]"
      "acc' = acc\<lparr>pd_device_messages := pd_device_messages acc @ msgs,
         pd_signed_prekeys := AList.update (device_key d) k (pd_signed_prekeys acc),
         pd_last_resort_kyber_prekeys := AList.update (device_key d) q (pd_last_resort_kyber_prekeys acc),
         pd_registration_ids := AList.update (device_key d) regid (pd_registration_ids acc)\<rparr>"
proof (cases "d = DEFAULT_DEVICE_ID")
  case True
  obtain k q regid s1 s2 where reg: "registration_id_for N (pd_registration_ids acc) d s1 = Some (Ok regid, s2)"
    and "acc' = acc\<lparr>pd_signed_prekeys := AList.update (device_key d) k (pd_signed_prekeys acc),
          pd_last_resort_kyber_prekeys := AList.update (device_key d) q (pd_last_resort_kyber_prekeys acc),
          pd_registration_ids := AList.update (device_key d) regid (pd_registration_ids acc)\<rparr>"
    using assms True by (auto simp: provision_known_device_def device_key_def bindP_Ok_iff Let_def split: if_splits)
  then show ?thesis
    using that [OF reg, of "[]"] True by simp
next
  case False
  obtain signed_key lr q regid s1 s2 s3 m s4 where reg: "registration_id_for N (pd_registration_ids acc) d s1 = Some (Ok regid, s2)"
    and m: "device_message E N sender local_aci e164 identity d signed_key lr regid s3 = (Ok m, s4)"
    and "acc' = acc\<lparr>pd_signed_prekeys := AList.update (device_key d) (signed_pre_key_entity_from N signed_key) (pd_signed_prekeys acc),
          pd_last_resort_kyber_prekeys := AList.update (device_key d) q (pd_last_resort_kyber_prekeys acc),
          pd_registration_ids := AList.update (device_key d) regid (pd_registration_ids acc),
          pd_device_messages := pd_device_messages acc @ [m]\<rparr>"
    using assms False by (auto simp: provision_known_device_def device_key_def bindP_Ok_iff Let_def split: if_splits)
  then show ?thesis
    using device_message_device [OF m] False
    by (intro that [OF reg, where msgs = "[m]" and k = "signed_pre_key_entity_from N signed_key" and q = q]) simp_all
qed

lemma provision_device_cases:
  assumes "provision_device E N sender local_aci e164 identity d acc s = Some (Ok acc', s')"
  obtains (skip) "acc' = acc" "d \<noteq> DEFAULT_DEVICE_ID"
  | (stored) s0 where "provision_known_device E N sender local_aci e164 identity d acc s0 = Some (Ok acc', s')"
  using assms by (auto simp: provision_device_def bindP_Ok_iff has_session_def split: if_splits)

lemma provision_device_covers:
  assumes "covers ds acc" "d \<notin> set ds" "d = DEFAULT_DEVICE_ID \<Longrightarrow> ds = []"
    and run: "provision_device E N sender local_aci e164 identity d acc s = Some (Ok acc', s')"
  shows "acc' = acc \<and> d \<noteq> DEFAULT_DEVICE_ID \<or> covers (ds @ [d]) acc'"
  using run
proof (cases rule: provision_device_cases)
  case (stored s0)
  then show ?thesis
  proof (rule provision_known_device_Ok)
    fix k q regid msgs s1 s2
    assume reg: "registration_id_for N (pd_registration_ids acc) d s1 = Some (Ok regid, s2)"
      and msgs: "map destination_device_id msgs = filter (\<lambda>d. d \<noteq> DEFAULT_DEVICE_ID) [d]"
      and acc': "acc' = acc\<lparr>pd_device_messages := pd_device_messages acc @ msgs,
         pd_signed_prekeys := AList.update (device_key d) k (pd_signed_prekeys acc),
         pd_last_resort_kyber_prekeys := AList.update (device_key d) q (pd_last_resort_kyber_prekeys acc),
         pd_registration_ids := AList.update (device_key d) regid (pd_registration_ids acc)\<rparr>"
    have "pd_registration_ids acc = []" if "d = DEFAULT_DEVICE_ID"
      using assms(1,3) that by (simp add: covers_def)
    from registration_id_for_new [OF reg this] show ?thesis
      using covers_recorded [OF assms(1,2) _ msgs] acc' by blast
  qed
qed simp

lemma provision_devices_covers:
  assumes "covers ds acc" "distinct (ds @ rest)" "DEFAULT_DEVICE_ID \<notin> set rest"
    and "provision_devices rest E N sender local_aci e164 identity acc s = Some (Ok acc', s')"
  shows "\<exists>more. subseq more rest \<and> covers (ds @ more) acc'"
  using assms
proof (induction rest arbitrary: ds acc s)
  case Nil
  then show ?case
    by auto
next
  case (Cons d rest)
  obtain acc1 s1 where first: "provision_device E N sender local_aci e164 identity d acc s = Some (Ok acc1, s1)"
    and loop: "provision_devices rest E N sender local_aci e164 identity acc1 s1 = Some (Ok acc', s')"
    using Cons.prems(4) by (auto simp: bindP_Ok_iff)
  from provision_device_covers [OF Cons.prems(1) _ _ first] Cons.prems(2,3)
  consider "acc1 = acc" | "covers (ds @ [d]) acc1"
    by auto
  then show ?case
  proof cases
    case 1
    then show ?thesis
      using Cons.IH [OF Cons.prems(1) _ _ loop [unfolded 1]] Cons.prems(2,3) by auto
  next
    case 2
    then obtain more where "subseq more rest" "covers ((ds @ [d]) @ more) acc'"
      using Cons.IH [OF 2 _ _ loop] Cons.prems(2,3) by auto
    then show ?thesis
      by (intro exI [of _ "d # more"]) simp
  qed
qed

lemma covers_length: "covers ds acc \<Longrightarrow> distinct ds \<Longrightarrow> length (pd_registration_ids acc) \<le> 256"
proof -
  assume covers: "covers ds acc" and "distinct ds"
  have "length (pd_registration_ids acc) = length ds"
    using covers unfolding covers_def by (metis length_map)
  also have "\<dots> = card (set ds)"
    using \<open>distinct ds\<close> by (simp add: distinct_card)
  also have "\<dots> \<le> card (UNIV :: u8 set)"
    by (intro card_mono) simp_all
  finally show ?thesis
    by (simp add: card_word)
qed

lemma registration_id_for_total:
  assumes "fair_draws (pn_random_range N 1 16380)" "length ids \<le> 256"
  shows "total (registration_id_for N ids d)"
proof -
  have "fresh_registration_id (pn_random_range N 1 16380) (map snd ids) s \<noteq> None" for s
  proof -
    obtain n where "fst (pn_random_range N 1 16380 (((snd \<circ> pn_random_range N 1 16380) ^^ n) s)) \<notin> set (map snd ids)"
      using assms unfolding fair_draws_def by (metis length_map)
    then show ?thesis
      by (rule fresh_registration_id_returns)
  qed
  then show ?thesis
    by (simp add: registration_id_for_def total_def liftP_def del: not_None_eq)
qed

lemma provision_device_total:
  assumes "fair_draws (pn_random_range N 1 16380)" "length (pd_registration_ids acc) \<le> 256"
  shows "total (provision_device E N sender local_aci e164 identity d acc)"
  unfolding provision_device_def provision_known_device_def Let_def by (intro total_rules registration_id_for_total [OF assms])

lemma provision_devices_returns:
  assumes "fair_draws (pn_random_range N 1 16380)" "covers ds acc" "distinct (ds @ rest)" "DEFAULT_DEVICE_ID \<notin> set rest"
  shows "provision_devices rest E N sender local_aci e164 identity acc s \<noteq> None"
  using assms(2-)
proof (induction rest arbitrary: ds acc s)
  case (Cons d rest)
  show ?case
    unfolding provision_devices.simps
  proof (rule bindP_returns)
    have "distinct ds"
      using Cons.prems(2) by simp
    from provision_device_total [OF assms(1) covers_length [OF Cons.prems(1) this]]
    show "provision_device E N sender local_aci e164 identity d acc s \<noteq> None"
      unfolding total_def by blast
    fix acc1 s1
    assume "provision_device E N sender local_aci e164 identity d acc s = Some (Ok acc1, s1)"
    from provision_device_covers [OF Cons.prems(1) _ _ this] Cons.prems(2,3)
    consider "covers ds acc1" | "covers (ds @ [d]) acc1"
      using Cons.prems(1) by auto
    then show "provision_devices rest E N sender local_aci e164 identity acc1 s1 \<noteq> None"
      by cases (use Cons.IH [of ds acc1 s1] Cons.IH [of "ds @ [d]" acc1 s1] Cons.prems(2,3) in auto)
  qed
qed (simp add: liftP_def)

lemma covers_no_devices: "covers [] (no_devices N identity)"
  by (simp add: covers_def no_devices_def)

lemma provision_primary_covers:
  "provision_device E N sender local_aci e164 identity DEFAULT_DEVICE_ID (no_devices N identity) s = Some (Ok acc, s') \<Longrightarrow>
     covers [DEFAULT_DEVICE_ID] acc"
  using provision_device_covers [OF covers_no_devices] by fastforce

lemma provision_all_returns:
  assumes "fair_draws (pn_random_range N 1 16380)" "distinct devices" "DEFAULT_DEVICE_ID \<notin> set devices"
  shows "provision_devices (DEFAULT_DEVICE_ID # devices) E N sender local_aci e164 identity (no_devices N identity) s \<noteq> None"
  unfolding provision_devices.simps
proof (rule bindP_returns)
  have "length (pd_registration_ids (no_devices N identity)) \<le> 256"
    by (simp add: no_devices_def)
  from provision_device_total [OF assms(1) this]
  show "provision_device E N sender local_aci e164 identity DEFAULT_DEVICE_ID (no_devices N identity) s \<noteq> None"
    unfolding total_def by blast
qed (use provision_devices_returns [OF assms(1) provision_primary_covers] assms(2,3) in auto)

lemma provision_all_covers:
  assumes "provision_devices (DEFAULT_DEVICE_ID # devices) E N sender local_aci e164 identity (no_devices N identity) s = Some (Ok request, s')"
    and "distinct devices" "DEFAULT_DEVICE_ID \<notin> set devices"
  shows "\<exists>linked. subseq linked devices \<and> covers (DEFAULT_DEVICE_ID # linked) request \<and>
     map destination_device_id (pd_device_messages request) = linked"
proof -
  obtain acc t where first: "provision_device E N sender local_aci e164 identity DEFAULT_DEVICE_ID (no_devices N identity) s = Some (Ok acc, t)"
    and rest: "provision_devices devices E N sender local_aci e164 identity acc t = Some (Ok request, s')"
    using assms(1) by (auto simp: bindP_Ok_iff)
  obtain linked where linked: "subseq linked devices" "covers (DEFAULT_DEVICE_ID # linked) request"
    using provision_devices_covers [OF provision_primary_covers [OF first] _ _ rest] assms(2,3) by auto
  then have "map destination_device_id (pd_device_messages request) = linked"
    using assms(3) list_emb_set [OF linked(1)] by (auto simp: covers_def filter_id_conv)
  with linked show ?thesis
    by blast
qed


text \<open>
  A concrete account with two linked devices; every random draw is noted in the log and its value
  is the length of the log.
\<close>

definition counting_draw :: "sample_log \<Rightarrow> u32 \<times> sample_log" where
  "counting_draw s = (word_of_nat (length s mod 1000), s @ [(False, new_request [])])"

lemma counting_draw_later: "fst (counting_draw (((snd \<circ> counting_draw) ^^ n) s)) = word_of_nat ((length s + n) mod 1000)"
proof -
  have "length (((snd \<circ> counting_draw) ^^ n) s) = length s + n"
    by (induction n) (simp_all add: counting_draw_def)
  then show ?thesis
    by (simp add: counting_draw_def)
qed

lemma counting_draw_fair: "fair_draws counting_draw"
  unfolding fair_draws_def
proof (intro allI impI)
  fix used :: "u32 list" and s :: sample_log
  assume "length used \<le> 256"
  let ?f = "\<lambda>n. word_of_nat ((length s + n) mod 1000) :: u32"
  have "inj_on ?f {..<257}"
  proof (rule inj_onI)
    fix m n
    assume mn: "m \<in> {..<257}" "n \<in> {..<257}" "?f m = ?f n"
    have "unat (?f k) = (length s + k) mod 1000" for k
    proof -
      have "(length s + k) mod 1000 < 1000"
        by simp
      then show ?thesis
        by (simp add: unat_of_nat)
    qed
    with mn(3) have "(length s + m) mod 1000 = (length s + n) mod 1000"
      by metis
    with mn(1,2) show "m = n"
      using mod_shift_inj [of "length s" m 1000 n] by simp
  qed
  then have "card (?f ` {..<257}) = 257"
    by (simp add: card_image)
  moreover have "card (set used) \<le> 256"
    using card_length [of used] \<open>length used \<le> 256\<close> by linarith
  ultimately have "\<not> ?f ` {..<257} \<subseteq> set used"
    using card_mono [of "set used" "?f ` {..<257}"] by auto
  then show "\<exists>n. fst (counting_draw (((snd \<circ> counting_draw) ^^ n) s)) \<notin> set used"
    unfolding counting_draw_later by auto
qed

definition sample_pni :: "(sample_log, u32) pni_env" where
  "sample_pni = \<lparr>next_pre_key_id = pure 1, next_signed_pre_key_id = pure 5, next_pq_pre_key_id = pure 1,
     generate_key_pair = Pair [1], public_key_of = id, calculate_signature = (\<lambda>_ _. pure [2]), timestamp_now = Pair 0,
     kyber_generate = (\<lambda>i _. pure i), kyber_id = Ok, kyber_public = (\<lambda>_. Ok [3]), kyber_signature = (\<lambda>_. Ok [4]),
     save_pre_key = (\<lambda>_ _. pure ()), save_kyber_pre_key = (\<lambda>_ _. pure ()), save_signed_pre_key = (\<lambda>_ _. pure ()),
     store_last_resort_kyber_pre_key = (\<lambda>_ _. pure ()),
     pn_identity_key_pair = pure [6], pn_identity_public = id, pn_identity_serialize = id, pn_local_registration_id = pure 77,
     pn_sub_device_sessions = (\<lambda>_. pure [3, 4]), pn_load_session = (\<lambda>_. pure (Some [])),
     pn_random_range = (\<lambda>_ _. counting_draw), pn_sign = (\<lambda>_ _. pure [2]), pn_signed_serialize = (\<lambda>_. Ok []),
     pn_kyber_serialize = (\<lambda>_. Ok []), pn_change_number_encode = (\<lambda>_. []), pn_socket = sample_socket False 200,
     pn_request_json = (\<lambda>_. Ok []), pn_response_json = (\<lambda>_. Ok \<lparr>va_aci = [], va_pni = [], va_storage_capable = False, va_number = None\<rparr>)\<rparr>"


end
