(* ===== verification/Registration.thy ===== *)
theory Registration
  imports Provisioning Pni_Devices Cdn
begin

text \<open>
  Registering an account (\<open>websocket/registration.rs\<close>) and the account endpoints
  (\<open>websocket/account.rs\<close>, \<open>websocket/linking.rs\<close>, \<open>websocket/calling.rs\<close>, \<open>websocket/stickers.rs\<close>,
  \<open>websocket/directory.rs\<close>, \<open>push_service/messages.rs\<close> and the remaining requests of
  \<open>account_manager.rs\<close>). Every endpoint builds one request, lets the decoder of the endpoint judge the
  answer and reads its body; JSON encoders and decoders are parameters.
\<close>

section \<open>Data\<close>

datatype verification_transport = Sms | Voice

datatype registration_method = SessionId string | RecoveryPassword string

definition method_session_id :: "registration_method \<Rightarrow> string option" where
  "method_session_id m = (case m of SessionId x \<Rightarrow> Some x | _ \<Rightarrow> None)"

definition method_recovery_password :: "registration_method \<Rightarrow> string option" where
  "method_recovery_password m = (case m of RecoveryPassword x \<Rightarrow> Some x | _ \<Rightarrow> None)"

record device_capabilities =
  cap_storage :: bool
  cap_transfer :: bool
  cap_attachment_backfill :: bool
  cap_spqr :: bool
  cap_profiles_v2 :: bool
  cap_username_change_sync_message :: bool

definition default_capabilities :: device_capabilities where
  "default_capabilities = \<lparr>cap_storage = False, cap_transfer = False, cap_attachment_backfill = False, cap_spqr = True,
     cap_profiles_v2 = False, cap_username_change_sync_message = False\<rparr>"

record account_attributes =
  aa_registration_id :: u32
  aa_voice :: bool
  aa_video :: bool
  aa_fetches_messages :: bool
  aa_registration_lock :: "string option"
  aa_unidentified_access_key :: "bytes option"
  aa_unrestricted_unidentified_access :: bool
  aa_discoverable_by_phone_number :: bool
  aa_capabilities :: "device_capabilities option"
  aa_name :: "device_name option"
  aa_pni_registration_id :: u32
  aa_recovery_password :: "bytes option"

record gcm_registration_id =
  gcm_id :: string
  gcm_web_socket_channel :: bool

record captcha_attributes =
  challenge_type :: string
  challenge_token :: string
  challenge_captcha :: string

record registration_key_package =
  rk_aci_identity_key :: bytes
  rk_pni_identity_key :: bytes
  rk_activation :: device_activation_request

record verification_session_request =
  vs_number :: string
  vs_push_token :: "string option"
  vs_mcc :: "string option"
  vs_mnc :: "string option"
  vs_push_token_type :: "string option"

record update_verification_session_request =
  us_captcha :: "string option"
  us_push_token :: "string option"
  us_push_challenge :: "string option"
  us_mcc :: "string option"
  us_mnc :: "string option"
  us_push_token_type :: "string option"

record registration_session_request =
  rs_session_id :: "string option"
  rs_recovery_password :: "string option"
  rs_account_attributes :: account_attributes
  rs_skip_device_transfer :: bool
  rs_keys :: registration_key_package
  rs_gcm_token :: "gcm_registration_id option"
  rs_require_atomic :: bool

record who_am_i_response =
  wai_aci :: uuid
  wai_pni :: uuid
  wai_number :: string
  wai_username_hash :: "bytes option"
  wai_username_link_handle :: "uuid option"

record turn_server =
  turn_username :: string
  turn_password :: string
  turn_ttl_seconds :: u64
  turn_urls :: "string list"
  turn_urls_with_ips :: "string list"
  turn_hostname :: "string option"

record cdsi_entry =
  cdsi_e164 :: string
  cdsi_aci :: "uuid option"
  cdsi_pni :: "uuid option"

record ('w, 'k) rest_env = "'w cdn_env" +
  re_identified :: "'w socket"
  re_unidentified :: "'w socket"
  re_sids :: sid_pkgs
  re_e164 :: "string \<Rightarrow> string option"
  re_base64_standard :: "bytes \<Rightarrow> string"
  re_uuid_string :: "uuid \<Rightarrow> string"
  re_session_json :: "bytes \<Rightarrow> (registration_session_metadata_response, string) result"
  re_create_session_json :: "verification_session_request \<Rightarrow> (bytes, string) result"
  re_update_session_json :: "update_verification_session_request \<Rightarrow> (bytes, string) result"
  re_code_request_json :: "verification_transport \<Rightarrow> string \<Rightarrow> (bytes, string) result"
  re_code_json :: "string \<Rightarrow> (bytes, string) result"
  re_registration_json :: "registration_session_request \<Rightarrow> (bytes, string) result"
  re_verify_json :: "bytes \<Rightarrow> (verify_account_response, string) result"
  re_attributes_json :: "account_attributes \<Rightarrow> (bytes, string) result"
  re_whoami_json :: "bytes \<Rightarrow> (who_am_i_response, string) result"
  re_devices_json :: "bytes \<Rightarrow> (device_info_encrypted list, string) result"
  re_relays_json :: "bytes \<Rightarrow> (turn_server list, string) result"
  re_cdsi_json :: "bytes \<Rightarrow> (string \<times> string, string) result"
  re_spam_json :: "string option \<Rightarrow> bytes"
  re_captcha_json :: "captcha_attributes \<Rightarrow> bytes"
  re_device_name_json :: "device_name \<Rightarrow> bytes"
  re_cdsi_lookup :: "string \<times> string \<Rightarrow> string list \<Rightarrow> ('w, cdsi_entry list, service_error) eff"
  re_aci_identity_pair :: "('w, bytes, signal_protocol_error) eff"
  re_pni_identity_pair :: "('w, bytes, signal_protocol_error) eff"
  re_identity_public :: "bytes \<Rightarrow> bytes"
  re_aci_store :: "('w, 'k) pre_key_env"
  re_pni_store :: "('w, 'k) pre_key_env"
  re_get_identity :: "protocol_address \<Rightarrow> ('w, bytes option, signal_protocol_error) eff"
  re_device :: device_pkgs
  re_key_pair :: "'w \<Rightarrow> key_pair \<times> 'w"
  re_address_debug :: "protocol_address \<Rightarrow> string"

section \<open>Verification sessions\<close>

text \<open>A request with a JSON body whose answer the given decoder judges.\<close>

definition json_request ::
    "('w, 'k, 'm) rest_env_scheme \<Rightarrow> (ws_response \<Rightarrow> (ws_response, service_error) result) \<Rightarrow> string \<Rightarrow> string
       \<Rightarrow> (ws_request \<Rightarrow> ws_request) \<Rightarrow> (bytes, string) result \<Rightarrow> (bytes \<Rightarrow> ('a, string) result) \<Rightarrow> ('w, 'a, service_error) eff" where
  "json_request E decode verb path build body from_slice =
     bindE (send_json (re_unidentified E) body (build (http_request verb path))) (\<lambda>response.
     bindE (lift (service_error_for_status_with (he_http E) (ws_ops (he_http E)) decode response)) (\<lambda>response.
     lift (response_json from_slice response)))"

definition create_verification_session ::
    "('w, 'k, 'm) rest_env_scheme \<Rightarrow> string \<Rightarrow> string option \<Rightarrow> string option \<Rightarrow> string option
       \<Rightarrow> ('w, registration_session_metadata_response, service_error) eff" where
  "create_verification_session E number push_token mcc mnc =
     json_request E (create_verification_session_errors (he_http E) (ws_ops (he_http E))) ''POST'' ''/v1/verification/session'' id
       (re_create_session_json E \<lparr>vs_number = number, vs_push_token = push_token, vs_mcc = mcc, vs_mnc = mnc,
          vs_push_token_type = map_option (\<lambda>_. ''fcm'') push_token\<rparr>) (re_session_json E)"

definition patch_verification_session ::
    "('w, 'k, 'm) rest_env_scheme \<Rightarrow> string \<Rightarrow> string option \<Rightarrow> string option \<Rightarrow> string option \<Rightarrow> string option \<Rightarrow> string option
       \<Rightarrow> ('w, registration_session_metadata_response, service_error) eff" where
  "patch_verification_session E session push_token mcc mnc captcha push_challenge =
     json_request E (patch_verification_session_errors (he_http E) (ws_ops (he_http E))) ''PATCH''
       (''/v1/verification/session/'' @ session) id
       (re_update_session_json E \<lparr>us_captcha = captcha, us_push_token = push_token, us_push_challenge = push_challenge,
          us_mcc = mcc, us_mnc = mnc, us_push_token_type = map_option (\<lambda>_. ''fcm'') push_token\<rparr>) (re_session_json E)"

definition request_verification_code ::
    "('w, 'k, 'm) rest_env_scheme \<Rightarrow> string \<Rightarrow> string \<Rightarrow> verification_transport
       \<Rightarrow> ('w, registration_session_metadata_response, service_error) eff" where
  "request_verification_code E session client transport =
     json_request E (request_verification_code_errors (he_http E) (ws_ops (he_http E))) ''POST''
       (''/v1/verification/session/'' @ session @ ''/code'') id (re_code_request_json E transport client) (re_session_json E)"

definition submit_verification_code ::
    "('w, 'k, 'm) rest_env_scheme \<Rightarrow> string \<Rightarrow> string \<Rightarrow> ('w, registration_session_metadata_response, service_error) eff" where
  "submit_verification_code E session verification_code =
     json_request E (submit_verification_code_errors (he_http E) (ws_ops (he_http E))) ''PUT''
       (''/v1/verification/session/'' @ session @ ''/code'') id (re_code_json E verification_code) (re_session_json E)"

section \<open>Registration\<close>

definition submit_registration_request ::
    "('w, 'k, 'm) rest_env_scheme \<Rightarrow> registration_method \<Rightarrow> gcm_registration_id option \<Rightarrow> string \<Rightarrow> string \<Rightarrow> account_attributes
       \<Rightarrow> bool \<Rightarrow> registration_key_package \<Rightarrow> ('w, verify_account_response, service_error) eff" where
  "submit_registration_request E registration_method gcm_token phonenumber password attributes skip_device_transfer keys =
     bindE (lift (ok_or InvalidPhoneNumber (re_e164 E phonenumber))) (\<lambda>phonenumber.
     json_request E (post_registration_errors (he_http E) (ws_ops (he_http E))) ''POST'' ''/v1/registration''
       (registration_auth_header (re_base64_standard E) phonenumber password)
       (re_registration_json E \<lparr>rs_session_id = method_session_id registration_method,
          rs_recovery_password = method_recovery_password registration_method, rs_account_attributes = attributes,
          rs_skip_device_transfer = skip_device_transfer, rs_keys = keys, rs_gcm_token = gcm_token, rs_require_atomic = True\<rparr>)
       (re_verify_json E))"

definition registration_keys ::
    "('w, 'k, 'm) rest_env_scheme \<Rightarrow> bytes \<times> signed_pre_key_record \<times> kyber_pre_key_entity
       \<Rightarrow> bytes \<times> signed_pre_key_record \<times> kyber_pre_key_entity \<Rightarrow> registration_key_package" where
  "registration_keys E = (\<lambda>(aci_pair, aci_signed, aci_pq) (pni_pair, pni_signed, pni_pq).
     \<lparr>rk_aci_identity_key = re_identity_public E aci_pair, rk_pni_identity_key = re_identity_public E pni_pair,
      rk_activation = \<lparr>aci_signed_pre_key = signed_pre_key_entity_from (re_aci_store E) aci_signed,
        pni_signed_pre_key = signed_pre_key_entity_from (re_pni_store E) pni_signed,
        aci_pq_last_resort_pre_key = aci_pq, pni_pq_last_resort_pre_key = pni_pq\<rparr>\<rparr>)"

definition register_account ::
    "('w, 'k, 'm) rest_env_scheme \<Rightarrow> registration_method \<Rightarrow> gcm_registration_id option \<Rightarrow> account_attributes \<Rightarrow> bool \<Rightarrow> string \<Rightarrow> string
       \<Rightarrow> ('w, verify_account_response, provisioning_error) eff" where
  "register_account E registration_method gcm_token attributes skip_device_transfer phonenumber password =
     bindE (map_errE PvProtocolError (re_aci_identity_pair E)) (\<lambda>aci_pair.
     bindE (map_errE PvProtocolError (re_pni_identity_pair E)) (\<lambda>pni_pair.
     bindE (map_errE PvProtocolError (replenish_pre_keys (re_aci_store E) aci_pair True 0 0)) (\<lambda>(_, aci_signed, _, aci_last_resort).
     bindE (map_errE PvProtocolError (replenish_pre_keys (re_pni_store E) pni_pair True 0 0)) (\<lambda>(_, pni_signed, _, pni_last_resort).
     bindE (lift (expect ''requested last resort prekey'' aci_last_resort)) (\<lambda>aci_last_resort.
     bindE (lift (map_err PvProtocolError (kyber_pre_key_entity_from (re_aci_store E) aci_last_resort))) (\<lambda>aci_pq.
     bindE (lift (expect ''requested last resort prekey'' pni_last_resort)) (\<lambda>pni_last_resort.
     bindE (lift (map_err PvProtocolError (kyber_pre_key_entity_from (re_pni_store E) pni_last_resort))) (\<lambda>pni_pq.
     map_errE PvServiceError (submit_registration_request E registration_method gcm_token phonenumber password attributes
       skip_device_transfer (registration_keys E (aci_pair, aci_signed, aci_pq) (pni_pair, pni_signed, pni_pq)))))))))))"

section \<open>The account\<close>

definition whoami :: "('w, 'k, 'm) rest_env_scheme \<Rightarrow> ('w, who_am_i_response, service_error) eff" where
  "whoami E = get_json (he_http E) (re_identified E) ''/v1/accounts/whoami'' (re_whoami_json E)"

definition devices :: "('w, 'k, 'm) rest_env_scheme \<Rightarrow> ('w, device_info_encrypted list, service_error) eff" where
  "devices E = get_json (he_http E) (re_identified E) ''/v1/devices'' (re_devices_json E)"

definition set_account_attributes :: "('w, 'k, 'm) rest_env_scheme \<Rightarrow> account_attributes \<Rightarrow> ('w, unit, service_error) eff" where
  "set_account_attributes E attributes =
     bindE (send_json (re_identified E) (re_attributes_json E attributes) (http_request ''PUT'' ''/v1/accounts/attributes'')) (\<lambda>response.
     bindE (lift (service_error_for_status (he_http E) (ws_ops (he_http E)) response)) (\<lambda>_. pure ()))"

definition delete_request :: "('w, 'k, 'm) rest_env_scheme \<Rightarrow> string \<Rightarrow> ('w, unit, service_error) eff" where
  "delete_request E path =
     bindE (send (re_identified E) (http_request ''DELETE'' path)) (\<lambda>response.
     bindE (lift (service_error_for_status (he_http E) (ws_ops (he_http E)) response)) (\<lambda>_. pure ()))"

definition unregister_account :: "('w, 'k, 'm) rest_env_scheme \<Rightarrow> ('w, unit, service_error) eff" where
  "unregister_account E = delete_request E ''/v1/accounts/me''"

definition unlink_device :: "('w, 'k, 'm) rest_env_scheme \<Rightarrow> device_id \<Rightarrow> ('w, unit, service_error) eff" where
  "unlink_device E device = delete_request E (''/v1/devices/'' @ nat_to_string (unat device))"

definition get_calling_relays :: "('w, 'k, 'm) rest_env_scheme \<Rightarrow> ('w, turn_server list, service_error) eff" where
  "get_calling_relays E = get_json (he_http E) (re_identified E) ''/v2/calling/relays'' (re_relays_json E)"

definition update_device_name ::
    "('w, 'k, 'm) rest_env_scheme \<Rightarrow> device_id \<Rightarrow> string \<Rightarrow> uuid \<Rightarrow> ('w, unit, service_error) eff" where
  "update_device_name E device name account_aci =
     (let addr = to_protocol_address (service_id_string (re_sids E)) (Aci account_aci) device in
      bindE (storeE (re_get_identity E addr)) (\<lambda>key.
      bindE (lift (ok_or (SendError (''public key for device '' @ re_address_debug E addr @ '' not found'')) key)) (\<lambda>key.
      bindE (drawE (re_key_pair E)) (\<lambda>ephemeral_pair.
      bindE (lift (encrypt_device_name (re_device E) ephemeral_pair name key)) (\<lambda>encrypted.
      bindE (http_call E ''PUT'' (ServiceEndpoint (''/v1/accounts/name?deviceId='' @ nat_to_string (unat device))) NoOverride
               (http_json (re_device_name_json E encrypted))) (\<lambda>response.
      bindE (lift (service_error_for_status (he_http E) http_ops response)) (\<lambda>_. pure ())))))))"

definition submit_recaptcha_challenge ::
    "('w, 'k, 'm) rest_env_scheme \<Rightarrow> string \<Rightarrow> string \<Rightarrow> ('w, unit, service_error) eff" where
  "submit_recaptcha_challenge E challenge captcha =
     bindE (http_call E ''PUT'' (ServiceEndpoint ''/v1/challenge'') NoOverride
              (http_json (re_captcha_json E
                 \<lparr>challenge_type = ''captcha'', challenge_token = challenge, challenge_captcha = captcha\<rparr>))) (\<lambda>response.
     bindE (lift (service_error_for_status_with (he_http E) http_ops (submit_challenge_errors (he_http E) http_ops) response)) (\<lambda>_.
     pure ()))"

definition report_spam ::
    "('w, 'k, 'm) rest_env_scheme \<Rightarrow> service_id \<Rightarrow> uuid \<Rightarrow> bytes option \<Rightarrow> ('w, unit, service_error) eff" where
  "report_spam E sender guid spam_token =
     bindE (http_call E ''POST''
              (ServiceEndpoint (''/v1/messages/report/'' @ service_id_string (re_sids E) sender @ ''/'' @ re_uuid_string E guid))
              NoOverride (http_json (re_spam_json E (map_option (re_base64_standard E) spam_token)))) (\<lambda>response.
     bindE (lift (service_error_for_status (he_http E) http_ops response)) (\<lambda>_. pure ()))"

section \<open>Stickers\<close>

definition get_sticker_pack_manifest ::
    "('w, 'k, 'm) rest_env_scheme \<Rightarrow> string \<Rightarrow> ('w, (bytes, service_error) result, service_error) eff" where
  "get_sticker_pack_manifest E pack =
     bindE (get_from_cdn E 0 (''/stickers/'' @ pack @ ''/manifest.proto'')) (\<lambda>download. pure (dl_stream download))"

definition get_sticker ::
    "('w, 'k, 'm) rest_env_scheme \<Rightarrow> string \<Rightarrow> u32 \<Rightarrow> ('w, (bytes, service_error) result, service_error) eff" where
  "get_sticker E pack sticker =
     bindE (get_from_cdn E 0 (''/stickers/'' @ pack @ ''/full/'' @ nat_to_string (unat sticker))) (\<lambda>download. pure (dl_stream download))"

definition derive_key :: "(bytes \<Rightarrow> bytes \<Rightarrow> bytes) \<Rightarrow> bytes \<Rightarrow> (bytes, 'e) result" where
  "derive_key hkdf_64 ikm = Ok (hkdf_64 ikm (as_bytes ''Sticker Pack''))"

section \<open>Contact discovery\<close>

definition get_cdsi_auth :: "('w, 'k, 'm) rest_env_scheme \<Rightarrow> ('w, string \<times> string, service_error) eff" where
  "get_cdsi_auth E = get_json (he_http E) (re_identified E) ''/v2/directory/auth'' (re_cdsi_json E)"

definition discovered :: "cdsi_entry \<Rightarrow> string \<times> service_id option" where
  "discovered entry =
     (cdsi_e164 entry,
      case (cdsi_pni entry, cdsi_aci entry) of
        (None, None) \<Rightarrow> None
      | (None, Some a) \<Rightarrow> Some (Aci a)
      | (Some p, None) \<Rightarrow> Some (Pni p)
      | (Some _, Some a) \<Rightarrow> Some (Aci a))"

definition discover_contacts ::
    "('w, 'k, 'm) rest_env_scheme \<Rightarrow> string list \<Rightarrow> ('w, (string \<times> service_id option) list, service_error) eff" where
  "discover_contacts E numbers =
     bindE (get_cdsi_auth E) (\<lambda>auth.
     bindE (re_cdsi_lookup E auth numbers) (\<lambda>records.
     pure (map discovered records)))"

definition discover_contact_by_phone_number ::
    "('w, 'k, 'm) rest_env_scheme \<Rightarrow> string \<Rightarrow> ('w, service_id option, service_error) eff" where
  "discover_contact_by_phone_number E phone_number =
     bindE (lift (ok_or InvalidPhoneNumber (re_e164 E phone_number))) (\<lambda>number.
     bindE (discover_contacts E [number]) (\<lambda>results.
     pure (case results of [] \<Rightarrow> None | (_, sid) # _ \<Rightarrow> sid)))"

section \<open>Properties\<close>

text \<open>
  What the server learns about the keys of a new account: an accepted registration carried exactly
  the public identity keys of both stores and, for both, the signed key and the last-resort key that
  the replenishment of the store generated for it.
\<close>

lemma register_account_keys:
  assumes "register_account E registration_method gcm_token attributes skip phonenumber password s = (Ok answer, s')"
  shows "\<exists>a aci_signed aci_last aci_pq p pni_signed pni_last pni_pq ec1 pq1 ec2 pq2 s1 s2 s3.
     replenish_pre_keys (re_aci_store E) a True 0 0 s1 = (Ok (ec1, aci_signed, pq1, Some aci_last), s2) \<and>
     replenish_pre_keys (re_pni_store E) p True 0 0 s2 = (Ok (ec2, pni_signed, pq2, Some pni_last), s3) \<and>
     kyber_pre_key_entity_from (re_aci_store E) aci_last = Ok aci_pq \<and>
     kyber_pre_key_entity_from (re_pni_store E) pni_last = Ok pni_pq \<and>
     submit_registration_request E registration_method gcm_token phonenumber password attributes skip
       (registration_keys E (a, aci_signed, aci_pq) (p, pni_signed, pni_pq)) s3 = (Ok answer, s')"
  using assms unfolding register_account_def by (auto simp: bindE_Ok_iff; blast)

text \<open>An invalid number is only noticed after both stores were replenished; nothing is sent then.\<close>

lemma submit_registration_invalid_number:
  "re_e164 E phonenumber = None \<Longrightarrow>
   submit_registration_request E registration_method gcm_token phonenumber password attributes skip keys s = (Err InvalidPhoneNumber, s)"
  by (simp add: submit_registration_request_def ok_or_def)

text \<open>Discovery prefers the account identity, and finds nothing exactly for an entry with no identity.\<close>

lemma discovered_some_iff: "snd (discovered entry) = None \<longleftrightarrow> cdsi_aci entry = None \<and> cdsi_pni entry = None"
  by (auto simp: discovered_def split: option.splits)

lemma discovered_prefers_aci: "cdsi_aci entry = Some a \<Longrightarrow> discovered entry = (cdsi_e164 entry, Some (Aci a))"
  by (auto simp: discovered_def split: option.splits)

end
