(* ===== verification/Serde_Adapters.thy ===== *)
theory Serde_Adapters
  imports Ids
begin

text \<open>
  The adapters between the types of the library and the serialisation framework (the \<open>serde_*\<close> modules
  of \<open>utils.rs\<close>, \<open>aci_serde\<close> of \<open>groups_v2/model.rs\<close>): bytes and keys as base64, identifiers and numbers
  as strings, device identifiers as integers. The framework, base64, the encodings of keys and
  messages and the parsing of identifiers are records of functions. The framework reads a string in
  two ways: as a string that is borrowed from the input, which is possible only when the input holds
  it literally, or as an owned one.
\<close>

section \<open>The framework and the encodings\<close>

text \<open>
  What the adapters call of a serializer and of a deserializer. A value under construction has type
  \<open>'q\<close>, a serialized value type \<open>'s\<close>, a value to be read type \<open>'d\<close>.
\<close>

record ('s, 'q, 'd, 'e) serde_pkgs =
  serialize_str :: "string \<Rightarrow> ('s, 'e) result"
  serialize_none :: "('s, 'e) result"
  serialize_u8 :: "u8 \<Rightarrow> ('s, 'e) result"
  serialize_seq :: "nat \<Rightarrow> ('q, 'e) result"
  serialize_element :: "'q \<Rightarrow> u8 \<Rightarrow> ('q, 'e) result"
  serialize_end :: "'q \<Rightarrow> ('s, 'e) result"
  de_borrowed_str :: "'d \<Rightarrow> (string, 'e) result"
  de_cow_str :: "'d \<Rightarrow> (string, 'e) result"
  de_option_string :: "'d \<Rightarrow> (string option, 'e) result"
  de_u8 :: "'d \<Rightarrow> (u8, 'e) result"
  de_u8_vec :: "'d \<Rightarrow> (bytes, 'e) result"
  custom :: "string \<Rightarrow> 'e"

record base64_engine =
  b64_encode :: "bytes \<Rightarrow> string"
  b64_decode :: "string \<Rightarrow> (bytes, string) result"

record 'k byte_codec =
  to_bytes :: "'k \<Rightarrow> bytes"
  from_bytes :: "bytes \<Rightarrow> ('k, string) result"

record 'n text_codec =
  to_text :: "'n \<Rightarrow> string"
  from_text :: "string \<Rightarrow> ('n, string) result"

section \<open>Bytes\<close>

definition serde_base64_serialize ::
    "('s, 'q, 'd, 'e) serde_pkgs \<Rightarrow> base64_engine \<Rightarrow> bytes \<Rightarrow> ('s, 'e) result" where
  "serde_base64_serialize P relaxed bs = serialize_str P (b64_encode relaxed bs)"

definition serde_base64_deserialize ::
    "('s, 'q, 'd, 'e) serde_pkgs \<Rightarrow> base64_engine \<Rightarrow> 'd \<Rightarrow> (bytes, 'e) result" where
  "serde_base64_deserialize P relaxed d =
     and_then (de_borrowed_str P d) (\<lambda>s. map_err (custom P) (b64_decode relaxed s))"

definition serde_optional_base64_serialize ::
    "('s, 'q, 'd, 'e) serde_pkgs \<Rightarrow> base64_engine \<Rightarrow> bytes option \<Rightarrow> ('s, 'e) result" where
  "serde_optional_base64_serialize P relaxed m =
     (case m of Some bs \<Rightarrow> serde_base64_serialize P relaxed bs | None \<Rightarrow> serialize_none P)"

definition serde_optional_base64_deserialize ::
    "('s, 'q, 'd, 'e) serde_pkgs \<Rightarrow> base64_engine \<Rightarrow> 'd \<Rightarrow> (bytes option, 'e) result" where
  "serde_optional_base64_deserialize P relaxed d =
     and_then (de_option_string P d) (\<lambda>m. case m of
       Some s \<Rightarrow> map_ok Some (map_err (custom P) (b64_decode relaxed s))
     | None \<Rightarrow> Ok None)"

definition serde_base64_url_safe_no_pad_serialize ::
    "('s, 'q, 'd, 'e) serde_pkgs \<Rightarrow> base64_engine \<Rightarrow> bytes \<Rightarrow> ('s, 'e) result" where
  "serde_base64_url_safe_no_pad_serialize P url_safe bs = serialize_str P (b64_encode url_safe bs)"

definition serde_base64_url_safe_no_pad_deserialize ::
    "('s, 'q, 'd, 'e) serde_pkgs \<Rightarrow> base64_engine \<Rightarrow> 'd \<Rightarrow> (bytes, 'e) result" where
  "serde_base64_url_safe_no_pad_deserialize P url_safe d =
     and_then (de_borrowed_str P d) (\<lambda>s. map_err (custom P) (b64_decode url_safe s))"

definition serde_optional_base64_url_safe_no_pad_serialize ::
    "('s, 'q, 'd, 'e) serde_pkgs \<Rightarrow> base64_engine \<Rightarrow> bytes option \<Rightarrow> ('s, 'e) result" where
  "serde_optional_base64_url_safe_no_pad_serialize P url_safe m =
     (case m of Some bs \<Rightarrow> serde_base64_url_safe_no_pad_serialize P url_safe bs | None \<Rightarrow> serialize_none P)"

definition serde_optional_base64_url_safe_no_pad_deserialize ::
    "('s, 'q, 'd, 'e) serde_pkgs \<Rightarrow> base64_engine \<Rightarrow> 'd \<Rightarrow> (bytes option, 'e) result" where
  "serde_optional_base64_url_safe_no_pad_deserialize P url_safe d =
     and_then (de_option_string P d) (\<lambda>m. case m of
       Some s \<Rightarrow> map_ok Some (map_err (custom P) (b64_decode url_safe s))
     | None \<Rightarrow> Ok None)"

section \<open>Keys and messages\<close>

definition serde_identity_key_serialize ::
    "('s, 'q, 'd, 'e) serde_pkgs \<Rightarrow> base64_engine \<Rightarrow> 'k byte_codec \<Rightarrow> 'k \<Rightarrow> ('s, 'e) result" where
  "serde_identity_key_serialize P relaxed K key = serialize_str P (b64_encode relaxed (to_bytes K key))"

definition serde_identity_key_deserialize ::
    "('s, 'q, 'd, 'e) serde_pkgs \<Rightarrow> base64_engine \<Rightarrow> 'k byte_codec \<Rightarrow> 'd \<Rightarrow> ('k, 'e) result" where
  "serde_identity_key_deserialize P relaxed K d =
     and_then (de_borrowed_str P d) (\<lambda>s.
     and_then (map_err (custom P) (b64_decode relaxed s)) (\<lambda>bs.
     map_err (custom P) (from_bytes K bs)))"

definition serde_optional_identity_key_serialize ::
    "('s, 'q, 'd, 'e) serde_pkgs \<Rightarrow> base64_engine \<Rightarrow> 'k byte_codec \<Rightarrow> 'k option \<Rightarrow> ('s, 'e) result" where
  "serde_optional_identity_key_serialize P relaxed K m =
     (case m of Some key \<Rightarrow> serde_identity_key_serialize P relaxed K key | None \<Rightarrow> serialize_none P)"

definition serde_optional_identity_key_deserialize ::
    "('s, 'q, 'd, 'e) serde_pkgs \<Rightarrow> base64_engine \<Rightarrow> 'k byte_codec \<Rightarrow> 'd \<Rightarrow> ('k option, 'e) result" where
  "serde_optional_identity_key_deserialize P relaxed K d =
     and_then (de_option_string P d) (\<lambda>m. case m of
       Some s \<Rightarrow>
         and_then (map_err (custom P) (b64_decode relaxed s)) (\<lambda>bs.
         and_then (map_err (custom P) (from_bytes K bs)) (\<lambda>key. Ok (Some key)))
     | None \<Rightarrow> Ok None)"

definition serde_private_key_serialize ::
    "('s, 'q, 'd, 'e) serde_pkgs \<Rightarrow> base64_engine \<Rightarrow> 'k byte_codec \<Rightarrow> 'k \<Rightarrow> ('s, 'e) result" where
  "serde_private_key_serialize P relaxed K key = serialize_str P (b64_encode relaxed (to_bytes K key))"

definition serde_private_key_deserialize ::
    "('s, 'q, 'd, 'e) serde_pkgs \<Rightarrow> base64_engine \<Rightarrow> 'k byte_codec \<Rightarrow> 'd \<Rightarrow> ('k, 'e) result" where
  "serde_private_key_deserialize P relaxed K d =
     and_then (de_borrowed_str P d) (\<lambda>s.
     and_then (map_err (custom P) (b64_decode relaxed s)) (\<lambda>bs.
     map_err (custom P) (from_bytes K bs)))"

definition serde_optional_private_key_serialize ::
    "('s, 'q, 'd, 'e) serde_pkgs \<Rightarrow> base64_engine \<Rightarrow> 'k byte_codec \<Rightarrow> 'k option \<Rightarrow> ('s, 'e) result" where
  "serde_optional_private_key_serialize P relaxed K m =
     (case m of Some key \<Rightarrow> serde_private_key_serialize P relaxed K key | None \<Rightarrow> serialize_none P)"

definition serde_optional_private_key_deserialize ::
    "('s, 'q, 'd, 'e) serde_pkgs \<Rightarrow> base64_engine \<Rightarrow> 'k byte_codec \<Rightarrow> 'd \<Rightarrow> ('k option, 'e) result" where
  "serde_optional_private_key_deserialize P relaxed K d =
     and_then (de_option_string P d) (\<lambda>m. case m of
       Some s \<Rightarrow>
         and_then (map_err (custom P) (b64_decode relaxed s)) (\<lambda>bs.
         and_then (map_err (custom P) (from_bytes K bs)) (\<lambda>key. Ok (Some key)))
     | None \<Rightarrow> Ok None)"

definition serde_prost_base64_serialize ::
    "('s, 'q, 'd, 'e) serde_pkgs \<Rightarrow> base64_engine \<Rightarrow> 'k byte_codec \<Rightarrow> 'k \<Rightarrow> ('s, 'e) result" where
  "serde_prost_base64_serialize P relaxed M message =
     (let b64 = b64_encode relaxed (to_bytes M message) in serialize_str P b64)"

definition serde_prost_base64_deserialize ::
    "('s, 'q, 'd, 'e) serde_pkgs \<Rightarrow> base64_engine \<Rightarrow> 'k byte_codec \<Rightarrow> 'd \<Rightarrow> ('k, 'e) result" where
  "serde_prost_base64_deserialize P relaxed M d =
     and_then (de_borrowed_str P d) (\<lambda>s.
     and_then (map_err (custom P) (b64_decode relaxed s)) (\<lambda>bs.
     map_err (custom P) (from_bytes M bs)))"

definition serde_optional_prost_base64_serialize ::
    "('s, 'q, 'd, 'e) serde_pkgs \<Rightarrow> base64_engine \<Rightarrow> 'k byte_codec \<Rightarrow> 'k option \<Rightarrow> ('s, 'e) result" where
  "serde_optional_prost_base64_serialize P relaxed M m =
     (case m of Some message \<Rightarrow> serde_prost_base64_serialize P relaxed M message | None \<Rightarrow> serialize_none P)"

definition serde_optional_prost_base64_deserialize ::
    "('s, 'q, 'd, 'e) serde_pkgs \<Rightarrow> base64_engine \<Rightarrow> 'k byte_codec \<Rightarrow> 'd \<Rightarrow> ('k option, 'e) result" where
  "serde_optional_prost_base64_deserialize P relaxed M d =
     and_then (de_option_string P d) (\<lambda>m. case m of
       Some s \<Rightarrow>
         and_then (map_err (custom P) (b64_decode relaxed s)) (\<lambda>bs.
         and_then (map_err (custom P) (from_bytes M bs)) (\<lambda>message. Ok (Some message)))
     | None \<Rightarrow> Ok None)"

section \<open>Numbers and identifiers\<close>

definition serde_e164_serialize ::
    "('s, 'q, 'd, 'e) serde_pkgs \<Rightarrow> 'n text_codec \<Rightarrow> 'n \<Rightarrow> ('s, 'e) result" where
  "serde_e164_serialize P N number = serialize_str P (to_text N number)"

definition serde_e164_deserialize ::
    "('s, 'q, 'd, 'e) serde_pkgs \<Rightarrow> 'n text_codec \<Rightarrow> 'd \<Rightarrow> ('n, 'e) result" where
  "serde_e164_deserialize P N d =
     and_then (de_borrowed_str P d) (\<lambda>s. map_err (custom P) (from_text N s))"

definition serde_optional_e164_serialize ::
    "('s, 'q, 'd, 'e) serde_pkgs \<Rightarrow> 'n text_codec \<Rightarrow> 'n option \<Rightarrow> ('s, 'e) result" where
  "serde_optional_e164_serialize P N m =
     (case m of Some p \<Rightarrow> serialize_str P (to_text N p) | None \<Rightarrow> serialize_none P)"

definition serde_optional_e164_deserialize ::
    "('s, 'q, 'd, 'e) serde_pkgs \<Rightarrow> 'n text_codec \<Rightarrow> 'd \<Rightarrow> ('n option, 'e) result" where
  "serde_optional_e164_deserialize P N d =
     and_then (de_option_string P d) (\<lambda>m. case m of
       Some s \<Rightarrow> map_ok Some (map_err (custom P) (from_text N s))
     | None \<Rightarrow> Ok None)"

definition serde_phone_number_serialize ::
    "('s, 'q, 'd, 'e) serde_pkgs \<Rightarrow> 'n text_codec \<Rightarrow> 'n \<Rightarrow> ('s, 'e) result" where
  "serde_phone_number_serialize P N number = serialize_str P (to_text N number)"

definition serde_phone_number_deserialize ::
    "('s, 'q, 'd, 'e) serde_pkgs \<Rightarrow> 'n text_codec \<Rightarrow> 'd \<Rightarrow> ('n, 'e) result" where
  "serde_phone_number_deserialize P N d =
     and_then (de_borrowed_str P d) (\<lambda>s. map_err (custom P) (from_text N s))"

definition serde_service_id_serialize ::
    "('s, 'q, 'd, 'e) serde_pkgs \<Rightarrow> sid_pkgs \<Rightarrow> service_id \<Rightarrow> ('s, 'e) result" where
  "serde_service_id_serialize P S sid = serialize_str P (service_id_string S sid)"

definition serde_service_id_deserialize ::
    "('s, 'q, 'd, 'e) serde_pkgs \<Rightarrow> sid_pkgs \<Rightarrow> 'd \<Rightarrow> (service_id, 'e) result" where
  "serde_service_id_deserialize P S d =
     and_then (de_borrowed_str P d) (\<lambda>s.
     ok_or (custom P ''invalid service ID string'') (parse_from_service_id_string S s))"

definition serde_aci_serialize ::
    "('s, 'q, 'd, 'e) serde_pkgs \<Rightarrow> sid_pkgs \<Rightarrow> uuid \<Rightarrow> ('s, 'e) result" where
  "serde_aci_serialize P S u = serialize_str P (service_id_string S (Aci u))"

definition serde_aci_deserialize ::
    "('s, 'q, 'd, 'e) serde_pkgs \<Rightarrow> sid_pkgs \<Rightarrow> 'd \<Rightarrow> (uuid, 'e) result" where
  "serde_aci_deserialize P S d =
     and_then (de_borrowed_str P d) (\<lambda>s. ok_or (custom P ''invalid ACI string'') (aci_from_service_id_string S s))"

definition aci_serde_serialize ::
    "('s, 'q, 'd, 'e) serde_pkgs \<Rightarrow> sid_pkgs \<Rightarrow> uuid \<Rightarrow> ('s, 'e) result" where
  "aci_serde_serialize P S u = serialize_str P (service_id_string S (Aci u))"

definition aci_serde_deserialize ::
    "('s, 'q, 'd, 'e) serde_pkgs \<Rightarrow> sid_pkgs \<Rightarrow> 'd \<Rightarrow> (uuid, 'e) result" where
  "aci_serde_deserialize P S d =
     and_then (de_cow_str P d) (\<lambda>s. case aci_from_service_id_string S s of
       Some u \<Rightarrow> Ok u
     | None \<Rightarrow> Err (custom P ''Invalid ACI string''))"

definition serde_device_id_serialize ::
    "('s, 'q, 'd, 'e) serde_pkgs \<Rightarrow> device_id \<Rightarrow> ('s, 'e) result" where
  "serde_device_id_serialize P device = serialize_u8 P device"

definition serde_device_id_deserialize ::
    "('s, 'q, 'd, 'e) serde_pkgs \<Rightarrow> (u8 \<Rightarrow> device_id option) \<Rightarrow> 'd \<Rightarrow> (device_id, 'e) result" where
  "serde_device_id_deserialize P try_from d =
     and_then (de_u8 P d) (\<lambda>b. ok_or (custom P ''invalid device id'') (try_from b))"

primrec serialize_elements :: "('s, 'q, 'd, 'e) serde_pkgs \<Rightarrow> device_id list \<Rightarrow> 'q \<Rightarrow> ('q, 'e) result" where
  "serialize_elements P [] q = Ok q"
| "serialize_elements P (device # devices) q =
     and_then (serialize_element P q device) (serialize_elements P devices)"

definition serde_device_id_vec_serialize ::
    "('s, 'q, 'd, 'e) serde_pkgs \<Rightarrow> device_id list \<Rightarrow> ('s, 'e) result" where
  "serde_device_id_vec_serialize P devices =
     and_then (serialize_seq P (length devices)) (\<lambda>q.
     and_then (serialize_elements P devices q) (serialize_end P))"

definition serde_device_id_vec_deserialize ::
    "('s, 'q, 'd, 'e) serde_pkgs \<Rightarrow> (u8 \<Rightarrow> device_id option) \<Rightarrow> 'd \<Rightarrow> (device_id list, 'e) result" where
  "serde_device_id_vec_deserialize P try_from d =
     and_then (de_u8_vec P d) (\<lambda>bs. collect (map (\<lambda>b. ok_or (custom P ''invalid device id'') (try_from b)) bs))"

section \<open>What the packages promise\<close>

text \<open>A string that stands literally in JSON: without quotes, backslashes and control characters.\<close>

definition literal :: "string \<Rightarrow> bool" where
  "literal s \<longleftrightarrow> list_all (\<lambda>c. c \<noteq> CHR 0x22 \<and> c \<noteq> CHR 0x5C \<and> of_char c \<ge> (32 :: nat)) s"

text \<open>
  What is written is what is read after the way over \<open>wire\<close>; a string is lent out of the input when it
  is literal there. The sequence under construction holds the elements written so far.
\<close>

definition framework_correct ::
    "('s, 'q, 'd, 'e) serde_pkgs \<Rightarrow> ('s \<Rightarrow> 'd) \<Rightarrow> ('q \<Rightarrow> bytes \<Rightarrow> bool) \<Rightarrow> bool" where
  "framework_correct P wire holds \<longleftrightarrow>
     (\<forall>s x. serialize_str P s = Ok x \<longrightarrow>
        de_option_string P (wire x) = Ok (Some s) \<and> de_cow_str P (wire x) = Ok s \<and>
        (literal s \<longrightarrow> de_borrowed_str P (wire x) = Ok s)) \<and>
     (\<forall>x. serialize_none P = Ok x \<longrightarrow> de_option_string P (wire x) = Ok None) \<and>
     (\<forall>b x. serialize_u8 P b = Ok x \<longrightarrow> de_u8 P (wire x) = Ok b) \<and>
     (\<forall>n q. serialize_seq P n = Ok q \<longrightarrow> holds q []) \<and>
     (\<forall>q bs b q'. holds q bs \<and> serialize_element P q b = Ok q' \<longrightarrow> holds q' (bs @ [b])) \<and>
     (\<forall>q bs x. holds q bs \<and> serialize_end P q = Ok x \<longrightarrow> de_u8_vec P (wire x) = Ok bs)"

definition engine_correct :: "base64_engine \<Rightarrow> bool" where
  "engine_correct B \<longleftrightarrow> (\<forall>bs. literal (b64_encode B bs) \<and> b64_decode B (b64_encode B bs) = Ok bs)"

definition bytes_correct :: "'k byte_codec \<Rightarrow> bool" where
  "bytes_correct K \<longleftrightarrow> (\<forall>k. from_bytes K (to_bytes K k) = Ok k)"

definition text_correct :: "'n text_codec \<Rightarrow> bool" where
  "text_correct N \<longleftrightarrow> (\<forall>n. literal (to_text N n) \<and> from_text N (to_text N n) = Ok n)"

definition identifiers_correct :: "sid_pkgs \<Rightarrow> bool" where
  "identifiers_correct S \<longleftrightarrow>
     (\<forall>sid. literal (service_id_string S sid)) \<and>
     (\<forall>u. length u = 16 \<longrightarrow>
        parse_from_service_id_string S (service_id_string S (Aci u)) = Some (Aci u) \<and>
        parse_from_service_id_string S (service_id_string S (Pni u)) = Some (Pni u) \<and>
        aci_from_service_id_string S (service_id_string S (Aci u)) = Some u)"

definition valid_device :: "device_id \<Rightarrow> bool" where
  "valid_device device \<longleftrightarrow> 0 < device \<and> device < 128"

definition devices_correct :: "(u8 \<Rightarrow> device_id option) \<Rightarrow> bool" where
  "devices_correct try_from \<longleftrightarrow> (\<forall>device. valid_device device \<longrightarrow> try_from device = Some device)"

section \<open>Round trips\<close>

text \<open>An adapter whose reader undoes its writer on valid values.\<close>

definition adapter ::
    "('s \<Rightarrow> 'd) \<Rightarrow> ('a \<Rightarrow> bool) \<Rightarrow> ('a \<Rightarrow> ('s, 'e) result) \<Rightarrow> ('d \<Rightarrow> ('a, 'e) result) \<Rightarrow> bool" where
  "adapter wire valid ser de \<longleftrightarrow> (\<forall>a x. valid a \<and> ser a = Ok x \<longrightarrow> de (wire x) = Ok a)"

text \<open>
  The adapters come in three forms: a value as a string that is borrowed when it is read, an optional
  value as a string or nothing, and a value as a string that is read in either way.
\<close>

lemma adapter_borrowed:
  assumes "framework_correct P wire holds" and "\<And>a. valid a \<Longrightarrow> literal (text_of a) \<and> parse (text_of a) = Ok a"
  shows "adapter wire valid (\<lambda>a. serialize_str P (text_of a)) (\<lambda>d. and_then (de_borrowed_str P d) parse)"
  using assms by (auto simp: adapter_def framework_correct_def)

lemma adapter_cow:
  assumes "framework_correct P wire holds" and "\<And>a. valid a \<Longrightarrow> parse (text_of a) = Ok a"
  shows "adapter wire valid (\<lambda>a. serialize_str P (text_of a)) (\<lambda>d. and_then (de_cow_str P d) parse)"
  using assms by (auto simp: adapter_def framework_correct_def)

lemma adapter_optional:
  assumes "framework_correct P wire holds" and "\<And>a. parse (text_of a) = Ok (Some a)"
  shows "adapter wire (\<lambda>_. True) (\<lambda>m. case m of Some a \<Rightarrow> serialize_str P (text_of a) | None \<Rightarrow> serialize_none P)
     (\<lambda>d. and_then (de_option_string P d) (\<lambda>m. case m of Some s \<Rightarrow> parse s | None \<Rightarrow> Ok None))"
  using assms by (auto simp: adapter_def framework_correct_def split: option.splits)

lemma serialize_elements_holds:
  assumes "framework_correct P wire holds"
  shows "holds q bs \<Longrightarrow> serialize_elements P devices q = Ok q' \<Longrightarrow> holds q' (bs @ devices)"
proof (induction devices arbitrary: q bs)
  case (Cons device devices)
  then obtain q1 where q1: "serialize_element P q device = Ok q1" "serialize_elements P devices q1 = Ok q'"
    by (cases "serialize_element P q device") auto
  have "holds q1 (bs @ [device])"
    using assms Cons.prems(1) q1(1) unfolding framework_correct_def by blast
  then show ?case
    using Cons.IH [of q1 "bs @ [device]"] q1(2) by simp
qed simp

lemma collect_devices:
  "devices_correct try_from \<Longrightarrow> list_all valid_device devices \<Longrightarrow>
   collect (map (\<lambda>b. ok_or e (try_from b)) devices) = Ok devices"
  by (induction devices) (auto simp: devices_correct_def)

lemma adapter_device_id:
  "framework_correct P wire holds \<Longrightarrow> devices_correct try_from \<Longrightarrow>
   adapter wire valid_device (serde_device_id_serialize P) (serde_device_id_deserialize P try_from)"
  by (auto simp: adapter_def framework_correct_def devices_correct_def serde_device_id_serialize_def
      serde_device_id_deserialize_def)

lemma adapter_device_id_vec:
  assumes P: "framework_correct P wire holds" and D: "devices_correct try_from"
  shows "adapter wire (list_all valid_device) (serde_device_id_vec_serialize P) (serde_device_id_vec_deserialize P try_from)"
  unfolding adapter_def
proof (intro allI impI, elim conjE)
  fix devices x
  assume valid: "list_all valid_device devices" and ser: "serde_device_id_vec_serialize P devices = Ok x"
  obtain q q' where q: "serialize_seq P (length devices) = Ok q" "serialize_elements P devices q = Ok q'" "serialize_end P q' = Ok x"
    using ser by (auto simp: serde_device_id_vec_serialize_def and_then_Ok_iff)
  have "holds q []"
    using P q(1) unfolding framework_correct_def by blast
  then have "holds q' devices"
    using serialize_elements_holds [OF P _ q(2)] by force
  then have "de_u8_vec P (wire x) = Ok devices"
    using P q(3) unfolding framework_correct_def by blast
  then show "serde_device_id_vec_deserialize P try_from (wire x) = Ok devices"
    using collect_devices [OF D valid] by (simp add: serde_device_id_vec_deserialize_def)
qed

lemmas base64_adapters =
  serde_base64_serialize_def serde_base64_deserialize_def
  serde_optional_base64_serialize_def serde_optional_base64_deserialize_def
  serde_base64_url_safe_no_pad_serialize_def serde_base64_url_safe_no_pad_deserialize_def
  serde_optional_base64_url_safe_no_pad_serialize_def serde_optional_base64_url_safe_no_pad_deserialize_def

lemmas key_adapters =
  serde_identity_key_serialize_def serde_identity_key_deserialize_def
  serde_optional_identity_key_serialize_def serde_optional_identity_key_deserialize_def
  serde_private_key_serialize_def serde_private_key_deserialize_def
  serde_optional_private_key_serialize_def serde_optional_private_key_deserialize_def
  serde_prost_base64_serialize_def serde_prost_base64_deserialize_def
  serde_optional_prost_base64_serialize_def serde_optional_prost_base64_deserialize_def

lemmas text_adapters =
  serde_e164_serialize_def serde_e164_deserialize_def
  serde_optional_e164_serialize_def serde_optional_e164_deserialize_def
  serde_phone_number_serialize_def serde_phone_number_deserialize_def

lemmas id_adapters =
  serde_service_id_serialize_def serde_service_id_deserialize_def
  serde_aci_serialize_def serde_aci_deserialize_def aci_serde_serialize_def aci_serde_deserialize_def

lemma adapter_base64:
  assumes "framework_correct P wire holds" "engine_correct B"
  shows "adapter wire (\<lambda>_. True) (serde_base64_serialize P B) (serde_base64_deserialize P B)"
    and "adapter wire (\<lambda>_. True) (serde_optional_base64_serialize P B) (serde_optional_base64_deserialize P B)"
    and "adapter wire (\<lambda>_. True) (serde_base64_url_safe_no_pad_serialize P B) (serde_base64_url_safe_no_pad_deserialize P B)"
    and "adapter wire (\<lambda>_. True) (serde_optional_base64_url_safe_no_pad_serialize P B)
           (serde_optional_base64_url_safe_no_pad_deserialize P B)"
  unfolding base64_adapters
  by (rule adapter_borrowed [OF assms(1)] adapter_optional [OF assms(1)], use assms(2) in \<open>simp add: engine_correct_def\<close>)+

lemma adapter_keys:
  assumes "framework_correct P wire holds" "engine_correct B" "bytes_correct K"
  shows "adapter wire (\<lambda>_. True) (serde_identity_key_serialize P B K) (serde_identity_key_deserialize P B K)"
    and "adapter wire (\<lambda>_. True) (serde_optional_identity_key_serialize P B K) (serde_optional_identity_key_deserialize P B K)"
    and "adapter wire (\<lambda>_. True) (serde_private_key_serialize P B K) (serde_private_key_deserialize P B K)"
    and "adapter wire (\<lambda>_. True) (serde_optional_private_key_serialize P B K) (serde_optional_private_key_deserialize P B K)"
    and "adapter wire (\<lambda>_. True) (serde_prost_base64_serialize P B K) (serde_prost_base64_deserialize P B K)"
    and "adapter wire (\<lambda>_. True) (serde_optional_prost_base64_serialize P B K) (serde_optional_prost_base64_deserialize P B K)"
  unfolding key_adapters Let_def
  by (rule adapter_borrowed [OF assms(1)] adapter_optional [OF assms(1)],
      use assms(2,3) in \<open>simp add: engine_correct_def bytes_correct_def\<close>)+

lemma adapter_texts:
  assumes "framework_correct P wire holds" "text_correct N"
  shows "adapter wire (\<lambda>_. True) (serde_e164_serialize P N) (serde_e164_deserialize P N)"
    and "adapter wire (\<lambda>_. True) (serde_optional_e164_serialize P N) (serde_optional_e164_deserialize P N)"
    and "adapter wire (\<lambda>_. True) (serde_phone_number_serialize P N) (serde_phone_number_deserialize P N)"
  unfolding text_adapters
  by (rule adapter_borrowed [OF assms(1)] adapter_optional [OF assms(1)], use assms(2) in \<open>simp add: text_correct_def\<close>)+

lemma adapter_ids:
  assumes "framework_correct P wire holds" "identifiers_correct S"
  shows "adapter wire (\<lambda>sid. case sid of Aci u \<Rightarrow> length u = 16 | Pni u \<Rightarrow> length u = 16) (serde_service_id_serialize P S) (serde_service_id_deserialize P S)"
    and "adapter wire (\<lambda>u. length u = 16) (serde_aci_serialize P S) (serde_aci_deserialize P S)"
    and "adapter wire (\<lambda>u. length u = 16) (aci_serde_serialize P S) (aci_serde_deserialize P S)"
  unfolding id_adapters
  subgoal
    by (rule adapter_borrowed [OF assms(1)], rename_tac sid, case_tac sid)
      (use assms(2) in \<open>simp_all add: identifiers_correct_def\<close>)
  subgoal by (rule adapter_borrowed [OF assms(1)]) (use assms(2) in \<open>simp add: identifiers_correct_def\<close>)
  subgoal by (rule adapter_cow [OF assms(1)]) (use assms(2) in \<open>simp add: identifiers_correct_def\<close>)
  done

text \<open>
  The plain and the optional adapters agree on a string that can be lent. Any other string, for
  instance one that the sender wrote with an escape, is refused by the plain adapters with the error
  of the framework, whatever it stands for, while the optional adapters read it.
\<close>

lemma plain_adapters_need_literal_strings:
  assumes "de_borrowed_str P d = Err e"
  shows "serde_base64_deserialize P B d = Err e" "serde_base64_url_safe_no_pad_deserialize P B d = Err e"
    "serde_identity_key_deserialize P B K d = Err e" "serde_private_key_deserialize P B K d = Err e"
    "serde_prost_base64_deserialize P B K d = Err e" "serde_e164_deserialize P N d = Err e"
    "serde_service_id_deserialize P S d = Err e" "serde_aci_deserialize P S d = Err e"
  using assms by (simp_all add: base64_adapters key_adapters text_adapters id_adapters)

lemma optional_adapters_agree:
  assumes "de_borrowed_str P d = Ok s" "de_option_string P d = Ok (Some s)"
  shows "serde_optional_base64_deserialize P B d = map_ok Some (serde_base64_deserialize P B d)"
    "serde_optional_base64_url_safe_no_pad_deserialize P B d = map_ok Some (serde_base64_url_safe_no_pad_deserialize P B d)"
    "serde_optional_e164_deserialize P N d = map_ok Some (serde_e164_deserialize P N d)"
  using assms by (simp_all add: base64_adapters text_adapters)

lemma optional_key_adapters_agree:
  assumes "de_borrowed_str P d = Ok s" "de_option_string P d = Ok (Some s)"
  shows "serde_optional_identity_key_deserialize P B K d = map_ok Some (serde_identity_key_deserialize P B K d)"
    "serde_optional_private_key_deserialize P B K d = map_ok Some (serde_private_key_deserialize P B K d)"
    "serde_optional_prost_base64_deserialize P B K d = map_ok Some (serde_prost_base64_deserialize P B K d)"
  using assms unfolding key_adapters
  by (cases "b64_decode B s"; cases "from_bytes K (case b64_decode B s of Ok bs \<Rightarrow> bs | _ \<Rightarrow> [])"; simp)+


text \<open>
  A concrete framework that keeps values as they are, a letter for each half of a byte, and the
  identity as the encoding of keys and texts.
\<close>

datatype sample_value = SampleString string | SampleNull | SampleByte u8 | SampleSeq bytes

definition sample_serde :: "(sample_value, bytes, sample_value, string) serde_pkgs" where
  "sample_serde = \<lparr>serialize_str = (\<lambda>s. Ok (SampleString s)), serialize_none = Ok SampleNull,
     serialize_u8 = (\<lambda>b. Ok (SampleByte b)), serialize_seq = (\<lambda>_. Ok []), serialize_element = (\<lambda>q b. Ok (q @ [b])),
     serialize_end = (\<lambda>q. Ok (SampleSeq q)),
     de_borrowed_str = (\<lambda>d. case d of SampleString s \<Rightarrow> if literal s then Ok s else Err ''expected a borrowed string'' | _ \<Rightarrow> Err ''type''),
     de_cow_str = (\<lambda>d. case d of SampleString s \<Rightarrow> Ok s | _ \<Rightarrow> Err ''type''),
     de_option_string = (\<lambda>d. case d of SampleString s \<Rightarrow> Ok (Some s) | SampleNull \<Rightarrow> Ok None | _ \<Rightarrow> Err ''type''),
     de_u8 = (\<lambda>d. case d of SampleByte b \<Rightarrow> Ok b | _ \<Rightarrow> Err ''type''),
     de_u8_vec = (\<lambda>d. case d of SampleSeq bs \<Rightarrow> Ok bs | _ \<Rightarrow> Err ''type''), custom = id\<rparr>"

definition letter :: "nat \<Rightarrow> char" where
  "letter n = char_of (65 + n)"

definition letters :: "bytes \<Rightarrow> string" where
  "letters bs = concat (map (\<lambda>b. [letter (unat b div 16), letter (unat b mod 16)]) bs)"

fun unletters :: "string \<Rightarrow> bytes" where
  "unletters (a # b # s) = of_nat ((of_char a - 65) * 16 + (of_char b - 65)) # unletters s"
| "unletters s = []"

lemma unletters_letters [simp]: "unletters (letters bs) = bs"
proof (induction bs)
  case (Cons b bs)
  have "unat b div 16 < 16"
    using unsigned_less [of b, where 'a = nat] by simp
  with Cons show ?case
    by (simp add: letters_def letter_def)
qed (simp add: letters_def)

lemma literal_letters [simp]: "literal (letters bs)"
proof -
  have "letter n \<noteq> CHR 0x22 \<and> letter n \<noteq> CHR 0x5C \<and> of_char (letter n) \<ge> (32 :: nat)" if "n < 16" for n
    using that by (auto simp: letter_def char_of_eq_iff take_bit_eq_mod)
  moreover have "unat b div 16 < 16" for b :: u8
    using unsigned_less [of b, where 'a = nat] by simp
  ultimately show ?thesis
    by (induction bs) (simp_all add: letters_def literal_def)
qed

definition sample_engine :: base64_engine where
  "sample_engine = \<lparr>b64_encode = letters, b64_decode = (\<lambda>s. Ok (unletters s))\<rparr>"

definition sample_bytes :: "bytes byte_codec" where
  "sample_bytes = \<lparr>to_bytes = id, from_bytes = Ok\<rparr>"

definition sample_text :: "bytes text_codec" where
  "sample_text = \<lparr>to_text = letters, from_text = (\<lambda>s. Ok (unletters s))\<rparr>"

definition sample_identifiers :: sid_pkgs where
  "sample_identifiers = \<lparr>
     service_id_string = (\<lambda>sid. case sid of Aci u \<Rightarrow> CHR ''A'' # letters u | Pni u \<Rightarrow> CHR ''P'' # letters u),
     parse_from_service_id_string = (\<lambda>s. Some ((if hd s = CHR ''A'' then Aci else Pni) (unletters (tl s)))),
     parse_from_service_id_binary = (\<lambda>_. None), aci_from_service_id_string = (\<lambda>s. Some (unletters (tl s))),
     pni_from_service_id_string = (\<lambda>s. Some (unletters (tl s))), uuid_from_str = (\<lambda>_. None)\<rparr>"

lemma sample_serde_correct:
  "framework_correct sample_serde id (=)" "engine_correct sample_engine" "bytes_correct sample_bytes"
  "text_correct sample_text" "identifiers_correct sample_identifiers" "devices_correct Some"
  using literal_letters
  by (auto simp: framework_correct_def sample_serde_def engine_correct_def sample_engine_def bytes_correct_def sample_bytes_def
      text_correct_def sample_text_def identifiers_correct_def sample_identifiers_def devices_correct_def literal_def
      split: service_id.splits)


end
