(* ===== verification/Connect.thy ===== *)
theory Connect
  imports Message_Pipe Http Ws_Properties Cipher
begin

text \<open>
  Opening a websocket (\<open>push_service/mod.rs::ws\<close>, \<open>websocket/mod.rs::new\<close>), the message pipe of a
  receiver (\<open>receiver.rs::create_message_pipe\<close>) and the safety number of a contact
  (\<open>session_store.rs::compute_safety_number\<close>). The HTTP client with its upgrade to a websocket, URLs
  and the fingerprint of the protocol library are records of functions.
\<close>

section \<open>The code\<close>

text \<open>The upgrade request; a login without a password still names the user.\<close>

record upgrade_request =
  up_url :: string
  up_headers :: "(string \<times> string) list"
  up_basic_auth :: "(string \<times> string option) option"

record 'w connect_env =
  cn_urls :: url_pkgs
  cn_uuid_string :: "uuid \<Rightarrow> string"
  cn_set_scheme :: "string \<Rightarrow> string \<Rightarrow> string option"
  cn_upgrade :: "upgrade_request \<Rightarrow> ('w, unit, ws_error) eff"
  cn_into_websocket :: "('w, unit, ws_error) eff"

record signal_web_socket =
  sw_unidentified_push_service :: push_service
  sw_inner :: ws_inner

text \<open>
  The handle and the worker that is spawned for it; both hold one end of the channels for the server's
  requests and for the reason of a disconnect.
\<close>

definition new_socket :: "string \<Rightarrow> push_service \<Rightarrow> signal_web_socket \<times> 'c ws_process" where
  "new_socket path service =
     (\<lparr>sw_unidentified_push_service = service, sw_inner = \<lparr>inner_stream = True, inner_reason = True\<rparr>\<rparr>, new_process path)"

definition socket_servers :: "signal_web_socket \<Rightarrow> signal_servers" where
  "socket_servers ws = ps_servers (sw_unidentified_push_service ws)"

definition upgrade_for ::
    "'w connect_env \<Rightarrow> string \<Rightarrow> (string \<times> string) list \<Rightarrow> service_credentials option \<Rightarrow> upgrade_request" where
  "upgrade_for C url headers credentials =
     \<lparr>up_url = url, up_headers = headers,
      up_basic_auth = map_option (\<lambda>c. (login (cn_uuid_string C) c, sc_password c)) credentials\<rparr>"

definition open_ws ::
    "'w connect_env \<Rightarrow> push_service \<Rightarrow> string \<Rightarrow> string \<Rightarrow> (string \<times> string) list \<Rightarrow> service_credentials option
       \<Rightarrow> ('w, signal_web_socket \<times> 'c ws_process, service_error) eff" where
  "open_ws C self path keepalive_path additional_headers credentials =
     bindE (lift (into_url (cn_urls C) (ps_cfg self) (ServiceEndpoint path))) (\<lambda>url.
     bindE (lift (expect ''valid https base url'' (cn_set_scheme C ''wss'' url))) (\<lambda>url.
     bindE (map_errE WsError (cn_upgrade C (upgrade_for C url additional_headers credentials))) (\<lambda>_.
     bindE (map_errE map_ws_handshake_error (cn_into_websocket C)) (\<lambda>_.
     pure (new_socket keepalive_path (self\<lparr>ps_credentials := None\<rparr>))))))"

definition create_message_pipe ::
    "'w connect_env \<Rightarrow> push_service \<Rightarrow> service_credentials \<Rightarrow> bool \<Rightarrow> ('w, signal_web_socket \<times> 'c ws_process, service_error) eff" where
  "create_message_pipe C service credentials allow_stories =
     open_ws C service ''/v1/websocket/'' ''/v1/keepalive''
       [(''X-Signal-Receive-Stories'', if allow_stories then ''true'' else ''false'')] (Some credentials)"

text \<open>
  The fingerprint is displayed as a string; the parameters are the version, the number of iterations
  and both identifiers with their keys. \<open>identity_pair\<close> reads the public part of the own identity.
\<close>

definition compute_safety_number ::
    "('w, 'm) protocol_env_scheme \<Rightarrow> (nat \<Rightarrow> nat \<Rightarrow> uuid \<Rightarrow> bytes \<Rightarrow> uuid \<Rightarrow> bytes \<Rightarrow> ('f, string) result) \<Rightarrow> ('f \<Rightarrow> (string, string) result)
       \<Rightarrow> ('w, bytes, signal_protocol_error) eff \<Rightarrow> (service_id \<Rightarrow> uuid) \<Rightarrow> service_id \<Rightarrow> service_id \<Rightarrow> ('w, string, service_error) eff" where
  "compute_safety_number E fingerprint display identity_pair raw_uuid our_id address =
     bindE (protoE (get_preferred_protocol_address E address 1)) (\<lambda>addr.
     bindE (protoE (get_identity E addr)) (\<lambda>ident.
     bindE (lift (ok_or (SignalProtocolError (UntrustedIdentity addr)) ident)) (\<lambda>ident.
     bindE (\<lambda>s. case identity_pair s of (r, s') \<Rightarrow> (case r of Err _ \<Rightarrow> (Panic ''valid local identity'', s') | Ok k \<Rightarrow> (Ok k, s')
         | Panic p \<Rightarrow> (Panic p, s'))) (\<lambda>own.
     bindE (lift (map_err Fingerprint (fingerprint 2 5200 (raw_uuid our_id) own (raw_uuid address) ident))) (\<lambda>fp.
     lift (map_err Fingerprint (display fp)))))))"

section \<open>Properties\<close>

text \<open>
  A socket that was opened starts with a worker without pending requests, from which the invariants of
  the worker hold, and with a request stream nobody uses; its own requests outside the websocket never
  carry credentials, whatever the service that opened it had.
\<close>

lemma open_ws_Ok:
  assumes "open_ws C self path keepalive headers credentials s = (Ok (ws, p), s')"
  shows "ws_start \<lparr>process = p, stopped = None, issued = {}\<rparr> \<and> keep_alive_path p = keepalive \<and>
     \<not> is_used (sw_inner ws) \<and> socket_servers ws = ps_servers self \<and>
     (\<forall>U m endpoint r. push_request U (sw_unidentified_push_service ws) m endpoint NoOverride = Ok r \<longrightarrow> hr_basic_auth r = None)"
  using assms
  by (auto simp: open_ws_def bindE_Ok_iff new_socket_def ws_start_def new_process_def is_used_def socket_servers_def push_request_def)

text \<open>A rejected upgrade is classified by its status, and the server saw exactly one upgrade request.\<close>

lemma open_ws_rejected:
  assumes "into_url (cn_urls C) (ps_cfg self) (ServiceEndpoint path) = Ok url" "cn_set_scheme C ''wss'' url = Some wss"
    and "cn_upgrade C (upgrade_for C wss headers credentials) s = (Ok (), s1)"
    and "cn_into_websocket C s1 = (Err (Handshake (UnexpectedStatusCode status)), s2)"
  shows "open_ws C self path keepalive headers credentials s =
     (Err (if status = 401 \<or> status = 403 then Unauthorized else if status = 499 then DeprecatedVersion
           else if status = 429 then RateLimitExceeded None else WsError (Handshake (UnexpectedStatusCode status))), s2)"
  using assms by (simp add: open_ws_def bindE_def map_errE_def map_ws_handshake_error_def)

text \<open>There is no safety number with somebody whose identity is not known, and nothing is computed then.\<close>

lemma compute_safety_number_unknown:
  assumes "load_session E addr s = (Ok session, s1)" "get_identity E addr s1 = (Ok None, s2)"
    and "addr = to_protocol_address (service_id_string (env_sids E)) address 1"
  shows "compute_safety_number E fingerprint display identity_pair raw_uuid our_id address s =
     (Err (SignalProtocolError (UntrustedIdentity addr)), s2)"
  using assms by (simp add: compute_safety_number_def get_preferred_protocol_address_def protoE_def bindE_def map_errE_def Let_def)

end
