(* ===== verification/End_To_End.thy ===== *)
theory End_To_End
  imports Cipher_Properties Sender
begin

text \<open>
  The composition of both directions of \<open>cipher.rs\<close>: what one client encrypts (\<open>encrypt\<close>, with the
  padding and the content that \<open>sender.rs\<close> hands to it) another client opens (\<open>open_envelope\<close>) as the
  same body. Between them stand the server, which puts a pushed message into an envelope, and the
  two halves of the protocol library; what is assumed of them is stated as predicates.
\<close>

section \<open>The server and the protocol library\<close>

text \<open>
  An envelope the server makes of a pushed message: its type and its content are those of the message,
  its destination is the recipient, and the sender is named unless the message is sealed.
\<close>

definition envelope_for ::
    "sid_pkgs \<Rightarrow> (bytes \<Rightarrow> string) \<Rightarrow> outgoing_push_message \<Rightarrow> uuid \<Rightarrow> u32 \<Rightarrow> service_id \<Rightarrow> envelope \<Rightarrow> bool" where
  "envelope_for S base64 m sender device recipient e \<longleftrightarrow>
     env_type e = Some (msg_type m) \<and>
     (\<exists>ct. env_content e = Some ct \<and> base64 ct = msg_content m) \<and>
     parse_destination_service_id S e = Some recipient \<and>
     parse_source_service_id S e = (if msg_type m = 6 then None else Some (Aci sender)) \<and>
     source_device_id e = (if msg_type m = 6 then None else Some device)"

text \<open>
  The receiving half of a session is in step with a ciphertext when it decrypts it to the message that
  was encrypted, and afterwards knows a session of the version under which the message was padded.
\<close>

definition decrypts ::
    "('w, 'm) protocol_env_scheme \<Rightarrow> protocol_address \<Rightarrow> protocol_address \<Rightarrow> ciphertext_message_type \<Rightarrow> bytes \<Rightarrow> bytes
       \<Rightarrow> u32 \<Rightarrow> 'w \<Rightarrow> bool" where
  "decrypts E remote local type ct padded version w \<longleftrightarrow>
     (\<exists>session w0 msg w1 record w2. load_session E remote w = (Ok session, w0) \<and>
        (if type = PreKeyType
         then parse_prekey_signal_message E ct = Ok msg \<and> message_decrypt_prekey E msg remote local w0 = (Ok padded, w1)
         else parse_signal_message E ct = Ok msg \<and> message_decrypt_signal E msg remote local w0 = (Ok padded, w1)) \<and>
        load_session E remote w1 = (Ok (Some record), w2) \<and> session_version E record = Ok version)"

text \<open>
  A sealed message opens to a certificate of the sender that is valid for the receiver's trust roots,
  and to a message of the session with the sender.
\<close>

definition unseals ::
    "('w, 'm) protocol_env_scheme \<Rightarrow> service_cipher \<Rightarrow> u64 \<Rightarrow> uuid \<Rightarrow> device_id \<Rightarrow> bytes \<Rightarrow> bytes \<Rightarrow> 'w \<Rightarrow> bool" where
  "unseals E self timestamp sender device sealed padded w \<longleftrightarrow>
     (\<exists>u w0 cert name e164 type ct msg w1 remote.
        sealed_sender_decrypt_to_usmc E sealed w = (Ok u, w0) \<and> usmc_sender u = Ok cert \<and>
        cert_validate cert (trust_roots self) timestamp = Ok True \<and>
        cert_sender_uuid cert = Ok name \<and> uuid_from_str (env_sids E) name = Some sender \<and>
        parse_from_service_id_string (env_sids E) name = Some (Aci sender) \<and>
        cert_sender_e164 cert = Ok e164 \<and> cert_sender_device_id cert = Ok device \<and>
        remote = \<lparr>addr_name = name, addr_device = device\<rparr> \<and>
        usmc_msg_type u = Ok type \<and> usmc_contents u = Ok ct \<and>
        (if type = PreKeyType
         then parse_prekey_signal_message E ct = Ok msg \<and>
              message_decrypt_prekey E msg remote (local_address self) (lock_session E (Aci sender) w0) = (Ok padded, w1)
         else type = WhisperType \<and> parse_signal_message E ct = Ok msg \<and>
              message_decrypt_signal E msg remote (local_address self) (lock_session E (Aci sender) w0) = (Ok padded, w1)))"

text \<open>Both clients share the encodings, which are lossless on the given body.\<close>

definition same_formats :: "('v, 'n) protocol_env_scheme \<Rightarrow> ('w, 'm) protocol_env_scheme \<Rightarrow> content_body \<Rightarrow> bool" where
  "same_formats A B body \<longleftrightarrow>
     env_iso A = env_iso B \<and> iso7816_correct (env_iso B) \<and>
     content_decode (env_codec B) (content_encode (env_codec A) (into_proto (env_codec A) body)) = Inr (into_proto (env_codec A) body) \<and>
     (\<forall>m. dem_decode (env_codec B) (dem_encode (env_codec A) m) = Inr m) \<and>
     inj (base64_relaxed A)"

section \<open>Opening what was encrypted\<close>

lemma from_proto_of_into_proto:
  "same_formats A B body \<Longrightarrow> from_proto (env_codec B) (into_proto (env_codec A) body) md = Ok \<lparr>c_metadata = md, c_body = body\<rparr>"
  by (cases body) (simp_all add: same_formats_def from_proto_def into_proto_def Let_def)

lemma into_proto_simps [simp]:
  "pc_content (into_proto K body) = Some (inner_proto K body)"
  "pc_sender_key_distribution_message (into_proto K body) = None"
  "pc_pni_signature_message (into_proto K body) = None"
  by (simp_all add: into_proto_def)

lemma inner_proto_sync_iff:
  "(case inner_proto K body of ProtoSyncMessage _ \<Rightarrow> True | _ \<Rightarrow> False) \<longleftrightarrow> is_sync_message body"
  by (cases body) (simp_all add: is_sync_message_def)

text \<open>What the receiver makes of a decrypted content that came from \<open>sender\<close>.\<close>

definition received :: "service_id \<Rightarrow> uuid \<Rightarrow> metadata \<Rightarrow> content_body \<Rightarrow> content option" where
  "received recipient sender md body =
     (if is_sync_message body \<and> recipient \<noteq> Aci sender then None else Some \<lparr>c_metadata = md, c_body = body\<rparr>)"

lemma accept_content_received:
  assumes "same_formats A B body" "md_sender md = Aci sender" "\<not> md_was_plaintext md"
  shows "accept_content B recipient \<lparr>pt_metadata = md, pt_message = into_proto (env_codec A) body\<rparr> =
     Ok (received recipient sender md body)"
  using assms from_proto_of_into_proto [OF assms(1), of md]
  by (cases recipient) (auto simp: accept_content_def received_def inner_proto_sync_iff aci_def pni_def)

lemma strip_padding_of_add_padding:
  assumes "iso7816_correct I" "add_padding I version m = Ok padded"
  shows "strip_padding_version I version padded = Ok m" and "version \<noteq> 2 \<Longrightarrow> strip_padding I padded = Ok m"
proof -
  consider "version < 2" | "version = 2" | "2 < version"
    by (metis linorder_neqE)
  then show 1: "strip_padding_version I version padded = Ok m"
  proof cases
    case 3
    then have "padded = m @ 0x80 # replicate (padded_length (length m) - length m - 1) 0"
      using add_padding_eq [OF assms(1) 3] assms(2) by simp
    then show ?thesis
      using 3 assms(1) by (auto simp: strip_padding_version_def strip_padding_def iso7816_correct_def resize_def)
  qed (use assms(2) in \<open>auto simp: add_padding_def strip_padding_version_def\<close>)
  assume "version \<noteq> 2"
  then show "strip_padding I padded = Ok m"
    using 1 by (simp add: strip_padding_version_def split: if_splits)
qed

text \<open>The branches of \<open>decrypt\<close> on what the server delivers.\<close>

abbreviation payload :: "bytes \<Rightarrow> uuid \<Rightarrow> device_id \<Rightarrow> bool \<Rightarrow> decrypted_payload" where
  "payload data sender device sealed \<equiv>
     \<lparr>dp_data = data, dp_sender = Aci sender, dp_sender_device = device, dp_was_plaintext = False,
      dp_unidentified_sender = sealed, dp_needs_receipt = sealed\<rparr>"

lemma decrypt_parts_session:
  assumes "decrypts E (to_protocol_address (service_id_string (env_sids E)) (Aci sender) device) (local_address self) type ct padded
      version (lock_session E (Aci sender) w)"
    and "strip_padding_version (env_iso E) version padded = Ok data"
    and "env_type e = Some number" "envelope_type_for type = Ok number"
    and "source_device_id e = Some d" "device_id_try_from E d = Some device"
  shows "\<exists>w'. decrypt_parts E self e ct (Some (Aci sender)) w = (Ok (payload data sender device False), w')"
proof -
  have type: "type = PreKeyType \<and> type_of_envelope e = PrekeyMessage \<or> type = WhisperType \<and> type_of_envelope e = DoubleRatchet"
    using assms(3,4) by (auto simp: envelope_type_for_Ok_iff type_of_envelope_def envelope_type_of_def)
  show ?thesis
    using type assms(1,2,5,6)
    by (auto simp: decrypts_def decrypt_parts_def decrypt_session_message_def source_device_def with_session_lock_def
        get_preferred_protocol_address_def protoE_def protoR_def map_errE_def bindE_def Let_def)
qed

lemma decrypt_parts_sealed:
  assumes "unseals E self (case client_timestamp e of Some t \<Rightarrow> t | None \<Rightarrow> 0) sender device ct padded w"
    and "parse_from_service_id_string (env_sids E) (addr_name (local_address self)) = Some recipient"
    and "uuid_of_service_id recipient \<noteq> sender \<or> device \<noteq> addr_device (local_address self)"
    and "strip_padding (env_iso E) padded = Ok data" "type_of_envelope e = UnidentifiedSender"
  shows "\<exists>w'. decrypt_parts E self e ct None w = (Ok (payload data sender device True), w')"
  using assms
  by (auto simp: unseals_def decrypt_parts_def decrypt_unidentified_def sealed_sender_decrypt_def with_session_lock_def
      sealed_sender_decrypt_with_validated_usmc_def ssdE_def map_errE_def bindE_def Let_def pni_def split: if_splits)

lemma decrypt_of_parts:
  assumes "parse_from_service_id_string (env_sids E) (addr_name (local_address self)) = Some recipient"
    and "env_content e = Some ct" "parse_destination_service_id (env_sids E) e = Some recipient"
    and "source = parse_source_service_id (env_sids E) e" "source = None \<or> source = Some (Aci sender)"
    and "source = None \<longrightarrow> pni recipient = None"
    and "from_timestamp_millis E (sint (case client_timestamp e of Some t \<Rightarrow> t | None \<Rightarrow> 0)) = Some ct_time"
    and "from_timestamp_millis E (sint (case server_timestamp e of Some t \<Rightarrow> t | None \<Rightarrow> 0)) = Some sv_time"
    and "decrypt_parts E self e ct source w = (Ok dp, w')"
    and "content_decode (env_codec E) (dp_data dp) = Inr message" "pc_pni_signature_message message = None"
  shows "decrypt E self e w = (Ok \<lparr>pt_metadata = \<lparr>md_sender = dp_sender dp, md_destination = recipient,
             md_sender_device = dp_sender_device dp, md_pni_verified = None,
             md_client_timestamp = ct_time, md_server_timestamp = sv_time,
             md_needs_receipt = dp_needs_receipt dp, md_unidentified_sender = dp_unidentified_sender dp,
             md_was_plaintext = dp_was_plaintext dp,
             md_server_guid = parse_server_guid (env_sids E) e, md_report_spam_token = report_spam_token e\<rparr>,
           pt_message = message\<rparr>, w')"
  using assms by (auto simp: decrypt_def Let_def bindE_def pni_def)

section \<open>From one client to another\<close>

text \<open>
  The two halves of a session at the moment of a message: whatever the sender's half makes of a padded
  message in its present state, the receiver's half undoes in its own. A sealed message is stripped
  without regard to the version of the session, so a sealed message needs a version that pads.
\<close>

definition in_step ::
    "('v, 'n) protocol_env_scheme \<Rightarrow> service_cipher \<Rightarrow> protocol_address \<Rightarrow> bytes option \<Rightarrow> 'v
       \<Rightarrow> ('w, 'm) protocol_env_scheme \<Rightarrow> service_cipher \<Rightarrow> u64 \<Rightarrow> uuid \<Rightarrow> device_id \<Rightarrow> 'w \<Rightarrow> bool" where
  "in_step A self address certificate s B peer timestamp sender device w \<longleftrightarrow>
     (\<forall>record version s1 padded. load_session A address s = (Ok (Some record), s1) \<and> session_version A record = Ok version \<longrightarrow>
        (case certificate of
           None \<Rightarrow> \<forall>type ct s2. message_encrypt A padded address (local_address self) s1 = (Ok (type, ct), s2) \<longrightarrow>
             decrypts B (to_protocol_address (service_id_string (env_sids B)) (Aci sender) device) (local_address peer)
               type ct padded version (lock_session B (Aci sender) w)
         | Some cert \<Rightarrow> version \<noteq> 2 \<and>
             (\<forall>sealed s2. sealed_sender_encrypt A address cert padded s1 = (Ok sealed, s2) \<longrightarrow>
                unseals B peer timestamp sender device sealed padded w)))"

text \<open>A timestamp within the range of the calendar; an absent one counts as zero.\<close>

definition dated :: "('w, 'm) protocol_env_scheme \<Rightarrow> u64 option \<Rightarrow> bool" where
  "dated E t \<longleftrightarrow> from_timestamp_millis E (sint (case t of Some t \<Rightarrow> t | None \<Rightarrow> 0)) \<noteq> None"

text \<open>The metadata with which the receiver is told about the message.\<close>

definition metadata_for :: "metadata \<Rightarrow> uuid \<Rightarrow> device_id \<Rightarrow> service_id \<Rightarrow> bool \<Rightarrow> bool" where
  "metadata_for md sender device recipient sealed \<longleftrightarrow>
     md_sender md = Aci sender \<and> md_sender_device md = device \<and> md_destination md = recipient \<and>
     md_unidentified_sender md = sealed \<and> md_needs_receipt md = sealed \<and> \<not> md_was_plaintext md \<and> md_pni_verified md = None"

lemma open_of_parts:
  assumes formats: "same_formats A B body"
    and peer: "parse_from_service_id_string (env_sids B) (addr_name (local_address peer)) = Some recipient"
    and e: "env_content e = Some ct" "parse_destination_service_id (env_sids B) e = Some recipient"
    and source: "parse_source_service_id (env_sids B) e = (if sealed then None else Some (Aci sender))"
    and aci: "sealed \<longrightarrow> pni recipient = None"
    and times: "dated B (client_timestamp e)" "dated B (server_timestamp e)"
    and parts: "decrypt_parts B peer e ct (if sealed then None else Some (Aci sender)) w =
      (Ok (payload (content_encode (env_codec A) (into_proto (env_codec A) body)) sender device sealed), w')"
  shows "\<exists>md. open_envelope B peer e w = (Ok (received recipient sender md body), w') \<and>
    metadata_for md sender device recipient sealed"
proof -
  let ?message = "into_proto (env_codec A) body"
  obtain c t where ct: "from_timestamp_millis B (sint (case client_timestamp e of Some t \<Rightarrow> t | None \<Rightarrow> 0)) = Some c"
    "from_timestamp_millis B (sint (case server_timestamp e of Some t \<Rightarrow> t | None \<Rightarrow> 0)) = Some t"
    using times unfolding dated_def by blast
  have "content_decode (env_codec B) (dp_data (payload (content_encode (env_codec A) ?message) sender device sealed)) = Inr ?message"
    using formats by (simp add: same_formats_def)
  then have "\<exists>md. decrypt B peer e w = (Ok \<lparr>pt_metadata = md, pt_message = ?message\<rparr>, w') \<and>
      metadata_for md sender device recipient sealed"
    using decrypt_of_parts [OF peer e(1,2) refl _ _ ct parts [folded source]] source aci
    by (auto simp: metadata_for_def split: if_splits)
  then obtain md where md: "decrypt B peer e w = (Ok \<lparr>pt_metadata = md, pt_message = ?message\<rparr>, w')"
      "metadata_for md sender device recipient sealed"
    by blast
  have "accept_content B recipient \<lparr>pt_metadata = md, pt_message = ?message\<rparr> = Ok (received recipient sender md body)"
    using md(2) by (intro accept_content_received [OF formats]) (simp_all add: metadata_for_def)
  then show ?thesis
    using md peer e(1) by (intro exI [of _ md]) (simp add: open_envelope_def process_sidecar_def bindE_def)
qed

lemma decrypt_parts_of_encrypt:
  assumes formats: "same_formats A B body"
    and sent: "encrypt A self address certificate (Encrypted data) s = (Ok m, s')"
    and e: "env_content e = Some ct" "base64_relaxed A ct = msg_content m" "env_type e = Some (msg_type m)"
      "source_device_id e = (if msg_type m = 6 then None else Some d)"
    and peer: "parse_from_service_id_string (env_sids B) (addr_name (local_address peer)) = Some recipient"
    and device: "device_id_try_from B d = Some device"
    and sealed: "certificate \<noteq> None \<longrightarrow> uuid_of_service_id recipient \<noteq> sender \<or> device \<noteq> addr_device (local_address peer)"
    and session: "in_step A self address certificate s B peer (case client_timestamp e of Some t \<Rightarrow> t | None \<Rightarrow> 0) sender device w"
  shows "(msg_type m = 6 \<longleftrightarrow> certificate \<noteq> None) \<and>
    (\<exists>w'. decrypt_parts B peer e ct (if certificate \<noteq> None then None else Some (Aci sender)) w =
      (Ok (payload data sender device (certificate \<noteq> None)), w'))"
proof -
  obtain session_record s1 version padded where
    loaded: "load_session A address s = (Ok (Some session_record), s1)" "session_version A session_record = Ok version"
    and pad: "add_padding (env_iso A) version data = Ok padded"
    and out: "case certificate of
        Some cert \<Rightarrow> msg_type m = 6 \<and> (\<exists>x. sealed_sender_encrypt A address cert padded s1 = (Ok x, s') \<and> msg_content m = base64_relaxed A x)
      | None \<Rightarrow> \<exists>type x. message_encrypt A padded address (local_address self) s1 = (Ok (type, x), s') \<and>
          msg_content m = base64_relaxed A x \<and> envelope_type_for type = Ok (msg_type m)"
    using sent by (cases certificate) (auto simp: encrypt_def Let_def bindE_Ok_iff split: if_splits)
  have iso: "iso7816_correct (env_iso B)" "env_iso A = env_iso B" and base64: "inj (base64_relaxed A)"
    using formats by (simp_all add: same_formats_def)
  note strip = strip_padding_of_add_padding [OF iso(1) pad [unfolded iso(2)]]
  show ?thesis
  proof (cases certificate)
    case None
    then obtain type where x: "message_encrypt A padded address (local_address self) s1 = (Ok (type, ct), s')"
        "envelope_type_for type = Ok (msg_type m)"
      using out e(2) injD [OF base64] by auto
    then have "decrypts B (to_protocol_address (service_id_string (env_sids B)) (Aci sender) device) (local_address peer)
        type ct padded version (lock_session B (Aci sender) w)"
      using session loaded None by (auto simp: in_step_def)
    moreover have "msg_type m \<noteq> 6"
      using x(2) by (auto simp: envelope_type_for_Ok_iff)
    ultimately show ?thesis
      using decrypt_parts_session [OF _ strip(1) e(3) x(2) _ device] e(4) None by simp
  next
    case (Some cert)
    then have m: "sealed_sender_encrypt A address cert padded s1 = (Ok ct, s')" "msg_type m = 6"
      using out e(2) injD [OF base64] by auto
    then have "version \<noteq> 2" "unseals B peer (case client_timestamp e of Some t \<Rightarrow> t | None \<Rightarrow> 0) sender device ct padded w"
      using session loaded Some by (auto simp: in_step_def)
    then show ?thesis
      using decrypt_parts_sealed [OF _ peer _ strip(2)] sealed Some m(2) e(3)
      by (simp add: type_of_envelope_def envelope_type_of_def)
  qed
qed

text \<open>
  C2: a message arrives as it was sent. When a client has encrypted a body for a device, with or
  without a certificate, and the halves of the session are in step, the device opens the envelope of
  that message to the same body, attributed to the sender and its device, marked as sealed exactly
  when a certificate was used; a synchronisation message is handed to the application only if it comes
  from the own account. Nothing but the padding and the encodings of this library stands between the
  two, and they cancel.
\<close>

theorem message_end_to_end:
  assumes formats: "same_formats A B body"
    and sent: "encrypt A self address certificate (Encrypted (content_encode (env_codec A) (into_proto (env_codec A) body))) s = (Ok m, s')"
    and envelope: "envelope_for (env_sids B) (base64_relaxed A) m sender d recipient e"
    and peer: "parse_from_service_id_string (env_sids B) (addr_name (local_address peer)) = Some recipient"
    and device: "device_id_try_from B d = Some device"
    and sealed: "certificate \<noteq> None \<longrightarrow> pni recipient = None \<and>
      (uuid_of_service_id recipient \<noteq> sender \<or> device \<noteq> addr_device (local_address peer))"
    and times: "dated B (client_timestamp e)" "dated B (server_timestamp e)"
    and session: "in_step A self address certificate s B peer (case client_timestamp e of Some t \<Rightarrow> t | None \<Rightarrow> 0) sender device w"
  shows "\<exists>md w'. open_envelope B peer e w = (Ok (received recipient sender md body), w') \<and>
    metadata_for md sender device recipient (certificate \<noteq> None)"
proof -
  obtain ct where e: "env_content e = Some ct" "base64_relaxed A ct = msg_content m" "env_type e = Some (msg_type m)"
    "source_device_id e = (if msg_type m = 6 then None else Some d)"
    "parse_destination_service_id (env_sids B) e = Some recipient"
    "parse_source_service_id (env_sids B) e = (if msg_type m = 6 then None else Some (Aci sender))"
    using envelope by (auto simp: envelope_for_def)
  note parts = decrypt_parts_of_encrypt [OF formats sent e(1-4) peer device _ session]
  then show ?thesis
    using open_of_parts [OF formats peer e(1,5) _ _ times, of "certificate \<noteq> None"] e(6) sealed by metis
qed

text \<open>
  Two clients with a codec for typing messages, version three of the sessions, and a library that
  leaves messages as they are; the sealed variant carries a certificate of the account named \<open>1\<close>.
\<close>

definition sample_channel :: "unit protocol_env" where
  "sample_channel = sample_env\<lparr>
     env_codec := sample_codec\<lparr>content_encode := (\<lambda>p. case pc_content p of Some (ProtoTypingMessage b) \<Rightarrow> b | _ \<Rightarrow> [])\<rparr>,
     session_version := (\<lambda>_. Ok 3)\<rparr>"

lemmas sample_channel_simps = sample_channel_def sample_defs

lemma sample_same_formats: "same_formats sample_channel sample_channel (TypingMessage [9])"
proof -
  have "inj char_of_byte"
    by (metis byte_of_char_of_byte injI)
  then show ?thesis
    by (simp add: same_formats_def sample_channel_simps into_proto_def sample_iso7816_correct)
qed

lemma sample_in_step:
  "in_step sample_channel self address None () sample_channel sample_cipher timestamp sender device ()"
  by (auto simp: in_step_def decrypts_def sample_channel_simps)

theorem message_end_to_end_witness:
  "\<exists>m md. encrypt sample_channel sample_cipher \<lparr>addr_name = ''A2'', addr_device = 1\<rparr> None (Encrypted [9]) () = (Ok m, ()) \<and>
     open_envelope sample_channel sample_cipher
       (sample_envelope\<lparr>env_content := Some ([9, 0x80] @ replicate 158 0)\<rparr>) () =
       (Ok (Some \<lparr>c_metadata = md, c_body = TypingMessage [9]\<rparr>), ()) \<and>
     metadata_for md (as_bytes ''1'') 1 (Aci (as_bytes ''2'')) False"
proof -
  let ?padded = "[9, 0x80] @ replicate 158 (0 :: u8)"
  let ?m = "\<lparr>msg_type = 1, destination_device_id = 1, destination_registration_id = 77, msg_content = map char_of_byte ?padded\<rparr>"
  let ?e = "sample_envelope\<lparr>env_content := Some ?padded\<rparr>"
  have "add_padding sample_iso7816 3 [9] = Ok ?padded"
    using add_padding_eq [OF sample_iso7816_correct, of 3 "[9]"] by (simp add: padded_length_def)
  then have m: "encrypt sample_channel sample_cipher \<lparr>addr_name = ''A2'', addr_device = 1\<rparr> None (Encrypted [9]) () = (Ok ?m, ())"
    by (simp add: encrypt_def sample_channel_simps protoE_def map_errE_def protoR_def bindE_def Let_def)
  have content: "content_encode (env_codec sample_channel) (into_proto (env_codec sample_channel) (TypingMessage [9])) = [9]"
    by (simp add: sample_channel_simps into_proto_def)
  have sent: "encrypt sample_channel sample_cipher \<lparr>addr_name = ''A2'', addr_device = 1\<rparr> None
      (Encrypted (content_encode (env_codec sample_channel) (into_proto (env_codec sample_channel) (TypingMessage [9])))) () = (Ok ?m, ())"
    unfolding content by (rule m)
  have "\<exists>md w'. open_envelope sample_channel sample_cipher ?e () =
      (Ok (received (Aci (as_bytes ''2'')) (as_bytes ''1'') md (TypingMessage [9])), w') \<and>
      metadata_for md (as_bytes ''1'') 1 (Aci (as_bytes ''2'')) ((None :: bytes option) \<noteq> None)"
    by (rule message_end_to_end [OF sample_same_formats sent _ _ _ _ _ _ sample_in_step, where d = 1])
      (simp_all add: envelope_for_def dated_def sample_channel_simps parse_destination_service_id_def
        parse_source_service_id_def parse_service_id_with_fallback_def or_else_def)
  then show ?thesis
    using m by (auto simp: received_def is_sync_message_def)
qed

section \<open>Decryption errors\<close>

text \<open>
  The one message that bypasses the session: a decryption error goes out as a plaintext envelope, and
  the peer opens it although neither side used a session key. The body of the plaintext ends with the
  boundary of the padding, as the protocol library writes it.
\<close>

lemma decryption_error_end_to_end:
  assumes formats: "same_formats A B (DecryptionErrorMessage err)"
    and sent: "encrypt A self address certificate (PlaintextOut plain) s = (Ok m, s')"
    and body: "parse_plaintext_content B plain = Ok contents"
      "strip_padding (env_iso B) contents =
        Ok (content_encode (env_codec A) (into_proto (env_codec A) (DecryptionErrorMessage err)))"
    and envelope: "envelope_for (env_sids B) (base64_relaxed A) m sender d recipient e"
    and peer: "parse_from_service_id_string (env_sids B) (addr_name (local_address peer)) = Some recipient"
    and device: "device_id_try_from B d = Some device"
    and times: "dated B (client_timestamp e)" "dated B (server_timestamp e)"
  shows "\<exists>md. open_envelope B peer e w = (Ok (Some \<lparr>c_metadata = md, c_body = DecryptionErrorMessage err\<rparr>), w) \<and>
    md_sender md = Aci sender \<and> md_sender_device md = device \<and> md_was_plaintext md"
proof -
  have m: "msg_type m = 8" "msg_content m = base64_relaxed A plain"
    using sent by (auto simp: encrypt_def Let_def bindE_Ok_iff)
  have e: "env_content e = Some plain" "type_of_envelope e = PlaintextContentType" "source_device_id e = Some d"
    "parse_destination_service_id (env_sids B) e = Some recipient" "parse_source_service_id (env_sids B) e = Some (Aci sender)"
    using envelope m formats
    by (auto simp: envelope_for_def same_formats_def type_of_envelope_def envelope_type_of_def dest: injD)
  have "decrypt_parts B peer e plain (Some (Aci sender)) w =
      (Ok \<lparr>dp_data = content_encode (env_codec A) (into_proto (env_codec A) (DecryptionErrorMessage err)), dp_sender = Aci sender,
        dp_sender_device = device, dp_was_plaintext = True, dp_unidentified_sender = False, dp_needs_receipt = False\<rparr>, w)"
    using e(2,3) body device
    by (simp add: decrypt_parts_def decrypt_plaintext_content_def source_device_def protoR_def bindE_def)
  moreover obtain c t where "from_timestamp_millis B (sint (case client_timestamp e of Some t \<Rightarrow> t | None \<Rightarrow> 0)) = Some c"
    "from_timestamp_millis B (sint (case server_timestamp e of Some t \<Rightarrow> t | None \<Rightarrow> 0)) = Some t"
    using times unfolding dated_def by blast
  ultimately show ?thesis
    using decrypt_of_parts [OF peer e(1,4) refl] e(1,5) peer formats from_proto_of_into_proto [OF formats]
    by (simp add: same_formats_def open_envelope_def process_sidecar_def bindE_def accept_content_def)
qed

end
