(* ===== verification/Group_Types.thy ===== *)
theory Group_Types
  imports Group_Requests
begin

text \<open>
  The types of decrypted groups and changes (\<open>groups_v2/model.rs\<close>): account and phone-number identifiers
  of sixteen bytes, profile keys and group identifiers of thirty-two, and texts that are valid UTF-8.
  In the source the Rust types carry these facts; here they are predicates on byte strings, and every
  function that reads what the server sent is shown to establish them.
\<close>

section \<open>Well-typed values\<close>

primrec service_id_ok :: "service_id \<Rightarrow> bool" where
  "service_id_ok (Aci u) \<longleftrightarrow> length u = 16"
| "service_id_ok (Pni u) \<longleftrightarrow> length u = 16"

definition member_ok :: "member \<Rightarrow> bool" where
  "member_ok m \<longleftrightarrow> length (m_aci m) = 16 \<and> length (m_profile_key m) = 32 \<and>
     pred_option str_ok (m_label m) \<and> pred_option str_ok (m_label_emoji m)"

definition pending_member_ok :: "pending_member \<Rightarrow> bool" where
  "pending_member_ok m \<longleftrightarrow> service_id_ok (pm_address m) \<and> length (pm_added_by_aci m) = 16"

definition requesting_member_ok :: "requesting_member \<Rightarrow> bool" where
  "requesting_member_ok m \<longleftrightarrow> length (rm_aci m) = 16 \<and> length (rm_profile_key m) = 32"

definition banned_member_ok :: "banned_member \<Rightarrow> bool" where
  "banned_member_ok m \<longleftrightarrow> service_id_ok (bm_user_id m)"

definition promoted_member_ok :: "promoted_member \<Rightarrow> bool" where
  "promoted_member_ok m \<longleftrightarrow> length (prm_aci m) = 16 \<and> length (prm_pni m) = 16 \<and> length (prm_profile_key m) = 32"

definition group_ok :: "group \<Rightarrow> bool" where
  "group_ok g \<longleftrightarrow> str_ok (g_title g) \<and> str_ok (g_avatar g) \<and> pred_option str_ok (g_description_text g) \<and>
     g_description_text g \<noteq> Some [] \<and>
     list_all member_ok (g_members g) \<and> list_all pending_member_ok (g_members_pending_profile_key g) \<and>
     list_all requesting_member_ok (g_members_pending_admin_approval g) \<and> list_all banned_member_ok (g_members_banned g)"

primrec change_ok :: "group_change \<Rightarrow> bool" where
  "change_ok (NewMember m) \<longleftrightarrow> member_ok m"
| "change_ok (DeleteMember u) \<longleftrightarrow> length u = 16"
| "change_ok (ModifyMemberRole u r) \<longleftrightarrow> length u = 16"
| "change_ok (ModifyMemberProfileKey u k) \<longleftrightarrow> length u = 16 \<and> length k = 32"
| "change_ok (NewPendingMember m) \<longleftrightarrow> pending_member_ok m"
| "change_ok (DeletePendingMember sid) \<longleftrightarrow> service_id_ok sid"
| "change_ok (PromotePendingMember sid k) \<longleftrightarrow> service_id_ok sid \<and> length k = 32"
| "change_ok (Title t) \<longleftrightarrow> str_ok t"
| "change_ok (Avatar a) \<longleftrightarrow> str_ok a"
| "change_ok (TimerChange t) \<longleftrightarrow> True"
| "change_ok (AttributeAccess r) \<longleftrightarrow> True"
| "change_ok (MemberAccess r) \<longleftrightarrow> True"
| "change_ok (InviteLinkAccess r) \<longleftrightarrow> True"
| "change_ok (NewRequestingMember m) \<longleftrightarrow> requesting_member_ok m"
| "change_ok (DeleteRequestingMember u) \<longleftrightarrow> length u = 16"
| "change_ok (PromoteRequestingMember u r) \<longleftrightarrow> length u = 16"
| "change_ok (InviteLinkPassword p) \<longleftrightarrow> str_ok p"
| "change_ok (Description d) \<longleftrightarrow> pred_option str_ok d \<and> d \<noteq> Some []"
| "change_ok (AnnouncementOnly b) \<longleftrightarrow> True"
| "change_ok (AddBannedMember m) \<longleftrightarrow> banned_member_ok m"
| "change_ok (DeleteBannedMember sid) \<longleftrightarrow> service_id_ok sid"
| "change_ok (PromotePendingPniAciMemberProfileKey m) \<longleftrightarrow> promoted_member_ok m"
| "change_ok (MemberLabel sid e l) \<longleftrightarrow> service_id_ok sid \<and> pred_option str_ok e \<and> pred_option str_ok l"
| "change_ok (MemberLabelAccess r) \<longleftrightarrow> True"
| "change_ok TerminateGroup \<longleftrightarrow> True"

definition changes_ok :: "group_changes \<Rightarrow> bool" where
  "changes_ok ch \<longleftrightarrow> length (gc_group_id ch) = 32 \<and> length (gc_editor ch) = 16 \<and> list_all change_ok (gc_changes ch)"

text \<open>
  What the packages promise: decrypted identifiers and keys have their size, and the strings of a
  decoded message are valid.
\<close>

definition blob_ok :: "blob_content \<Rightarrow> bool" where
  "blob_ok b \<longleftrightarrow> (case b of BlobTitle t \<Rightarrow> str_ok t | BlobDescriptionText d \<Rightarrow> str_ok d | _ \<Rightarrow> True)"

definition zk_typed :: "zkgroup \<Rightarrow> bool" where
  "zk_typed Z \<longleftrightarrow>
     (\<forall>g c sid. zk_decrypt_service_id Z g c = Some sid \<longrightarrow> service_id_ok sid) \<and>
     (\<forall>g c u k. zk_decrypt_profile_key Z g c u = Some k \<longrightarrow> length k = 32) \<and>
     (\<forall>bs b. blob_decode Z bs = Inr (Some b) \<longrightarrow> blob_ok b) \<and>
     (\<forall>bs a. actions_decode Z bs = Inr a \<longrightarrow> pred_option str_ok (modify_avatar a)) \<and>
     (\<forall>bs. str_ok (base64_encode Z bs))"

section \<open>Every reader establishes its type\<close>

named_theorems typed \<open>destruction rules: the type of what a successful reader returns\<close>
named_theorems typed_texts \<open>the type of what a reader that cannot fail returns\<close>

lemma zk_typedD [typed]:
  "zk_decrypt_service_id Z g c = Some sid \<Longrightarrow> zk_typed Z \<Longrightarrow> service_id_ok sid"
  "zk_decrypt_profile_key Z g c u = Some k \<Longrightarrow> zk_typed Z \<Longrightarrow> length k = 32"
  "blob_decode Z bs = Inr (Some b) \<Longrightarrow> zk_typed Z \<Longrightarrow> blob_ok b"
  "actions_decode Z bs = Inr a \<Longrightarrow> zk_typed Z \<Longrightarrow> pred_option str_ok (modify_avatar a)"
  unfolding zk_typed_def by blast+

lemma base64_encode_typed [typed_texts]: "zk_typed Z \<Longrightarrow> str_ok (base64_encode Z bs)"
  unfolding zk_typed_def by blast

lemma case_service_id_Ok_iff [simp]:
  "(case sid of Aci u \<Rightarrow> f u | Pni _ \<Rightarrow> Err e) = Ok x \<longleftrightarrow> (\<exists>u. sid = Aci u \<and> f u = Ok x)"
  "(case sid of Aci _ \<Rightarrow> Err e | Pni u \<Rightarrow> f u) = Ok x \<longleftrightarrow> (\<exists>u. sid = Pni u \<and> f u = Ok x)"
  "(case sid of Aci u \<Rightarrow> Ok (Aci u) | Pni u \<Rightarrow> Ok (Pni u)) = Ok y \<longleftrightarrow> sid = y"
  by (cases sid; auto)+

lemma zk_read_service_id_typed [typed]:
  "zk_read_service_id Z self c = Ok sid \<Longrightarrow> zk_typed Z \<Longrightarrow> service_id_ok sid"
  by (auto simp: zk_read_service_id_def dest: typed)

lemma decrypt_service_id_typed [typed]: "decrypt_service_id Z self c = Ok sid \<Longrightarrow> zk_typed Z \<Longrightarrow> service_id_ok sid"
  by (auto simp: decrypt_service_id_def dest!: typed)

lemma decrypt_aci_typed [typed]:
  assumes "decrypt_aci Z self c = Ok u" "zk_typed Z"
  shows "length u = 16"
proof -
  have "zk_read_service_id Z self c = Ok (Aci u)"
    using assms(1) by (auto simp: decrypt_aci_def)
  from zk_read_service_id_typed [OF this assms(2)] show ?thesis by simp
qed

lemma decrypt_pni_typed [typed]:
  assumes "decrypt_pni Z self c = Ok u" "zk_typed Z"
  shows "length u = 16"
proof -
  have "zk_read_service_id Z self c = Ok (Pni u)"
    using assms(1) by (auto simp: decrypt_pni_def)
  from zk_read_service_id_typed [OF this assms(2)] show ?thesis by simp
qed

lemma decrypt_profile_key_typed [typed]: "decrypt_profile_key Z self c u = Ok k \<Longrightarrow> zk_typed Z \<Longrightarrow> length k = 32"
  by (auto simp: decrypt_profile_key_def dest: typed)

lemma decrypt_presentation_typed [typed]:
  assumes "decrypt_profile_key_presentation Z self a key p = Ok (u, k)" "zk_typed Z"
  shows "length u = 16" and "length k = 32"
proof -
  have "service_id_ok (Aci u) \<and> length k = 32"
  proof (cases "p = []")
    case True
    then show ?thesis
      using assms by (auto simp: decrypt_profile_key_presentation_def dest: typed)
  next
    case False
    then obtain uct kct where "zk_decrypt_service_id Z (group_secret_params self) uct = Some (Aci u)"
        "zk_decrypt_profile_key Z (group_secret_params self) kct u = Some k"
      using assms(1) by (auto simp: decrypt_profile_key_presentation_def)
    then show ?thesis
      using zk_typedD(1,2) assms(2) by blast
  qed
  then show "length u = 16" "length k = 32" by simp_all
qed

lemma decrypt_string_typed [typed]: "decrypt_string Z self bs = Ok t \<Longrightarrow> str_ok t"
  by (auto simp: decrypt_string_def from_utf8_Ok_iff str_ok_def)

lemma decrypt_label_typed [typed_texts]:
  "pred_option str_ok (decrypt_member_label_text Z self bs)" "pred_option str_ok (decrypt_member_label_emoji Z self bs)"
proof -
  have "pred_option str_ok t" if "maybe_decrypt_string Z self bs = Ok t" for t
    using that by (cases "decrypt_string Z self bs") (auto simp: maybe_decrypt_string_def dest: typed split: if_splits)
  then show "pred_option str_ok (decrypt_member_label_text Z self bs)" "pred_option str_ok (decrypt_member_label_emoji Z self bs)"
    by (auto simp: decrypt_member_label_text_def decrypt_member_label_emoji_def split: result.splits)
qed

lemma decrypt_blob_typed [typed]: "decrypt_blob Z self bs = Some b \<Longrightarrow> zk_typed Z \<Longrightarrow> blob_ok b"
  by (auto simp: decrypt_blob_def dest: typed split: if_splits option.splits sum.splits)

lemma decrypt_title_typed [typed_texts]: "zk_typed Z \<Longrightarrow> str_ok (decrypt_title Z self bs)"
  by (auto simp: decrypt_title_def blob_ok_def dest!: typed split: option.splits blob_content.splits)

lemma decrypt_description_typed [typed_texts]:
  "zk_typed Z \<Longrightarrow> pred_option str_ok (decrypt_description_text Z self bs)"
  "decrypt_description_text Z self bs \<noteq> Some []"
  by (auto simp: decrypt_description_text_def blob_ok_def dest!: typed split: option.splits blob_content.splits)

lemma decrypt_description_Some_typed [typed]: "decrypt_description_text Z self bs = Some d \<Longrightarrow> zk_typed Z \<Longrightarrow> str_ok d"
  using decrypt_description_typed(1) [of Z self bs] by simp

section \<open>Members\<close>

lemma decrypt_member_typed [typed]: "decrypt_member Z self m = Ok x \<Longrightarrow> zk_typed Z \<Longrightarrow> member_ok x"
  by (auto simp: decrypt_member_def member_ok_def Let_def typed_texts dest: typed)

lemma decrypt_pending_member_typed [typed]: "decrypt_pending_member Z self m = Ok x \<Longrightarrow> zk_typed Z \<Longrightarrow> pending_member_ok x"
  by (auto simp: decrypt_pending_member_def pending_member_ok_def dest: typed)

lemma decrypt_requesting_member_typed [typed]:
  "decrypt_requesting_member Z self m = Ok x \<Longrightarrow> zk_typed Z \<Longrightarrow> requesting_member_ok x"
  by (auto simp: decrypt_requesting_member_def requesting_member_ok_def dest: typed)

lemma decrypt_banned_member_typed [typed]: "decrypt_banned_member Z self m = Ok x \<Longrightarrow> zk_typed Z \<Longrightarrow> banned_member_ok x"
  by (auto simp: decrypt_banned_member_def banned_member_ok_def dest: typed)

lemma decrypt_promotion_typed [typed]:
  "decrypt_pni_aci_promotion_presentation Z self m = Ok x \<Longrightarrow> zk_typed Z \<Longrightarrow> promoted_member_ok x"
  by (auto simp: decrypt_pni_aci_promotion_presentation_def promoted_member_ok_def dest: typed)

section \<open>Groups and changes\<close>

lemma collect_map_all:
  "collect (map f xs) = Ok ys \<Longrightarrow> (\<And>x y. f x = Ok y \<Longrightarrow> P y) \<Longrightarrow> list_all P ys"
  by (induction xs arbitrary: ys) auto

lemma collect_all: "collect rs = Ok ys \<Longrightarrow> (\<And>r y. r \<in> set rs \<Longrightarrow> r = Ok y \<Longrightarrow> P y) \<Longrightarrow> list_all P ys"
  by (auto simp: collect_Ok_iff list_all_iff)

lemma decrypt_group_typed:
  assumes "zk_typed Z" "str_ok (eg_avatar_url g)" "decrypt_group Z self g = Ok x"
  shows "group_ok x"
proof -
  note [dest] = typed
  have "list_all member_ok (g_members x)" "list_all pending_member_ok (g_members_pending_profile_key x)"
    "list_all requesting_member_ok (g_members_pending_admin_approval x)" "list_all banned_member_ok (g_members_banned x)"
    using assms(1,3) by (auto simp: decrypt_group_def elim!: collect_map_all)
  then show ?thesis
    using assms by (auto simp: group_ok_def decrypt_group_def typed_texts)
qed

text \<open>The readers of the actions in three groups, in the order of the chain.\<close>

lemma Ok_in_image_iff: "Ok c \<in> f ` S \<longleftrightarrow> (\<exists>x\<in>S. f x = Ok c)"
  by (auto simp: image_iff eq_commute)

lemma read_members_typed:
  assumes "zk_typed Z"
    and "Ok c \<in> set (read_add_members Z self a @ read_delete_members Z self a @ read_modify_member_roles Z self a @
      read_modify_member_profile_keys Z self a @ read_add_pending Z self a @ read_delete_pending Z self a @ read_promote_pending Z self a)"
  shows "change_ok c"
  using assms
  by (auto simp: read_add_members_def read_delete_members_def read_modify_member_roles_def read_modify_member_profile_keys_def
      read_add_pending_def read_delete_pending_def read_promote_pending_def Ok_in_image_iff dest: typed)

lemma read_attributes_typed:
  assumes "zk_typed Z" "pred_option str_ok (modify_avatar a)"
    and "Ok c \<in> set (read_modify_title Z self a @ read_modify_avatar a @ read_modify_timer Z self a @
      read_modify_attributes_access a @ read_modify_description Z self a @ read_modify_member_access a @ read_add_banned Z self a @
      read_delete_banned Z self a @ read_promote_pni_aci Z self a @ read_modify_invite_link_access a)"
  shows "change_ok c"
  using assms
  by (auto simp: read_modify_title_def read_modify_avatar_def read_modify_timer_def read_modify_attributes_access_def
      read_modify_description_def read_modify_member_access_def read_add_banned_def read_delete_banned_def
      read_promote_pni_aci_def read_modify_invite_link_access_def opt_list_def Ok_in_image_iff typed_texts option.pred_set
      dest: typed split: option.splits)

lemma read_requests_typed:
  assumes "zk_typed Z"
    and "Ok c \<in> set (read_add_requesting Z self a @ read_delete_requesting Z self a @ read_promote_requesting Z self a @
      read_modify_invite_link_password Z a @ read_modify_announcements_only a @ read_modify_member_labels Z self a @
      read_modify_member_label_access a @ read_terminate_group a)"
  shows "change_ok c"
  using assms
  by (auto simp: read_add_requesting_def read_delete_requesting_def read_promote_requesting_def read_modify_invite_link_password_def
      read_modify_announcements_only_def read_modify_member_labels_def read_modify_member_label_access_def read_terminate_group_def
      opt_list_def Ok_in_image_iff typed_texts dest: typed split: option.splits)

lemma read_changes_typed:
  assumes "zk_typed Z" "pred_option str_ok (modify_avatar a)" "collect (read_changes Z self a) = Ok cs"
  shows "list_all change_ok cs"
proof (rule collect_all [OF assms(3)])
  fix r c
  assume "r \<in> set (read_changes Z self a)" "r = Ok c"
  then show "change_ok c"
    using read_members_typed [OF assms(1), of c self a] read_attributes_typed [OF assms(1,2), of c self]
      read_requests_typed [OF assms(1), of c self a]
    unfolding read_changes_def by (simp only: set_append Un_iff) blast
qed


text \<open>A library that checks sizes, and a change that removes a member.\<close>

definition sample_removal :: actions where
  "sample_removal = no_actions\<lparr>source_user_id := replicate 16 1, group_id := replicate 32 2, delete_members := [replicate 16 3]\<rparr>"

definition sample_typed :: zkgroup where
  "sample_typed = (sample_zk sample_removal)\<lparr>
     zk_decrypt_service_id := (\<lambda>g c. if length c = 16 then Some (Aci c) else None),
     zk_decrypt_profile_key := (\<lambda>g k u. if length k = 32 then Some k else None),
     blob_decode := (\<lambda>_. Inr None), base64_encode := (\<lambda>_. [])\<rparr>"

lemma sample_typed_typed: "zk_typed sample_typed"
  by (simp add: zk_typed_def sample_typed_def sample_zk_def sample_removal_def no_actions_def)


end
