(* ===== verification/Message_Accessors.thy ===== *)
theory Message_Accessors
  imports Contacts Sender_Properties
begin

text \<open>
  Small readers: the accessors of \<open>proto.rs\<close> for identifiers inside messages, the predicates of
  \<open>content/data_message.rs\<close> and \<open>content/story_message.rs\<close>, the conversions of phone numbers
  (\<open>utils/phonenumber.rs\<close>) and the clock of \<open>timestamp.rs\<close>. Most messages carry an identifier twice, as
  bytes and as text; the locale \<open>aci_reference\<close> states once what their accessors promise. At the
  end the accessors meet their writer: the transcript of a send is read by another own device.
\<close>

section \<open>Messages that refer to an account\<close>

record reaction =
  re_emoji :: "string option"
  re_remove :: "bool option"
  re_target_author_aci :: "string option"
  re_target_sent_timestamp :: "u64 option"
  re_target_author_aci_binary :: "bytes option"

record quote =
  qu_id :: "u64 option"
  qu_author_aci :: "string option"
  qu_text :: "string option"
  qu_author_aci_binary :: "bytes option"

record story_context =
  sc_author_aci :: "string option"
  sc_sent_timestamp :: "u64 option"
  sc_author_aci_binary :: "bytes option"

record poll_vote =
  pv_target_author_aci_binary :: "bytes option"
  pv_target_sent_timestamp :: "u64 option"
  pv_option_indexes :: "u32 list"
  pv_vote_count :: "u32 option"

datatype pin_duration = PinDurationSeconds u32 | PinDurationForever bool

record pin_message =
  pm_target_author_aci_binary :: "bytes option"
  pm_target_sent_timestamp :: "u64 option"
  pm_pin_duration :: "pin_duration option"

record unpin_message =
  um_target_author_aci_binary :: "bytes option"
  um_target_sent_timestamp :: "u64 option"

record verified_message =
  vm_destination_aci :: "string option"
  vm_identity_key :: "bytes option"
  vm_state :: "i32 option"
  vm_null_message :: "bytes option"
  vm_destination_aci_binary :: "bytes option"

record story_message_recipient =
  smr_destination_service_id :: "string option"
  smr_distribution_list_ids :: "string list"
  smr_is_allowed_to_reply :: "bool option"
  smr_destination_service_id_binary :: "bytes option"

text \<open>\<open>Read\<close>, \<open>Viewed\<close> and \<open>ViewOnceOpen\<close> have the same fields.\<close>

record sender_reference =
  sr_sender_aci :: "string option"
  sr_timestamp :: "u64 option"
  sr_sender_aci_binary :: "bytes option"

definition reaction_target_author_aci :: "sid_pkgs \<Rightarrow> reaction \<Rightarrow> uuid option" where
  "reaction_target_author_aci S m = parse_aci_with_fallback S (re_target_author_aci_binary m) (re_target_author_aci m)"

definition quote_author_aci :: "sid_pkgs \<Rightarrow> quote \<Rightarrow> uuid option" where
  "quote_author_aci S m = parse_aci_with_fallback S (qu_author_aci_binary m) (qu_author_aci m)"

definition story_context_author_aci :: "sid_pkgs \<Rightarrow> story_context \<Rightarrow> uuid option" where
  "story_context_author_aci S m = parse_aci_with_fallback S (sc_author_aci_binary m) (sc_author_aci m)"

definition poll_vote_target_author_aci :: "sid_pkgs \<Rightarrow> poll_vote \<Rightarrow> uuid option" where
  "poll_vote_target_author_aci S m = parse_aci_with_fallback S (pv_target_author_aci_binary m) None"

definition pin_message_target_author_aci :: "sid_pkgs \<Rightarrow> pin_message \<Rightarrow> uuid option" where
  "pin_message_target_author_aci S m = parse_aci_with_fallback S (pm_target_author_aci_binary m) None"

definition unpin_message_target_author_aci :: "sid_pkgs \<Rightarrow> unpin_message \<Rightarrow> uuid option" where
  "unpin_message_target_author_aci S m = parse_aci_with_fallback S (um_target_author_aci_binary m) None"

definition verified_destination_aci :: "sid_pkgs \<Rightarrow> verified_message \<Rightarrow> uuid option" where
  "verified_destination_aci S m = parse_aci_with_fallback S (vm_destination_aci_binary m) (vm_destination_aci m)"

definition read_sender_aci :: "sid_pkgs \<Rightarrow> sender_reference \<Rightarrow> uuid option" where
  "read_sender_aci S m = parse_aci_with_fallback S (sr_sender_aci_binary m) (sr_sender_aci m)"

definition viewed_sender_aci :: "sid_pkgs \<Rightarrow> sender_reference \<Rightarrow> uuid option" where
  "viewed_sender_aci S m = parse_aci_with_fallback S (sr_sender_aci_binary m) (sr_sender_aci m)"

definition view_once_open_sender_aci :: "sid_pkgs \<Rightarrow> sender_reference \<Rightarrow> uuid option" where
  "view_once_open_sender_aci S m = parse_aci_with_fallback S (sr_sender_aci_binary m) (sr_sender_aci m)"

definition message_request_thread_aci :: "sid_pkgs \<Rightarrow> message_request_response \<Rightarrow> uuid option" where
  "message_request_thread_aci S m = parse_aci_with_fallback S (thread_aci_binary m) (thread_aci m)"

definition contact_details_aci :: "sid_pkgs \<Rightarrow> contact_details \<Rightarrow> uuid option" where
  "contact_details_aci S m = parse_aci_with_fallback S (cd_aci_binary m) (cd_aci m)"

definition sent_destination :: "sid_pkgs \<Rightarrow> sent \<Rightarrow> service_id option" where
  "sent_destination S m =
     parse_service_id_with_fallback S (sent_destination_service_id_binary m) (sent_destination_service_id m)"

definition delivery_status_destination :: "sid_pkgs \<Rightarrow> unidentified_delivery_status \<Rightarrow> service_id option" where
  "delivery_status_destination S m =
     parse_service_id_with_fallback S (uds_destination_service_id_binary m) (uds_destination_service_id m)"

definition story_recipient_destination :: "sid_pkgs \<Rightarrow> story_message_recipient \<Rightarrow> service_id option" where
  "story_recipient_destination S m =
     parse_service_id_with_fallback S (smr_destination_service_id_binary m) (smr_destination_service_id m)"

section \<open>Predicates on data and story messages\<close>

text \<open>Data messages with the two further fields that the predicates look at.\<close>

record data_message_fields = data_message +
  dm_reaction :: "reaction option"
  dm_story_context :: "story_context option"

definition is_reaction :: "data_message_fields \<Rightarrow> bool" where
  "is_reaction m = (dm_reaction m \<noteq> None)"

definition has_story_context :: "data_message_fields \<Rightarrow> bool" where
  "has_story_context m = (dm_story_context m \<noteq> None)"

definition is_story_reaction :: "data_message_fields \<Rightarrow> bool" where
  "is_story_reaction m = (has_story_context m \<and> is_reaction m)"

datatype story_attachment = FileAttachment attachment_pointer | TextAttachment bytes

record story_message =
  st_profile_key :: "bytes option"
  st_attachment :: "story_attachment option"
  st_allows_replies :: "bool option"

definition has_text_attachment :: "story_message \<Rightarrow> bool" where
  "has_text_attachment m = (case st_attachment m of Some (TextAttachment _) \<Rightarrow> True | _ \<Rightarrow> False)"

definition has_file_attachment :: "story_message \<Rightarrow> bool" where
  "has_file_attachment m = (case st_attachment m of Some (FileAttachment _) \<Rightarrow> True | _ \<Rightarrow> False)"

section \<open>Phone numbers\<close>

text \<open>The two packages for phone numbers: \<open>'n\<close> are the numbers of one, \<open>'e\<close> those of the other.\<close>

record ('n, 'e) number_pkgs =
  number_to_string :: "'n \<Rightarrow> string"
  number_parse :: "string \<Rightarrow> 'n option"
  e164_to_string :: "'e \<Rightarrow> string"
  e164_parse :: "string \<Rightarrow> ('e, string) result"

definition phonenumber_to_signal :: "('n, 'e) number_pkgs \<Rightarrow> 'n \<Rightarrow> ('e, string) result" where
  "phonenumber_to_signal N number =
     (case e164_parse N (number_to_string N number) of
        Ok e \<Rightarrow> Ok e
      | Err _ \<Rightarrow> Panic ''valid phonenumber''
      | Panic p \<Rightarrow> Panic p)"

definition phonenumber_from_signal :: "('n, 'e) number_pkgs \<Rightarrow> 'e \<Rightarrow> ('n, string) result" where
  "phonenumber_from_signal N number = expect ''valid phonenumber'' (number_parse N (e164_to_string N number))"

text \<open>The implementations of the trait \<open>TryIntoE164\<close>, by the type of the receiver.\<close>

datatype ('n, 'e) e164_source = FromStr string | FromE164 'e | FromPhoneNumber 'n

definition try_into_e164 :: "('n, 'e) number_pkgs \<Rightarrow> ('n, 'e) e164_source \<Rightarrow> ('e, string) result" where
  "try_into_e164 N source =
     (case source of
        FromStr s \<Rightarrow> e164_parse N s
      | FromE164 e \<Rightarrow> Ok e
      | FromPhoneNumber n \<Rightarrow> phonenumber_to_signal N n)"

text \<open>
  A number that is written and read without loss survives the way to the other package and back,
  and converting it is the same as converting its text.
\<close>

lemma phonenumber_roundtrip:
  assumes "e164_parse N (number_to_string N number) = Ok e" "e164_to_string N e = number_to_string N number"
    and "number_parse N (number_to_string N number) = Some number"
  shows "and_then (phonenumber_to_signal N number) (phonenumber_from_signal N) = Ok number"
    and "try_into_e164 N (FromPhoneNumber number) = try_into_e164 N (FromStr (number_to_string N number))"
  using assms by (simp_all add: phonenumber_to_signal_def phonenumber_from_signal_def try_into_e164_def expect_def)

lemma try_into_e164_str_only_fails:
  assumes "try_into_e164 N source = Err e"
  shows "\<exists>s. source = FromStr s \<and> e164_parse N s = Err e"
  using assms
  by (cases source) (auto simp: try_into_e164_def phonenumber_to_signal_def split: result.splits)

section \<open>The clock\<close>

text \<open>The time of the system, in nanoseconds since the epoch.\<close>

definition timestamp_now :: "int \<Rightarrow> (u64, 'e) result" where
  "timestamp_now system_time =
     (if system_time < 0 then Panic ''unix epoch in the past''
      else let millis = system_time div 1000000 in
        if millis < 2 ^ 64 then Ok (word_of_int millis) else Panic ''millis overflow'')"

lemma timestamp_now_exact:
  "timestamp_now t = Ok m \<longleftrightarrow> 0 \<le> t \<and> t < 1000000 * 2 ^ 64 \<and> uint m = t div 1000000"
proof (cases "0 \<le> t \<and> t div 1000000 < 2 ^ 64")
  case True
  then have "uint (word_of_int (t div 1000000) :: u64) = t div 1000000"
    using take_bit_int_eq_self_iff [of 64 "t div 1000000"] by (simp add: unsigned_of_int pos_imp_zdiv_nonneg_iff)
  moreover have "t < 1000000 * 2 ^ 64"
    using True by linarith
  ultimately show ?thesis
    using True by (auto simp: timestamp_now_def Let_def) (metis word_of_int_uint)
next
  case False
  then show ?thesis
    using uint_bounded [of m] by (auto simp: timestamp_now_def Let_def)
qed

section \<open>What the accessors promise\<close>

locale aci_reference =
  fixes parse :: "sid_pkgs \<Rightarrow> 'm \<Rightarrow> uuid option"
    and binary :: "'m \<Rightarrow> bytes option"
    and utf8 :: "'m \<Rightarrow> string option"
  assumes reads: "parse S m = parse_aci_with_fallback S (binary m) (utf8 m)"
begin

lemma binary_first: "binary m = Some u \<Longrightarrow> length u = 16 \<Longrightarrow> parse S m = Some u"
  by (simp add: reads)

lemma text_otherwise:
  "(\<And>u. binary m = Some u \<Longrightarrow> length u \<noteq> 16) \<Longrightarrow> parse S m = Option.bind (utf8 m) (aci_from_service_id_string S)"
  by (cases "binary m") (auto simp: reads parse_aci_with_fallback_def or_else_def try_into_array_def)

text \<open>A message whose two forms agree is read the same by clients that know only one of them.\<close>

lemma forms_agree:
  assumes "binary m = Some u" "utf8 m = Some s" "length u = 16" "aci_from_service_id_string S s = Some u"
    and "binary old = None" "utf8 old = Some s" "binary new = Some u" "utf8 new = None"
  shows "parse S m = Some u" "parse S old = Some u" "parse S new = Some u"
  using assms text_otherwise [of old S] by (simp_all add: binary_first)

lemma parsed_length:
  assumes "\<And>s u. aci_from_service_id_string S s = Some u \<Longrightarrow> length u = 16" "parse S m = Some u"
  shows "length u = 16"
  using assms by (auto simp: reads parse_aci_with_fallback_def or_else_Some_iff try_into_array_Some_iff bind_eq_Some_conv)

end

interpretation reaction: aci_reference reaction_target_author_aci re_target_author_aci_binary re_target_author_aci
  by unfold_locales (rule reaction_target_author_aci_def)

interpretation quote: aci_reference quote_author_aci qu_author_aci_binary qu_author_aci
  by unfold_locales (rule quote_author_aci_def)

interpretation story_context: aci_reference story_context_author_aci sc_author_aci_binary sc_author_aci
  by unfold_locales (rule story_context_author_aci_def)

interpretation poll_vote: aci_reference poll_vote_target_author_aci pv_target_author_aci_binary "\<lambda>_. None"
  by unfold_locales (rule poll_vote_target_author_aci_def)

interpretation pin_message: aci_reference pin_message_target_author_aci pm_target_author_aci_binary "\<lambda>_. None"
  by unfold_locales (rule pin_message_target_author_aci_def)

interpretation unpin_message: aci_reference unpin_message_target_author_aci um_target_author_aci_binary "\<lambda>_. None"
  by unfold_locales (rule unpin_message_target_author_aci_def)

interpretation verified: aci_reference verified_destination_aci vm_destination_aci_binary vm_destination_aci
  by unfold_locales (rule verified_destination_aci_def)

interpretation read: aci_reference read_sender_aci sr_sender_aci_binary sr_sender_aci
  by unfold_locales (rule read_sender_aci_def)

interpretation viewed: aci_reference viewed_sender_aci sr_sender_aci_binary sr_sender_aci
  by unfold_locales (rule viewed_sender_aci_def)

interpretation view_once_open: aci_reference view_once_open_sender_aci sr_sender_aci_binary sr_sender_aci
  by unfold_locales (rule view_once_open_sender_aci_def)

interpretation message_request: aci_reference message_request_thread_aci thread_aci_binary thread_aci
  by unfold_locales (rule message_request_thread_aci_def)

interpretation contact_details: aci_reference contact_details_aci cd_aci_binary cd_aci
  by unfold_locales (rule contact_details_aci_def)

section \<open>Reading the transcript of a send\<close>

text \<open>The binary form that the library writes is the one it reads.\<close>

definition binary_forms :: "sid_pkgs \<Rightarrow> ('w, 'm) sender_env_scheme \<Rightarrow> bool" where
  "binary_forms S E \<longleftrightarrow> (\<forall>sid. parse_from_service_id_binary S (service_id_binary E sid) = Some sid)"

lemma written_destination_read:
  "binary_forms S E \<Longrightarrow> parse_service_id_with_fallback S (map_option (service_id_binary E) sid) utf8 =
     or_else sid (Option.bind utf8 (parse_from_service_id_string S))"
  by (cases sid) (simp_all add: parse_service_id_with_fallback_def binary_forms_def or_else_def)

lemma delivery_status_read:
  "binary_forms S E \<Longrightarrow> delivery_status_destination S (delivery_status E m) = Some (sm_recipient m)"
  using written_destination_read [of S E "Some (sm_recipient m)"]
  by (simp add: delivery_status_destination_def delivery_status_def or_else_def)


definition sample_binary_sids :: sid_pkgs where
  "sample_binary_sids = sample_sids\<lparr>parse_from_service_id_binary := (\<lambda>bs. case bs of
     b # u \<Rightarrow> if b = 0 then Some (Aci u) else Some (Pni u) | [] \<Rightarrow> None)\<rparr>"

definition sample_transcriber :: "sample_log sender_env" where
  "sample_transcriber = (sample_net False [])\<lparr>service_id_binary := (\<lambda>sid. case sid of Aci u \<Rightarrow> 0 # u | Pni u \<Rightarrow> 1 # u)\<rparr>"

lemma sample_binary_forms: "binary_forms sample_binary_sids sample_transcriber"
  by (simp add: binary_forms_def sample_binary_sids_def sample_transcriber_def split: service_id.split)


end
