(* ===== verification/Pipe_Stream.thy ===== *)
theory Pipe_Stream
  imports Message_Pipe Provisioning Invariants "HOL-Library.Sublist"
begin

text \<open>
  The streams that \<open>MessagePipe::stream\<close> (\<open>messagepipe.rs\<close>) and \<open>ProvisioningPipe::stream\<close>
  (\<open>provisioning/pipe.rs\<close>) hand to the client. Both join the loop of \<open>run\<close> with the receiving end
  of a bounded channel, so the loop and the client take turns in an order that neither of them
  decides. Here a turn is a step: the loop handles a request, puts an item into the channel, leaves
  the loop, or the client takes an item or drops the stream. The results refine the description of
  \<open>run\<close> in \<open>Message_Pipe\<close> and bound how far the loop, which answers the server, is ahead of the client.
\<close>

section \<open>The channel between the loop and the client\<close>

datatype runner = Looping | Leaving | Finished | Panicked

record ('q, 'i, 'a) pipe_stream =
  arriving :: "'q list"
  answered :: "'a list"
  being_sent :: "'i option"
  in_channel :: "'i list"
  taken :: "'i list"
  runner :: runner
  socket_handle :: ws_inner
  dropped :: bool

text \<open>\<open>mpsc::channel(1)\<close> holds its buffer and one more item for its only sender.\<close>

definition CHANNEL_CAPACITY :: nat where
  "CHANNEL_CAPACITY = 1 + 1"

text \<open>
  The loop of \<open>run\<close> handles a request: the answer goes out, and an item waits in \<open>sink.send\<close>.
  A panic unwinds through the poll of the client and ends the loop.
\<close>

definition handle_request ::
    "('q \<Rightarrow> ('x, 'e) result option \<times> 'a option) \<Rightarrow> 'q \<Rightarrow> ('q, ('x, 'e) result, 'a) pipe_stream
       \<Rightarrow> ('q, ('x, 'e) result, 'a) pipe_stream" where
  "handle_request reply q s =
     (case reply q of (item, answer) \<Rightarrow>
        let s = s\<lparr>arriving := tl (arriving s), answered := answered s @ (case answer of Some a \<Rightarrow> [a] | None \<Rightarrow> [])\<rparr>
        in case item of
             Some (Panic p) \<Rightarrow> s\<lparr>runner := Panicked\<rparr>
           | _ \<Rightarrow> s\<lparr>being_sent := item\<rparr>)"

text \<open>After the last request the request stream goes back and the closing item, if any, is sent.\<close>

definition leave_loop ::
    "'i option \<Rightarrow> ('q, 'i, 'a) pipe_stream \<Rightarrow> ('q, 'i, 'a) pipe_stream" where
  "leave_loop closing s =
     s\<lparr>runner := Leaving, socket_handle := return_request_stream (socket_handle s), being_sent := closing\<rparr>"

inductive stream_step ::
    "('q \<Rightarrow> ('x, 'e) result option \<times> 'a option) \<Rightarrow> ('x, 'e) result option
       \<Rightarrow> ('q, ('x, 'e) result, 'a) pipe_stream \<Rightarrow> ('q, ('x, 'e) result, 'a) pipe_stream \<Rightarrow> bool"
  for reply closing where
  handle: "\<not> dropped s \<Longrightarrow> runner s = Looping \<Longrightarrow> being_sent s = None \<Longrightarrow> arriving s = q # qs \<Longrightarrow>
     stream_step reply closing s (handle_request reply q s)"
| leave: "\<not> dropped s \<Longrightarrow> runner s = Looping \<Longrightarrow> being_sent s = None \<Longrightarrow> arriving s = [] \<Longrightarrow>
     stream_step reply closing s (leave_loop closing s)"
| finish: "\<not> dropped s \<Longrightarrow> runner s = Leaving \<Longrightarrow> being_sent s = None \<Longrightarrow>
     stream_step reply closing s (s\<lparr>runner := Finished\<rparr>)"
| send: "\<not> dropped s \<Longrightarrow> being_sent s = Some i \<Longrightarrow> length (in_channel s) < CHANNEL_CAPACITY \<Longrightarrow>
     stream_step reply closing s (s\<lparr>being_sent := None, in_channel := in_channel s @ [i]\<rparr>)"
| take_item: "\<not> dropped s \<Longrightarrow> in_channel s = i # is \<Longrightarrow>
     stream_step reply closing s (s\<lparr>in_channel := is, taken := taken s @ [i]\<rparr>)"
| drop_stream: "\<not> dropped s \<Longrightarrow> stream_step reply closing s (s\<lparr>dropped := True\<rparr>)"

definition stream_start :: "ws_inner \<Rightarrow> 'q list \<Rightarrow> ('q, 'i, 'a) pipe_stream" where
  "stream_start h requests =
     \<lparr>arriving = requests, answered = [], being_sent = None, in_channel = [], taken = [], runner = Looping,
      socket_handle = h, dropped = False\<rparr>"

text \<open>The client has got \<open>None\<close> from the stream, which ends it.\<close>

definition stream_ended :: "('q, 'i, 'a) pipe_stream \<Rightarrow> bool" where
  "stream_ended s \<longleftrightarrow> runner s = Finished \<and> in_channel s = [] \<and> \<not> dropped s"

text \<open>
  \<open>with_request_stream\<close> of the socket: the closure works on the request stream, which is absent
  meanwhile; \<open>r\<close> is what it returns.
\<close>

definition with_request_stream :: "'r \<Rightarrow> ws_inner \<Rightarrow> ('r, 'e) result \<times> ws_inner" where
  "with_request_stream r h =
     (case take_request_stream h of (present, h) \<Rightarrow>
        if \<not> present then (Panic ''request stream invariant'', h)
        else (Ok r, return_request_stream h))"

lemma with_request_stream_restores:
  "with_request_stream r h = (if is_used h then (Panic ''request stream invariant'', h) else (Ok r, h))"
  by (cases h) (simp add: with_request_stream_def take_request_stream_def return_request_stream_def is_used_def)

section \<open>The two pipes\<close>

definition message_reply ::
    "(bytes \<Rightarrow> string + envelope) \<Rightarrow> ws_request \<times> bool \<Rightarrow> (incoming, service_error) result option \<times> ws_response option" where
  "message_reply decode = (\<lambda>(request, waiting).
     case process_request decode request waiting of (r, answer) \<Rightarrow> (transpose_result r, answer))"

definition message_closing :: "bool \<Rightarrow> disconnect_reason option \<Rightarrow> (incoming, service_error) result option" where
  "message_closing has_reason reason =
     (if has_reason then Some (Ok (Disconnected (case reason of Some r \<Rightarrow> r | None \<Rightarrow> Transport))) else None)"

definition message_stream ::
    "ws_inner \<Rightarrow> (ws_request \<times> bool) list \<Rightarrow> (ws_request \<times> bool, (incoming, service_error) result, ws_response) pipe_stream" where
  "message_stream h requests = stream_start (snd (take_disconnect_reason (snd (take_request_stream h)))) requests"

abbreviation message_stream_step where
  "message_stream_step decode h reason \<equiv> stream_step (message_reply decode) (message_closing (inner_reason h) reason)"

definition provisioning_reply ::
    "pipe_pkgs \<Rightarrow> provisioning_cipher \<Rightarrow> ws_request \<times> bool \<Rightarrow> (provisioning_step, provisioning_error) result option \<times> ws_response option" where
  "provisioning_reply P cipher = (\<lambda>(request, waiting).
     case provisioning_process_request P cipher request waiting of (r, answer) \<Rightarrow> (transpose_result r, answer))"

definition provisioning_stream ::
    "ws_inner \<Rightarrow> (ws_request \<times> bool) list \<Rightarrow> (ws_request \<times> bool, (provisioning_step, provisioning_error) result, ws_response) pipe_stream" where
  "provisioning_stream h requests = stream_start (snd (take_request_stream h)) requests"

abbreviation provisioning_stream_step where
  "provisioning_stream_step P cipher \<equiv> stream_step (provisioning_reply P cipher) None"

section \<open>Every item is on its way exactly once\<close>

abbreviation opt_item :: "'i option \<Rightarrow> 'i list" where
  "opt_item i \<equiv> (case i of Some x \<Rightarrow> [x] | None \<Rightarrow> [])"

definition on_its_way :: "('q, 'i, 'a) pipe_stream \<Rightarrow> 'i list" where
  "on_its_way s = in_channel s @ opt_item (being_sent s)"

text \<open>
  What the client has taken and what is on its way make up the items of the handled requests, in
  order; the answers are those of the handled requests; the channel is within its capacity.
\<close>

definition stream_inv ::
    "('q \<Rightarrow> ('x, 'e) result option \<times> 'a option) \<Rightarrow> ('x, 'e) result option \<Rightarrow> ws_inner \<Rightarrow> 'q list
       \<Rightarrow> ('q, ('x, 'e) result, 'a) pipe_stream \<Rightarrow> bool" where
  "stream_inv reply closing h requests s \<longleftrightarrow>
     (\<exists>handled. requests = handled @ arriving s \<and>
        answered s = List.map_filter (snd \<circ> reply) handled \<and>
        taken s @ on_its_way s = filter (\<lambda>i. \<not> is_panic i) (List.map_filter (fst \<circ> reply) handled) @
          (if runner s \<in> {Leaving, Finished} then opt_item closing else []) \<and>
        (runner s = Panicked \<longleftrightarrow> (\<exists>i \<in> set (List.map_filter (fst \<circ> reply) handled). is_panic i))) \<and>
     length (in_channel s) \<le> CHANNEL_CAPACITY \<and>
     (runner s = Finished \<longrightarrow> being_sent s = None) \<and>
     (runner s \<in> {Leaving, Finished} \<longrightarrow> arriving s = []) \<and>
     socket_handle s = (if runner s \<in> {Leaving, Finished} then return_request_stream h else h) \<and>
     (runner s = Panicked \<longrightarrow> being_sent s = None)"

lemma stream_inv_start: "stream_inv reply closing h requests (stream_start h requests)"
  by (simp add: stream_inv_def stream_start_def on_its_way_def List.map_filter_simps)

lemma map_filter_append: "List.map_filter f (xs @ ys) = List.map_filter f xs @ List.map_filter f ys"
  by (simp add: List.map_filter_def)

lemma map_filter_snoc: "List.map_filter f (xs @ [x]) = List.map_filter f xs @ opt_item (f x)"
  by (simp add: List.map_filter_def split: option.split)

lemma stream_inv_handle:
  assumes "stream_inv reply closing h requests s" "runner s = Looping" "being_sent s = None" "arriving s = q # qs"
  shows "stream_inv reply closing h requests (handle_request reply q s)"
proof -
  obtain handled where handled: "requests = handled @ q # qs" "answered s = List.map_filter (snd \<circ> reply) handled"
    "taken s @ in_channel s = filter (\<lambda>i. \<not> is_panic i) (List.map_filter (fst \<circ> reply) handled)"
    "\<forall>i \<in> set (List.map_filter (fst \<circ> reply) handled). \<not> is_panic i" "length (in_channel s) \<le> CHANNEL_CAPACITY" "socket_handle s = h"
    using assms by (auto simp: stream_inv_def on_its_way_def)
  obtain item answer where r: "reply q = (item, answer)"
    by fastforce
  show ?thesis
    unfolding stream_inv_def
    by (intro conjI exI [of _ "handled @ [q]"])
      (use handled assms r in \<open>auto simp: handle_request_def Let_def on_its_way_def map_filter_snoc split: option.splits result.splits\<close>)
qed

lemma stream_inv_step:
  assumes "stream_inv reply closing h requests s" "stream_step reply closing s s'"
  shows "stream_inv reply closing h requests s'"
  using assms(2,1)
proof (cases rule: stream_step.cases)
  case (handle q qs)
  then show ?thesis
    using stream_inv_handle [OF assms(1)] by simp
next
  case leave
  then show ?thesis
    using assms(1) by (auto simp: stream_inv_def leave_loop_def on_its_way_def)
next
  case (send i)
  then show ?thesis
    using assms(1) by (auto simp: stream_inv_def on_its_way_def)
qed (auto simp: stream_inv_def on_its_way_def)

interpretation stream_run: invariant "\<lambda>s. s = stream_start h requests" "stream_step reply closing" "stream_inv reply closing h requests"
  for reply :: "'q \<Rightarrow> ('x, 'e) result option \<times> 'a option" and closing h requests
  by unfold_locales (auto simp: stream_inv_start intro: stream_inv_step)

section \<open>Every run ends\<close>

definition stream_rank :: "('q, 'i, 'a) pipe_stream \<Rightarrow> nat" where
  "stream_rank s = (if dropped s then 0 else
     Suc (3 * length (arriving s) + 2 * length (opt_item (being_sent s)) + length (in_channel s) +
       (case runner s of Looping \<Rightarrow> 4 | Leaving \<Rightarrow> 1 | _ \<Rightarrow> 0)))"

lemma stream_rank_step: "stream_step reply closing s s' \<Longrightarrow> stream_rank s' < stream_rank s"
  by (cases rule: stream_step.cases, assumption)
    (auto simp: stream_rank_def handle_request_def leave_loop_def Let_def split: prod.splits option.splits result.splits runner.splits)

lemma stream_rank_steps: "(stream_step reply closing ^^ n) s s' \<Longrightarrow> n + stream_rank s' \<le> stream_rank s"
  by (induction n arbitrary: s') (fastforce dest: stream_rank_step)+

lemma stream_stuck:
  assumes "\<And>s'. stream_step reply closing s s' \<Longrightarrow> dropped s'" "\<not> dropped s"
  shows "in_channel s = []" "being_sent s = None" "runner s \<in> {Finished, Panicked}"
proof -
  show channel: "in_channel s = []"
    using assms take_item [of s _ _ reply closing] by (cases "in_channel s") fastforce+
  show "being_sent s = None"
    using assms send [of s _ reply closing] channel by (cases "being_sent s") (fastforce simp: CHANNEL_CAPACITY_def)+
  then show "runner s \<in> {Finished, Panicked}"
    using assms handle [of s _ _ reply closing] leave [of s reply closing] finish [of s reply closing]
    by (cases "runner s"; cases "arriving s") (fastforce simp: leave_loop_def handle_request_def Let_def split: prod.splits option.splits result.splits)+
qed

section \<open>Streams refine the description of the loop\<close>

lemma message_reply_seen: "fst \<circ> message_reply decode = seen decode" "snd \<circ> message_reply decode = acked decode"
  by (auto simp: fun_eq_iff message_reply_def seen_def acked_def split: prod.split)

lemma seen_item_not_panic: "seen decode x = Some i \<Longrightarrow> \<not> is_panic i"
  by (cases x) (auto simp: seen_def process_request_def transpose_result_def Let_def
      split: option.splits sum.splits if_splits)

lemma seen_not_panic: "i \<in> set (List.map_filter (seen decode) xs) \<Longrightarrow> \<not> is_panic i"
  by (auto simp: List.map_filter_def dest: seen_item_not_panic)

lemma pipe_run_all:
  assumes "inner_stream h"
  shows "pipe_run decode h requests reason (Suc (length requests)) =
    (Ok (), \<lparr>yielded = List.map_filter (seen decode) requests @ opt_item (message_closing (inner_reason h) reason),
             acknowledged = List.map_filter (acked decode) requests\<rparr>, h\<lparr>inner_reason := False\<rparr>)"
  using assms pipe_loop_all [of requests "Suc (length requests)" decode "\<lparr>yielded = [], acknowledged = []\<rparr>"]
  by (cases h) (auto simp: pipe_run_def take_request_stream_def take_disconnect_reason_def return_request_stream_def
      message_closing_def Let_def)

lemma answered_ok_bound:
  "length (filter (\<lambda>a. resp_status a = Some 200) (List.map_filter (acked decode) xs)) \<le> length (List.map_filter (seen decode) xs)"
proof (induction xs)
  case (Cons x xs)
  have "\<exists>i. seen decode x = Some i" if "acked decode x = Some a" "resp_status a = Some 200" for a
    using that by (cases x)
      (auto simp: acked_def seen_def process_request_def from_request_def transpose_result_def Let_def split: option.splits sum.splits if_splits)
  with Cons.IH show ?case
    by (fastforce simp: List.map_filter_simps split: option.splits)
qed (simp add: List.map_filter_simps)

lemma length_on_its_way:
  "stream_inv reply closing h requests s \<Longrightarrow> length (on_its_way s) \<le> Suc CHANNEL_CAPACITY"
  by (auto simp: stream_inv_def on_its_way_def split: option.split)

text \<open>
  C24: the stream of a message pipe refines the loop that feeds it. Whenever the loop and the client
  take their turns, the client has taken a prefix of the items of \<open>run\<close>, in order, the server has got
  the answers of \<open>run\<close> as far as the requests are handled, and at most three requests are answered
  with success beyond what the client has taken: these are lost if it drops the stream. Every run
  ends within a number of turns that the number of requests bounds, and when only dropping is left
  the client has taken every item and the request stream is back in the socket.
\<close>

theorem message_stream_refines:
  assumes "inner_stream h" "(message_stream_step decode h reason ^^ n) (message_stream h requests) s"
  shows "\<exists>total h'. pipe_run decode h requests reason (Suc (length requests)) = (Ok (), total, h') \<and>
    prefix (taken s) (yielded total) \<and> prefix (answered s) (acknowledged total) \<and>
    length (filter (\<lambda>a. resp_status a = Some 200) (answered s)) \<le> length (taken s) + 3 \<and>
    n \<le> 3 * length requests + 5 \<and>
    ((\<forall>s'. message_stream_step decode h reason s s' \<longrightarrow> dropped s') \<and> \<not> dropped s \<longrightarrow>
       stream_ended s \<and> taken s = yielded total \<and> answered s = acknowledged total \<and> socket_handle s = h')"
proof -
  let ?h = "snd (take_disconnect_reason (snd (take_request_stream h)))"
  let ?reply = "message_reply decode" and ?closing = "message_closing (inner_reason h) reason"
  have inv: "stream_inv ?reply ?closing ?h requests s"
    using assms(2) by (intro stream_run.inv_reachable [OF refl]) (auto simp: message_stream_def dest: relpowp_imp_rtranclp)
  then obtain handled where handled: "requests = handled @ arriving s" "answered s = List.map_filter (acked decode) handled"
    "taken s @ on_its_way s = List.map_filter (seen decode) handled @ (if runner s \<in> {Leaving, Finished} then opt_item ?closing else [])"
    "runner s \<noteq> Panicked" "runner s \<in> {Leaving, Finished} \<longrightarrow> arriving s = []"
    "socket_handle s = (if runner s \<in> {Leaving, Finished} then return_request_stream ?h else ?h)"
    by (auto simp: stream_inv_def message_reply_seen seen_not_panic)
  note split = handled(1) [THEN arg_cong [of _ _ "List.map_filter _"], unfolded map_filter_append]
  have answers: "prefix (answered s) (List.map_filter (acked decode) requests)"
    unfolding handled(2) split by simp
  have "prefix (taken s @ on_its_way s) (List.map_filter (seen decode) requests @ opt_item ?closing)"
    unfolding handled(3) split using handled(5) by (auto simp: List.map_filter_simps)
  then have items: "prefix (taken s) (List.map_filter (seen decode) requests @ opt_item ?closing)"
    by (rule append_prefixD)
  have "length (filter (\<lambda>a. resp_status a = Some 200) (answered s)) \<le> length (taken s @ on_its_way s)"
    unfolding handled(2,3) using answered_ok_bound [of decode handled] by simp
  then have lost: "length (filter (\<lambda>a. resp_status a = Some 200) (answered s)) \<le> length (taken s) + 3"
    using length_on_its_way [OF inv] by (simp add: CHANNEL_CAPACITY_def)
  have turns: "n \<le> 3 * length requests + 5"
    using stream_rank_steps [OF assms(2)] by (simp add: message_stream_def stream_start_def stream_rank_def)
  have "stream_ended s \<and> taken s = List.map_filter (seen decode) requests @ opt_item ?closing \<and>
      answered s = List.map_filter (acked decode) requests \<and> socket_handle s = h\<lparr>inner_reason := False\<rparr>"
    if "\<forall>s'. message_stream_step decode h reason s s' \<longrightarrow> dropped s'" "\<not> dropped s"
    using stream_stuck [of ?reply ?closing s] that handled assms(1)
    by (cases h) (auto simp: stream_ended_def on_its_way_def return_request_stream_def take_request_stream_def take_disconnect_reason_def)
  then show ?thesis
    using items answers lost turns by (auto simp: pipe_run_all [OF assms(1)])
qed

text \<open>One turn of the loop is enough to answer the server before the client has anything.\<close>

definition sample_queue_empty :: "ws_request \<times> bool" where
  "sample_queue_empty = (http_request ''PUT'' ''/api/v1/queue/empty'', True)"

theorem message_stream_refines_witness:
  "\<exists>s. (message_stream_step (\<lambda>_. Inl []) \<lparr>inner_stream = True, inner_reason = True\<rparr> None ^^ 1)
      (message_stream \<lparr>inner_stream = True, inner_reason = True\<rparr> [sample_queue_empty]) s \<and>
    length (answered s) = 1 \<and> taken s = [] \<and>
    (\<exists>total h'. pipe_run (\<lambda>_. Inl []) \<lparr>inner_stream = True, inner_reason = True\<rparr> [sample_queue_empty] None 2 = (Ok (), total, h') \<and>
      prefix (answered s) (acknowledged total))"
proof -
  let ?h = "\<lparr>inner_stream = True, inner_reason = True\<rparr>"
  let ?start = "message_stream ?h [sample_queue_empty]"
  let ?s = "handle_request (message_reply (\<lambda>_. Inl [])) sample_queue_empty ?start"
  have "message_stream_step (\<lambda>_. Inl []) ?h None ?start ?s"
    by (rule handle) (simp_all add: message_stream_def stream_start_def)
  then have run: "(message_stream_step (\<lambda>_. Inl []) ?h None ^^ 1) ?start ?s"
    by auto
  have "length (answered ?s) = 1" "taken ?s = []"
    by (simp_all add: handle_request_def message_reply_def message_stream_def stream_start_def sample_queue_empty_def process_request_def
        transpose_result_def is_signal_service_envelope_def is_queue_empty_def http_request_def with_path_def new_request_def)
  moreover have "Suc (length [sample_queue_empty]) = 2"
    by simp
  ultimately show ?thesis
    using message_stream_refines [OF _ run] run by (metis ws_inner.select_convs(1))
qed

text \<open>
  The stream of the provisioning pipe has no closing item. Unless a request makes the loop panic, the
  client gets the items of \<open>provisioning_items\<close>, in order and all of them in the end.
\<close>

lemma provisioning_stream_items:
  assumes "(provisioning_stream_step P cipher)\<^sup>*\<^sup>* (provisioning_stream h requests) s"
    and "\<forall>i \<in> set (provisioning_items P cipher requests). \<not> is_panic i"
  shows "prefix (taken s) (provisioning_items P cipher requests)"
    and "(\<And>s'. provisioning_stream_step P cipher s s' \<Longrightarrow> dropped s') \<Longrightarrow> \<not> dropped s \<Longrightarrow>
      taken s = provisioning_items P cipher requests"
proof -
  let ?items = "List.map_filter (fst \<circ> provisioning_reply P cipher)"
  have items: "provisioning_items P cipher xs = ?items xs" for xs
    by (simp add: provisioning_items_def provisioning_reply_def comp_def case_prod_beta')
  have "stream_inv (provisioning_reply P cipher) None (snd (take_request_stream h)) requests s"
    using assms(1) by (intro stream_run.inv_reachable [OF refl]) (simp add: provisioning_stream_def)
  then obtain handled where handled: "requests = handled @ arriving s"
    "taken s @ on_its_way s = filter (\<lambda>i. \<not> is_panic i) (?items handled)"
    "runner s = Panicked \<longleftrightarrow> (\<exists>i \<in> set (?items handled). is_panic i)" "runner s \<in> {Leaving, Finished} \<longrightarrow> arriving s = []"
    unfolding stream_inv_def by (elim conjE exE) (rule that; simp split: if_splits)
  have calm: "taken s @ on_its_way s = ?items handled" "runner s \<noteq> Panicked"
    using handled assms(2) by (auto simp: items map_filter_append)
  then show "prefix (taken s) (provisioning_items P cipher requests)"
    unfolding items handled(1) map_filter_append by (metis append_prefixD prefixI)
  show "taken s = provisioning_items P cipher requests"
    if "\<And>s'. provisioning_stream_step P cipher s s' \<Longrightarrow> dropped s'" "\<not> dropped s"
    using stream_stuck [OF that] calm handled by (auto simp: items on_its_way_def)
qed

end
