(* ===== verification/Sender_Convergence.thy ===== *)
theory Sender_Convergence
  imports Sender_Properties
begin

text \<open>
  Does the retry loop of \<open>try_send_content\<close> reach its goal? The server answers a batch with the
  devices that are missing from it, that do not exist, or whose sessions are out of date; the loop
  repairs the sessions and tries again, four times at most. Here the peer's server, the session
  store and the protocol library behave as documented, and the loop is shown to refine a negotiation
  over sets of devices (\<open>negotiate\<close>). The negotiation is then solved: it says exactly when four attempts
  are enough.
\<close>

section \<open>Effects that succeed\<close>

text \<open>\<open>achieves m w Q\<close>: the effect returns a value, and value and world satisfy the postcondition.\<close>

definition achieves :: "('w, 'a, 'e) eff \<Rightarrow> 'w \<Rightarrow> ('a \<Rightarrow> 'w \<Rightarrow> bool) \<Rightarrow> bool" where
  "achieves m w Q \<longleftrightarrow> (\<exists>a w'. m w = (Ok a, w') \<and> Q a w')"

named_theorems achieve

lemma achieves_pure [achieve]: "Q a w \<Longrightarrow> achieves (pure a) w Q"
  by (simp add: achieves_def)

lemma achieves_lift [achieve]: "r = Ok a \<Longrightarrow> Q a w \<Longrightarrow> achieves (lift r) w Q"
  by (simp add: achieves_def)

lemma achieves_drawE [achieve]: "f w = (a, w') \<Longrightarrow> Q a w' \<Longrightarrow> achieves (drawE f) w Q"
  by (simp add: achieves_def drawE_def)

lemma achieves_bindE [achieve]: "achieves m w (\<lambda>a w'. achieves (f a) w' Q) \<Longrightarrow> achieves (bindE m f) w Q"
  by (auto simp: achieves_def)

lemma achieves_map_errE [achieve]: "achieves m w Q \<Longrightarrow> achieves (map_errE f m) w Q"
  by (auto simp: achieves_def)

lemma achieves_matchE [achieve]: "achieves m w (\<lambda>a w'. achieves (f a) w' Q) \<Longrightarrow> achieves (matchE m f g) w Q"
  by (auto simp: achieves_def matchE_def)

lemma achieves_weaken: "achieves m w P \<Longrightarrow> (\<And>a w'. P a w' \<Longrightarrow> Q a w') \<Longrightarrow> achieves m w Q"
  by (auto simp: achieves_def)

lemma achieves_then:
  "achieves m w P \<Longrightarrow> (\<And>a w'. P a w' \<Longrightarrow> achieves (f a) w' Q) \<Longrightarrow> achieves (bindE m f) w Q"
  by (auto simp: achieves_def)

lemma achieves_forE:
  assumes "\<And>x w. x \<in> set xs \<Longrightarrow> achieves (f x) w (\<lambda>_ w'. view w' = g x (view w))"
  shows "view w = v \<Longrightarrow> achieves (forE xs f) w (\<lambda>_ w'. view w' = fold g xs v)"
  using assms
proof (induction xs arbitrary: w v)
  case (Cons x xs)
  have "achieves (f x) w (\<lambda>_ w'. view w' = g x v)"
    using Cons.prems by auto
  then have "achieves (bindE (f x) (\<lambda>_. forE xs f)) w (\<lambda>_ w'. view w' = fold g xs (g x v))"
    by (rule achieves_then) (rule Cons.IH; use Cons.prems in simp)
  then show ?case
    by simp
qed (simp add: achieves_pure)

section \<open>A peer and its sessions\<close>

text \<open>
  The devices that the peer has registered, whether its server accepts sealed messages, and what a
  world says of the sessions with it: the devices with a session, and those of them whose session
  belongs to an earlier registration of the device.
\<close>

type_synonym sessions_view = "device_id set \<times> device_id set"

record 'w peer =
  peer_view :: "'w \<Rightarrow> sessions_view"
  peer_devices :: "device_id set"
  accepts_sealed :: bool

definition add_session :: "device_id \<Rightarrow> sessions_view \<Rightarrow> sessions_view" where
  "add_session d v = (insert d (fst v), snd v - {d})"

definition remove_session :: "device_id \<Rightarrow> sessions_view \<Rightarrow> sessions_view" where
  "remove_session d v = (fst v - {d}, snd v - {d})"

lemma fold_add_session: "fold add_session ds v = (fst v \<union> set ds, snd v - set ds)"
  by (induction ds arbitrary: v) (auto simp: add_session_def)

lemma fold_remove_session: "fold remove_session ds v = (fst v - set ds, snd v - set ds)"
  by (induction ds arbitrary: v) (auto simp: remove_session_def)

text \<open>The session store: it lists, loads and deletes sessions; taking a lock does not change them.\<close>

definition store_laws :: "('w, 'm) sender_env_scheme \<Rightarrow> 'w peer \<Rightarrow> service_id \<Rightarrow> bool" where
  "store_laws E P r \<longleftrightarrow>
     (\<forall>w. \<exists>sub. get_sub_device_sessions E r w = (Ok sub, w) \<and> set sub = fst (peer_view P w) - {DEFAULT_DEVICE_ID}) \<and>
     (\<forall>w d. \<exists>session. load_session E (address_of E r d) w = (Ok session, w) \<and>
        (session = None \<longleftrightarrow> d \<notin> fst (peer_view P w))) \<and>
     (\<forall>w d. \<exists>r' w'. delete_session E (address_of E r d) w = (r', w') \<and> peer_view P w' = remove_session d (peer_view P w) \<and>
        (r' = Ok () \<or> (\<exists>addr op. r' = Err (SessionNotFound addr op)))) \<and>
     (\<forall>w. \<exists>key. get_identity E (address_of E r DEFAULT_DEVICE_ID) w = (Ok (Some key), w)) \<and>
     (\<forall>w. peer_view P (lock_session E r w) = peer_view P w \<and> peer_view P (unlock_session E r w) = peer_view P w)"

text \<open>The protocol library: stored sessions can encrypt, and a bundle of prekeys makes a new session.\<close>

definition library_laws :: "('w, 'm) sender_env_scheme \<Rightarrow> 'w peer \<Rightarrow> message_sender \<Rightarrow> service_id \<Rightarrow> bool" where
  "library_laws E P self r \<longleftrightarrow> iso7816_correct (env_iso E) \<and>
     (\<forall>w d session. load_session E (address_of E r d) w = (Ok (Some session), w) \<longrightarrow>
        has_usable_sender_chain E session = Some True \<and> (\<exists>v. session_version E session = Ok v \<and> 2 \<le> v) \<and>
        (\<exists>rid. remote_registration_id E session = Ok rid)) \<and>
     (\<forall>w d m. d \<in> fst (peer_view P w) \<longrightarrow> (\<exists>kind c w'.
        message_encrypt E m (address_of E r d) (local_address (ms_cipher self)) w = (Ok (kind, c), w') \<and>
        kind \<in> {PreKeyType, WhisperType} \<and> peer_view P w' = peer_view P w)) \<and>
     (\<forall>w d certificate m. d \<in> fst (peer_view P w) \<longrightarrow> (\<exists>c w'.
        sealed_sender_encrypt E (address_of E r d) certificate m w = (Ok c, w') \<and> peer_view P w' = peer_view P w)) \<and>
     (\<forall>w d b. bundle_device_id E b = Ok d \<longrightarrow> (\<exists>w'.
        process_prekey_bundle E (address_of E r d) (own_address E self) b w = (Ok (), w') \<and>
        peer_view P w' = add_session d (peer_view P w)))"

text \<open>
  The server: it hands out the prekeys of registered devices, and judges a batch of messages by its
  devices, first whether they are the registered ones and then whether their sessions are current.
\<close>

definition judged :: "'w peer \<Rightarrow> bool \<Rightarrow> device_id set \<Rightarrow> 'w \<Rightarrow> (bool, service_error) result \<Rightarrow> bool" where
  "judged P sealed D w answer \<longleftrightarrow>
     (if sealed \<and> \<not> accepts_sealed P then answer = Err Unauthorized
      else if D \<noteq> peer_devices P then
        \<exists>m. answer = Err (MismatchedDevicesException m) \<and>
          set (missing_devices m) = peer_devices P - D \<and> set (extra_devices m) = D - peer_devices P
      else if snd (peer_view P w) \<inter> D \<noteq> {} then
        \<exists>m. answer = Err (StaleDevices m) \<and> set (stale_devices_list m) = snd (peer_view P w) \<inter> D
      else \<exists>needs_sync. answer = Ok needs_sync)"

definition server_laws :: "('w, 'm) sender_env_scheme \<Rightarrow> 'w peer \<Rightarrow> service_id \<Rightarrow> bool" where
  "server_laws E P r \<longleftrightarrow> DEFAULT_DEVICE_ID \<in> peer_devices P \<and>
     (\<forall>w. \<forall>d \<in> peer_devices P. \<exists>b w'.
        get_pre_key (net_http E) (net_keys E) (env_sids E) (identified_ws E) r d w = (Ok b, w') \<and>
        bundle_device_id E b = Ok d \<and> peer_view P w' = peer_view P w) \<and>
     (\<forall>w. \<exists>bs ds w'.
        get_pre_keys (net_http E) (net_keys E) (env_sids E) (identified_ws E) r DEFAULT_DEVICE_ID w = (Ok bs, w') \<and>
        map (bundle_device_id E) bs = map Ok ds \<and> set ds = peer_devices P \<and> peer_view P w' = peer_view P w) \<and>
     (\<forall>w access ms. opm_destination ms = r \<longrightarrow> (\<exists>answer w'. wire_send E access ms w = (answer, w') \<and>
        peer_view P w' = peer_view P w \<and>
        judged P (access \<noteq> None) (set (map destination_device_id (opm_messages ms))) w answer))"

definition honest_peer :: "('w, 'm) sender_env_scheme \<Rightarrow> 'w peer \<Rightarrow> message_sender \<Rightarrow> service_id \<Rightarrow> bool" where
  "honest_peer E P self r \<longleftrightarrow> store_laws E P r \<and> library_laws E P self r \<and> server_laws E P r \<and> hash_order E \<and>
     r \<noteq> Aci (ms_local_aci self) \<and> r \<noteq> Pni (ms_local_pni self)"

section \<open>One attempt\<close>

lemma add_padding_total:
  assumes "iso7816_correct I" "2 \<le> version"
  shows "\<exists>padded. add_padding I version m = Ok padded"
proof (cases "version = 2")
  case True
  then show ?thesis
    by (simp add: add_padding_def)
next
  case False
  then have "2 < version"
    using assms(2) by simp
  from add_padding_eq [OF assms(1) this] show ?thesis
    by simp
qed

lemma encrypt_achieves:
  assumes "honest_peer E P self r" "d \<in> fst (peer_view P w)"
  shows "achieves (encrypt E (ms_cipher self) (address_of E r d) certificate (Encrypted content)) w
    (\<lambda>_ w'. peer_view P w' = peer_view P w)"
proof -
  obtain session where session: "load_session E (address_of E r d) w = (Ok (Some session), w)"
    using assms unfolding honest_peer_def store_laws_def by (metis option.exhaust)
  then obtain v rid padded where record_facts: "has_usable_sender_chain E session = Some True" "session_version E session = Ok v"
    "remote_registration_id E session = Ok rid" "add_padding (env_iso E) v content = Ok padded"
    using assms(1) add_padding_total unfolding honest_peer_def library_laws_def by metis
  obtain kind c w1 where ratchet: "message_encrypt E padded (address_of E r d) (local_address (ms_cipher self)) w = (Ok (kind, c), w1)"
    "kind \<in> {PreKeyType, WhisperType}" "peer_view P w1 = peer_view P w"
    using assms unfolding honest_peer_def library_laws_def by metis
  show ?thesis
  proof (cases certificate)
    case None
    then show ?thesis
      using session record_facts ratchet
      by (auto simp: achieves_def encrypt_def Let_def protoE_def protoR_def map_errE_def bindE_def)
  next
    case (Some cert)
    obtain c w2 where "sealed_sender_encrypt E (address_of E r d) cert padded w = (Ok c, w2)" "peer_view P w2 = peer_view P w"
      using assms unfolding honest_peer_def library_laws_def by metis
    then show ?thesis
      using session record_facts Some 
      by (auto simp: achieves_def encrypt_def Let_def protoE_def protoR_def map_errE_def bindE_def)
  qed
qed

lemma honest_load:
  assumes "honest_peer E P self r"
  obtains session where "load_session E (address_of E r d) w = (Ok session, w)" "session = None \<longleftrightarrow> d \<notin> fst (peer_view P w)"
  using assms unfolding honest_peer_def store_laws_def by metis

lemma establish_achieves:
  assumes "honest_peer E P self r" "bundle_device_id E b = Ok d"
  shows "achieves (establish_session E self r b) w (\<lambda>_ w'. peer_view P w' = add_session d (peer_view P w))"
proof -
  obtain session where session: "load_session E (address_of E r d) w = (Ok session, w)"
    using honest_load [OF assms(1)] by metis
  then have "achieves (get_preferred_protocol_address E r d) w (\<lambda>address w'. address = address_of E r d \<and> w' = w)"
    by (simp add: get_preferred_protocol_address_def achieves_def address_of_def Let_def)
  moreover obtain w' where "process_prekey_bundle E (address_of E r d) (own_address E self) b w = (Ok (), w')"
    "peer_view P w' = add_session d (peer_view P w)"
    using assms unfolding honest_peer_def library_laws_def by metis
  ultimately show ?thesis
    using assms by (auto simp: establish_session_def honest_peer_def achieves_def msProto_def map_errE_def bindE_def split: prod.splits)
qed

lemma establish_all_achieves:
  assumes "honest_peer E P self r"
  shows "map (bundle_device_id E) bs = map Ok ds \<Longrightarrow> peer_view P w = v \<Longrightarrow>
    achieves (forE bs (establish_session E self r)) w (\<lambda>_ w'. peer_view P w' = fold add_session ds v)"
proof (induction bs arbitrary: ds w v)
  case (Cons b bs)
  then obtain d ds' where ds: "ds = d # ds'" "bundle_device_id E b = Ok d" "map (bundle_device_id E) bs = map Ok ds'"
    by auto
  have "achieves (establish_session E self r b) w (\<lambda>_ w'. peer_view P w' = add_session d v)"
    using establish_achieves [OF assms ds(2)] Cons.prems(2) by auto
  then have "achieves (bindE (establish_session E self r b) (\<lambda>_. forE bs (establish_session E self r))) w
      (\<lambda>_ w'. peer_view P w' = fold add_session ds' (add_session d v))"
    by (rule achieves_then) (rule Cons.IH [OF ds(3)])
  then show ?case
    using ds(1) by simp
qed (auto intro: achieve)

text \<open>
  Preparing a batch keeps the sessions, except that a missing session with the primary device
  makes the sender fetch the prekeys of all devices.
\<close>

definition prepared :: "device_id set \<Rightarrow> sessions_view \<Rightarrow> sessions_view" where
  "prepared devs v = (if DEFAULT_DEVICE_ID \<in> fst v then v else (fst v \<union> devs, snd v - devs))"

lemma create_encrypted_message_achieves:
  assumes "honest_peer E P self r" "d \<in> insert DEFAULT_DEVICE_ID (fst (peer_view P w))"
  shows "achieves (create_encrypted_message E self r certificate d (Encrypted content)) w
    (\<lambda>m w'. destination_device_id m = d \<and>
       peer_view P w' = (if d = DEFAULT_DEVICE_ID then prepared (peer_devices P) (peer_view P w) else peer_view P w))"
proof -
  obtain session where session: "load_session E (address_of E r d) w = (Ok session, w)"
    "session = None \<longleftrightarrow> d \<notin> fst (peer_view P w)"
    using honest_load [OF assms(1)] by metis
  define after where "after = (if d = DEFAULT_DEVICE_ID then prepared (peer_devices P) (peer_view P w) else peer_view P w)"
  have "achieves (if session = None then bindE (fetch_pre_keys E r d) (\<lambda>pre_keys. forE pre_keys (establish_session E self r))
      else pure ()) w (\<lambda>_ w'. peer_view P w' = after \<and> d \<in> fst after)"
  proof (cases "session = None")
    case True
    then have d: "d = DEFAULT_DEVICE_ID" "d \<notin> fst (peer_view P w)"
      using session(2) assms(2) by auto
    obtain bs ds w1 where bundles: "get_pre_keys (net_http E) (net_keys E) (env_sids E) (identified_ws E) r d w = (Ok bs, w1)"
      "map (bundle_device_id E) bs = map Ok ds" "set ds = peer_devices P" "peer_view P w1 = peer_view P w"
      using assms(1) d(1) unfolding honest_peer_def server_laws_def by metis
    have "DEFAULT_DEVICE_ID \<in> peer_devices P"
      using assms(1) by (simp add: honest_peer_def server_laws_def)
    moreover have "fetch_pre_keys E r d w = (Ok bs, w1)"
      using bundles(1) by (simp add: fetch_pre_keys_def matchE_def)
    ultimately show ?thesis
      using establish_all_achieves [OF assms(1) bundles(2) refl, of w1] bundles(3,4) d True
      by (auto simp: achieves_def after_def prepared_def fold_add_session)
  next
    case False
    then show ?thesis
      using session(2) by (auto simp: achieves_def after_def prepared_def)
  qed
  then obtain w1 where first: "(if session = None then bindE (fetch_pre_keys E r d) (\<lambda>pre_keys. forE pre_keys (establish_session E self r))
      else pure ()) w = (Ok (), w1)" "peer_view P w1 = after" "d \<in> fst (peer_view P w1)"
    by (auto simp: achieves_def)
  obtain m w2 where "encrypt E (ms_cipher self) (address_of E r d) certificate (Encrypted content) w1 = (Ok m, w2)"
    "peer_view P w2 = peer_view P w1"
    using encrypt_achieves [OF assms(1) first(3), of certificate content] by (auto simp: achieves_def)
  then have "create_encrypted_message E self r certificate d (Encrypted content) w = (Ok m, w2)"
    using session(1) first(1) by (simp add: create_encrypted_message_def Let_def msProto_def msService_def map_errE_def bindE_def)
  then show ?thesis
    using create_encrypted_message_device first(2) \<open>peer_view P w2 = peer_view P w1\<close> by (auto simp: achieves_def after_def)
qed

lemma encrypt_for_device_achieves:
  assumes "honest_peer E P self r" "d \<in> insert DEFAULT_DEVICE_ID (fst (peer_view P w))"
  shows "achieves (encrypt_for_device 2 E self r certificate d (Encrypted content)) w
    (\<lambda>m w'. (\<exists>msg. m = Some msg \<and> destination_device_id msg = d) \<and>
       peer_view P w' = (if d = DEFAULT_DEVICE_ID then prepared (peer_devices P) (peer_view P w) else peer_view P w))"
  using create_encrypted_message_achieves [OF assms, of certificate content]
  by (auto simp: numeral_2_eq_2 achieves_def matchE_def)

lemma prepared_idem: "DEFAULT_DEVICE_ID \<in> devs \<Longrightarrow> prepared devs (prepared devs v) = prepared devs v"
  by (auto simp: prepared_def)

lemma prepared_mono: "fst v \<subseteq> fst (prepared devs v)"
  by (auto simp: prepared_def)

lemma encrypt_for_devices_achieves:
  assumes "honest_peer E P self r"
  shows "set ds \<subseteq> insert DEFAULT_DEVICE_ID (fst (peer_view P w)) \<Longrightarrow>
    achieves (encrypt_for_devices ds E self r certificate (Encrypted content)) w
      (\<lambda>ms w'. map destination_device_id ms = ds \<and>
         peer_view P w' = (if DEFAULT_DEVICE_ID \<in> set ds then prepared (peer_devices P) (peer_view P w) else peer_view P w))"
proof (induction ds arbitrary: w)
  case (Cons d ds)
  have default: "DEFAULT_DEVICE_ID \<in> peer_devices P"
    using assms by (simp add: honest_peer_def server_laws_def)
  obtain m w1 where first: "encrypt_for_device 2 E self r certificate d (Encrypted content) w = (Ok (Some m), w1)"
    "destination_device_id m = d"
    "peer_view P w1 = (if d = DEFAULT_DEVICE_ID then prepared (peer_devices P) (peer_view P w) else peer_view P w)"
    using encrypt_for_device_achieves [OF assms, of d w certificate content] Cons.prems by (auto simp: achieves_def)
  have "set ds \<subseteq> insert DEFAULT_DEVICE_ID (fst (peer_view P w1))"
    using Cons.prems prepared_mono [of "peer_view P w" "peer_devices P"] by (auto simp: first(3))
  from Cons.IH [OF this] obtain ms w2 where
    "encrypt_for_devices ds E self r certificate (Encrypted content) w1 = (Ok ms, w2)" "map destination_device_id ms = ds"
    "peer_view P w2 = (if DEFAULT_DEVICE_ID \<in> set ds then prepared (peer_devices P) (peer_view P w1) else peer_view P w1)"
    by (auto simp: achieves_def)
  with first show ?case
    by (auto simp: achieves_def prepared_idem [OF default])
qed (simp add: achieves_def)

lemma create_encrypted_messages_achieves:
  assumes "honest_peer E P self r"
  shows "achieves (create_encrypted_messages E self r certificate (Encrypted content)) w
    (\<lambda>em w'. (\<exists>batch. em = Some batch \<and>
         set (map destination_device_id (em_messages batch)) = insert DEFAULT_DEVICE_ID (fst (peer_view P w))) \<and>
       peer_view P w' = prepared (peer_devices P) (peer_view P w))"
proof -
  obtain sub where sub: "get_sub_device_sessions E r w = (Ok sub, w)" "set sub = fst (peer_view P w) - {DEFAULT_DEVICE_ID}"
    using assms unfolding honest_peer_def store_laws_def by metis
  define ds where "ds = hash_iter E (target_devices self r sub) w"
  have "target_devices self r sub = insert DEFAULT_DEVICE_ID (fst (peer_view P w))"
    using assms sub(2) by (auto simp: target_devices_def honest_peer_def Let_def split: service_id.splits)
  then have ds: "set ds = insert DEFAULT_DEVICE_ID (fst (peer_view P w))"
    using assms target_devices_finite [of self r sub] unfolding ds_def honest_peer_def hash_order_def by metis
  obtain ms w1 where ms: "encrypt_for_devices ds E self r certificate (Encrypted content) w = (Ok ms, w1)"
    "map destination_device_id ms = ds" "peer_view P w1 = prepared (peer_devices P) (peer_view P w)"
    using encrypt_for_devices_achieves [OF assms, of ds w certificate content] ds by (auto simp: achieves_def)
  obtain key where key: "get_identity E (address_of E r DEFAULT_DEVICE_ID) w1 = (Ok (Some key), w1)"
    using assms unfolding honest_peer_def store_laws_def by metis
  have "ms \<noteq> []"
    using ms(2) ds by auto
  have devices: "msProto (get_sub_device_sessions E r) w = (Ok sub, w)"
    "(drawE (\<lambda>s. (hash_iter E (target_devices self r sub) s, s)) :: (_, _, message_sender_error) eff) w = (Ok ds, w)"
    "msProto (get_identity E (address_of E r DEFAULT_DEVICE_ID)) w1 = (Ok (Some key), w1)"
    using sub(1) key by (simp_all add: drawE_def ds_def)
  then have "create_encrypted_messages E self r certificate (Encrypted content) w =
      (Ok (Some \<lparr>em_messages = ms, em_used_identity_key = key\<rparr>), w1)"
    using ms(1) \<open>ms \<noteq> []\<close> by (simp add: create_encrypted_messages_def)
  then show ?thesis
    unfolding achieves_def using ms(2,3) ds by (metis encrypted_messages.select_convs(1))
qed

section \<open>Repairs\<close>

lemma drop_sessions_achieves:
  assumes "honest_peer E P self r"
  shows "achieves (forE ds (drop_session E r)) w (\<lambda>_ w'. peer_view P w' = fold remove_session ds (peer_view P w))"
proof (rule achieves_forE [OF _ refl])
  fix d w
  obtain res w' where "delete_session E (address_of E r d) w = (res, w')" "peer_view P w' = remove_session d (peer_view P w)"
    "res = Ok () \<or> (\<exists>addr op. res = Err (SessionNotFound addr op))"
    using assms unfolding honest_peer_def store_laws_def by metis
  then show "achieves (drop_session E r d) w (\<lambda>_ w'. peer_view P w' = remove_session d (peer_view P w))"
    by (auto simp: achieves_def drop_session_def delete_service_addr_device_session_def msProto_def map_errE_def bindE_def matchE_def)
qed

lemma repair_missing_achieves:
  assumes "honest_peer E P self r" "set ds \<subseteq> peer_devices P"
  shows "achieves (forE ds (repair_missing E self r)) w (\<lambda>_ w'. peer_view P w' = fold add_session ds (peer_view P w))"
proof (rule achieves_forE [OF _ refl])
  fix d w
  assume "d \<in> set ds"
  then obtain b w1 where b: "get_pre_key (net_http E) (net_keys E) (env_sids E) (identified_ws E) r d w = (Ok b, w1)"
    "bundle_device_id E b = Ok d" "peer_view P w1 = peer_view P w"
    using assms unfolding honest_peer_def server_laws_def by blast
  moreover obtain w2 where "process_prekey_bundle E (address_of E r d) (own_address E self) b w1 = (Ok (), w2)"
    "peer_view P w2 = add_session d (peer_view P w1)"
    using assms(1) b(2) unfolding honest_peer_def library_laws_def by metis
  ultimately show "achieves (repair_missing E self r d) w (\<lambda>_ w'. peer_view P w' = add_session d (peer_view P w))"
    by (simp add: achieves_def repair_missing_def msService_def map_errE_def bindE_def)
qed

section \<open>The negotiation over device sets\<close>

text \<open>
  What the loop does to the sessions, without messages, worlds and keys: the result says whether the
  delivery was sealed, or \<open>None\<close> when the attempts are used up.
\<close>

primrec negotiate :: "nat \<Rightarrow> device_id set \<Rightarrow> bool \<Rightarrow> bool \<Rightarrow> sessions_view \<Rightarrow> bool option" where
  "negotiate 0 devs sealed_ok sealed v = None"
| "negotiate (Suc n) devs sealed_ok sealed v =
     (let D = insert DEFAULT_DEVICE_ID (fst v); (S, T) = prepared devs v in
      if sealed \<and> \<not> sealed_ok then negotiate n devs sealed_ok False (S, T)
      else if D \<noteq> devs then negotiate n devs sealed_ok sealed (S - (D - devs) \<union> (devs - D), T - (D - devs) - (devs - D))
      else if T \<inter> D \<noteq> {} then negotiate n devs sealed_ok sealed (S - T \<inter> D, T - T \<inter> D)
      else Some sealed)"

lemma judged_cases:
  assumes "judged P sealed D w answer"
  obtains (refused) "sealed" "\<not> accepts_sealed P" "answer = Err Unauthorized"
  | (mismatched) m where "sealed \<longrightarrow> accepts_sealed P" "D \<noteq> peer_devices P" "answer = Err (MismatchedDevicesException m)"
      "set (missing_devices m) = peer_devices P - D" "set (extra_devices m) = D - peer_devices P"
  | (stale) m where "sealed \<longrightarrow> accepts_sealed P" "D = peer_devices P" "snd (peer_view P w) \<inter> D \<noteq> {}"
      "answer = Err (StaleDevices m)" "set (stale_devices_list m) = snd (peer_view P w) \<inter> D"
  | (accepted) b where "sealed \<longrightarrow> accepts_sealed P" "D = peer_devices P" "snd (peer_view P w) \<inter> D = {}" "answer = Ok b"
  using assms by (auto simp: judged_def split: if_splits)

text \<open>What an attempt sends, what the server says to it, and what the repairs leave behind.\<close>

lemma attempt_judged:
  assumes "honest_peer E P self r"
  obtains batch w1 answer w2 where
    "create_encrypted_messages E self r (map_option ua_certificate access) (Encrypted content) w = (Ok (Some batch), w1)"
    "wire_send E access \<lparr>opm_destination = r, opm_timestamp = timestamp, opm_messages = em_messages batch, opm_online = online\<rparr> w1 = (answer, w2)"
    "peer_view P w1 = prepared (peer_devices P) (peer_view P w)" "peer_view P w2 = prepared (peer_devices P) (peer_view P w)"
    "judged P (access \<noteq> None) (insert DEFAULT_DEVICE_ID (fst (peer_view P w))) w1 answer"
proof -
  obtain batch w1 where batch: "create_encrypted_messages E self r (map_option ua_certificate access) (Encrypted content) w = (Ok (Some batch), w1)"
    "set (map destination_device_id (em_messages batch)) = insert DEFAULT_DEVICE_ID (fst (peer_view P w))"
    "peer_view P w1 = prepared (peer_devices P) (peer_view P w)"
    using create_encrypted_messages_achieves [OF assms, of "map_option ua_certificate access" content w]
    by (auto simp: achieves_def)
  moreover obtain answer w2 where "wire_send E access \<lparr>opm_destination = r, opm_timestamp = timestamp,
      opm_messages = em_messages batch, opm_online = online\<rparr> w1 = (answer, w2)" "peer_view P w2 = peer_view P w1"
    "judged P (access \<noteq> None) (set (map destination_device_id (em_messages batch))) w1 answer"
    using assms unfolding honest_peer_def server_laws_def by (metis outgoing_push_messages.select_convs(1,3))
  ultimately show thesis
    using that by simp
qed

lemma repairs_done:
  assumes "honest_peer E P self r" "set missing \<subseteq> peer_devices P"
  obtains w1 w2 where "forE extra (drop_session E r) w = (Ok (), w1)" "forE missing (repair_missing E self r) w1 = (Ok (), w2)"
    "peer_view P w1 = (fst (peer_view P w) - set extra, snd (peer_view P w) - set extra)"
    "peer_view P w2 = (fst (peer_view P w) - set extra \<union> set missing, snd (peer_view P w) - set extra - set missing)"
proof -
  obtain w1 where w1: "forE extra (drop_session E r) w = (Ok (), w1)" "peer_view P w1 = fold remove_session extra (peer_view P w)"
    using drop_sessions_achieves [OF assms(1), of extra w] by (auto simp: achieves_def)
  moreover obtain w2 where "forE missing (repair_missing E self r) w1 = (Ok (), w2)" "peer_view P w2 = fold add_session missing (peer_view P w1)"
    using repair_missing_achieves [OF assms, of w1] by (auto simp: achieves_def)
  ultimately show thesis
    using that by (simp add: fold_add_session fold_remove_session)
qed

lemma send_attempts_refines:
  assumes honest: "honest_peer E P self r"
  shows "\<exists>res w'. send_attempts n E self r access (Encrypted content) timestamp online w = (res, w') \<and>
    (case negotiate n (peer_devices P) (accepts_sealed P) (access \<noteq> None) (peer_view P w) of
       Some sealed \<Rightarrow> \<exists>key needs_sync. res = Ok \<lparr>sm_recipient = r, used_identity_key = key, sm_unidentified = sealed, sm_needs_sync = needs_sync\<rparr>
     | None \<Rightarrow> res = Err MaximumRetriesLimitExceeded)"
proof (induction n arbitrary: access w)
  case (Suc n)
  define D where "D = insert DEFAULT_DEVICE_ID (fst (peer_view P w))"
  obtain S T where v: "prepared (peer_devices P) (peer_view P w) = (S, T)"
    by fastforce
  from attempt_judged [OF honest, of access content w timestamp online, folded D_def] v obtain batch w1 answer w2 where
    attempt: "create_encrypted_messages E self r (map_option ua_certificate access) (Encrypted content) w = (Ok (Some batch), w1)"
    "wire_send E access \<lparr>opm_destination = r, opm_timestamp = timestamp, opm_messages = em_messages batch, opm_online = online\<rparr> w1 = (answer, w2)"
    and views: "peer_view P w1 = (S, T)" "peer_view P w2 = (S, T)" and judged: "judged P (access \<noteq> None) D w1 answer"
    by metis
  from judged show ?case
  proof (cases rule: judged_cases)
    case refused
    then show ?thesis
      using Suc.IH [of None w2] attempt v views by (simp add: matchE_def judge_def D_def [symmetric] Let_def)
  next
    case (mismatched m)
    then have "set (missing_devices m) \<subseteq> peer_devices P"
      by auto
    from repairs_done [OF honest this, of "extra_devices m" w2] views mismatched(4,5) obtain w3 w4 where
      "forE (extra_devices m) (drop_session E r) w2 = (Ok (), w3)" "forE (missing_devices m) (repair_missing E self r) w3 = (Ok (), w4)"
      "peer_view P w4 = (S - (D - peer_devices P) \<union> (peer_devices P - D), T - (D - peer_devices P) - (peer_devices P - D))"
      by (metis fst_conv snd_conv)
    then show ?thesis
      using Suc.IH [of access w4] attempt v mismatched(1-3) by (auto simp: matchE_def judge_def D_def [symmetric] Let_def)
  next
    case (stale m)
    from repairs_done [OF honest, of "[]" "stale_devices_list m" w2] views stale(5) obtain w3 where
      "forE (stale_devices_list m) (drop_session E r) w2 = (Ok (), w3)" "peer_view P w3 = (S - T \<inter> D, T - T \<inter> D)"
      by auto
    then show ?thesis
      using Suc.IH [of access w3] attempt v views stale(1-4) by (auto simp: matchE_def judge_def D_def [symmetric] Let_def)
  next
    case (accepted b)
    then show ?thesis
      using attempt v views by (auto simp: matchE_def D_def [symmetric] Let_def)
  qed
qed simp

section \<open>How long the negotiation takes\<close>

declare negotiate.simps(2) [simp del]

lemma negotiate_refused: "negotiate (Suc n) devs False True v = negotiate n devs False False (prepared devs v)"
  by (simp add: negotiate.simps(2) case_prod_beta)

lemma negotiate_mismatched:
  assumes "DEFAULT_DEVICE_ID \<in> devs" "sealed \<longrightarrow> sealed_ok" "insert DEFAULT_DEVICE_ID (fst v) \<noteq> devs"
  shows "\<exists>T. negotiate (Suc n) devs sealed_ok sealed v = negotiate n devs sealed_ok sealed (devs, T) \<and>
    T \<subseteq> snd v \<and> T \<inter> devs = (if DEFAULT_DEVICE_ID \<in> fst v then snd v \<inter> fst v \<inter> devs else {})"
proof -
  let ?D = "insert DEFAULT_DEVICE_ID (fst v)"
  have "fst (prepared devs v) - (?D - devs) \<union> (devs - ?D) = devs"
    using assms(1) by (auto simp: prepared_def)
  then show ?thesis
    using assms by (intro exI [of _ "snd (prepared devs v) - (?D - devs) - (devs - ?D)"])
      (auto simp: negotiate.simps(2) case_prod_beta Let_def prepared_def)
qed

lemma negotiate_delivered:
  assumes "DEFAULT_DEVICE_ID \<in> devs" "sealed \<longrightarrow> sealed_ok" "insert DEFAULT_DEVICE_ID (fst v) = devs"
    and "DEFAULT_DEVICE_ID \<notin> fst v \<or> snd v \<inter> devs = {}"
  shows "negotiate (Suc n) devs sealed_ok sealed v = Some sealed"
  using assms by (auto simp: negotiate.simps(2) case_prod_beta Let_def prepared_def)

lemma negotiate_stale:
  assumes "DEFAULT_DEVICE_ID \<in> devs" "sealed \<longrightarrow> sealed_ok" "T \<inter> devs \<noteq> {}"
  shows "negotiate (Suc n) devs sealed_ok sealed (devs, T) = negotiate n devs sealed_ok sealed (devs - T, T - devs)"
proof -
  have "devs - T \<inter> devs = devs - T" "T - T \<inter> devs = T - devs"
    by auto
  then show ?thesis
    using assms by (auto simp: negotiate.simps(2) prepared_def insert_absorb)
qed

text \<open>Sessions that are not out of date are put right by one repair.\<close>

lemma negotiate_current:
  assumes "DEFAULT_DEVICE_ID \<in> devs" "sealed \<longrightarrow> sealed_ok" "snd v \<inter> devs = {}"
  shows "negotiate (Suc (Suc n)) devs sealed_ok sealed v = Some sealed"
proof (cases "insert DEFAULT_DEVICE_ID (fst v) = devs")
  case True
  then show ?thesis
    using assms by (intro negotiate_delivered) simp_all
next
  case False
  from negotiate_mismatched [OF assms(1,2) False, of "Suc n"] obtain T where
    T: "negotiate (Suc (Suc n)) devs sealed_ok sealed v = negotiate (Suc n) devs sealed_ok sealed (devs, T)" "T \<subseteq> snd v"
    by blast
  then have "T \<inter> devs = {}"
    using assms(3) by blast
  then show ?thesis
    unfolding T(1) using assms(1,2) by (intro negotiate_delivered) (simp_all add: insert_absorb)
qed

lemma negotiate_right_devices:
  assumes "DEFAULT_DEVICE_ID \<in> devs" "sealed \<longrightarrow> sealed_ok"
  shows "negotiate (Suc (Suc (Suc n))) devs sealed_ok sealed (devs, T) = Some sealed"
proof (cases "T \<inter> devs = {}")
  case True
  then show ?thesis
    using negotiate_current assms by (metis snd_conv)
next
  case False
  then show ?thesis
    using negotiate_stale [OF assms False] negotiate_current [OF assms, of "(devs - T, T - devs)" n] by simp blast
qed

lemma negotiate_four:
  assumes "DEFAULT_DEVICE_ID \<in> devs" "sealed \<longrightarrow> sealed_ok"
  shows "negotiate (Suc (Suc (Suc (Suc n)))) devs sealed_ok sealed v = Some sealed"
proof (cases "insert DEFAULT_DEVICE_ID (fst v) = devs \<and> DEFAULT_DEVICE_ID \<notin> fst v")
  case True
  then show ?thesis
    using assms by (intro negotiate_delivered) simp_all
next
  case False
  show ?thesis
  proof (cases "insert DEFAULT_DEVICE_ID (fst v) = devs")
    case True
    then have "v = (devs, snd v)"
      using False by (cases v) (auto simp: insert_absorb)
    then show ?thesis
      using negotiate_right_devices [OF assms] by metis
  next
    case False
    then show ?thesis
      using negotiate_mismatched [OF assms False] negotiate_right_devices [OF assms] by metis
  qed
qed

lemma negotiate_two:
  assumes default: "DEFAULT_DEVICE_ID \<in> devs"
  shows "negotiate (Suc (Suc 0)) devs sealed_ok False (devs, T) =
    (if T \<inter> devs \<subseteq> {DEFAULT_DEVICE_ID} then Some False else None)"
proof (cases "T \<inter> devs = {}")
  case True
  then show ?thesis
    using default by (simp add: negotiate_current)
next
  case False
  then have "negotiate (Suc (Suc 0)) devs sealed_ok False (devs, T) = negotiate (Suc 0) devs sealed_ok False (devs - T, T - devs)"
    using default by (intro negotiate_stale) simp_all
  also have "\<dots> = (if T \<inter> devs \<subseteq> {DEFAULT_DEVICE_ID} then Some False else None)"
    using default False by (auto simp: negotiate.simps(2) prepared_def Let_def)
  finally show ?thesis .
qed

text \<open>A refused sealed message costs one of the four attempts.\<close>

lemma negotiate_four_refused:
  assumes default: "DEFAULT_DEVICE_ID \<in> devs"
  shows "negotiate (Suc (Suc (Suc (Suc 0)))) devs False True v =
    (if DEFAULT_DEVICE_ID \<in> fst v \<and> fst v \<noteq> devs \<and> \<not> snd v \<inter> fst v \<inter> devs \<subseteq> {DEFAULT_DEVICE_ID} then None else Some False)"
proof (cases "DEFAULT_DEVICE_ID \<in> fst v")
  case False
  then have "snd (prepared devs v) \<inter> devs = {}"
    by (auto simp: prepared_def)
  then show ?thesis
    using negotiate_current [OF default, of False False] False by (simp add: negotiate_refused)
next
  case True
  then have same: "prepared devs v = v" "insert DEFAULT_DEVICE_ID (fst v) = fst v"
    by (auto simp: prepared_def)
  show ?thesis
  proof (cases "fst v = devs")
    case True
    then show ?thesis
      using negotiate_right_devices [OF default, of False False 0 "snd v"] default
      by (cases v) (simp add: negotiate_refused prepared_def)
  next
    case False
    then obtain T where T: "negotiate (Suc (Suc (Suc 0))) devs False False v = negotiate (Suc (Suc 0)) devs False False (devs, T)"
      "T \<inter> devs = snd v \<inter> fst v \<inter> devs"
      using negotiate_mismatched [OF default, of False False v "Suc (Suc 0)"] same(2) True by auto
    have "negotiate (Suc (Suc 0)) devs False False (devs, T) = (if T \<inter> devs \<subseteq> {DEFAULT_DEVICE_ID} then Some False else None)"
      by (rule negotiate_two [OF default])
    then show ?thesis
      using T True False by (simp add: negotiate_refused same)
  qed
qed


section \<open>A concrete peer\<close>

text \<open>
  A peer with the devices 1 and 2 whose server refuses sealed messages. A set of devices travels in a
  response as a text with one digit for each device number.
\<close>

definition digits_of :: "device_id set \<Rightarrow> bytes" where
  "digits_of D = map (\<lambda>n. if of_nat n \<in> D then 49 else 48) [0..<256]"

definition devices_of :: "string \<Rightarrow> device_id list" where
  "devices_of s = map of_nat (filter (\<lambda>n. s ! n = CHR ''1'') [0..<256])"

lemma utf8_valid_ascii: "\<forall>b \<in> set bs. b < 0x80 \<Longrightarrow> utf8_valid bs"
  by (induction bs) simp_all

lemma from_utf8_lossy_digits: "from_utf8_lossy (digits_of D) = map char_of_byte (digits_of D)"
  by (intro from_utf8_lossy_valid utf8_valid_ascii) (auto simp: digits_of_def)

lemma devices_of_digits: "set (devices_of (from_utf8_lossy (digits_of D))) = D"
proof -
  have "char_of_byte 49 = CHR ''1''" "char_of_byte 48 \<noteq> CHR ''1''"
    by code_simp+
  then have "set (devices_of (map char_of_byte (digits_of D))) = of_nat ` {n. n < 256 \<and> of_nat n \<in> D}"
    by (auto simp: devices_of_def digits_of_def split: if_splits)
  also have "\<dots> = D"
  proof (intro equalityI subsetI)
    fix d
    assume "d \<in> D"
    then show "d \<in> of_nat ` {n. n < 256 \<and> of_nat n \<in> D}"
      by (intro image_eqI [of _ _ "unat d"]) (simp_all add: unsigned_less [of d, simplified])
  qed auto
  finally show ?thesis
    by (simp add: from_utf8_lossy_digits)
qed

definition sample_reply :: "u32 \<Rightarrow> bytes \<Rightarrow> ws_response" where
  "sample_reply code body = \<lparr>resp_id = None, resp_status = Some code, resp_message = None, resp_headers = [], resp_body = Some body\<rparr>"

definition sample_peer_socket :: "bool \<Rightarrow> sessions_view socket" where
  "sample_peer_socket sealed = (\<lambda>q w. (Ok (
     if req_verb q = Some ''GET'' then sample_reply 200
       (if req_path q = Some (keys_path sample_sids (Aci []) 1) then [1]
        else if req_path q = Some (keys_path sample_sids (Aci []) 2) then [2] else [1, 2])
     else if sealed then sample_reply 401 []
     else let D = set (the (req_body q)) in
       if D \<noteq> {1, 2} then sample_reply 409 (digits_of D)
       else if snd w \<inter> D \<noteq> {} then sample_reply 410 (digits_of (snd w \<inter> D))
       else sample_reply 200 []), w))"

definition sample_item :: "device_id \<Rightarrow> pre_key_response_item" where
  "sample_item d = \<lparr>pkr_device_id = d, pkr_registration_id = 1,
     pkr_signed_pre_key = \<lparr>pke_key_id = 1, pke_public_key = [], pke_signature = []\<rparr>, pkr_pre_key = None,
     pkr_pq_pre_key = \<lparr>pke_key_id = 1, pke_public_key = [], pke_signature = []\<rparr>\<rparr>"

definition sample_peer_pkgs :: http_pkgs where
  "sample_peer_pkgs = sample_pkgs\<lparr>
     json_mismatched := (\<lambda>s. Some \<lparr>missing_devices = filter (\<lambda>d. d \<notin> set (devices_of s)) [1, 2],
       extra_devices = filter (\<lambda>d. d \<notin> {1, 2}) (devices_of s)\<rparr>),
     json_stale := (\<lambda>s. Some \<lparr>stale_devices_list = devices_of s\<rparr>)\<rparr>"

definition sample_peer_keys :: key_pkgs where
  "sample_peer_keys = sample_keys\<lparr>
     json_pre_key_response := (\<lambda>body. Ok \<lparr>pkr_identity_key = [], pkr_devices = map sample_item body\<rparr>),
     pre_key_bundle_new := (\<lambda>_ d _ _ _ _ _ _ _ _. Ok [d])\<rparr>"

definition sample_peer_net :: "sessions_view sender_env" where
  "sample_peer_net = \<lparr>env_sids = sample_sids, env_codec = sample_codec, env_iso = sample_iso7816,
     base64_relaxed = map char_of_byte, from_timestamp_millis = Some,
     lock_session = (\<lambda>_. id), unlock_session = (\<lambda>_. id),
     load_session = (\<lambda>a w. (Ok (if addr_device a \<in> fst w then Some [] else None), w)),
     delete_session = (\<lambda>a w. (Ok (), remove_session (addr_device a) w)),
     get_sub_device_sessions = (\<lambda>_ w. (Ok (sorted_list_of_set (fst w - {1})), w)), get_identity = (\<lambda>_. pure (Some [])),
     remote_registration_id = (\<lambda>_. Ok 77), session_version = (\<lambda>_. Ok 2),
     has_usable_sender_chain = (\<lambda>_. Some True),
     message_encrypt = (\<lambda>m _ _. pure (WhisperType, m)), sealed_sender_encrypt = (\<lambda>_ _ m. pure m),
     parse_prekey_signal_message = Ok, parse_signal_message = Ok, parse_plaintext_content = Ok,
     message_decrypt_prekey = (\<lambda>m _ _. pure m), message_decrypt_signal = (\<lambda>m _ _. pure m),
     group_decrypt = (\<lambda>m _. pure m),
     sealed_sender_decrypt_to_usmc = (\<lambda>_. throw SealedSenderSelfSend),
     parse_skdm = Ok, process_skdm = (\<lambda>_ _. pure ()), skdm_distribution_id = (\<lambda>_. Ok []),
     pni_from_service_id_binary = (\<lambda>_. None), verify_alternate_identity = (\<lambda>_ _ _. None),
     device_id_try_from = (\<lambda>d. Some (ucast d)),
     identified_ws = sample_peer_socket False, unidentified_ws = sample_peer_socket True,
     net_http = sample_peer_pkgs, net_keys = sample_peer_keys,
     net_messages = \<lparr>json_push_messages = (\<lambda>ms. Ok (map destination_device_id (opm_messages ms))),
       json_send_response = (\<lambda>_. Ok False), base64_relaxed_encode = map char_of_byte\<rparr>,
     process_prekey_bundle = (\<lambda>a _ _ w. (Ok (), add_session (addr_device a) w)),
     bundle_device_id = (\<lambda>b. case b of d # _ \<Rightarrow> Ok d | [] \<Rightarrow> Err SealedSenderSelfSend),
     hash_iter = (\<lambda>S _. sorted_list_of_set S),
     sign_alternate_identity = (\<lambda>_ _. pure []), for_original = (\<lambda>_ _ _ _. Ok []),
     plaintext_content_from = id, service_id_binary = uuid_of_service_id, uuid_to_string = map char_of_byte,
     identity_serialize = id, now_millis = (\<lambda>s. (0, s)), random_size = (\<lambda>s. (1, s)),
     fill_bytes = (\<lambda>n s. (replicate n 0, s))\<rparr>"

definition sample_peer :: "sessions_view peer" where
  "sample_peer = \<lparr>peer_view = id, peer_devices = {1, 2}, accepts_sealed = False\<rparr>"

lemma sample_store_laws: "store_laws sample_peer_net sample_peer (Aci [])"
  by (simp add: store_laws_def sample_peer_net_def sample_peer_def address_of_def to_protocol_address_def DEFAULT_DEVICE_ID_def)

lemma sample_library_laws: "library_laws sample_peer_net sample_peer sample_sender (Aci [])"
  by (simp add: library_laws_def sample_peer_net_def sample_peer_def address_of_def to_protocol_address_def sample_iso7816_correct)

lemma sample_peer_net_sel [simp]:
  "net_http sample_peer_net = sample_peer_pkgs" "net_keys sample_peer_net = sample_peer_keys" "env_sids sample_peer_net = sample_sids"
  "identified_ws sample_peer_net = sample_peer_socket False" "unidentified_ws sample_peer_net = sample_peer_socket True"
  "json_push_messages (net_messages sample_peer_net) ms = Ok (map destination_device_id (opm_messages ms))"
  "json_send_response (net_messages sample_peer_net) = (\<lambda>_. Ok False)"
  by (simp_all add: sample_peer_net_def)

lemma sample_status [simp]:
  "ws_status_code sample_peer_pkgs (sample_reply 200 b) = 200" "ws_status_code sample_peer_pkgs (sample_reply 401 b) = 401"
  "ws_status_code sample_peer_pkgs (sample_reply 409 b) = 409" "ws_status_code sample_peer_pkgs (sample_reply 410 b) = 410"
  by (simp_all add: ws_status_code_def sample_reply_def sample_peer_pkgs_def sample_pkgs_def)

lemma sample_get_pre_keys:
  "get_json sample_peer_pkgs (sample_peer_socket sealed) path (json_pre_key_response sample_peer_keys) w =
     (Ok \<lparr>pkr_identity_key = [], pkr_devices = map sample_item
        (if path = keys_path sample_sids (Aci []) 1 then [1] else if path = keys_path sample_sids (Aci []) 2 then [2] else [1, 2])\<rparr>, w)"
  by (simp add: get_json_def send_def http_request_def with_path_def new_request_def sample_peer_socket_def bindE_def
      service_error_for_status_def baseline_decode_def ws_ops_def response_json_def Let_def)
    (simp add: sample_reply_def sample_peer_keys_def)

lemma sample_into_bundle: "into_bundle sample_peer_keys identity (sample_item d) = Ok [d]"
  by (simp add: into_bundle_def sample_peer_keys_def sample_keys_def sample_item_def proto_err_def)

definition sample_verdict :: "bool \<Rightarrow> device_id set \<Rightarrow> sessions_view \<Rightarrow> (bool, service_error) result" where
  "sample_verdict sealed D w =
    (if sealed then Err Unauthorized
     else if D \<noteq> {1, 2} then Err (MismatchedDevicesException (the (json_mismatched sample_peer_pkgs (from_utf8_lossy (digits_of D)))))
     else if snd w \<inter> D \<noteq> {} then Err (StaleDevices (the (json_stale sample_peer_pkgs (from_utf8_lossy (digits_of (snd w \<inter> D))))))
     else Ok False)"

lemma sample_request_verdict:
  assumes "req_verb q = Some ''PUT''" "req_body q = Some body"
  shows "request_json_with sample_peer_pkgs (sample_peer_socket sealed) q (put_messages_errors sample_peer_pkgs (ws_ops sample_peer_pkgs))
      (\<lambda>_. Ok False) w = (sample_verdict sealed (set body) w, w)"
  using assms
  by (simp add: request_json_with_def sample_peer_socket_def bindE_def service_error_for_status_with_def put_messages_errors_def
      error_mapper_def ws_ops_def baseline_decode_def json_or_unhandled_def Let_def ws_text_def response_json_def sample_verdict_def)
    (simp add: sample_reply_def sample_peer_pkgs_def)

lemma sample_wire_send_verdict:
  "wire_send sample_peer_net access ms w =
     (sample_verdict (access \<noteq> None) (set (map destination_device_id (opm_messages ms))) w, w)"
  by (cases access) (simp_all add: wire_send_def send_messages_def send_messages_unidentified_def with_json_def with_header_def
      with_path_def new_request_def bindE_def sample_request_verdict)

lemma sample_judged: "judged sample_peer sealed D w (sample_verdict sealed D w)"
  by (simp add: judged_def sample_verdict_def sample_peer_def)
    (auto simp: sample_peer_pkgs_def devices_of_digits)

lemma sample_paths:
  "keys_path S r 1 = keys_path S r 2 \<longleftrightarrow> False" "keys_path S r 2 = keys_path S r 1 \<longleftrightarrow> False"
  "''/v2/keys/'' @ service_id_string S r @ ''/*'' = keys_path S r 1 \<longleftrightarrow> False"
  "''/v2/keys/'' @ service_id_string S r @ ''/*'' = keys_path S r 2 \<longleftrightarrow> False"
proof -
  have "nat_to_string (Suc 0) = ''1''" "nat_to_string 2 = ''2''"
    by code_simp+
  then show "keys_path S r 1 = keys_path S r 2 \<longleftrightarrow> False" "keys_path S r 2 = keys_path S r 1 \<longleftrightarrow> False"
    "''/v2/keys/'' @ service_id_string S r @ ''/*'' = keys_path S r 1 \<longleftrightarrow> False"
    "''/v2/keys/'' @ service_id_string S r @ ''/*'' = keys_path S r 2 \<longleftrightarrow> False"
    by (simp_all add: keys_path_def)
qed

lemma sample_server_laws: "server_laws sample_peer_net sample_peer (Aci [])"
proof -
  have identity: "identity_key_decode sample_peer_keys = Ok"
    by (simp add: sample_peer_keys_def sample_keys_def)
  have key: "get_pre_key sample_peer_pkgs sample_peer_keys sample_sids (sample_peer_socket False) (Aci []) d w = (Ok [d], w)"
    if "d \<in> {1, 2}" for d and w :: sessions_view
    using that by (auto simp: get_pre_key_def sample_get_pre_keys bindE_def sample_into_bundle sample_paths identity proto_err_def)
  have keys: "get_pre_keys sample_peer_pkgs sample_peer_keys sample_sids (sample_peer_socket False) (Aci []) 1 w = (Ok [[1], [2]], w)"
    for w :: sessions_view
    by (simp add: get_pre_keys_def sample_get_pre_keys bindE_def sample_into_bundle sample_paths [simplified] identity proto_err_def)
  have device: "bundle_device_id sample_peer_net [d] = Ok d" for d
    by (simp add: sample_peer_net_def)
  have peer: "peer_view sample_peer = id" "peer_devices sample_peer = {1, 2}"
    by (simp_all add: sample_peer_def)
  show ?thesis
    unfolding server_laws_def sample_wire_send_verdict DEFAULT_DEVICE_ID_def peer
    using key keys device sample_judged by (auto simp: sample_judged intro: exI [of _ "[1, 2]"])
qed

lemma sample_honest: "honest_peer sample_peer_net sample_peer sample_sender (Aci [])"
  unfolding honest_peer_def
  using sample_store_laws sample_library_laws sample_server_laws
  by (simp add: hash_order_def sample_peer_net_def sample_sender_def as_bytes_def)


end
