(* ===== verification/Spec2Isabelle.thy ===== *)
theory Spec2Isabelle
  imports Profile_Cipher Response Group_Requests Attachment_Cipher Session_Lock Sender_Properties
    Ws_Properties Message_Pipe Storage Contacts Group_Manager Usernames Profiles Transfer_Archive Registration
    Serde_Adapters Connect End_To_End Group_Types Message_Accessors Pipe_Stream
    Sender_Convergence
begin

text \<open>
  A verification of \<open>libsignal-service-rs\<close>, the Rust client library of the Signal service.

  The library opens the envelopes a client receives and encrypts the messages it sends
  (\<open>cipher.rs\<close>), fans a message out over the devices of its recipients (\<open>sender.rs\<close>), speaks to
  the service over two websockets and HTTP (\<open>websocket\<close>, \<open>push_service\<close>), and keeps groups,
  profiles and attachments encrypted (\<open>groups_v2\<close>, \<open>profile_cipher.rs\<close>, \<open>attachment_cipher.rs\<close>).
  The cryptography itself, the protocol state machine and the serialisation formats belong to
  other packages; they appear here as records of functions, and what the code relies on is stated
  as a named predicate (\<open>aead_correct\<close>, \<open>cbc_mac_correct\<close>, \<open>iso7816_correct\<close>, \<open>zk_correct\<close>,
  \<open>agree\<close>, \<open>storable\<close>, \<open>delimited\<close>, \<open>consumes\<close>, \<open>hash_order\<close>, \<open>records_sends\<close>, \<open>records_requests\<close>,
  \<open>same_formats\<close>, \<open>in_step\<close>, \<open>zk_typed\<close>, \<open>binary_forms\<close>, \<open>honest_peer\<close>, \<open>links_correct\<close>, \<open>names_encrypted\<close>, \<open>ticking\<close>, \<open>fair_draws\<close>, \<open>framework_correct\<close> and its companions), for which a concrete instance is given with each theorem that
  uses it.

  \<^bold>\<open>Conventions.\<close> A fallible function returns a \<open>result\<close>: \<open>Ok\<close>, \<open>Err\<close> or, as a third outcome,
  \<open>Panic\<close> for \<open>expect\<close>, \<open>assert!\<close>, out-of-range slices and arithmetic overflow. An \<open>async fn\<close> or a
  method that mutates state is an effect, a function from the state to a result and the new state.
  Machine integers are words. Strings are the lists of their UTF-8 bytes. Random values and the
  clock are arguments or draws from the environment.

  \<^bold>\<open>Theories.\<close>
  \<^item> \<open>Prelude\<close>: results, effects, slices and UTF-8; the locale \<open>codec\<close> of an encoder with its decoder.
    \<open>Rust_Str\<close>: the string operations of the standard library that the code uses, among them
    \<open>trim\<close>, \<open>split_once\<close>, \<open>from_utf8_lossy\<close> and the parsing of integers.
    \<open>Crypto\<close>: the primitives as records. \<open>Invariants\<close>: the locale of a step relation with an
    invariant. \<open>Effect_Logic\<close>: a small program logic for effects, whose rules are proved once in
    the locale \<open>world_order\<close>.
  \<^item> \<open>Profile_Name\<close> (\<open>profile_name.rs\<close>) and \<open>Profile_Cipher\<close> (\<open>profile_cipher.rs\<close>): names and
    their byte form, padding brackets, encryption of names, about texts and emoji; round trips and
    the exact limits.
  \<^item> \<open>Service_Error\<close> (\<open>push_service/error.rs\<close>, \<open>service_address.rs\<close>), \<open>Response\<close>
    (\<open>push_service/response.rs\<close> and the decoders of every endpoint): the mapping from statuses to
    errors. The locale \<open>error_decoder\<close> states what a decoder of the macro \<open>error_mapper!\<close> promises
    and is interpreted for each endpoint.
  \<^item> \<open>Padding\<close> (the padding functions of \<open>cipher.rs\<close>), \<open>Attachment_Cipher\<close>
    (\<open>attachment_cipher.rs\<close>): round trips and the outcome of every malformed input.
  \<^item> \<open>Ids\<close> (\<open>utils.rs\<close>, \<open>envelope.rs\<close>) and \<open>Content\<close> (\<open>content.rs\<close>): identifiers, envelopes and
    message bodies.
  \<^item> \<open>Group_Model\<close>, \<open>Group_Operations\<close>, \<open>Group_Change\<close> (\<open>groups_v2/model.rs\<close>, \<open>operations.rs\<close>,
    \<open>mod.rs\<close>): the data model, encryption and decryption of each field, the reading of every kind
    of action, the builders, and group creation. \<open>Group_Properties\<close> and \<open>Group_Requests\<close>: reading a
    change is all or nothing, a created group is the requested one, and a change request is read
    back by another member as exactly the requested changes. \<open>Group_Types\<close>: a group or change that
    decrypts is well typed, whatever the server sent.
  \<^item> \<open>Session_Lock\<close> (\<open>session_lock.rs\<close>): the lock table, tasks that interleave at every await, and
    the invariant that no ratchet step is lost; a task that skips the lock, as one caller does,
    can lose one.
  \<^item> \<open>Cipher\<close> (\<open>cipher.rs\<close>): opening an envelope of each type, sealed sender, PNI signatures and
    encryption. \<open>Cipher_Properties\<close>: what an opened envelope guarantees, when opening panics, and
    what an outgoing message carries. \<open>End_To_End\<close> composes the two directions: what one client
    encrypts, the addressed device opens to the same body with the right sender, and retry receipts
    arrive as such.
  \<^item> \<open>Ws_Request\<close> and \<open>Ws_Endpoints\<close> (\<open>websocket/request.rs\<close>, \<open>keys.rs\<close>, \<open>sender.rs\<close>,
    \<open>proto.rs\<close>): building requests, decoding answers, the key and message endpoints.
  \<^item> \<open>Sender\<close> (\<open>sender.rs\<close>, \<open>session_store.rs\<close>): encryption for every device, session repair, the
    retry loop, group sends, transcripts and synchronisation messages. \<open>Sender_Properties\<close>: how
    often and over which socket a message leaves, for which devices, and what the caller learns.
    \<open>Sender_Convergence\<close>: against a server that behaves as documented the retry loop refines a
    negotiation over sets of devices, which is solved exactly: when four attempts are enough.
  \<^item> \<open>Ws_Process\<close> (\<open>websocket/mod.rs\<close>): one iteration of the worker for every event of its
    \<open>select!\<close>, with the tables of pending requests. \<open>Ws_Properties\<close>: every answer reaches its
    caller in each reachable state, and the recorded reason of a disconnect is the right one.
    \<open>Message_Pipe\<close> (\<open>messagepipe.rs\<close>): what the pipe yields and acknowledges. \<open>Pipe_Stream\<close>
    (\<open>messagepipe.rs\<close>, \<open>provisioning/pipe.rs\<close>): the streams of both pipes as interleavings of the loop
    with the client over a bounded channel; nothing is lost or reordered, every run ends, and the
    loop is at most three items ahead.
  \<^item> \<open>Http\<close> (\<open>configuration.rs\<close>, \<open>push_service/mod.rs\<close>): server sets, endpoints, building requests.
    \<open>Storage\<close> (\<open>storage_service.rs\<close>, \<open>master_key.rs\<close>): derived keys, encryption of manifest and
    items, the requests, and the round trip between devices.
  \<^item> \<open>Cdn\<close> (\<open>push_service/cdn.rs\<close>, \<open>digeststream.rs\<close>): downloads, resumable uploads and what they
    send and digest. \<open>Attachments\<close> and \<open>Contacts\<close> (the uploads of \<open>sender.rs\<close>, \<open>receiver.rs\<close>,
    \<open>models.rs\<close>): padding and encryption of an attachment, contact details from one device to
    another, and the end of the contact iterator.
  \<^item> \<open>Group_Manager\<close> (\<open>groups_v2/manager.rs\<close>, \<open>utils.rs\<close>): the credentials cache as the locales
    \<open>credentials_cache\<close> and \<open>reliable_cache\<close>, interpreted for the in-memory cache and for a
    reference to it; the manager refines a map from days to credentials.
  \<^item> \<open>Pre_Keys\<close> (\<open>pre_keys.rs\<close>): numbering and replenishment of prekeys. \<open>Device_Names\<close> and
    \<open>Account_Keys\<close> (\<open>account_manager.rs\<close>): device names, the list of devices, and the refresh of
    the prekeys on the server.
  \<^item> \<open>Provisioning_Cipher\<close> and \<open>Provisioning\<close> (\<open>provisioning\<close>, \<open>push_service/linking.rs\<close>): the
    cipher, the pipe and both sides of linking a device; the linked device registers with the
    account of the existing one. \<open>Transfer_Archive\<close> (the same file): the new device polls for the
    message history, and the wait ends when the clock moves on.
  \<^item> \<open>Pni_Devices\<close> (\<open>account_manager.rs\<close>, \<open>websocket/keys.rs\<close>): keys, registration identifiers and
    messages for the phone-number identity of every linked device.
  \<^item> \<open>Profiles\<close> (\<open>profile_credential.rs\<close>, \<open>websocket/profile.rs\<close>, \<open>account_manager.rs\<close>): profile
    credentials, and that an uploaded profile is the one that is read. \<open>Usernames\<close>
    (\<open>websocket/usernames.rs\<close>): look-ups and links; a shared link leads to its user name.
  \<^item> \<open>Registration\<close> (\<open>websocket/registration.rs\<close>, \<open>account.rs\<close>, \<open>linking.rs\<close>, \<open>calling.rs\<close>,
    \<open>stickers.rs\<close>, \<open>directory.rs\<close>, \<open>push_service/messages.rs\<close>): verification sessions, registration
    of an account with fresh keys, and the endpoints that send one request.
  \<^item> \<open>Serde_Adapters\<close> (the \<open>serde_*\<close> modules of \<open>utils.rs\<close>): the adapters to the serialisation framework
    and their round trips. \<open>Connect\<close> (\<open>push_service/mod.rs\<close>, \<open>websocket/mod.rs\<close>, \<open>receiver.rs\<close>,
    \<open>session_store.rs\<close>): opening a websocket, the message pipe and safety numbers.
  \<^item> \<open>Message_Accessors\<close> (\<open>proto.rs\<close>, \<open>content/data_message.rs\<close>, \<open>content/story_message.rs\<close>,
    \<open>utils/phonenumber.rs\<close>, \<open>timestamp.rs\<close>): readers of identifiers inside messages behind the locale
    \<open>aci_reference\<close>, predicates, phone numbers and the clock; the transcript of a send is read back
    by another own device.

  \<^bold>\<open>How the parts interact.\<close> A received envelope is decrypted under the peer's session lock, its
  side-car messages are applied, and its content is checked before it is returned. A send takes the
  same lock, loads or establishes the sessions of all devices, encrypts for each device and hands
  the batch to a socket; the decoder of the message endpoint classifies the answer, which the retry
  loop turns into a repair, a fall-back to the identified socket, or an error. Requests over a
  websocket are entered into the tables of its worker, which routes the answers back and hands the
  server's own requests to the message pipe or the provisioning pipe. Attachments are padded,
  encrypted by the attachment cipher and uploaded to a CDN; a pointer to them travels in a message.
  Prekey refresh, linking and the group manager combine a store with requests and share the
  decoding of responses.

  \<^bold>\<open>Bounds.\<close> The loops with a fixed bound are those of the source: four delivery attempts, two
  encryption attempts for a device and three attempts to download contacts. They are recursions on
  that number. Reading a stream to its end terminates by the number of bytes left. The function
  \<open>drain\<close>, which collects the items of the contact iterator, has a number of calls as argument; one
  more than the number of bytes is shown to be enough. There is no other fuel. Two loops of the source
  have no bound, the polling for an archive and the draw of an unused registration identifier; they
  are partial functions with values in \<open>option\<close>, where \<open>None\<close> means that the loop runs forever, and
  they are shown to return under \<open>ticking\<close> (the clock moves on) and \<open>fair_draws\<close> (random draws do not
  repeat a few values forever).

  \<^bold>\<open>Not modelled.\<close> Constructors that only store their arguments; the enclave connection of contact
  discovery (a parameter); logging and the \<open>Display\<close> and \<open>Debug\<close> implementations; floating point (the padded length of an attachment is a parameter);
  generated protocol buffers and the example programs.
\<close>

end
